(* ===== verification/Prelude.thy ===== *)
theory Prelude
  imports Complex_Main "HOL-Library.Char_ord" "HOL-Library.List_Lexorder"
begin

section \<open>Shared notions of the development\<close>

text \<open>
  Results of fallible code, the two control-flow combinators every translated function is
  written with, lookups and updates on tables kept as lists of rows, and the collections
  of automation rules the component theories extend.
\<close>

named_theorems table_simps "lookups and updates on tables kept as lists of rows"
named_theorems frame_simps "what an operation of a component leaves unchanged"
named_theorems inv_intros "an operation keeps an invariant"

subsection \<open>Errors as values\<close>

text \<open>
  One constructor per exception class the modelled code raises or lets escape, with the
  message of the \<^verbatim>\<open>raise\<close>.  \<open>Unmodelled\<close> marks the one place where the model stops short
  of the code: decoding a text whose value is an infinity, a NaN or a code point above 255.
\<close>

datatype pyerr =
    ValueError string
  | TypeError string
  | PermissionError string
  | RuntimeError string
  | KeyError string
  | AttributeError string
  | OSError string
  | IntegrityError string
  | OverflowError string
  | Unmodelled

type_synonym 'a res = "pyerr + 'a"

text \<open>
  \<open>bind_res\<close> runs a call that may raise and hands its value on; \<open>require\<close> is a guard
  \<^verbatim>\<open>if not b: raise e\<close> in front of the rest of a function.
\<close>

definition bind_res :: "'a res \<Rightarrow> ('a \<Rightarrow> 'b res) \<Rightarrow> 'b res" where
  "bind_res m f = (case m of Inl e \<Rightarrow> Inl e | Inr x \<Rightarrow> f x)"

definition require :: "bool \<Rightarrow> pyerr \<Rightarrow> 'a res \<Rightarrow> 'a res" where
  "require b e m = (if b then m else Inl e)"

lemma bind_res_simps [simp]:
  "bind_res (Inr x) f = f x"
  "bind_res (Inl e) f = Inl e"
  by (simp_all add: bind_res_def)

lemma require_simps [simp]:
  "require True e m = m"
  "require False e m = Inl e"
  by (simp_all add: require_def)

lemma bind_res_Inr_iff [simp]:
  "bind_res m f = Inr y \<longleftrightarrow> (\<exists>x. m = Inr x \<and> f x = Inr y)"
  by (cases m) simp_all

lemma require_Inr_iff [simp]: "require b e m = Inr y \<longleftrightarrow> b \<and> m = Inr y"
  by (simp add: require_def)

text \<open>
  The branches by which a \<^verbatim>\<open>case\<close> or an \<^verbatim>\<open>if\<close> can have succeeded, as existentials: rewriting
  with \<open>res_simps\<close> turns "this call returned this value" into the facts of its path.
\<close>

lemma case_option_Inr:
  "(case x of None \<Rightarrow> a | Some y \<Rightarrow> f y) = Inr z \<longleftrightarrow>
    (x = None \<and> a = Inr z) \<or> (\<exists>y. x = Some y \<and> f y = Inr z)"
  by (cases x) auto

lemma if_Inr: "(if b then m else n) = Inr z \<longleftrightarrow> (b \<and> m = Inr z) \<or> (\<not> b \<and> n = Inr z)"
  by simp

lemma case_prod_Inr: "(case p of (a, b) \<Rightarrow> f a b) = Inr z \<longleftrightarrow> (\<exists>a b. p = (a, b) \<and> f a b = Inr z)"
  by (cases p) auto

lemma map_sum_Inr: "map_sum id f m = Inr y \<longleftrightarrow> (\<exists>x. m = Inr x \<and> y = f x)"
  by (cases m) auto

lemmas res_simps = case_option_Inr if_Inr case_prod_Inr map_sum_Inr

lemma bind_res_cong [fundef_cong]:
  "m = m' \<Longrightarrow> (\<And>x. m' = Inr x \<Longrightarrow> f x = f' x) \<Longrightarrow> bind_res m f = bind_res m' f'"
  by (cases m') simp_all

lemma require_cong [fundef_cong]:
  "b = b' \<Longrightarrow> e = e' \<Longrightarrow> (b' \<Longrightarrow> m = m') \<Longrightarrow> require b e m = require b' e' m'"
  by (simp add: require_def)

text \<open>Loops over a list that stop at the first error.\<close>

fun map_res :: "('a \<Rightarrow> 'b res) \<Rightarrow> 'a list \<Rightarrow> 'b list res" where
  "map_res f [] = Inr []"
| "map_res f (x # xs) =
     bind_res (f x) (\<lambda>y. bind_res (map_res f xs) (\<lambda>ys. Inr (y # ys)))"

fun fold_res :: "('s \<Rightarrow> 'a \<Rightarrow> 's res) \<Rightarrow> 's \<Rightarrow> 'a list \<Rightarrow> 's res" where
  "fold_res f s [] = Inr s"
| "fold_res f s (x # xs) = bind_res (f s x) (\<lambda>s'. fold_res f s' xs)"

lemma map_res_cong [fundef_cong]:
  "xs = ys \<Longrightarrow> (\<And>x. x \<in> set ys \<Longrightarrow> f x = g x) \<Longrightarrow> map_res f xs = map_res g ys"
  by (induction ys arbitrary: xs) simp_all

lemma map_res_length: "map_res f xs = Inr ys \<Longrightarrow> length ys = length xs"
  by (induction xs arbitrary: ys) auto

lemma map_res_set:
  "map_res f xs = Inr ys \<Longrightarrow> y \<in> set ys \<Longrightarrow> \<exists>x\<in>set xs. f x = Inr y"
  by (induction xs arbitrary: ys) auto

lemma fold_res_invariant:
  assumes "fold_res f s xs = Inr t" and "P s"
    and "\<And>s x s'. P s \<Longrightarrow> x \<in> set xs \<Longrightarrow> f s x = Inr s' \<Longrightarrow> P s'"
  shows "P t"
  using assms
proof (induction xs arbitrary: s)
  case Nil
  then show ?case by simp
next
  case (Cons x xs)
  from Cons.prems(1) obtain s' where s': "f s x = Inr s'" "fold_res f s' xs = Inr t"
    by (cases "f s x") simp_all
  from s'(2) show ?case
  proof (rule Cons.IH)
    show "P s'" using Cons.prems(3) [OF Cons.prems(2) _ s'(1)] by simp
  next
    fix u y u'
    assume "P u" "y \<in> set xs" "f u y = Inr u'"
    then show "P u'" using Cons.prems(3) by (meson list.set_intros(2))
  qed
qed

lemma fold_res_append:
  "fold_res f s (xs @ ys) = bind_res (fold_res f s xs) (\<lambda>s'. fold_res f s' ys)"
proof (induction xs arbitrary: s)
  case Nil
  then show ?case by simp
next
  case (Cons x xs)
  then show ?case by (cases "f s x") simp_all
qed

subsection \<open>Tables as lists of rows\<close>

text \<open>
  A database table is the list of its rows in insertion (rowid) order.  \<open>row_where\<close> is
  \<^verbatim>\<open>select \<dots> where p limit 1\<close>, \<open>update_where\<close> is \<^verbatim>\<open>update \<dots> where p\<close>.
\<close>

definition row_where :: "('r \<Rightarrow> bool) \<Rightarrow> 'r list \<Rightarrow> 'r option" where
  "row_where p t = List.find p t"

definition update_where :: "('r \<Rightarrow> bool) \<Rightarrow> ('r \<Rightarrow> 'r) \<Rightarrow> 'r list \<Rightarrow> 'r list" where
  "update_where p f t = map (\<lambda>r. if p r then f r else r) t"

lemma row_where_simps [table_simps]:
  "row_where p [] = None"
  "row_where p (r # t) = (if p r then Some r else row_where p t)"
  by (simp_all add: row_where_def)

lemma row_where_Some: "row_where p t = Some r \<Longrightarrow> r \<in> set t \<and> p r"
  by (auto simp: row_where_def find_Some_iff)

lemma row_where_None [table_simps]: "row_where p t = None \<longleftrightarrow> (\<forall>r\<in>set t. \<not> p r)"
  by (auto simp: row_where_def find_None_iff)

lemma row_where_append [table_simps]:
  "row_where p (t @ u) = (case row_where p t of None \<Rightarrow> row_where p u | Some r \<Rightarrow> Some r)"
  by (induction t) (simp_all add: table_simps)

lemma row_where_new: "row_where p t = None \<Longrightarrow> p r \<Longrightarrow> row_where p (t @ [r]) = Some r"
  unfolding row_where_append by (simp add: row_where_simps)

lemma update_where_simps [table_simps]:
  "update_where p f [] = []"
  "update_where p f (r # t) = (if p r then f r else r) # update_where p f t"
  "update_where p f (t @ u) = update_where p f t @ update_where p f u"
  by (simp_all add: update_where_def)

lemma row_where_update:
  "(\<And>r. p r \<Longrightarrow> p (f r)) \<Longrightarrow> row_where p (update_where p f t) = map_option f (row_where p t)"
  by (induction t) (auto simp: table_simps)

lemma length_update_where [simp]: "length (update_where p f t) = length t"
  by (simp add: update_where_def)

lemma set_update_where:
  "r \<in> set (update_where p f t) \<Longrightarrow> (r \<in> set t \<and> \<not> p r) \<or> (\<exists>q\<in>set t. p q \<and> r = f q)"
  by (auto simp: update_where_def split: if_splits)

lemma map_update_where_same:
  "(\<And>r. p r \<Longrightarrow> g (f r) = g r) \<Longrightarrow> map g (update_where p f t) = map g t"
  by (simp add: update_where_def)

text \<open>A column whose values are pairwise distinct identifies its row.\<close>

lemma distinct_map_unique:
  "distinct (map k t) \<Longrightarrow> r \<in> set t \<Longrightarrow> q \<in> set t \<Longrightarrow> k r = k q \<Longrightarrow> r = q"
  by (induction t) (auto simp: rev_image_eqI)

lemma row_where_unique:
  assumes "distinct (map k t)" and "r \<in> set t" and "k r = v"
  shows "row_where (\<lambda>q. k q = v) t = Some r"
proof (cases "row_where (\<lambda>q. k q = v) t")
  case None
  with assms show ?thesis by (simp add: table_simps)
next
  case (Some q)
  then have "q \<in> set t" and "k q = v" using row_where_Some by fastforce+
  with assms have "q = r" using distinct_map_unique by metis
  with Some show ?thesis by simp
qed

text \<open>Sums over the rows of a table that satisfy a condition.\<close>

definition sum_where :: "('r \<Rightarrow> bool) \<Rightarrow> ('r \<Rightarrow> int) \<Rightarrow> 'r list \<Rightarrow> int" where
  "sum_where p f t = sum_list (map f (filter p t))"

lemma sum_where_simps [table_simps]:
  "sum_where p f [] = 0"
  "sum_where p f (r # t) = (if p r then f r else 0) + sum_where p f t"
  "sum_where p f (t @ u) = sum_where p f t + sum_where p f u"
  by (simp_all add: sum_where_def)

lemma sum_where_none: "\<forall>r\<in>set t. \<not> p r \<Longrightarrow> sum_where p f t = 0"
  by (induction t) (simp_all add: table_simps)

end
