(* ===== verification/PyData.thy ===== *)
theory PyData
  imports Prelude "HOL-Library.Log_Nat"
begin

section \<open>Python values and the conversions the code applies to them\<close>

text \<open>
  The data the program exchanges is decoded JSON: \<open>pyval\<close>.  A Python string is a
  \<open>string\<close>, one \<open>char\<close> per code point, so the model covers the code points below 256;
  a float is the rational number it denotes, so the model covers the finite floats and
  does not round the results of float arithmetic.  A dict is the list of its items in
  insertion order.  The functions below are the parts of the language and the standard
  library the program relies on: truth values, \<^verbatim>\<open>str\<close>, \<^verbatim>\<open>int\<close>, \<^verbatim>\<open>float\<close>, \<^verbatim>\<open>strip\<close>, \<^verbatim>\<open>lower\<close>,
  \<^verbatim>\<open>upper\<close>, \<^verbatim>\<open>encode\<close>, \<^verbatim>\<open>dict.get\<close> and slicing.
\<close>

datatype pyval =
    PNone
  | PBool bool
  | PInt int
  | PFloat rat
  | PStr string
  | PList "pyval list"
  | PDict "(string \<times> pyval) list"

text \<open>Induction over a value: the case of a dict gives the hypothesis for its values.\<close>

lemma pyval_induct [case_names PNone PBool PInt PFloat PStr PList PDict]:
  assumes "P PNone" and "\<And>b. P (PBool b)" and "\<And>i. P (PInt i)" and "\<And>r. P (PFloat r)"
    and "\<And>s. P (PStr s)"
    and "\<And>vs. (\<And>v. v \<in> set vs \<Longrightarrow> P v) \<Longrightarrow> P (PList vs)"
    and "\<And>kvs. (\<And>p. p \<in> set kvs \<Longrightarrow> P (snd p)) \<Longrightarrow> P (PDict kvs)"
  shows "P v"
proof (induction v)
  case (PDict kvs)
  then have "P (snd p)" if "p \<in> set kvs" for p
    using that by (metis snds.intros)
  then show ?case by (rule assms(7))
qed (use assms in auto)

fun truthy :: "pyval \<Rightarrow> bool" where
  "truthy PNone = False"
| "truthy (PBool b) = b"
| "truthy (PInt i) = (i \<noteq> 0)"
| "truthy (PFloat r) = (r \<noteq> 0)"
| "truthy (PStr s) = (s \<noteq> [])"
| "truthy (PList vs) = (vs \<noteq> [])"
| "truthy (PDict kvs) = (kvs \<noteq> [])"

text \<open>\<^verbatim>\<open>a or b\<close>\<close>

definition py_or :: "pyval \<Rightarrow> pyval \<Rightarrow> pyval" where
  "py_or a b = (if truthy a then a else b)"

subsection \<open>Dictionaries\<close>

text \<open>\<^verbatim>\<open>d.get(k)\<close>, \<^verbatim>\<open>d.get(k, default)\<close>, and \<^verbatim>\<open>d[k]\<close> of a dict given as its items.\<close>

definition pget :: "(string \<times> pyval) list \<Rightarrow> string \<Rightarrow> pyval" where
  "pget d k = (case map_of d k of None \<Rightarrow> PNone | Some v \<Rightarrow> v)"

definition pget_default :: "(string \<times> pyval) list \<Rightarrow> string \<Rightarrow> pyval \<Rightarrow> pyval" where
  "pget_default d k v0 = (case map_of d k of None \<Rightarrow> v0 | Some v \<Rightarrow> v)"

definition pindex :: "(string \<times> pyval) list \<Rightarrow> string \<Rightarrow> pyval res" where
  "pindex d k = (case map_of d k of None \<Rightarrow> Inl (KeyError k) | Some v \<Rightarrow> Inr v)"

fun as_dict :: "pyval \<Rightarrow> (string \<times> pyval) list option" where
  "as_dict (PDict d) = Some d"
| "as_dict _ = None"

fun as_list :: "pyval \<Rightarrow> pyval list option" where
  "as_list (PList vs) = Some vs"
| "as_list _ = None"

text \<open>\<^verbatim>\<open>d[k] = v\<close>: an existing key keeps its place, a new one goes to the end.\<close>

fun pset :: "(string \<times> 'v) list \<Rightarrow> string \<Rightarrow> 'v \<Rightarrow> (string \<times> 'v) list" where
  "pset [] k v = [(k, v)]"
| "pset ((k', v') # d) k v = (if k' = k then (k, v) # d else (k', v') # pset d k v)"

lemma map_of_pset: "map_of (pset d k v) = (map_of d)(k \<mapsto> v)"
  by (induction d k v rule: pset.induct) (auto simp: fun_upd_twist)

lemma keys_pset: "fst ` set (pset d k v) = insert k (fst ` set d)"
  by (induction d k v rule: pset.induct) auto

lemma distinct_pset: "distinct (map fst d) \<Longrightarrow> distinct (map fst (pset d k v))"
  by (induction d k v rule: pset.induct) (auto simp: keys_pset image_iff)

subsection \<open>Characters and strings\<close>

definition code :: "char \<Rightarrow> nat" where
  "code c = of_char c"

definition chr :: "nat \<Rightarrow> char" where
  "chr n = char_of n"

text \<open>\<^verbatim>\<open>str.isspace\<close> on the modelled code points, and \<^verbatim>\<open>strip\<close>, \<^verbatim>\<open>lstrip\<close>, \<^verbatim>\<open>rstrip\<close>.\<close>

definition is_space :: "char \<Rightarrow> bool" where
  "is_space c = (let n = code c in (9 \<le> n \<and> n \<le> 13) \<or> (28 \<le> n \<and> n \<le> 32) \<or> n = 133 \<or> n = 160)"

definition lstrip :: "string \<Rightarrow> string" where
  "lstrip s = dropWhile is_space s"

definition rstrip :: "string \<Rightarrow> string" where
  "rstrip s = rev (dropWhile is_space (rev s))"

definition strip :: "string \<Rightarrow> string" where
  "strip s = rstrip (lstrip s)"

text \<open>
  \<^verbatim>\<open>lower\<close> and \<^verbatim>\<open>upper\<close>.  The three code points whose upper case lies outside the model
  (micro sign, sharp s, y with diaeresis) are left as they are.
\<close>

definition lower_char :: "char \<Rightarrow> char" where
  "lower_char c = (let n = code c in
     if (65 \<le> n \<and> n \<le> 90) \<or> (192 \<le> n \<and> n \<le> 222 \<and> n \<noteq> 215) then chr (n + 32) else c)"

definition upper_char :: "char \<Rightarrow> char" where
  "upper_char c = (let n = code c in
     if (97 \<le> n \<and> n \<le> 122) \<or> (224 \<le> n \<and> n \<le> 254 \<and> n \<noteq> 247) then chr (n - 32) else c)"

definition lower :: "string \<Rightarrow> string" where
  "lower s = map lower_char s"

definition upper :: "string \<Rightarrow> string" where
  "upper s = map upper_char s"

definition is_digit :: "char \<Rightarrow> bool" where
  "is_digit c = (48 \<le> code c \<and> code c \<le> 57)"

definition is_lower_hex :: "char \<Rightarrow> bool" where
  "is_lower_hex c = (is_digit c \<or> (97 \<le> code c \<and> code c \<le> 102))"

definition digit_val :: "char \<Rightarrow> nat" where
  "digit_val c = code c - 48"

text \<open>\<^verbatim>\<open>any(ord(ch) < 32 for ch in s)\<close>\<close>

definition has_control :: "string \<Rightarrow> bool" where
  "has_control s = list_ex (\<lambda>c. code c < 32) s"

fun starts_with :: "string \<Rightarrow> string \<Rightarrow> bool" where
  "starts_with s [] = True"
| "starts_with [] (p # ps) = False"
| "starts_with (c # s) (p # ps) = (c = p \<and> starts_with s ps)"

definition ends_with :: "string \<Rightarrow> string \<Rightarrow> bool" where
  "ends_with s p = starts_with (rev s) (rev p)"

lemma starts_with_iff: "starts_with s p \<longleftrightarrow> (\<exists>t. s = p @ t)"
  by (induction s p rule: starts_with.induct) auto

text \<open>\<^verbatim>\<open>s.split(c, 1)[0]\<close> and \<^verbatim>\<open>s.split(c)\<close>\<close>

definition before :: "char \<Rightarrow> string \<Rightarrow> string" where
  "before c s = takeWhile (\<lambda>d. d \<noteq> c) s"

fun split_on :: "char \<Rightarrow> string \<Rightarrow> string list" where
  "split_on c [] = [[]]"
| "split_on c (d # s) =
     (if d = c then [] # split_on c s
      else (case split_on c s of [] \<Rightarrow> [[d]] | w # ws \<Rightarrow> (d # w) # ws))"

fun join :: "string \<Rightarrow> string list \<Rightarrow> string" where
  "join sep [] = []"
| "join sep [w] = w"
| "join sep (w # w' # ws) = w @ sep @ join sep (w' # ws)"

lemma split_on_nonempty: "split_on c s \<noteq> []"
  by (induction s) (auto split: list.splits)

lemma join_split_on: "join [c] (split_on c s) = s"
proof (induction s)
  case Nil
  then show ?case by simp
next
  case (Cons d s)
  then show ?case
    using split_on_nonempty [of c s]
    by (cases "split_on c s"; cases "tl (split_on c s)") auto
qed

lemma split_on_no: "c \<notin> set s \<Longrightarrow> split_on c s = [s]"
  by (induction s) auto

lemma split_on_append: "c \<notin> set a \<Longrightarrow> split_on c (a @ c # b) = a # split_on c b"
  by (induction a) auto

lemma before_append: "c \<notin> set s \<Longrightarrow> before c (s @ c # t) = s"
  unfolding before_def by (induction s) auto

text \<open>\<^verbatim>\<open>s.encode("utf-8")\<close>: the code points from 128 up take two bytes.\<close>

definition utf8_char :: "char \<Rightarrow> string" where
  "utf8_char c = (let n = code c in
     if n < 128 then [c] else [chr (192 + n div 64), chr (128 + n mod 64)])"

definition utf8 :: "string \<Rightarrow> string" where
  "utf8 s = concat (map utf8_char s)"

subsection \<open>Decimal numerals\<close>

fun nat_digits :: "nat \<Rightarrow> string" where
  "nat_digits n =
     (if n < 10 then [chr (48 + n)] else nat_digits (n div 10) @ [chr (48 + n mod 10)])"

declare nat_digits.simps [simp del]

definition show_int :: "int \<Rightarrow> string" where
  "show_int i = (if i < 0 then CHR ''-'' # nat_digits (nat (- i)) else nat_digits (nat i))"

definition digits_val :: "string \<Rightarrow> nat" where
  "digits_val ds = foldl (\<lambda>a c. 10 * a + digit_val c) 0 ds"

text \<open>\<^verbatim>\<open>f"{n:02d}"\<close> and \<^verbatim>\<open>f"{n:04d}"\<close> for the non-negative numbers they are used on.\<close>

definition pad_zero :: "nat \<Rightarrow> nat \<Rightarrow> string" where
  "pad_zero w n = (let ds = nat_digits n in replicate (w - length ds) (CHR ''0'') @ ds)"

lemma code_chr [simp]: "n < 256 \<Longrightarrow> code (chr n) = n"
  by (simp add: code_def chr_def)

lemma chr_code [simp]: "chr (code c) = c"
  by (simp add: code_def chr_def)

lemma code_Char [simp]:
  "code (Char b0 b1 b2 b3 b4 b5 b6 b7) = of_char (Char b0 b1 b2 b3 b4 b5 b6 b7)"
  by (simp add: code_def)

lemma code_inject: "code a = code b \<longleftrightarrow> a = b"
  by (metis chr_code)

lemma code_less: "code c < 256"
  using of_char_mod_256 [of c, where ?'a = nat] by (metis code_def mod_less_divisor zero_less_numeral)

lemma digits_val_snoc: "digits_val (ds @ [c]) = 10 * digits_val ds + digit_val c"
  by (simp add: digits_val_def)

lemma digits_val_nat_digits [simp]: "digits_val (nat_digits n) = n"
proof (induction n rule: nat_digits.induct)
  case (1 n)
  show ?case
  proof (cases "n < 10")
    case True
    then show ?thesis
      by (simp add: nat_digits.simps [of n] digits_val_def digit_val_def)
  next
    case False
    with 1 have "digits_val (nat_digits (n div 10)) = n div 10" by simp
    with False show ?thesis
      by (simp add: nat_digits.simps [of n] digits_val_snoc digit_val_def)
  qed
qed

lemma nat_digits_nonempty [simp]: "nat_digits n \<noteq> []"
  by (subst nat_digits.simps) simp

lemma nat_digits_digits: "c \<in> set (nat_digits n) \<Longrightarrow> is_digit c"
proof (induction n rule: nat_digits.induct)
  case (1 n)
  have d: "is_digit (chr (48 + k))" if "k < 10" for k
    using that by (simp add: is_digit_def)
  show ?case
  proof (cases "n < 10")
    case True
    with "1.prems" show ?thesis by (simp add: nat_digits.simps [of n] d)
  next
    case False
    with 1 show ?thesis by (auto simp: nat_digits.simps [of n] d)
  qed
qed

lemma nat_digits_inject [simp]: "nat_digits m = nat_digits n \<longleftrightarrow> m = n"
  by (metis digits_val_nat_digits)

lemma show_int_inject [simp]: "show_int i = show_int j \<longleftrightarrow> i = j"
proof -
  have neg: "CHR ''-'' # xs \<noteq> nat_digits n" for xs n
  proof
    assume "CHR ''-'' # xs = nat_digits n"
    then have "is_digit (CHR ''-'')" by (metis list.set_intros(1) nat_digits_digits)
    then show False by (simp add: is_digit_def code_def)
  qed
  then show ?thesis
    by (auto simp: show_int_def neg neg [symmetric])
qed

subsection \<open>Integers and floats read from text\<close>

text \<open>
  A digit sequence in which single underscores may separate digits, as \<^verbatim>\<open>int\<close> and
  \<^verbatim>\<open>float\<close> accept it: the digits, or \<open>None\<close>.
\<close>

fun grouped_digits :: "bool \<Rightarrow> string \<Rightarrow> string option" where
  "grouped_digits after_digit [] = (if after_digit then Some [] else None)"
| "grouped_digits after_digit (c # s) =
     (if is_digit c then map_option (\<lambda>ds. c # ds) (grouped_digits True s)
      else if c = CHR ''_'' \<and> after_digit \<and> s \<noteq> [] \<and> hd s \<noteq> CHR ''_''
        then grouped_digits False s
      else None)"

definition split_sign :: "string \<Rightarrow> int \<times> string" where
  "split_sign s = (case s of
      [] \<Rightarrow> (1, [])
    | c # t \<Rightarrow> if c = CHR ''-'' then (-1, t) else if c = CHR ''+'' then (1, t) else (1, s))"

text \<open>\<^verbatim>\<open>int(s)\<close> of a string; the interpreter refuses more than 4300 digits.\<close>

definition int_of_str :: "string \<Rightarrow> int res" where
  "int_of_str s =
     (case split_sign (strip s) of (sg, body) \<Rightarrow>
        (case grouped_digits False body of
           None \<Rightarrow> Inl (ValueError ''invalid literal for int()'')
         | Some ds \<Rightarrow>
             if length ds > 4300 then Inl (ValueError ''Exceeds the limit for integer string conversion'')
             else Inr (sg * int (digits_val ds))))"

text \<open>\<^verbatim>\<open>round(x)\<close>: to the nearest integer, ties to even.\<close>

definition py_round :: "rat \<Rightarrow> int" where
  "py_round x = (let f = \<lfloor>x\<rfloor>; d = x - of_int f in
     if d < 1/2 then f else if d > 1/2 then f + 1 else if even f then f else f + 1)"

definition trunc :: "rat \<Rightarrow> int" where
  "trunc x = (if x < 0 then - \<lfloor>- x\<rfloor> else \<lfloor>x\<rfloor>)"

definition float_max_excl :: rat where
  "float_max_excl = 2 ^ 1024 - 2 ^ 970"

definition finite_float :: "rat \<Rightarrow> rat res" where
  "finite_float x = (if \<bar>x\<bar> < float_max_excl then Inr x else Inl Unmodelled)"

text \<open>\<^verbatim>\<open>float(s)\<close> of a string: sign, digits, fraction, exponent.\<close>

definition float_parts :: "string \<Rightarrow> (string \<times> string \<times> int) option" where
  "float_parts body =
     (let mant = takeWhile (\<lambda>c. c \<noteq> CHR ''e'' \<and> c \<noteq> CHR ''E'') body;
          rest = drop (length mant) body;
          ip = takeWhile (\<lambda>c. c \<noteq> CHR ''.'') mant;
          fr = drop (length ip) mant;
          ex = (case rest of [] \<Rightarrow> Some 0
                | _ # e \<Rightarrow> (case split_sign e of (sg, eb) \<Rightarrow>
                     map_option (\<lambda>ds. sg * int (digits_val ds)) (grouped_digits False eb)));
          ipd = (if ip = [] then Some [] else grouped_digits False ip);
          frd = (case fr of [] \<Rightarrow> Some [] | _ # f \<Rightarrow>
                   if f = [] then Some [] else grouped_digits False f)
      in (case (ipd, frd, ex) of
            (Some a, Some b, Some e) \<Rightarrow> if a = [] \<and> b = [] then None else Some (a, b, e)
          | _ \<Rightarrow> None))"

definition float_of_str :: "string \<Rightarrow> rat res" where
  "float_of_str s =
     (case split_sign (strip s) of (sg, body) \<Rightarrow>
        if lower body \<in> {''inf'', ''infinity'', ''nan''} then Inl Unmodelled
        else (case float_parts body of
           None \<Rightarrow> Inl (ValueError ''could not convert string to float'')
         | Some (a, b, e) \<Rightarrow>
             finite_float (of_int sg * of_nat (digits_val (a @ b)) * 10 powi (e - int (length b)))))"

subsection \<open>The text of a float\<close>

text \<open>
  \<^verbatim>\<open>repr\<close> of a float is the shortest decimal that reads back as the same binary64 number.
  \<open>fl\<close> rounds to binary64; \<open>shortest\<close> tries 1 to 17 significant digits.
\<close>

definition floor_log :: "nat \<Rightarrow> rat \<Rightarrow> int" where
  "floor_log b x = (case quotient_of x of (p, q) \<Rightarrow>
     (let k = int (floorlog b (nat p)) - int (floorlog b (nat q))
      in if of_nat b powi k \<le> x then k else k - 1))"

definition fl :: "rat \<Rightarrow> rat" where
  "fl x = (if x = 0 then 0 else
     (let e = max (floor_log 2 \<bar>x\<bar> - 52) (- 1074)
      in sgn x * (of_int (py_round (\<bar>x\<bar> / 2 powi e)) * 2 powi e)))"

definition decimal_at :: "rat \<Rightarrow> int \<Rightarrow> nat \<Rightarrow> (int \<times> int) option" where
  "decimal_at x k n =
     (let p = k - int n + 1; q = x / 10 powi p
      in map_option (\<lambda>m. (m, p))
           (List.find (\<lambda>m. fl (of_int m * 10 powi p) = fl x) [py_round q, \<lfloor>q\<rfloor>, \<lceil>q\<rceil>]))"

definition shortest :: "rat \<Rightarrow> int \<times> int" where
  "shortest x =
     (let k = floor_log 10 x
      in case List.find (\<lambda>n. decimal_at x k n \<noteq> None) [1..<18] of
           None \<Rightarrow> (py_round x, 0)
         | Some n \<Rightarrow> the (decimal_at x k n))"

definition show_digits :: "string \<Rightarrow> int \<Rightarrow> string" where
  "show_digits ds dp =
     (if - 4 < dp \<and> dp \<le> 16 then
        (if dp \<le> 0 then ''0.'' @ replicate (nat (- dp)) (CHR ''0'') @ ds
         else if int (length ds) \<le> dp
           then ds @ replicate (nat dp - length ds) (CHR ''0'') @ ''.0''
         else take (nat dp) ds @ ''.'' @ drop (nat dp) ds)
      else
        take 1 ds @ (if length ds > 1 then ''.'' @ drop 1 ds else []) @ ''e''
          @ (if dp - 1 < 0 then ''-'' else ''+'') @ pad_zero 2 (nat \<bar>dp - 1\<bar>))"

definition float_repr :: "rat \<Rightarrow> string" where
  "float_repr x =
     (if x = 0 then ''0.0'' else
        (case shortest \<bar>x\<bar> of (m, p) \<Rightarrow>
           (let ds = nat_digits (nat m);
                sig = rev (dropWhile (\<lambda>c. c = CHR ''0'') (rev ds))
            in (if x < 0 then ''-'' else []) @ show_digits sig (int (length ds) + p))))"

subsection \<open>The conversions \<^verbatim>\<open>str\<close>, \<^verbatim>\<open>int\<close> and \<^verbatim>\<open>float\<close>\<close>

definition hex_digit :: "nat \<Rightarrow> char" where
  "hex_digit n = (if n < 10 then chr (48 + n) else chr (87 + n))"

definition hex2 :: "nat \<Rightarrow> string" where
  "hex2 n = [hex_digit (n div 16), hex_digit (n mod 16)]"

definition repr_char :: "char \<Rightarrow> char \<Rightarrow> string" where
  "repr_char q c =
     (let n = code c; bs = chr 92 in
      if c = bs \<or> c = q then [bs, c]
      else if n = 9 then [bs, CHR ''t'']
      else if n = 10 then [bs, CHR ''n'']
      else if n = 13 then [bs, CHR ''r'']
      else if n < 32 \<or> (127 \<le> n \<and> n \<le> 160) \<or> n = 173 then [bs, CHR ''x''] @ hex2 n
      else [c])"

definition repr_str :: "string \<Rightarrow> string" where
  "repr_str s =
     (let q = (if chr 39 \<in> set s \<and> chr 34 \<notin> set s then chr 34 else chr 39)
      in [q] @ concat (map (repr_char q) s) @ [q])"

primrec py_repr :: "pyval \<Rightarrow> string" where
  "py_repr PNone = ''None''"
| "py_repr (PBool b) = (if b then ''True'' else ''False'')"
| "py_repr (PInt i) = show_int i"
| "py_repr (PFloat r) = float_repr r"
| "py_repr (PStr s) = repr_str s"
| "py_repr (PList vs) = ''['' @ join '', '' (map py_repr vs) @ '']''"
| "py_repr (PDict kvs) =
     ''{'' @ join '', '' (map (\<lambda>p. repr_str (fst p) @ '': '' @ snd p) (map (map_prod id py_repr) kvs)) @ ''}''"

definition py_str :: "pyval \<Rightarrow> string" where
  "py_str v = (case v of PStr s \<Rightarrow> s | _ \<Rightarrow> py_repr v)"

fun py_int :: "pyval \<Rightarrow> int res" where
  "py_int (PInt i) = Inr i"
| "py_int (PBool b) = Inr (if b then 1 else 0)"
| "py_int (PFloat r) = Inr (trunc r)"
| "py_int (PStr s) = int_of_str s"
| "py_int _ = Inl (TypeError ''int() argument must be a string, a bytes-like object or a real number'')"

fun py_float :: "pyval \<Rightarrow> rat res" where
  "py_float (PFloat r) = Inr r"
| "py_float (PInt i) =
     (if \<bar>of_int i\<bar> < float_max_excl then Inr (of_int i)
      else Inl (OverflowError ''int too large to convert to float''))"
| "py_float (PBool b) = Inr (if b then 1 else 0)"
| "py_float (PStr s) = float_of_str s"
| "py_float _ = Inl (TypeError ''float() argument must be a string or a real number'')"

lemma py_str_simps [simp]:
  "py_str (PStr s) = s"
  "py_str PNone = ''None''"
  "py_str (PInt i) = show_int i"
  "py_str (PBool b) = (if b then ''True'' else ''False'')"
  by (simp_all add: py_str_def)

text \<open>\<^verbatim>\<open>str(v or "")\<close>, the text an absent or empty field is read as.\<close>

definition str_or_empty :: "pyval \<Rightarrow> string" where
  "str_or_empty v = (if truthy v then py_str v else [])"

lemma str_or_empty_simps [simp]:
  "str_or_empty (PStr s) = s"
  "str_or_empty PNone = []"
  by (simp_all add: str_or_empty_def)

subsection \<open>Integers of the database\<close>

text \<open>SQLite stores 64-bit integers; binding a larger Python integer raises.\<close>

definition sqlite_int :: "int \<Rightarrow> 'a res \<Rightarrow> 'a res" where
  "sqlite_int i k = require (- (2 ^ 63) \<le> i \<and> i < 2 ^ 63)
     (OverflowError ''Python int too large to convert to SQLite INTEGER'') k"

lemma sqlite_int_Inr [simp]: "sqlite_int i k = Inr y \<longleftrightarrow> - (2 ^ 63) \<le> i \<and> i < 2 ^ 63 \<and> k = Inr y"
  by (auto simp: sqlite_int_def)

end
