(* ===== verification/Json.thy ===== *)
theory Json
  imports PyData
begin

section \<open>Canonical JSON text and its reader\<close>

text \<open>
  Every module of the program that hashes or stores structured data has a helper
  \<^verbatim>\<open>canonical\<close>: \<^verbatim>\<open>json.dumps\<close> with sorted keys, without spaces, and with non-ASCII characters
  escaped (\<open>canonical\<close>) or kept (\<open>canonical_utf8\<close>, then encoded).  \<open>json_loads\<close> is
  \<^verbatim>\<open>json.loads\<close>.  The round trip \<open>json_loads_canonical\<close> says that reading back a canonical
  text of a value gives that value with its keys sorted, so that the text determines the
  value (\<open>canonical_inject\<close>), for values whose numbers read back.
\<close>

subsection \<open>Writing\<close>

definition hex4 :: "nat \<Rightarrow> string" where
  "hex4 n = ''00'' @ hex2 n"

definition backslash :: char where
  "backslash = chr 92"

definition quote :: char where
  "quote = chr 34"

definition escape_char :: "bool \<Rightarrow> char \<Rightarrow> string" where
  "escape_char ascii c =
     (let n = code c in
      if c = quote then [backslash, quote]
      else if c = backslash then [backslash, backslash]
      else if n = 8 then [backslash, CHR ''b'']
      else if n = 9 then [backslash, CHR ''t'']
      else if n = 10 then [backslash, CHR ''n'']
      else if n = 12 then [backslash, chr 102]
      else if n = 13 then [backslash, CHR ''r'']
      else if n < 32 \<or> (ascii \<and> 127 \<le> n) then [backslash, CHR ''u''] @ hex4 n
      else [c])"

definition json_string :: "bool \<Rightarrow> string \<Rightarrow> string" where
  "json_string ascii s = [quote] @ concat (map (escape_char ascii) s) @ [quote]"

primrec dumps :: "bool \<Rightarrow> pyval \<Rightarrow> string" where
  "dumps ascii PNone = ''null''"
| "dumps ascii (PBool b) = (if b then ''true'' else ''false'')"
| "dumps ascii (PInt i) = show_int i"
| "dumps ascii (PFloat r) = float_repr r"
| "dumps ascii (PStr s) = json_string ascii s"
| "dumps ascii (PList vs) = ''['' @ join '','' (map (dumps ascii) vs) @ '']''"
| "dumps ascii (PDict kvs) =
     ''{'' @ join '','' (map (\<lambda>p. json_string ascii (fst p) @ '':'' @ snd p)
                     (sort_key fst (map (map_prod id (dumps ascii)) kvs))) @ ''}''"

definition canonical :: "pyval \<Rightarrow> string" where
  "canonical v = dumps True v"

definition canonical_utf8 :: "pyval \<Rightarrow> string" where
  "canonical_utf8 v = utf8 (dumps False v)"

subsection \<open>Reading\<close>

definition json_error :: pyerr where
  "json_error = ValueError ''JSONDecodeError''"

definition is_ws :: "char \<Rightarrow> bool" where
  "is_ws c = (code c \<in> {9, 10, 13, 32})"

definition skip_ws :: "string \<Rightarrow> string" where
  "skip_ws s = dropWhile is_ws s"

definition hex_val :: "char \<Rightarrow> nat option" where
  "hex_val c = (let n = code c in
     if 48 \<le> n \<and> n \<le> 57 then Some (n - 48)
     else if 97 \<le> n \<and> n \<le> 102 then Some (n - 87)
     else if 65 \<le> n \<and> n \<le> 70 then Some (n - 55) else None)"

definition hex4_val :: "char \<Rightarrow> char \<Rightarrow> char \<Rightarrow> char \<Rightarrow> nat option" where
  "hex4_val a b c d =
     (case (hex_val a, hex_val b, hex_val c, hex_val d) of
        (Some w, Some x, Some y, Some z) \<Rightarrow> Some (4096 * w + 256 * x + 16 * y + z)
      | _ \<Rightarrow> None)"

definition simple_escape :: "char \<Rightarrow> char option" where
  "simple_escape c =
     (if c = quote then Some quote
      else if c = backslash then Some backslash
      else if c = CHR ''/'' then Some c
      else if c = CHR ''b'' then Some (chr 8)
      else if c = chr 102 then Some (chr 12)
      else if c = CHR ''n'' then Some (chr 10)
      else if c = CHR ''r'' then Some (chr 13)
      else if c = CHR ''t'' then Some (chr 9)
      else None)"

text \<open>The characters of a string up to its closing quote, and what follows the quote.\<close>

fun parse_chars :: "string \<Rightarrow> (string \<times> string) res" where
  "parse_chars [] = Inl json_error"
| "parse_chars (c # s) =
     (if c = quote then Inr ([], s)
      else if c = backslash then
        (case s of
           [] \<Rightarrow> Inl json_error
         | e # s' \<Rightarrow>
             if e = CHR ''u'' then
               (case s' of
                  h1 # h2 # h3 # h4 # s'' \<Rightarrow>
                    (case hex4_val h1 h2 h3 h4 of
                       None \<Rightarrow> Inl json_error
                     | Some n \<Rightarrow> if n < 256
                         then bind_res (parse_chars s'') (\<lambda>(t, rest). Inr (chr n # t, rest))
                         else Inl Unmodelled)
                | _ \<Rightarrow> Inl json_error)
             else (case simple_escape e of
                     None \<Rightarrow> Inl json_error
                   | Some d \<Rightarrow> bind_res (parse_chars s') (\<lambda>(t, rest). Inr (d # t, rest))))
      else if code c < 32 then Inl json_error
      else bind_res (parse_chars s) (\<lambda>(t, rest). Inr (c # t, rest)))"

text \<open>
  A number token: optional minus, an integer part without a leading zero, an optional
  fraction and an optional exponent; an integer when the last two are absent.
\<close>

definition parse_number :: "string \<Rightarrow> (pyval \<times> string) res" where
  "parse_number s0 =
     (let neg = (case s0 of c # _ \<Rightarrow> c = CHR ''-'' | [] \<Rightarrow> False);
          s1 = (if neg then tl s0 else s0);
          run = takeWhile is_digit s1;
          ip = (case run of c # _ \<Rightarrow> if c = CHR ''0'' then [c] else run | [] \<Rightarrow> []);
          s2 = drop (length ip) s1;
          fr = (case s2 of c # t \<Rightarrow> if c = CHR ''.'' then takeWhile is_digit t else [] | [] \<Rightarrow> []);
          s3 = (if fr = [] then s2 else drop (1 + length fr) s2);
          ex = (case s3 of c # t \<Rightarrow> if c = CHR ''e'' \<or> c = CHR ''E''
                   then (case split_sign t of (sg, u) \<Rightarrow> (sg, takeWhile is_digit u, length t - length u))
                   else (1, [], 0)
                | [] \<Rightarrow> (1, [], 0))
      in if ip = [] then Inl json_error
         else (case ex of (sg, ed, k) \<Rightarrow>
           if fr = [] \<and> ed = [] then
             (if length ip > 4300 then Inl (ValueError ''Exceeds the limit for integer string conversion'')
              else Inr (PInt ((if neg then -1 else 1) * int (digits_val ip)), s2))
           else bind_res
             (finite_float ((if neg then -1 else 1) * of_nat (digits_val (ip @ fr))
                * 10 powi (sg * int (digits_val ed) - int (length fr))))
             (\<lambda>x. Inr (PFloat x, if ed = [] then s3 else drop (1 + k + length ed) s3))))"

definition dict_of_pairs :: "(string \<times> pyval) list \<Rightarrow> (string \<times> pyval) list" where
  "dict_of_pairs ps = foldl (\<lambda>d p. pset d (fst p) (snd p)) [] ps"

text \<open>
  The recursive descent.  Each call spends one unit of fuel and the fuel given is more
  than the length of the text, so it never runs out before the text does.
\<close>

fun parse_value :: "nat \<Rightarrow> string \<Rightarrow> (pyval \<times> string) res"
  and parse_elems :: "nat \<Rightarrow> string \<Rightarrow> (pyval list \<times> string) res"
  and parse_members :: "nat \<Rightarrow> string \<Rightarrow> ((string \<times> pyval) list \<times> string) res" where
  "parse_value 0 s = Inl json_error"
| "parse_value (Suc n) s =
     (case s of
        [] \<Rightarrow> Inl json_error
      | c # t \<Rightarrow>
          if c = quote then bind_res (parse_chars t) (\<lambda>(u, rest). Inr (PStr u, rest))
          else if c = CHR ''['' then
            (case skip_ws t of
               d # r \<Rightarrow> if d = CHR '']'' then Inr (PList [], r)
                 else bind_res (parse_elems n (skip_ws t)) (\<lambda>(vs, rest). Inr (PList vs, rest))
             | [] \<Rightarrow> Inl json_error)
          else if c = CHR ''{'' then
            (case skip_ws t of
               d # r \<Rightarrow> if d = CHR ''}'' then Inr (PDict [], r)
                 else bind_res (parse_members n (skip_ws t))
                        (\<lambda>(ps, rest). Inr (PDict (dict_of_pairs ps), rest))
             | [] \<Rightarrow> Inl json_error)
          else if starts_with s ''null'' then Inr (PNone, drop 4 s)
          else if starts_with s ''true'' then Inr (PBool True, drop 4 s)
          else if starts_with s ''false'' then Inr (PBool False, drop 5 s)
          else if starts_with s ''NaN'' \<or> starts_with s ''Infinity'' \<or> starts_with s ''-Infinity''
            then Inl Unmodelled
          else parse_number s)"
| "parse_elems 0 s = Inl json_error"
| "parse_elems (Suc n) s =
     bind_res (parse_value n s) (\<lambda>(v, rest).
       (case skip_ws rest of
          d # r \<Rightarrow>
            if d = CHR '']'' then Inr ([v], r)
            else if d = CHR '','' then
              bind_res (parse_elems n (skip_ws r)) (\<lambda>(vs, rest'). Inr (v # vs, rest'))
            else Inl json_error
        | [] \<Rightarrow> Inl json_error))"
| "parse_members 0 s = Inl json_error"
| "parse_members (Suc n) s =
     (case s of
        [] \<Rightarrow> Inl json_error
      | q # t \<Rightarrow>
          if q \<noteq> quote then Inl json_error
          else bind_res (parse_chars t) (\<lambda>(k, rest).
            (case skip_ws rest of
               [] \<Rightarrow> Inl json_error
             | d # r \<Rightarrow>
                 if d \<noteq> CHR '':'' then Inl json_error
                 else bind_res (parse_value n (skip_ws r)) (\<lambda>(v, rest').
                   (case skip_ws rest' of
                      e # r' \<Rightarrow>
                        if e = CHR ''}'' then Inr ([(k, v)], r')
                        else if e = CHR '','' then
                          bind_res (parse_members n (skip_ws r')) (\<lambda>(ps, rest''). Inr ((k, v) # ps, rest''))
                        else Inl json_error
                    | [] \<Rightarrow> Inl json_error)))))"

definition json_loads :: "string \<Rightarrow> pyval res" where
  "json_loads s =
     bind_res (parse_value (2 * length s + 2) (skip_ws s)) (\<lambda>(v, rest).
       if skip_ws rest = [] then Inr v else Inl json_error)"

subsection \<open>Reading back what was written: the pieces\<close>

lemma quote_code [simp]: "code quote = 34" and backslash_code [simp]: "code backslash = 92"
  by (simp_all add: quote_def backslash_def)

lemma hex_val_hex_digit: "d < 16 \<Longrightarrow> hex_val (hex_digit d) = Some d"
  by (auto simp: hex_val_def hex_digit_def Let_def)

lemma hex4_val_code: "n < 256 \<Longrightarrow>
  hex4_val (CHR ''0'') (CHR ''0'') (hex_digit (n div 16)) (hex_digit (n mod 16)) = Some n"
proof -
  assume "n < 256"
  then have "hex_val (hex_digit (n div 16)) = Some (n div 16)"
    "hex_val (hex_digit (n mod 16)) = Some (n mod 16)"
    by (simp_all add: hex_val_hex_digit)
  moreover have "hex_val (CHR ''0'') = Some 0"
    by (simp add: hex_val_def code_def)
  ultimately show ?thesis by (simp add: hex4_val_def)
qed

text \<open>One escaped character is read back as that character.\<close>

lemma parse_chars_escape:
  "parse_chars (escape_char a c @ s) = bind_res (parse_chars s) (\<lambda>(t, rest). Inr (c # t, rest))"
proof -
  have ne: "c \<noteq> quote" "c \<noteq> backslash" if "code c \<noteq> 34" "code c \<noteq> 92"
    using that by (auto simp: quote_def backslash_def)
  have bq: "backslash \<noteq> quote" by (simp add: code_inject [symmetric])
  have neu: "quote \<noteq> CHR ''u''" "backslash \<noteq> CHR ''u''" "CHR ''b'' \<noteq> CHR ''u''"
      "CHR ''t'' \<noteq> CHR ''u''" "CHR ''n'' \<noteq> CHR ''u''" "CHR ''r'' \<noteq> CHR ''u''" "chr 102 \<noteq> CHR ''u''"
    by (simp_all add: code_inject [symmetric] quote_def backslash_def)
  have se: "simple_escape quote = Some quote" "simple_escape backslash = Some backslash"
      "simple_escape (CHR ''b'') = Some (chr 8)" "simple_escape (CHR ''t'') = Some (chr 9)"
      "simple_escape (CHR ''n'') = Some (chr 10)" "simple_escape (chr 102) = Some (chr 12)"
      "simple_escape (CHR ''r'') = Some (chr 13)"
    by (simp_all add: simple_escape_def code_inject [symmetric])
  have special: "c \<in> set (map chr [34, 92, 8, 9, 10, 12, 13])"
    if "code c \<in> set [34, 92, 8, 9, 10, 12, 13]"
    using that by (metis chr_code image_eqI list.set_map)
  consider "c = quote" | "c = backslash" | "c = chr 8" | "c = chr 9" | "c = chr 10"
    | "c = chr 12" | "c = chr 13" | "code c \<notin> set [34, 92, 8, 9, 10, 12, 13]"
    using special by (fastforce simp: quote_def backslash_def)
  then show ?thesis
  proof cases
    case 8
    then have c: "c \<noteq> quote" "c \<noteq> backslash" using ne by auto
    show ?thesis
    proof (cases "code c < 32 \<or> (a \<and> 127 \<le> code c)")
      case True
      with 8 c have "escape_char a c = [backslash, CHR ''u'', CHR ''0'', CHR ''0'',
          hex_digit (code c div 16), hex_digit (code c mod 16)]"
        by (auto simp: escape_char_def hex4_def hex2_def Let_def)
      then show ?thesis by (simp add: bq hex4_val_code code_less)
    next
      case False
      with 8 c have "escape_char a c = [c]" by (auto simp: escape_char_def Let_def)
      with False c show ?thesis by simp
    qed
  qed (hypsubst, simp add: escape_char_def bq neu se Let_def code_inject [symmetric])+
qed

lemma parse_chars_string:
  "parse_chars (concat (map (escape_char a) s) @ quote # rest) = Inr (s, rest)"
  by (induction s) (simp_all add: parse_chars_escape)

lemma takeWhile_digits: "(rest = [] \<or> \<not> is_digit (hd rest)) \<Longrightarrow>
  takeWhile is_digit (nat_digits n @ rest) = nat_digits n"
  by (cases rest) (auto simp: takeWhile_append2 nat_digits_digits takeWhile_tail)

lemma nat_digits_zero: "nat_digits 0 = ''0''"
  by (simp add: nat_digits.simps [of 0] code_inject [symmetric])

lemma hd_nat_digits_zero: "hd (nat_digits n) = CHR ''0'' \<longleftrightarrow> n = 0"
proof (induction n rule: nat_digits.induct)
  case (1 n)
  show ?case
  proof (cases "n < 10")
    case True
    have "chr (48 + n) = CHR ''0'' \<longleftrightarrow> n = 0"
      using True by (simp add: code_inject [symmetric])
    with True show ?thesis by (simp add: nat_digits.simps [of n])
  next
    case False
    with 1 show ?thesis by (simp add: nat_digits.simps [of n])
  qed
qed

text \<open>The texts that may follow a value inside a document.\<close>

definition closes :: "string \<Rightarrow> bool" where
  "closes rest = (rest = [] \<or> hd rest \<in> {CHR '','', CHR '']'', CHR ''}'', chr 10})"

definition short_int :: "int \<Rightarrow> bool" where
  "short_int i = (length (nat_digits (nat \<bar>i\<bar>)) \<le> 4300)"

lemma closes_not_digit: "closes rest \<Longrightarrow> rest = [] \<or> \<not> is_digit (hd rest)"
  by (auto simp: closes_def is_digit_def)

lemma parse_number_unsigned:
  assumes "closes rest" and "short_int (int n)"
  shows "parse_number (nat_digits n @ rest) = Inr (PInt (int n), rest)"
    and "parse_number (CHR ''-'' # nat_digits n @ rest) = Inr (PInt (- int n), rest)"
proof -
  have tw: "takeWhile is_digit (nat_digits n @ rest) = nat_digits n"
    using assms(1) closes_not_digit takeWhile_digits by simp
  obtain c ds where cds: "nat_digits n = c # ds"
    by (cases "nat_digits n") simp_all
  have dig: "is_digit c" using cds nat_digits_digits [of c n] by simp
  then have nm: "c \<noteq> CHR ''-''" by (auto simp: is_digit_def code_def)
  have ip: "(if c = CHR ''0'' then [c] else nat_digits n) = nat_digits n"
    using cds hd_nat_digits_zero [of n] by (auto simp: nat_digits_zero)
  have len: "length (nat_digits n) \<le> 4300" using assms(2) by (simp add: short_int_def)
  have rest: "(case rest of [] \<Rightarrow> [] | c # t \<Rightarrow> if c = CHR ''.'' then takeWhile is_digit t else []) = []"
    "(case rest of [] \<Rightarrow> (1, [], 0) | c # t \<Rightarrow> if c = CHR ''e'' \<or> c = CHR ''E'' then f t else (1, [], 0))
      = (1, [], 0 :: nat)" for f :: "string \<Rightarrow> int \<times> string \<times> nat"
    using assms(1) by (auto simp: closes_def code_inject [symmetric] split: list.splits)
  show "parse_number (nat_digits n @ rest) = Inr (PInt (int n), rest)"
    using tw nm ip len rest digits_val_nat_digits [of n]
    by (simp add: parse_number_def Let_def cds cong: if_cong)
  show "parse_number (CHR ''-'' # nat_digits n @ rest) = Inr (PInt (- int n), rest)"
    using tw ip len rest digits_val_nat_digits [of n]
    by (simp add: parse_number_def Let_def cds cong: if_cong)
qed

lemma parse_number_show_int:
  assumes "closes rest" and "short_int i"
  shows "parse_number (show_int i @ rest) = Inr (PInt i, rest)"
proof (cases "i < 0")
  case True
  with assms(2) have "short_int (int (nat (- i)))" by (simp add: short_int_def)
  with True show ?thesis
    using parse_number_unsigned(2) [OF assms(1), of "nat (- i)"] by (simp add: show_int_def)
next
  case False
  with assms(2) have "short_int (int (nat i))" by (simp add: short_int_def)
  with False show ?thesis
    using parse_number_unsigned(1) [OF assms(1), of "nat i"] by (simp add: show_int_def)
qed

subsection \<open>Normal forms and the round trip\<close>

text \<open>
  A float whose text is a plain decimal, without a sign or an exponent, that denotes it: such a
  text is read back as that float.
\<close>

definition float_reads :: "rat \<Rightarrow> bool" where
  "float_reads r =
     (let s = float_repr r; ds = takeWhile is_digit s
      in ds \<noteq> [] \<and> (ds = ''0'' \<or> hd ds \<noteq> CHR ''0'') \<and>
         (case drop (length ds) s of
            [] \<Rightarrow> False
          | p # fs \<Rightarrow> p = CHR ''.'' \<and> fs \<noteq> [] \<and> list_all is_digit fs \<and>
              finite_float (of_nat (digits_val (ds @ fs)) * 10 powi (- int (length fs))) = Inr r))"

lemma float_reads_text:
  assumes "float_reads r"
  obtains c cs fs where "float_repr r = c # cs @ CHR ''.'' # fs" and "is_digit c" and "\<forall>x\<in>set cs. is_digit x"
    and "c = CHR ''0'' \<Longrightarrow> cs = []" and "fs \<noteq> []" and "\<forall>x\<in>set fs. is_digit x"
    and "finite_float (of_nat (digits_val (c # cs @ fs)) * 10 powi (- int (length fs))) = Inr r"
proof -
  define ds where "ds = takeWhile is_digit (float_repr r)"
  have dd: "\<forall>x\<in>set ds. is_digit x" by (simp add: ds_def) (meson set_takeWhileD)
  obtain fs where fs: "drop (length ds) (float_repr r) = CHR ''.'' # fs" "fs \<noteq> []" "list_all is_digit fs"
    "finite_float (of_nat (digits_val (ds @ fs)) * 10 powi (- int (length fs))) = Inr r"
    using assms by (auto simp: float_reads_def Let_def ds_def split: list.splits)
  obtain c cs where c: "ds = c # cs" "c = CHR ''0'' \<longrightarrow> cs = []"
    using assms by (cases ds) (auto simp: float_reads_def Let_def ds_def [symmetric])
  have "float_repr r = ds @ drop (length ds) (float_repr r)"
    using takeWhile_eq_take [of is_digit "float_repr r"] by (metis append_take_drop_id ds_def)
  then show thesis using that [of c cs fs] fs c dd by (auto simp: list_all_iff)
qed

text \<open>
  \<open>json_norm\<close> sorts the keys of every object; \<open>json_plain\<close> are the values the round trip
  is about: numbers the reader gives back, objects whose keys are distinct.
\<close>

primrec json_norm :: "pyval \<Rightarrow> pyval" where
  "json_norm PNone = PNone"
| "json_norm (PBool b) = PBool b"
| "json_norm (PInt i) = PInt i"
| "json_norm (PFloat r) = PFloat r"
| "json_norm (PStr s) = PStr s"
| "json_norm (PList vs) = PList (map json_norm vs)"
| "json_norm (PDict kvs) = PDict (sort_key fst (map (map_prod id json_norm) kvs))"

fun json_plain :: "pyval \<Rightarrow> bool" where
  "json_plain (PFloat r) = float_reads r"
| "json_plain (PInt i) = short_int i"
| "json_plain (PList vs) = (\<forall>v\<in>set vs. json_plain v)"
| "json_plain (PDict kvs) = (distinct (map fst kvs) \<and> (\<forall>p\<in>set kvs. json_plain (snd p)))"
| "json_plain _ = True"

fun json_normal :: "pyval \<Rightarrow> bool" where
  "json_normal (PFloat r) = float_reads r"
| "json_normal (PInt i) = short_int i"
| "json_normal (PList vs) = (\<forall>v\<in>set vs. json_normal v)"
| "json_normal (PDict kvs) =
     (sorted (map fst kvs) \<and> distinct (map fst kvs) \<and> (\<forall>p\<in>set kvs. json_normal (snd p)))"
| "json_normal _ = True"

lemma map_fst_map_prod_id: "map fst (map (map_prod id f) kvs) = map fst kvs"
  by (simp add: o_def)

lemma sort_key_map_snd:
  "sort_key fst (map (map_prod id f) kvs) = map (map_prod id f) (sort_key fst kvs)"
proof -
  have ins: "insort_key fst (map_prod id f p) (map (map_prod id f) xs)
      = map (map_prod id f) (insort_key fst p xs)" for p :: "'a \<times> 'c" and xs
    by (induction xs) auto
  show ?thesis by (induction kvs) (simp_all add: ins [unfolded id_def] id_def)
qed

lemma json_norm_normal: "json_plain v \<Longrightarrow> json_normal (json_norm v)"
proof (induction v rule: pyval_induct)
  case (PDict kvs)
  have "json_normal (json_norm (snd p))" if "p \<in> set kvs" for p
    using PDict that by simp
  moreover have "distinct (map fst (sort_key fst (map (map_prod id json_norm) kvs)))"
    using PDict.prems map_fst_map_prod_id [of json_norm kvs]
    by (simp add: distinct_map sort_key_map_snd inj_on_def)
  ultimately show ?case by (auto simp: sort_key_map_snd)
qed auto

lemma dumps_json_norm: "dumps a (json_norm v) = dumps a v"
proof (induction v rule: pyval_induct)
  case (PList vs)
  then show ?case by (simp add: o_def cong: map_cong)
next
  case (PDict kvs)
  have m: "map (map_prod id (dumps a)) (map (map_prod id json_norm) kvs) = map (map_prod id (dumps a)) kvs"
    using PDict.IH by (simp add: map_prod_def split_beta)
  show ?case
    by (simp add: sort_key_map_snd [symmetric] m sort_key_id_if_sorted del: map_map)
qed simp_all

lemma canonical_json_norm: "canonical (json_norm v) = canonical v"
  by (simp add: canonical_def dumps_json_norm)

text \<open>The fuel a value takes: at most the length of its text.\<close>

fun need :: "pyval \<Rightarrow> nat" where
  "need (PList vs) = 1 + sum_list (map (\<lambda>v. need v + 1) vs)"
| "need (PDict kvs) = 1 + sum_list (map (\<lambda>p. need (snd p) + 1) kvs)"
| "need _ = 1"

lemma length_join: "length (join [c] ws) = sum_list (map length ws) + (length ws - 1)"
  by (induction "[c]" ws rule: join.induct) auto

lemma length_show_int: "1 \<le> length (show_int i)"
  by (cases "nat_digits (nat i)") (auto simp: show_int_def Suc_le_eq)

lemma need_le_length: "json_normal v \<Longrightarrow> need v \<le> length (dumps a v)"
proof (induction v rule: pyval_induct)
  case (PInt i)
  then show ?case using length_show_int [of i] by simp
next
  case (PFloat r)
  then have "float_reads r" by simp
  then show ?case by (rule float_reads_text) simp
next
  case (PList vs)
  have "sum_list (map (\<lambda>v. need v + 1) vs) \<le> sum_list (map (\<lambda>v. length (dumps a v) + 1) vs)"
    using PList by (intro sum_list_mono) auto
  also have "\<dots> = sum_list (map length (map (dumps a) vs)) + length vs"
    by (induction vs) auto
  finally show ?case by (simp add: length_join)
next
  case (PDict kvs)
  let ?item = "\<lambda>p. json_string a (fst p) @ '':'' @ snd p"
  have s: "sort_key fst (map (map_prod id (dumps a)) kvs) = map (map_prod id (dumps a)) kvs"
    using PDict.prems by (simp add: sort_key_id_if_sorted o_def)
  have "sum_list (map (\<lambda>p. need (snd p) + 1) kvs)
      \<le> sum_list (map (\<lambda>p. length (?item (map_prod id (dumps a) p))) kvs)"
  proof (rule sum_list_mono)
    fix p assume p: "p \<in> set kvs"
    then have "need (snd p) \<le> length (dumps a (snd p))"
      using PDict by simp
    then show "need (snd p) + 1 \<le> length (?item (map_prod id (dumps a) p))" by simp
  qed
  then show ?case by (simp add: s length_join o_def)
qed (auto simp: json_string_def)

text \<open>What the reader sees first of a value.\<close>

definition starts_value :: "string \<Rightarrow> bool" where
  "starts_value s = (\<exists>c t. s = c # t \<and> \<not> is_ws c \<and> c \<noteq> CHR '']'' \<and> c \<noteq> CHR ''}'')"

lemma digit_not_special:
  assumes "is_digit c"
  shows "\<not> is_ws c" "c \<noteq> quote" "c \<noteq> CHR ''[''" "c \<noteq> CHR ''{''" "c \<noteq> CHR '']''" "c \<noteq> CHR ''}''"
    "c \<noteq> CHR ''n''" "c \<noteq> CHR ''t''" "c \<noteq> chr 102" "c \<noteq> CHR ''N''" "c \<noteq> CHR ''I''" "c \<noteq> CHR ''-''"
  using assms by (auto simp: is_digit_def is_ws_def quote_def)

lemma show_int_head:
  obtains (neg) t d where "show_int i = CHR ''-'' # d # t" "is_digit d"
    | (pos) d t where "show_int i = d # t" "is_digit d"
proof -
  have nd: "\<exists>d t. nat_digits n = d # t \<and> is_digit d" for n
    using nat_digits_digits [of _ n] by (cases "nat_digits n") auto
  show thesis
  proof (cases "i < 0")
    case True
    then show thesis using nd [of "nat (- i)"] neg by (auto simp: show_int_def)
  next
    case False
    then show thesis using nd [of "nat i"] pos by (auto simp: show_int_def)
  qed
qed

lemma quote_neq:
  "quote \<noteq> CHR '']''" "quote \<noteq> CHR ''}''" "quote \<noteq> CHR ''[''" "quote \<noteq> CHR ''{''" "quote \<noteq> CHR '':''"
  "CHR '']'' \<noteq> quote" "CHR ''}'' \<noteq> quote" "CHR ''['' \<noteq> quote" "CHR ''{'' \<noteq> quote"
  "CHR ''n'' \<noteq> quote" "CHR ''t'' \<noteq> quote" "CHR ''f'' \<noteq> quote" "CHR ''-'' \<noteq> quote"
  by (simp_all add: code_inject [symmetric])

lemma starts_value_dumps: "json_normal v \<Longrightarrow> starts_value (dumps a v @ rest)"
proof (cases v)
  case (PInt i)
  then show ?thesis
    by (cases rule: show_int_head [of i])
      (use digit_not_special in \<open>auto simp: starts_value_def is_ws_def\<close>)
next
  case (PFloat r)
  assume "json_normal v"
  with PFloat have "float_reads r" by simp
  then show ?thesis by (rule float_reads_text) (auto simp: PFloat starts_value_def digit_not_special)
qed (auto simp: starts_value_def is_ws_def json_string_def quote_neq)

lemma skip_ws_starts: "starts_value s \<Longrightarrow> skip_ws s = s"
  by (auto simp: starts_value_def skip_ws_def)

lemma skip_ws_closing:
  "skip_ws (CHR '','' # s) = CHR '','' # s" "skip_ws (CHR '']'' # s) = CHR '']'' # s"
  "skip_ws (CHR ''}'' # s) = CHR ''}'' # s" "skip_ws (CHR '':'' # s) = CHR '':'' # s"
  "skip_ws (quote # s) = quote # s"
  by (simp_all add: skip_ws_def is_ws_def)

lemma parse_value_number:
  assumes "closes rest" and "short_int i"
  shows "parse_value (Suc n) (show_int i @ rest) = Inr (PInt i, rest)"
proof (cases rule: show_int_head [of i])
  case (neg t d)
  then show ?thesis
    using parse_number_show_int [OF assms] digit_not_special [OF neg(2)]
    by (simp add: quote_neq)
next
  case (pos d t)
  have f: "d \<noteq> CHR ''f''" using digit_not_special(9) [OF pos(2)] by (simp add: code_inject [symmetric])
  show ?thesis
    using parse_number_show_int [OF assms] digit_not_special [OF pos(2)] f
    by (simp add: pos(1))
qed

lemma parse_number_float:
  assumes "closes rest" and "float_reads r"
  shows "parse_number (float_repr r @ rest) = Inr (PFloat r, rest)"
proof (rule float_reads_text [OF assms(2)])
  fix c cs fs
  assume t: "float_repr r = c # cs @ CHR ''.'' # fs" and d: "is_digit c" "\<forall>x\<in>set cs. is_digit x"
    and z: "c = CHR ''0'' \<Longrightarrow> cs = []" and f: "fs \<noteq> []" "\<forall>x\<in>set fs. is_digit x"
    and v: "finite_float (of_nat (digits_val (c # cs @ fs)) * 10 powi (- int (length fs))) = Inr r"
  have nm: "c \<noteq> CHR ''-''" "\<not> is_digit (CHR ''.'')" using d(1) by (auto simp: is_digit_def code_def)
  have tw: "takeWhile is_digit (cs @ CHR ''.'' # u) = cs" for u
    using d(2) nm(2) by (simp add: takeWhile_append2)
  have fr: "takeWhile is_digit (fs @ rest) = fs"
    using closes_not_digit [OF assms(1)] f(2) by (cases rest) (auto simp: takeWhile_append2 takeWhile_tail)
  have ex: "(case rest of [] \<Rightarrow> (1, [], 0) | c # t \<Rightarrow> if c = CHR ''e'' \<or> c = CHR ''E'' then g t else (1, [], 0))
      = (1, [], 0 :: nat)" for g :: "string \<Rightarrow> int \<times> string \<times> nat"
  proof (cases rest)
    case (Cons x xs)
    have "code x \<notin> {101, 69}" using assms(1) Cons by (auto simp: closes_def)
    then have "x \<noteq> CHR ''e''" "x \<noteq> CHR ''E''" by auto
    then show ?thesis using Cons by simp
  qed simp
  have dv: "digits_val [] = 0" by (simp add: digits_val_def)
  show ?thesis
  proof (cases "c = CHR ''0''")
    case True
    then show ?thesis using z d(1) nm(2) f fr v
      by (simp add: t parse_number_def ex dv)
  next
    case False
    then show ?thesis using d(1) nm tw [of "fs @ rest"] f fr v
      by (simp add: t parse_number_def ex dv)
  qed
qed

lemma parse_value_float:
  assumes "closes rest" and "float_reads r"
  shows "parse_value (Suc n) (float_repr r @ rest) = Inr (PFloat r, rest)"
proof (rule float_reads_text [OF assms(2)])
  fix c cs fs assume t: "float_repr r = c # cs @ CHR ''.'' # fs" and d: "is_digit c"
  have f: "c \<noteq> CHR ''f''" using digit_not_special(9) [OF d] by (simp add: code_inject [symmetric])
  show ?thesis using parse_number_float [OF assms] digit_not_special [OF d] f by (simp add: t)
qed

text \<open>Lists of values and lists of members, given that each value is read back.\<close>

lemma closes_simps [simp]:
  "closes (CHR '','' # s)" "closes (CHR '']'' # s)" "closes (CHR ''}'' # s)" "closes []" "closes (chr 10 # s)"
  by (simp_all add: closes_def)

lemma parse_elems_back:
  assumes "\<And>v n rest. v \<in> set vs \<Longrightarrow> need v \<le> n \<Longrightarrow> closes rest \<Longrightarrow>
      parse_value n (dumps a v @ rest) = Inr (v, rest)"
    and "\<forall>v\<in>set vs. json_normal v" and "vs \<noteq> []"
    and "sum_list (map (\<lambda>v. need v + 1) vs) \<le> n"
  shows "parse_elems n (join '','' (map (dumps a) vs) @ CHR '']'' # rest) = Inr (vs, rest)"
  using assms
proof (induction vs arbitrary: n)
  case Nil
  then show ?case by simp
next
  case (Cons v vs)
  then obtain m where n: "n = Suc m" by (cases n) auto
  have v: "parse_value m (dumps a v @ r) = Inr (v, r)" if "closes r" for r
    using Cons.prems(1,4) n that by simp
  show ?case
  proof (cases vs)
    case Nil
    then show ?thesis by (simp add: n v skip_ws_closing)
  next
    case (Cons w ws)
    have "starts_value (join '','' (map (dumps a) vs) @ CHR '']'' # rest)"
      using Cons.prems(2) Cons starts_value_dumps [of w] by (cases ws) auto
    moreover have "parse_elems m (join '','' (map (dumps a) vs) @ CHR '']'' # rest) = Inr (vs, rest)"
      using Cons.IH [of m] Cons.prems Cons n by simp
    ultimately show ?thesis
      by (simp add: n v Cons skip_ws_closing skip_ws_starts)
  qed
qed

definition member_text :: "bool \<Rightarrow> string \<times> pyval \<Rightarrow> string" where
  "member_text a p = json_string a (fst p) @ '':'' @ dumps a (snd p)"

lemma member_text_parts:
  "member_text a p @ s = quote # concat (map (escape_char a) (fst p)) @ quote #
     CHR '':'' # dumps a (snd p) @ s"
  by (simp add: member_text_def json_string_def)

lemma parse_members_back:
  assumes "\<And>p n rest. p \<in> set kvs \<Longrightarrow> need (snd p) \<le> n \<Longrightarrow> closes rest \<Longrightarrow>
      parse_value n (dumps a (snd p) @ rest) = Inr (snd p, rest)"
    and "\<forall>p\<in>set kvs. json_normal (snd p)" and "kvs \<noteq> []"
    and "sum_list (map (\<lambda>p. need (snd p) + 1) kvs) \<le> n"
  shows "parse_members n (join '','' (map (member_text a) kvs) @ CHR ''}'' # rest) = Inr (kvs, rest)"
  using assms
proof (induction kvs arbitrary: n)
  case Nil
  then show ?case by simp
next
  case (Cons p kvs)
  then obtain m where n: "n = Suc m" by (cases n) auto
  have v: "parse_value m (dumps a (snd p) @ r) = Inr (snd p, r)" if "closes r" for r
    using Cons.prems(1,4) n that by simp
  have sv: "skip_ws (dumps a (snd p) @ r) = dumps a (snd p) @ r" for r
    using Cons.prems(2) starts_value_dumps skip_ws_starts by simp
  show ?case
  proof (cases kvs)
    case Nil
    then show ?thesis
      by (simp add: n v sv member_text_parts parse_chars_string skip_ws_closing)
  next
    case (Cons q qs)
    have "skip_ws (join '','' (map (member_text a) kvs) @ CHR ''}'' # rest)
        = join '','' (map (member_text a) kvs) @ CHR ''}'' # rest"
      using Cons by (cases qs) (simp_all add: member_text_parts skip_ws_closing)
    moreover have "parse_members m (join '','' (map (member_text a) kvs) @ CHR ''}'' # rest) = Inr (kvs, rest)"
      using Cons.IH [of m] Cons.prems Cons n by simp
    ultimately show ?thesis
      by (simp add: n v sv Cons member_text_parts parse_chars_string skip_ws_closing)
  qed
qed

lemma dict_of_pairs_distinct:
  "distinct (map fst kvs) \<Longrightarrow> dict_of_pairs kvs = kvs"
proof -
  have snoc: "k \<notin> fst ` set d \<Longrightarrow> pset d k v = d @ [(k, v)]" for d :: "(string \<times> pyval) list" and k v
    by (induction d k v rule: pset.induct) auto
  have "distinct (map fst (d @ kvs)) \<Longrightarrow> foldl (\<lambda>d p. pset d (fst p) (snd p)) d kvs = d @ kvs" for d
    by (induction kvs arbitrary: d) (auto simp: snoc)
  from this [of "[]"] show "distinct (map fst kvs) \<Longrightarrow> dict_of_pairs kvs = kvs"
    by (simp add: dict_of_pairs_def)
qed

lemma dumps_normal_dict:
  assumes "sorted (map fst kvs)"
  shows "dumps a (PDict kvs) = CHR ''{'' # join '','' (map (member_text a) kvs) @ ''}''"
proof -
  have "sort_key fst (map (map_prod id (dumps a)) kvs) = map (map_prod id (dumps a)) kvs"
    using assms by (simp add: sort_key_id_if_sorted o_def)
  then show ?thesis by (simp add: o_def member_text_def [abs_def])
qed

lemma parse_value_back:
  "json_normal v \<Longrightarrow> need v \<le> n \<Longrightarrow> closes rest \<Longrightarrow>
    parse_value n (dumps a v @ rest) = Inr (v, rest)"
proof (induction v arbitrary: n rest rule: pyval_induct)
  case (PInt i)
  then show ?case by (cases n) (simp_all add: parse_value_number del: parse_value.simps)
next
  case (PFloat r)
  then show ?case by (cases n) (simp_all add: parse_value_float del: parse_value.simps)
next
  case (PStr s)
  then show ?case by (cases n) (simp_all add: json_string_def parse_chars_string)
next
  case (PList vs)
  then obtain m where n: "n = Suc m" by (cases n) auto
  show ?case
  proof (cases "vs = []")
    case True
    then show ?thesis by (simp add: n skip_ws_closing quote_neq)
  next
    case False
    then have "starts_value (join '','' (map (dumps a) vs) @ CHR '']'' # rest)"
      using PList.prems(1) starts_value_dumps [of "hd vs"]
      by (cases vs; cases "tl vs") auto
    moreover from this obtain c t where
      "join '','' (map (dumps a) vs) @ CHR '']'' # rest = c # t" "c \<noteq> CHR '']''"
      by (auto simp: starts_value_def)
    moreover have "parse_elems m (join '','' (map (dumps a) vs) @ CHR '']'' # rest) = Inr (vs, rest)"
      using PList False n by (intro parse_elems_back) auto
    ultimately show ?thesis by (simp add: n skip_ws_starts quote_neq)
  qed
next
  case (PDict kvs)
  then obtain m where n: "n = Suc m" by (cases n) auto
  show ?case
  proof (cases "kvs = []")
    case True
    then show ?thesis by (simp add: n skip_ws_closing quote_neq)
  next
    case False
    then obtain t where t: "join '','' (map (member_text a) kvs) @ CHR ''}'' # rest = quote # t"
      by (cases kvs; cases "tl kvs") (auto simp: member_text_parts)
    moreover have "parse_members m (join '','' (map (member_text a) kvs) @ CHR ''}'' # rest) = Inr (kvs, rest)"
      using PDict False n by (intro parse_members_back) auto
    ultimately show ?thesis
      using PDict.prems(1)
      by (simp add: n dumps_normal_dict dict_of_pairs_distinct skip_ws_closing quote_neq del: dumps.simps)
  qed
qed (case_tac n; simp add: quote_neq)+

text \<open>Reading a text back, alone or as the line of a file.\<close>

lemma json_loads_line:
  assumes "json_plain v" and "line \<in> {[], [chr 10]}"
  shows "json_loads (dumps a v @ line) = Inr (json_norm v)"
proof -
  have nv: "json_normal (json_norm v)" using assms(1) by (rule json_norm_normal)
  have c: "closes line" using assms(2) by auto
  have "need (json_norm v) \<le> 2 * length (dumps a v @ line) + 2"
    using need_le_length [OF nv, of a] by (simp add: dumps_json_norm)
  then have "parse_value (2 * length (dumps a v @ line) + 2) (dumps a v @ line) = Inr (json_norm v, line)"
    using parse_value_back [OF nv _ c, of _ a] by (simp only: dumps_json_norm)
  moreover have "skip_ws (dumps a v @ line) = dumps a v @ line"
    using starts_value_dumps [OF nv, of a line] by (simp add: skip_ws_starts dumps_json_norm)
  moreover have "skip_ws line = []" using assms(2) by (auto simp: skip_ws_def is_ws_def)
  ultimately show ?thesis by (simp add: json_loads_def)
qed

theorem json_loads_canonical:
  assumes "json_plain v"
  shows "json_loads (canonical v) = Inr (json_norm v)"
  using json_loads_line [OF assms, of "[]" True] by (simp add: canonical_def)

theorem canonical_inject:
  assumes "json_plain v" and "json_plain w"
  shows "canonical v = canonical w \<longleftrightarrow> json_norm v = json_norm w"
  using json_loads_canonical assms canonical_json_norm by (metis sum.inject(2))

text \<open>Two objects with one canonical text have the same fields, up to the order of keys.\<close>

lemma map_of_sort_key:
  assumes "distinct (map fst kvs)"
  shows "map_of (sort_key fst kvs) = map_of kvs"
proof -
  have "card (set (map fst (sort_key fst kvs))) = card (set (map fst kvs))" by simp
  also have "\<dots> = length (map fst (sort_key fst kvs))"
    using distinct_card [OF assms] by (simp only: length_map length_sort)
  finally have "distinct (map fst (sort_key fst kvs))" by (rule card_distinct)
  then show ?thesis using assms by (simp add: map_of_inject_set)
qed

lemma map_of_map_prod: "map_of (map (map_prod id f) kvs) k = map_option f (map_of kvs k)"
  by (induction kvs) auto

lemma pget_json_norm:
  assumes "distinct (map fst kvs)"
  shows "pget (sort_key fst (map (map_prod id json_norm) kvs)) k = json_norm (pget kvs k)"
proof -
  have d: "distinct (map fst (map (map_prod id json_norm) kvs))" using assms by (simp only: map_fst_map_prod_id)
  have "map_of (sort_key fst (map (map_prod id json_norm) kvs)) k = map_option json_norm (map_of kvs k)"
    unfolding map_of_sort_key [OF d] by (rule map_of_map_prod)
  then show ?thesis by (simp add: pget_def split: option.split)
qed

lemma canonical_fields:
  assumes "json_plain (PDict a)" and "json_plain (PDict b)" and "canonical (PDict a) = canonical (PDict b)"
  shows "map_option json_norm (map_of a k) = map_option json_norm (map_of b k)"
proof -
  have "sort_key fst (map (map_prod id json_norm) a) = sort_key fst (map (map_prod id json_norm) b)"
    using assms by (simp add: canonical_inject)
  moreover have "distinct (map fst (map (map_prod id json_norm) a))" "distinct (map fst (map (map_prod id json_norm) b))"
    using assms by (simp_all only: map_fst_map_prod_id json_plain.simps)
  ultimately have "map_of (map (map_prod id json_norm) a) = map_of (map (map_prod id json_norm) b)"
    using map_of_sort_key by metis
  then show ?thesis by (metis map_of_map_prod)
qed

text \<open>Integers of up to forty digits are within the reader's limit.\<close>

lemma length_nat_digits: "0 < k \<Longrightarrow> n < 10 ^ k \<Longrightarrow> length (nat_digits n) \<le> k"
proof (induction k arbitrary: n)
  case (Suc k)
  show ?case
  proof (cases "n < 10")
    case True
    then show ?thesis by (subst nat_digits.simps) simp
  next
    case False
    with Suc.prems have "0 < k" "n div 10 < 10 ^ k"
      by (auto simp: less_mult_imp_div_less intro: ccontr)
    with Suc.IH [of "n div 10"] False show ?thesis by (subst nat_digits.simps) simp
  qed
qed simp

lemma short_int_small [simp]: "\<bar>i\<bar> < 10 ^ 40 \<Longrightarrow> short_int i"
proof -
  assume "\<bar>i\<bar> < 10 ^ 40"
  then have "nat \<bar>i\<bar> < 10 ^ 40" by (simp add: nat_less_iff)
  then have "length (nat_digits (nat \<bar>i\<bar>)) \<le> 40" by (rule length_nat_digits [rotated]) simp
  then show ?thesis by (simp add: short_int_def)
qed

end
