(* ===== verification/Sha256.thy ===== *)
theory Sha256
  imports PyData "HOL-Library.Word"
begin

section \<open>The digests of the program: SHA-256 and HMAC-SHA-256\<close>

text \<open>
  \<^verbatim>\<open>hashlib.sha256(b).hexdigest()\<close> and \<^verbatim>\<open>hmac.new(key, b, hashlib.sha256).hexdigest()\<close> after
  FIPS 180-4 and RFC 2104; byte strings are \<open>string\<close>s.  The proofs of the development
  treat both as opaque functions, except for the length and the alphabet of the result.
\<close>

unbundle bit_operations_syntax

type_synonym u32 = "32 word"

definition rotr :: "nat \<Rightarrow> u32 \<Rightarrow> u32" where
  "rotr n x = (drop_bit n x) OR (push_bit (32 - n) x)"

definition big_sigma0 :: "u32 \<Rightarrow> u32" where
  "big_sigma0 x = rotr 2 x XOR rotr 13 x XOR rotr 22 x"

definition big_sigma1 :: "u32 \<Rightarrow> u32" where
  "big_sigma1 x = rotr 6 x XOR rotr 11 x XOR rotr 25 x"

definition small_sigma0 :: "u32 \<Rightarrow> u32" where
  "small_sigma0 x = rotr 7 x XOR rotr 18 x XOR drop_bit 3 x"

definition small_sigma1 :: "u32 \<Rightarrow> u32" where
  "small_sigma1 x = rotr 17 x XOR rotr 19 x XOR drop_bit 10 x"

definition ch :: "u32 \<Rightarrow> u32 \<Rightarrow> u32 \<Rightarrow> u32" where
  "ch x y z = (x AND y) XOR (NOT x AND z)"

definition maj :: "u32 \<Rightarrow> u32 \<Rightarrow> u32 \<Rightarrow> u32" where
  "maj x y z = (x AND y) XOR (x AND z) XOR (y AND z)"

text \<open>The sixty-four round constants, in decimal.\<close>

definition round_constants :: "u32 list" where
  "round_constants = [
    1116352408, 1899447441, 3049323471, 3921009573, 961987163, 1508970993, 2453635748, 2870763221,
    3624381080, 310598401, 607225278, 1426881987, 1925078388, 2162078206, 2614888103, 3248222580,
    3835390401, 4022224774, 264347078, 604807628, 770255983, 1249150122, 1555081692, 1996064986,
    2554220882, 2821834349, 2952996808, 3210313671, 3336571891, 3584528711, 113926993, 338241895,
    666307205, 773529912, 1294757372, 1396182291, 1695183700, 1986661051, 2177026350, 2456956037,
    2730485921, 2820302411, 3259730800, 3345764771, 3516065817, 3600352804, 4094571909, 275423344,
    430227734, 506948616, 659060556, 883997877, 958139571, 1322822218, 1537002063, 1747873779,
    1955562222, 2024104815, 2227730452, 2361852424, 2428436474, 2756734187, 3204031479, 3329325298]"

record sha_state =
  sa :: u32
  sb :: u32
  sc :: u32
  sd :: u32
  se :: u32
  sf :: u32
  sg :: u32
  sh :: u32

definition sha_init :: sha_state where
  "sha_init = \<lparr>sa = 1779033703, sb = 3144134277, sc = 1013904242, sd = 2773480762,
     se = 1359893119, sf = 2600822924, sg = 528734635, sh = 1541459225\<rparr>"

definition sha_round :: "sha_state \<Rightarrow> u32 \<times> u32 \<Rightarrow> sha_state" where
  "sha_round s kw =
     (let t1 = sh s + big_sigma1 (se s) + ch (se s) (sf s) (sg s) + fst kw + snd kw;
          t2 = big_sigma0 (sa s) + maj (sa s) (sb s) (sc s)
      in \<lparr>sa = t1 + t2, sb = sa s, sc = sb s, sd = sc s, se = sd s + t1, sf = se s, sg = sf s, sh = sg s\<rparr>)"

text \<open>The message schedule: the list of words so far, most recent first.\<close>

fun schedule :: "nat \<Rightarrow> u32 list \<Rightarrow> u32 list" where
  "schedule 0 ws = ws"
| "schedule (Suc n) ws =
     schedule n ((small_sigma1 (ws ! 1) + ws ! 6 + small_sigma0 (ws ! 14) + ws ! 15) # ws)"

definition sha_block :: "sha_state \<Rightarrow> u32 list \<Rightarrow> sha_state" where
  "sha_block s ws =
     (let r = foldl sha_round s (zip round_constants (rev (schedule 48 (rev ws))))
      in \<lparr>sa = sa s + sa r, sb = sb s + sb r, sc = sc s + sc r, sd = sd s + sd r,
          se = se s + se r, sf = sf s + sf r, sg = sg s + sg r, sh = sh s + sh r\<rparr>)"

fun words_of_bytes :: "string \<Rightarrow> u32 list" where
  "words_of_bytes (a # b # c # d # rest) =
     of_nat (16777216 * code a + 65536 * code b + 256 * code c + code d) # words_of_bytes rest"
| "words_of_bytes _ = []"

fun sha_blocks :: "nat \<Rightarrow> sha_state \<Rightarrow> u32 list \<Rightarrow> sha_state" where
  "sha_blocks 0 s ws = s"
| "sha_blocks (Suc n) s ws = sha_blocks n (sha_block s (take 16 ws)) (drop 16 ws)"

fun be_bytes :: "nat \<Rightarrow> nat \<Rightarrow> string" where
  "be_bytes 0 n = []"
| "be_bytes (Suc k) n = be_bytes k (n div 256) @ [chr (n mod 256)]"

definition sha_pad :: "string \<Rightarrow> string" where
  "sha_pad m = m @ [chr 128] @ replicate ((119 - length m mod 64) mod 64) (chr 0) @ be_bytes 8 (8 * length m)"

definition sha_digest_words :: "sha_state \<Rightarrow> u32 list" where
  "sha_digest_words s = [sa s, sb s, sc s, sd s, se s, sf s, sg s, sh s]"

definition sha256_digest :: "string \<Rightarrow> string" where
  "sha256_digest m =
     (let p = sha_pad m
      in concat (map (\<lambda>w. be_bytes 4 (unat w))
           (sha_digest_words (sha_blocks (length p div 64) sha_init (words_of_bytes p)))))"

definition hex_of_bytes :: "string \<Rightarrow> string" where
  "hex_of_bytes b = concat (map (\<lambda>c. hex2 (code c)) b)"

definition sha256_hex :: "string \<Rightarrow> string" where
  "sha256_hex m = hex_of_bytes (sha256_digest m)"

definition xor_pad :: "nat \<Rightarrow> string \<Rightarrow> string" where
  "xor_pad p k = map (\<lambda>c. chr (code c XOR p)) k"

definition hmac_hex :: "string \<Rightarrow> string \<Rightarrow> string" where
  "hmac_hex key m =
     (let k0 = (if length key > 64 then sha256_digest key else key);
          k = k0 @ replicate (64 - length k0) (chr 0)
      in sha256_hex (xor_pad 92 k @ sha256_digest (xor_pad 54 k @ m)))"

text \<open>\<^verbatim>\<open>hmac.compare_digest\<close> of two strings is equality; it refuses non-ASCII text.\<close>

definition ascii :: "string \<Rightarrow> bool" where
  "ascii s = list_all (\<lambda>c. code c < 128) s"

definition compare_digest :: "string \<Rightarrow> string \<Rightarrow> bool res" where
  "compare_digest a b = require (ascii a \<and> ascii b)
     (TypeError ''comparing strings with non-ASCII characters is not supported'') (Inr (a = b))"

text \<open>The hash of a chain's first link: 64 zeros.\<close>

definition ZERO_HASH :: string where
  "ZERO_HASH = replicate 64 (CHR ''0'')"

lemma length_be_bytes [simp]: "length (be_bytes k n) = k"
  by (induction k n rule: be_bytes.induct) simp_all

lemma length_sha256_digest [simp]: "length (sha256_digest m) = 32"
  by (simp add: sha256_digest_def sha_digest_words_def Let_def)

lemma length_hex_of_bytes [simp]: "length (hex_of_bytes b) = 2 * length b"
  by (induction b) (simp_all add: hex_of_bytes_def hex2_def)

lemma length_sha256_hex [simp]: "length (sha256_hex m) = 64"
  by (simp add: sha256_hex_def)

lemma length_hmac_hex [simp]: "length (hmac_hex k m) = 64"
  by (simp add: hmac_hex_def Let_def)

lemma hex_digit_lower: "d < 16 \<Longrightarrow> is_lower_hex (hex_digit d)"
  by (auto simp: is_lower_hex_def hex_digit_def is_digit_def)

lemma hex_of_bytes_lower: "c \<in> set (hex_of_bytes b) \<Longrightarrow> is_lower_hex c"
proof -
  assume "c \<in> set (hex_of_bytes b)"
  then obtain d where "c \<in> set (hex2 (code d))"
    by (auto simp: hex_of_bytes_def)
  moreover have "code d div 16 < 16" using code_less [of d] by simp
  ultimately show ?thesis by (auto simp: hex2_def intro: hex_digit_lower)
qed

lemma sha256_hex_lower: "c \<in> set (sha256_hex m) \<Longrightarrow> is_lower_hex c"
  by (auto simp: sha256_hex_def intro: hex_of_bytes_lower)

lemma lower_hex_ascii: "\<forall>c\<in>set s. is_lower_hex c \<Longrightarrow> ascii s"
  by (fastforce simp: ascii_def list_all_iff is_lower_hex_def is_digit_def)

lemma hmac_hex_lower: "c \<in> set (hmac_hex k m) \<Longrightarrow> is_lower_hex c"
  by (auto simp: hmac_hex_def Let_def intro: sha256_hex_lower)

lemma ascii_sha256_hex [simp]: "ascii (sha256_hex m)"
  by (rule lower_hex_ascii) (simp add: sha256_hex_lower)

lemma ascii_hmac_hex [simp]: "ascii (hmac_hex k m)"
  by (rule lower_hex_ascii) (simp add: hmac_hex_lower)

lemma ascii_ZERO_HASH [simp]: "ascii ZERO_HASH"
  by (auto simp: ascii_def ZERO_HASH_def list_all_iff)

lemma compare_digest_Inr_iff [simp]: "compare_digest a b = Inr r \<longleftrightarrow> ascii a \<and> ascii b \<and> r = (a = b)"
  by (auto simp: compare_digest_def)

end
