(* ===== verification/RewardsConfig.thy ===== *)
theory RewardsConfig
  imports Json Sha256
begin

section \<open>Community rewards: validation of configuration and requests\<close>

text \<open>
  The pure half of \<^verbatim>\<open>admin/community_rewards.py\<close>: the validators every request and every
  configuration row passes through, the normalised engagement policy, the loading of the
  configuration file and the authentication of webhooks.  A file is the text it holds, or
  \<open>None\<close> when it does not exist.
\<close>

definition MAX_LEDGER_AMOUNT :: int where
  "MAX_LEDGER_AMOUNT = 1000000000"

definition MAX_PURCHASE_QUANTITY :: int where
  "MAX_PURCHASE_QUANTITY = 100"

definition MAX_REWARDS :: nat where
  "MAX_REWARDS = 100"

definition positive_int :: "pyval \<Rightarrow> string \<Rightarrow> int \<Rightarrow> int res" where
  "positive_int v field maximum =
     (case py_int v of
        Inl e \<Rightarrow> Inl (ValueError (field @ '' must be an integer''))
      | Inr parsed \<Rightarrow>
          require (\<not> (parsed \<le> 0 \<or> parsed > maximum))
            (ValueError (field @ '' must be between 1 and '' @ show_int maximum)) (Inr parsed))"

definition identifier_of :: "pyval \<Rightarrow> string \<Rightarrow> nat \<Rightarrow> string res" where
  "identifier_of v field maximum =
     (let t = strip (str_or_empty v) in
      require (\<not> (t = [] \<or> length t > maximum \<or> has_control t))
        (ValueError (field @ '' must be 1-'' @ nat_digits maximum @ '' printable characters'')) (Inr t))"

text \<open>What a \<^verbatim>\<open>for\<close> loop over a decoded value visits.\<close>

fun py_iter :: "pyval \<Rightarrow> pyval list res" where
  "py_iter (PList vs) = Inr vs"
| "py_iter (PDict d) = Inr (map (\<lambda>p. PStr (fst p)) d)"
| "py_iter (PStr s) = Inr (map (\<lambda>c. PStr [c]) s)"
| "py_iter _ = Inl (TypeError ''object is not iterable'')"

subsection \<open>Item rewards\<close>

record reward_item =
  ri_template :: string
  ri_count :: int
  ri_quality :: int

definition reward_item_json :: "reward_item \<Rightarrow> pyval" where
  "reward_item_json r = PDict [(''type'', PStr ''item''), (''templateId'', PStr (ri_template r)),
     (''count'', PInt (ri_count r)), (''qualityLevel'', PInt (ri_quality r))]"

definition rewards_json :: "reward_item list \<Rightarrow> pyval" where
  "rewards_json rs = PList (map reward_item_json rs)"

definition reward_row :: "pyval \<Rightarrow> reward_item res" where
  "reward_row v =
     (case as_dict v of
        None \<Rightarrow> Inl (ValueError ''each reward must be an object'')
      | Some row \<Rightarrow>
          let kind = lower (strip (py_str (py_or (pget row ''type'') (PStr ''item'')))) in
          require (kind = ''item'') (ValueError ''only item delivery is currently supported'')
         (bind_res (identifier_of (pget_default row ''templateId'' (pget row ''template_id'')) ''templateId'' 256) (\<lambda>template_id.
          bind_res (positive_int (pget_default row ''count'' (pget_default row ''stackSize'' (PInt 1))) ''count'' 1000000) (\<lambda>count.
          bind_res (py_int (pget_default row ''qualityLevel'' (pget_default row ''quality_level'' (PInt 0)))) (\<lambda>quality.
          require (\<not> (quality < 0 \<or> quality > 100)) (ValueError ''qualityLevel must be between 0 and 100'')
         (Inr \<lparr>ri_template = template_id, ri_count = count, ri_quality = quality\<rparr>))))))"

definition rewards :: "pyval \<Rightarrow> reward_item list res" where
  "rewards v =
     (case as_list v of
        None \<Rightarrow> Inl (ValueError ''rewards must contain 1-100 entries'')
      | Some rows \<Rightarrow>
          require (\<not> (rows = [] \<or> length rows > MAX_REWARDS)) (ValueError ''rewards must contain 1-100 entries'')
            (map_res reward_row rows))"

subsection \<open>Engagement rewards\<close>

record engagement_reward =
  er_credits :: int
  er_items :: "reward_item list"
  er_track :: "(string \<times> int) option"

definition engagement_reward_of :: "pyval \<Rightarrow> engagement_reward res" where
  "engagement_reward_of v =
     (case as_dict v of
        None \<Rightarrow> Inl (ValueError ''engagement reward must be an object'')
      | Some d \<Rightarrow>
          bind_res (py_int (py_or (pget_default d ''credits'' (PInt 0)) (PInt 0))) (\<lambda>credits.
          require (\<not> (credits < 0 \<or> credits > MAX_LEDGER_AMOUNT))
            (ValueError ''engagement reward credits are outside the supported range'')
         (bind_res (if truthy (pget d ''items'') then rewards (pget d ''items'') else Inr []) (\<lambda>items.
          case as_dict (py_or (pget d ''track'') (PDict [])) of
            None \<Rightarrow> Inl (ValueError ''engagement reward track must be an object'')
          | Some track \<Rightarrow>
              let track_id = strip (str_or_empty (pget track ''id'')) in
              bind_res (py_int (py_or (pget_default track ''xp'' (PInt 0)) (PInt 0))) (\<lambda>track_xp.
              require (\<not> (track_xp < 0 \<or> track_xp > MAX_LEDGER_AMOUNT))
                (ValueError ''engagement reward track XP is outside the supported range'')
             (require ((track_id \<noteq> []) = (track_xp \<noteq> 0))
                (ValueError ''engagement reward track requires both id and positive xp'')
             (bind_res (if track_id \<noteq> [] then identifier_of (PStr track_id) ''engagement reward track id'' 64 else Inr track_id) (\<lambda>tid.
              require (\<not> (credits = 0 \<and> items = [] \<and> track_xp = 0))
                (ValueError ''engagement reward must grant credits, track XP, or items'')
             (Inr \<lparr>er_credits = credits, er_items = items,
                   er_track = (if tid \<noteq> [] then Some (tid, track_xp) else None)\<rparr>)))))))))"

definition engagement_reward_json :: "engagement_reward \<Rightarrow> pyval" where
  "engagement_reward_json r = PDict
     [(''credits'', PInt (er_credits r)), (''items'', rewards_json (er_items r)),
      (''track'', (case er_track r of None \<Rightarrow> PNone
         | Some (i, x) \<Rightarrow> PDict [(''id'', PStr i), (''xp'', PInt x)]))]"

text \<open>A tier is its threshold (hour, day or seconds) and its reward.\<close>

type_synonym tier = "int \<times> engagement_reward"

record engagement_policy =
  ep_enabled :: bool
  ep_max_gap :: int
  ep_min_distance :: rat
  ep_precision :: rat
  ep_grace :: int
  ep_hourly_enabled :: bool
  ep_hourly_interval :: int
  ep_hourly_max :: int
  ep_hourly_tiers :: "tier list"
  ep_daily_enabled :: bool
  ep_daily_repeat_last :: bool
  ep_daily_tiers :: "tier list"
  ep_weekly_enabled :: bool
  ep_weekly_thresholds :: "tier list"

text \<open>
  The three loops of \<^verbatim>\<open>engagement_config\<close> that read increasing tiers differ in the field, its
  bound and the messages; \<open>previous\<close> is the loop variable of that name.
\<close>

fun tiers_from :: "string \<Rightarrow> string \<Rightarrow> int \<Rightarrow> string \<Rightarrow> string \<Rightarrow> int \<Rightarrow> pyval list \<Rightarrow> tier list res" where
  "tiers_from field label maximum not_object not_increasing previous [] = Inr []"
| "tiers_from field label maximum not_object not_increasing previous (v # vs) =
     (case as_dict v of
        None \<Rightarrow> Inl (ValueError not_object)
      | Some row \<Rightarrow>
          bind_res (positive_int (pget row field) label maximum) (\<lambda>key.
          require (\<not> key \<le> previous) (ValueError not_increasing)
         (bind_res (engagement_reward_of (pget row ''reward'')) (\<lambda>reward.
          bind_res (tiers_from field label maximum not_object not_increasing key vs) (\<lambda>ts.
          Inr ((key, reward) # ts))))))"

definition section_of :: "(string \<times> pyval) list \<Rightarrow> string \<Rightarrow> string \<Rightarrow> (string \<times> pyval) list res" where
  "section_of d key msg = (case as_dict (py_or (pget d key) (PDict [])) of
     None \<Rightarrow> Inl (ValueError msg) | Some s \<Rightarrow> Inr s)"

definition engagement_config :: "(string \<times> pyval) list \<Rightarrow> engagement_policy res" where
  "engagement_config config =
     bind_res (section_of config ''engagementRewards'' ''engagementRewards must be an object'') (\<lambda>raw.
     bind_res (py_int (pget_default raw ''maxObservationGapSeconds'' (PInt 120))) (\<lambda>gap.
     bind_res (py_float (pget_default raw ''minimumMovementDistance'' (PFloat 100))) (\<lambda>dist.
     bind_res (py_float (pget_default raw ''coordinatePrecision'' (PFloat 10))) (\<lambda>prec.
     bind_res (py_int (pget_default raw ''movementGraceSeconds'' (PInt 120))) (\<lambda>grace.
     bind_res (section_of raw ''hourly'' ''engagementRewards.hourly must be an object'') (\<lambda>hourly.
     bind_res (py_iter (py_or (pget hourly ''tiers'') (PList []))) (\<lambda>hrows.
     bind_res (tiers_from ''fromHour'' ''hourly fromHour'' 1000 ''hourly reward tiers must be objects''
                 ''hourly reward tiers must have increasing fromHour values'' 0 hrows) (\<lambda>htiers.
     bind_res (positive_int (pget_default hourly ''intervalSeconds'' (PInt 3600)) ''hourly intervalSeconds'' 86400) (\<lambda>interval.
     bind_res (py_int (pget_default hourly ''maxRewardsPerSession'' (PInt 8))) (\<lambda>hmax.
     bind_res (section_of raw ''daily'' ''engagementRewards.daily must be an object'') (\<lambda>daily.
     bind_res (py_iter (py_or (pget daily ''tiers'') (PList []))) (\<lambda>drows.
     bind_res (tiers_from ''day'' ''daily day'' 10000 ''daily reward tiers must be objects''
                 ''daily reward tiers must have increasing day values'' 0 drows) (\<lambda>dtiers.
     bind_res (section_of raw ''weekly'' ''engagementRewards.weekly must be an object'') (\<lambda>weekly.
     bind_res (py_iter (py_or (pget weekly ''thresholds'') (PList []))) (\<lambda>wrows.
     bind_res (tiers_from ''activeSeconds'' ''weekly activeSeconds'' 604800 ''weekly reward thresholds must be objects''
                 ''weekly reward thresholds must have increasing activeSeconds values'' 0 wrows) (\<lambda>wtiers.
     let hon = truthy (pget_default hourly ''enabled'' (PBool False));
         don = truthy (pget_default daily ''enabled'' (PBool False));
         won = truthy (pget_default weekly ''enabled'' (PBool False)) in
     require (\<not> (hon \<and> htiers = [])) (ValueError ''enabled hourly engagement rewards require tiers'')
    (require (\<not> (don \<and> dtiers = [])) (ValueError ''enabled daily engagement rewards require tiers'')
    (require (\<not> (won \<and> wtiers = [])) (ValueError ''enabled weekly engagement rewards require thresholds'')
    (Inr \<lparr>ep_enabled = truthy (pget_default raw ''enabled'' (PBool False)),
          ep_max_gap = max 1 (min gap 3600),
          ep_min_distance = max 0 (min dist 1000000),
          ep_precision = max 1 (min prec 100000),
          ep_grace = max 0 (min grace 3600),
          ep_hourly_enabled = hon, ep_hourly_interval = interval,
          ep_hourly_max = max 0 (min hmax 1000), ep_hourly_tiers = htiers,
          ep_daily_enabled = don,
          ep_daily_repeat_last = truthy (pget_default daily ''repeatLast'' (PBool False)),
          ep_daily_tiers = dtiers,
          ep_weekly_enabled = won, ep_weekly_thresholds = wtiers\<rparr>)))))))))))))))))))"

subsection \<open>The configuration file\<close>

definition default_config :: "(string \<times> pyval) list" where
  "default_config = [(''version'', PInt 1), (''enabled'', PBool False),
     (''currency'', PDict [(''name'', PStr ''Community Credits''), (''symbol'', PStr ''CC'')]),
     (''offers'', PList []), (''tracks'', PList [])]"

definition configured_tracks :: "pyval list \<Rightarrow> string list" where
  "configured_tracks rows =
     concat (map (\<lambda>v. case as_dict v of
        Some row \<Rightarrow> if truthy (pget_default row ''enabled'' (PBool True))
          then [strip (str_or_empty (pget row ''id''))] else []
      | None \<Rightarrow> []) rows)"

definition engagement_tracks :: "engagement_policy \<Rightarrow> string list" where
  "engagement_tracks p =
     concat (map (\<lambda>t. case er_track (snd t) of Some (i, x) \<Rightarrow> [i] | None \<Rightarrow> [])
       (ep_hourly_tiers p @ ep_daily_tiers p @ ep_weekly_thresholds p))"

definition load_config :: "string option \<Rightarrow> (string \<times> pyval) list res" where
  "load_config file =
     (case file of
        None \<Rightarrow> Inr default_config
      | Some text \<Rightarrow>
          bind_res (json_loads text) (\<lambda>v.
          case as_dict v of
            None \<Rightarrow> Inl (ValueError ''community rewards config must be a version 1 object'')
          | Some d \<Rightarrow>
              bind_res (py_int (pget_default d ''version'' (PInt 0))) (\<lambda>version.
              require (version = 1) (ValueError ''community rewards config must be a version 1 object'')
             (case (as_list (pget_default d ''offers'' (PList [])), as_list (pget_default d ''tracks'' (PList []))) of
                (Some offers, Some tracks) \<Rightarrow>
                  bind_res (engagement_config d) (\<lambda>engagement.
                  let missing = sort (remdups (filter (\<lambda>t. t \<notin> set (configured_tracks tracks)) (engagement_tracks engagement)))
                  in require (missing = [])
                       (ValueError (''engagement rewards reference unavailable tracks: '' @ join '', '' missing))
                       (Inr d))
              | _ \<Rightarrow> Inl (ValueError ''offers and tracks must be arrays'')))))"

subsection \<open>Webhook authentication\<close>

text \<open>
  \<open>current\<close> is the clock in seconds, the tolerance 300 by default.
\<close>

definition webhook_signature :: "pyval \<Rightarrow> string" where
  "webhook_signature v =
     (let s = lower (strip (str_or_empty v)) in if starts_with s ''sha256='' then drop 7 s else s)"

definition verify_webhook :: "pyval \<Rightarrow> pyval \<Rightarrow> string \<Rightarrow> pyval \<Rightarrow> int \<Rightarrow> int \<Rightarrow> bool res" where
  "verify_webhook secret0 timestamp0 raw_body signature0 current tolerance =
     (let secret = utf8 (str_or_empty secret0);
          timestamp = strip (str_or_empty timestamp0);
          signature = webhook_signature signature0
      in if secret = [] \<or> timestamp = [] \<or> length signature \<noteq> 64 then Inr False
         else case int_of_str timestamp of
           Inl _ \<Rightarrow> Inr False
         | Inr event_epoch \<Rightarrow>
             if \<bar>current - event_epoch\<bar> > tolerance then Inr False
             else compare_digest (hmac_hex secret (utf8 timestamp @ ''.'' @ raw_body)) signature)"

subsection \<open>What the validators guarantee\<close>

lemma positive_int_range: "positive_int v field maximum = Inr n \<Longrightarrow> 0 < n \<and> n \<le> maximum"
  by (auto simp: positive_int_def split: sum.splits)

lemma identifier_props:
  "identifier_of v field maximum = Inr t \<Longrightarrow> t \<noteq> [] \<and> length t \<le> maximum \<and> \<not> has_control t"
  by (auto simp: identifier_of_def Let_def)

lemma rstrip_Nil [simp]: "rstrip [] = []" and lstrip_Nil [simp]: "lstrip [] = []"
  by (simp_all add: rstrip_def lstrip_def)

lemma rstrip_idem: "rstrip (rstrip s) = rstrip s"
  by (simp add: rstrip_def)

lemma lstrip_idem: "lstrip (lstrip s) = lstrip s"
  by (simp add: lstrip_def)

lemma lstrip_id: "(s = [] \<or> \<not> is_space (hd s)) \<Longrightarrow> lstrip s = s"
  by (cases s) (auto simp: lstrip_def)

lemma rstrip_prefix: "\<exists>u. s = rstrip s @ u \<and> (\<forall>c\<in>set u. is_space c)"
proof -
  have "rev s = takeWhile is_space (rev s) @ dropWhile is_space (rev s)" by simp
  then have "s = rstrip s @ rev (takeWhile is_space (rev s))"
    unfolding rstrip_def by (metis rev_append rev_rev_ident)
  moreover have "\<forall>c\<in>set (rev (takeWhile is_space (rev s))). is_space c"
    by (auto dest: set_takeWhileD)
  ultimately show ?thesis by blast
qed

lemma strip_idem: "strip (strip s) = strip s"
proof -
  obtain u where u: "lstrip s = strip s @ u"
    using rstrip_prefix [of "lstrip s"] by (auto simp: strip_def)
  have "strip s = [] \<or> \<not> is_space (hd (strip s))"
  proof (cases "strip s")
    case (Cons c t)
    then have "hd (lstrip s) = c" "lstrip s \<noteq> []" using u by auto
    then have "\<not> is_space c" by (metis lstrip_def hd_dropWhile)
    with Cons show ?thesis by simp
  qed simp
  then have "lstrip (strip s) = strip s" by (rule lstrip_id)
  then show ?thesis by (simp add: strip_def rstrip_idem)
qed

text \<open>Validating an identifier twice changes nothing.\<close>

lemma identifier_idem: "identifier_of v field m = Inr t \<Longrightarrow> identifier_of (PStr t) field m = Inr t"
  by (auto simp: identifier_of_def Let_def strip_idem)

end
