(* ===== verification/PyTime.thy ===== *)
theory PyTime
  imports PyData
begin

section \<open>Instants, dates and their ISO 8601 texts\<close>

text \<open>
  The part of \<^verbatim>\<open>datetime\<close> the program uses, in UTC: an instant is the number of seconds
  since 1970-01-01, a date is the number of its day.  \<open>civil_from_days\<close> is the proleptic
  Gregorian calendar; the years \<^verbatim>\<open>datetime\<close> admits are 1 to 9999.
\<close>

definition civil_from_days :: "int \<Rightarrow> int \<times> int \<times> int" where
  "civil_from_days z0 =
     (let z = z0 + 719468;
          era = z div 146097;
          doe = z mod 146097;
          yoe = (doe - doe div 1460 + doe div 36524 - doe div 146096) div 365;
          doy = doe - (365 * yoe + yoe div 4 - yoe div 100);
          mp = (5 * doy + 2) div 153;
          d = doy - (153 * mp + 2) div 5 + 1;
          m = (if mp < 10 then mp + 3 else mp - 9);
          y = yoe + era * 400 + (if m \<le> 2 then 1 else 0)
      in (y, m, d))"

definition days_from_civil :: "int \<Rightarrow> int \<Rightarrow> int \<Rightarrow> int" where
  "days_from_civil y0 m d =
     (let y = (if m \<le> 2 then y0 - 1 else y0);
          era = y div 400;
          yoe = y mod 400;
          doy = (153 * (if m > 2 then m - 3 else m + 9) + 2) div 5 + d - 1;
          doe = yoe * 365 + yoe div 4 - yoe div 100 + doy
      in era * 146097 + doe - 719468)"

definition day_of :: "int \<Rightarrow> int" where
  "day_of epoch = epoch div 86400"

definition iso_date :: "int \<Rightarrow> string" where
  "iso_date day = (case civil_from_days day of (y, m, d) \<Rightarrow>
     pad_zero 4 (nat y) @ ''-'' @ pad_zero 2 (nat m) @ ''-'' @ pad_zero 2 (nat d))"

definition iso_clock :: "int \<Rightarrow> string" where
  "iso_clock sec = pad_zero 2 (nat (sec div 3600)) @ '':'' @
     pad_zero 2 (nat (sec div 60 mod 60)) @ '':'' @ pad_zero 2 (nat (sec mod 60))"

definition compact_date :: "int \<Rightarrow> string" where
  "compact_date day = (case civil_from_days day of (y, m, d) \<Rightarrow>
     pad_zero 4 (nat y) @ pad_zero 2 (nat m) @ pad_zero 2 (nat d))"

definition compact_clock :: "int \<Rightarrow> string" where
  "compact_clock sec = pad_zero 2 (nat (sec div 3600)) @
     pad_zero 2 (nat (sec div 60 mod 60)) @ pad_zero 2 (nat (sec mod 60))"

text \<open>\<^verbatim>\<open>datetime.fromtimestamp(epoch, utc)\<close> refuses instants outside the years 1 to 9999.\<close>

definition datetime_range :: "int \<Rightarrow> bool" where
  "datetime_range epoch = (-62135596800 \<le> epoch \<and> epoch \<le> 253402300799)"

definition check_datetime :: "int \<Rightarrow> int res" where
  "check_datetime epoch =
     (if datetime_range epoch then Inr epoch else Inl (ValueError ''year is out of range''))"

text \<open>\<^verbatim>\<open>isoformat().replace("+00:00", "Z")\<close> of a whole second.\<close>

definition iso_z :: "int \<Rightarrow> string" where
  "iso_z epoch = iso_date (day_of epoch) @ ''T'' @ iso_clock (epoch mod 86400) @ ''Z''"

text \<open>
  \<^verbatim>\<open>isoformat()\<close> of a float instant: \<^verbatim>\<open>fromtimestamp\<close> rounds to microseconds, which are
  written only when they are not zero.
\<close>

definition iso_micros :: "rat \<Rightarrow> string \<Rightarrow> string" where
  "iso_micros t zone =
     (let us = py_round (t * 1000000); s = us div 1000000; u = us mod 1000000
      in iso_date (day_of s) @ ''T'' @ iso_clock (s mod 86400)
         @ (if u = 0 then [] else ''.'' @ pad_zero 6 (nat u)) @ zone)"

text \<open>Monday is 0; 1970-01-01 was a Thursday.\<close>

definition weekday :: "int \<Rightarrow> int" where
  "weekday day = (day + 3) mod 7"

text \<open>\<^verbatim>\<open>isocalendar()\<close>: the week belongs to the year of its Thursday.\<close>

definition iso_year_week :: "int \<Rightarrow> int \<times> int" where
  "iso_year_week day =
     (let thursday = day - weekday day + 3;
          y = fst (civil_from_days thursday)
      in (y, (thursday - days_from_civil y 1 1) div 7 + 1))"

definition iso_week_key :: "int \<Rightarrow> string" where
  "iso_week_key day = (case iso_year_week day of (y, w) \<Rightarrow>
     show_int y @ ''-W'' @ pad_zero 2 (nat w))"

lemma weekday_range: "0 \<le> weekday day" "weekday day < 7"
  by (simp_all add: weekday_def)

text \<open>Days of one ISO week share their Thursday, and so their year and week.\<close>

lemma iso_year_week_same_week:
  assumes "day - weekday day = day' - weekday day'"
  shows "iso_year_week day = iso_year_week day'"
  using assms by (simp add: iso_year_week_def)

end
