(* ===== verification/RewardsTables.thy ===== *)
theory RewardsTables
  imports RewardsConfig PyTime
begin

section \<open>Community rewards: the database\<close>

text \<open>
  The tables \<^verbatim>\<open>Store.initialize\<close> creates in \<^verbatim>\<open>admin/community_rewards.py\<close>, one record per
  row and one list of rows per table, the constraints an insert is checked against, and the
  two reads every operation starts with (\<^verbatim>\<open>_ensure_account\<close>, the clock).

  The store also carries the world outside the database as three sources: the clock texts
  \<^verbatim>\<open>self.now()\<close> returns, the UUIDs drawn and the random tokens drawn, each with the number
  of readings so far.  An operation returns the new store or an error; the transaction of a
  failed operation is rolled back, so the caller goes on with the store it had.
\<close>

record account_row =
  acc_id :: int
  acc_discord :: "string option"
  acc_linked_at :: "string option"
  acc_created_at :: string

record link_code_row =
  lc_hash :: string
  lc_account :: int
  lc_expires_at :: string
  lc_used_at :: "string option"
  lc_created_at :: string

record wallet_row =
  wal_account :: int
  wal_balance :: int
  wal_updated_at :: string

record ledger_row =
  led_id :: string
  led_account :: int
  led_delta :: int
  led_balance_after :: int
  led_kind :: string
  led_reference :: string
  led_metadata_json :: string
  led_previous_hash :: string
  led_entry_hash :: string
  led_created_at :: string

record offer_row =
  off_id :: string
  off_version :: int
  off_name :: string
  off_description :: string
  off_kind :: string
  off_price :: int
  off_stock :: "int option"
  off_enabled :: bool
  off_rewards_json :: string
  off_updated_at :: string

datatype purchase_status = PurchaseQueued | PurchaseDelivered | PurchaseRefunded

record purchase_row =
  pur_id :: string
  pur_account :: int
  pur_offer :: string
  pur_offer_version :: int
  pur_quantity :: int
  pur_total :: int
  pur_status :: purchase_status
  pur_key :: string
  pur_error :: "string option"
  pur_created_at :: string
  pur_updated_at :: string

datatype delivery_status = Queued | Retry | Processing | Delivered | Failed | Reconciliation

record delivery_row =
  del_id :: string
  del_source_type :: string
  del_source :: string
  del_account :: int
  del_rewards_json :: string
  del_status :: delivery_status
  del_attempts :: int
  del_token :: "string option"
  del_claimed_at :: "string option"
  del_delivered_at :: "string option"
  del_receipt :: "string option"
  del_error :: "string option"
  del_created_at :: string
  del_updated_at :: string

record webhook_row =
  wh_provider :: string
  wh_event :: string
  wh_payload_sha256 :: string
  wh_account :: int
  wh_amount :: int
  wh_ledger :: string
  wh_created_at :: string

record playtime_row =
  pt_account :: int
  pt_observed_at :: int
  pt_online :: bool
  pt_remainder :: int
  pt_credited :: int

record checkpoint_row =
  cp_account :: int
  cp_observed_at :: int
  cp_online :: bool
  cp_map :: "string option"
  cp_partition :: "int option"
  cp_x :: "rat option"
  cp_y :: "rat option"
  cp_z :: "rat option"
  cp_last_movement :: "int option"
  cp_session_started :: "int option"
  cp_session_seconds :: int
  cp_rewarded_hours :: int

record day_row =
  day_account :: int
  day_key :: string
  day_seconds :: int
  day_streak :: int
  day_first_at :: int
  day_last_at :: int

record week_row =
  week_account :: int
  week_key :: string
  week_seconds :: int
  week_first_at :: int
  week_last_at :: int

record claim_row =
  clm_id :: string
  clm_account :: int
  clm_kind :: string
  clm_period :: string
  clm_tier :: int
  clm_reward_json :: string
  clm_delivery :: "string option"
  clm_ledger :: "string option"
  clm_created_at :: string

text \<open>A level of a reward track: its XP threshold and its items (levels count from 1).\<close>

record track_row =
  trk_id :: string
  trk_version :: int
  trk_name :: string
  trk_enabled :: bool
  trk_starts_at :: pyval
  trk_ends_at :: pyval
  trk_levels :: "(int \<times> reward_item list) list"
  trk_updated_at :: string

record progress_row =
  prg_account :: int
  prg_track :: string
  prg_version :: int
  prg_xp :: int
  prg_updated_at :: string

record track_claim_row =
  tcl_account :: int
  tcl_track :: string
  tcl_version :: int
  tcl_level :: int
  tcl_delivery :: string
  tcl_claimed_at :: string

record store =
  accounts :: "account_row list"
  link_codes :: "link_code_row list"
  wallets :: "wallet_row list"
  ledger :: "ledger_row list"
  offers :: "offer_row list"
  purchases :: "purchase_row list"
  deliveries :: "delivery_row list"
  webhook_receipts :: "webhook_row list"
  playtime_checkpoints :: "playtime_row list"
  engagement_checkpoints :: "checkpoint_row list"
  engagement_days :: "day_row list"
  engagement_weeks :: "week_row list"
  engagement_claims :: "claim_row list"
  tracks :: "track_row list"
  track_progress :: "progress_row list"
  track_claims :: "track_claim_row list"
  metadata :: "(string \<times> string) list"
  clock :: "nat \<Rightarrow> string"
  ticks :: nat
  uuid :: "nat \<Rightarrow> string"
  uuids :: nat
  token :: "nat \<Rightarrow> string"
  tokens :: nat

text \<open>A freshly initialised database.\<close>

definition empty_store :: "(nat \<Rightarrow> string) \<Rightarrow> (nat \<Rightarrow> string) \<Rightarrow> (nat \<Rightarrow> string) \<Rightarrow> store" where
  "empty_store c u t = \<lparr>accounts = [], link_codes = [], wallets = [], ledger = [], offers = [],
     purchases = [], deliveries = [], webhook_receipts = [], playtime_checkpoints = [],
     engagement_checkpoints = [], engagement_days = [], engagement_weeks = [],
     engagement_claims = [], tracks = [], track_progress = [], track_claims = [],
     metadata = [(''schema_version'', ''2'')], clock = c, ticks = 0, uuid = u, uuids = 0,
     token = t, tokens = 0\<rparr>"

definition now :: "store \<Rightarrow> string \<times> store" where
  "now st = (clock st (ticks st), st\<lparr>ticks := Suc (ticks st)\<rparr>)"

definition uuid4 :: "store \<Rightarrow> string \<times> store" where
  "uuid4 st = (uuid st (uuids st), st\<lparr>uuids := Suc (uuids st)\<rparr>)"

definition random_token :: "store \<Rightarrow> string \<times> store" where
  "random_token st = (token st (tokens st), st\<lparr>tokens := Suc (tokens st)\<rparr>)"

subsection \<open>Constraint-checked inserts\<close>

definition account_exists :: "store \<Rightarrow> int \<Rightarrow> bool" where
  "account_exists st a = (\<exists>r\<in>set (accounts st). acc_id r = a)"

definition insert_ledger :: "ledger_row \<Rightarrow> store \<Rightarrow> store res" where
  "insert_ledger r st =
     require (account_exists st (led_account r)) (IntegrityError ''FOREIGN KEY constraint failed'')
    (require (led_delta r \<noteq> 0 \<and> led_balance_after r \<ge> 0) (IntegrityError ''CHECK constraint failed: ledger'')
    (require (\<forall>l\<in>set (ledger st). led_id l \<noteq> led_id r \<and> led_reference l \<noteq> led_reference r \<and> led_entry_hash l \<noteq> led_entry_hash r)
       (IntegrityError ''UNIQUE constraint failed: ledger'')
    (Inr (st\<lparr>ledger := ledger st @ [r]\<rparr>))))"

definition insert_purchase :: "purchase_row \<Rightarrow> store \<Rightarrow> store res" where
  "insert_purchase r st =
     require (account_exists st (pur_account r) \<and> (\<exists>o'\<in>set (offers st). off_id o' = pur_offer r))
       (IntegrityError ''FOREIGN KEY constraint failed'')
    (require (\<forall>p\<in>set (purchases st). pur_id p \<noteq> pur_id r \<and> \<not> (pur_account p = pur_account r \<and> pur_key p = pur_key r))
       (IntegrityError ''UNIQUE constraint failed: purchases'')
    (Inr (st\<lparr>purchases := purchases st @ [r]\<rparr>)))"

text \<open>A delivery enters queued, unclaimed, with no attempts.\<close>

definition insert_delivery ::
  "string \<Rightarrow> string \<Rightarrow> string \<Rightarrow> int \<Rightarrow> string \<Rightarrow> string \<Rightarrow> string \<Rightarrow> store \<Rightarrow> store res" where
  "insert_delivery i source_type source account rewards_text created updated st =
     require (account_exists st account) (IntegrityError ''FOREIGN KEY constraint failed'')
    (require (\<forall>d\<in>set (deliveries st). del_id d \<noteq> i \<and> del_source d \<noteq> source)
       (IntegrityError ''UNIQUE constraint failed: deliveries'')
    (Inr (st\<lparr>deliveries := deliveries st @ [\<lparr>del_id = i, del_source_type = source_type,
        del_source = source, del_account = account, del_rewards_json = rewards_text,
        del_status = Queued, del_attempts = 0, del_token = None, del_claimed_at = None,
        del_delivered_at = None, del_receipt = None, del_error = None,
        del_created_at = created, del_updated_at = updated\<rparr>]\<rparr>)))"

subsection \<open>Accounts and wallets\<close>

definition MAX_ACCOUNT_ID :: int where
  "MAX_ACCOUNT_ID = 9223372036854775807"

definition ensure_account :: "pyval \<Rightarrow> store \<Rightarrow> (int \<times> store) res" where
  "ensure_account v st =
     bind_res (positive_int v ''duneAccountId'' MAX_ACCOUNT_ID) (\<lambda>a.
     let (t, st1) = now st;
         st2 = (if account_exists st1 a then st1
                else st1\<lparr>accounts := accounts st1 @ [\<lparr>acc_id = a, acc_discord = None, acc_linked_at = None, acc_created_at = t\<rparr>]\<rparr>);
         st3 = (if \<exists>w\<in>set (wallets st2). wal_account w = a then st2
                else st2\<lparr>wallets := wallets st2 @ [\<lparr>wal_account = a, wal_balance = 0, wal_updated_at = t\<rparr>]\<rparr>)
     in Inr (a, st3))"

definition wallet_of :: "store \<Rightarrow> int \<Rightarrow> wallet_row option" where
  "wallet_of st a = row_where (\<lambda>w. wal_account w = a) (wallets st)"

definition balance_of :: "store \<Rightarrow> int \<Rightarrow> int" where
  "balance_of st a = (case wallet_of st a of None \<Rightarrow> 0 | Some w \<Rightarrow> wal_balance w)"

definition set_balance :: "int \<Rightarrow> int \<Rightarrow> string \<Rightarrow> store \<Rightarrow> store res" where
  "set_balance a b t st =
     require (b \<ge> 0 \<or> wallet_of st a = None) (IntegrityError ''CHECK constraint failed: wallets'')
       (Inr (st\<lparr>wallets := update_where (\<lambda>w. wal_account w = a)
          (\<lambda>w. w\<lparr>wal_balance := b, wal_updated_at := t\<rparr>) (wallets st)\<rparr>))"

end
