(* ===== verification/RewardsLedger.thy ===== *)
theory RewardsLedger
  imports RewardsTables
begin

section \<open>Community rewards: the ledger, credits and account links\<close>

text \<open>
  \<^verbatim>\<open>Store._append_ledger\<close>, the only place of \<^verbatim>\<open>admin/community_rewards.py\<close> that moves
  credits, \<^verbatim>\<open>Store.credit\<close>, the audit \<^verbatim>\<open>Store.verify_ledger\<close>, and the link codes that
  tie a game account to a Discord user.
\<close>

text \<open>The hashed text of a ledger entry.\<close>

definition ledger_material ::
  "string \<Rightarrow> int \<Rightarrow> int \<Rightarrow> int \<Rightarrow> string \<Rightarrow> string \<Rightarrow> pyval \<Rightarrow> string \<Rightarrow> string \<Rightarrow> string" where
  "ledger_material i account delta after kind reference meta previous created =
     canonical (PDict [(''id'', PStr i), (''account'', PInt account), (''delta'', PInt delta),
       (''balanceAfter'', PInt after), (''kind'', PStr kind), (''reference'', PStr reference),
       (''metadata'', meta), (''previousHash'', PStr previous), (''createdAt'', PStr created)])"

definition last_hash :: "ledger_row list \<Rightarrow> string" where
  "last_hash rows = (if rows = [] then ZERO_HASH else led_entry_hash (last rows))"

definition append_ledger ::
  "store \<Rightarrow> int \<Rightarrow> int \<Rightarrow> pyval \<Rightarrow> pyval \<Rightarrow> pyval \<Rightarrow> (ledger_row \<times> store) res" where
  "append_ledger st account delta kind0 reference0 meta0 =
     require (\<not> (delta = 0 \<or> \<bar>delta\<bar> > MAX_LEDGER_AMOUNT)) (ValueError ''ledger delta is outside the supported range'')
    (bind_res (identifier_of reference0 ''reference'' 256) (\<lambda>reference.
     bind_res (identifier_of kind0 ''kind'' 64) (\<lambda>kind.
     let after = balance_of st account + delta in
     require (\<not> after < 0) (ValueError ''insufficient community credits'')
    (let previous = last_hash (ledger st);
         (entry_id, st1) = uuid4 st;
         (created, st2) = now st1;
         metadata_json = canonical (py_or meta0 (PDict []))
     in bind_res (json_loads metadata_json) (\<lambda>meta.
        let entry_hash = sha256_hex (ledger_material entry_id account delta after kind reference meta previous created);
            row = \<lparr>led_id = entry_id, led_account = account, led_delta = delta, led_balance_after = after,
                   led_kind = kind, led_reference = reference, led_metadata_json = metadata_json,
                   led_previous_hash = previous, led_entry_hash = entry_hash, led_created_at = created\<rparr>
        in sqlite_int after
          (bind_res (set_balance account after created st2) (\<lambda>st3.
           bind_res (insert_ledger row st3) (\<lambda>st4. Inr (row, st4)))))))))"

record credit_result =
  cre_id :: string
  cre_balance :: int
  cre_delta :: int
  cre_entry_hash :: string
  cre_idempotent :: bool

definition credit_result_of :: "ledger_row \<Rightarrow> bool \<Rightarrow> credit_result" where
  "credit_result_of r idem = \<lparr>cre_id = led_id r, cre_balance = led_balance_after r,
     cre_delta = led_delta r, cre_entry_hash = led_entry_hash r, cre_idempotent = idem\<rparr>"

definition credit ::
  "store \<Rightarrow> pyval \<Rightarrow> pyval \<Rightarrow> pyval \<Rightarrow> pyval \<Rightarrow> pyval \<Rightarrow> (credit_result \<times> store) res" where
  "credit st account0 amount0 kind reference meta =
     bind_res (positive_int amount0 ''amount'' MAX_LEDGER_AMOUNT) (\<lambda>amount.
     bind_res (ensure_account account0 st) (\<lambda>(account, st1).
     case row_where (\<lambda>l. led_reference l = py_str reference) (ledger st1) of
       Some existing \<Rightarrow> Inr (credit_result_of existing True, st1)
     | None \<Rightarrow> bind_res (append_ledger st1 account amount kind reference meta)
         (\<lambda>(row, st2). Inr (credit_result_of row False, st2))))"

subsection \<open>The audit of the ledger\<close>

record ledger_audit =
  aud_ok :: bool
  aud_entries :: nat
  aud_head :: string
  aud_errors :: "string list"

text \<open>
  One iteration of the loop of \<^verbatim>\<open>verify_ledger\<close>: \<open>previous\<close>, \<open>errors\<close> and \<open>balances\<close> are
  its variables.
\<close>

type_synonym audit_state = "string \<times> string list \<times> (int \<rightharpoonup> int)"

definition audit_row :: "audit_state \<Rightarrow> ledger_row \<Rightarrow> audit_state res" where
  "audit_row s row =
     (case s of (previous, errors, balances) \<Rightarrow>
        bind_res (json_loads (led_metadata_json row)) (\<lambda>meta.
        let expected = sha256_hex (ledger_material (led_id row) (led_account row) (led_delta row)
              (led_balance_after row) (led_kind row) (led_reference row) meta
              (led_previous_hash row) (led_created_at row));
            prior = (case balances (led_account row) of None \<Rightarrow> 0 | Some b \<Rightarrow> b);
            bad = (led_previous_hash row \<noteq> previous \<or> led_entry_hash row \<noteq> expected
                   \<or> led_balance_after row \<noteq> prior + led_delta row)
        in Inr (led_entry_hash row, if bad then errors @ [led_id row] else errors,
                balances(led_account row \<mapsto> led_balance_after row))))"

definition verify_ledger :: "store \<Rightarrow> ledger_audit res" where
  "verify_ledger st =
     bind_res (fold_res audit_row (ZERO_HASH, [], Map.empty) (ledger st)) (\<lambda>(previous, errors, balances).
       Inr \<lparr>aud_ok = (errors = []), aud_entries = length (ledger st), aud_head = previous,
            aud_errors = take 100 errors\<rparr>)"

subsection \<open>Link codes\<close>

definition link_code_text :: "string \<Rightarrow> string" where
  "link_code_text raw = upper (take 12 (filter (\<lambda>c. c \<noteq> CHR ''-'' \<and> c \<noteq> CHR ''_'') raw))"

text \<open>\<open>epoch\<close> is the system clock in whole seconds; the result is the code and its expiry.\<close>

definition create_link_code :: "store \<Rightarrow> pyval \<Rightarrow> pyval \<Rightarrow> int \<Rightarrow> ((string \<times> string) \<times> store) res" where
  "create_link_code st account0 ttl0 epoch =
     bind_res (py_int ttl0) (\<lambda>ttl1.
     let ttl = max 60 (min ttl1 86400);
         (raw, st1) = random_token st;
         code = link_code_text raw;
         digest = sha256_hex (utf8 code)
     in bind_res (check_datetime (epoch + ttl)) (\<lambda>expiry.
        let expires = iso_z expiry in
        bind_res (ensure_account account0 st1) (\<lambda>(account, st2).
        let kept = filter (\<lambda>l. \<not> (lc_account l = account \<and> lc_used_at l = None)) (link_codes st2);
            (t, st3) = now st2
        in require (\<forall>l\<in>set kept. lc_hash l \<noteq> digest) (IntegrityError ''UNIQUE constraint failed: link_codes'')
          (Inr ((code, expires),
             st3\<lparr>link_codes := kept @ [\<lparr>lc_hash = digest, lc_account = account, lc_expires_at = expires,
                 lc_used_at = None, lc_created_at = t\<rparr>]\<rparr>)))))"

definition link_code_used :: "link_code_row \<Rightarrow> bool" where
  "link_code_used l = (case lc_used_at l of None \<Rightarrow> False | Some t \<Rightarrow> t \<noteq> [])"

definition redeem_digest :: "pyval \<Rightarrow> string" where
  "redeem_digest v = sha256_hex (utf8 (upper (strip (str_or_empty v))))"

text \<open>No account has this Discord user, or the account being linked has it already.\<close>

definition discord_available :: "store \<Rightarrow> string \<Rightarrow> int \<Rightarrow> bool" where
  "discord_available st discord account =
     (case row_where (\<lambda>a. acc_discord a = Some discord) (accounts st) of
        None \<Rightarrow> True | Some c \<Rightarrow> acc_id c = account)"

text \<open>
  The result is the account linked and the instant.  The clock is read for the expiry test
  only when the code exists and is unused, as the \<^verbatim>\<open>or\<close> of the code evaluates it.
\<close>

definition redeem_link_code :: "store \<Rightarrow> pyval \<Rightarrow> pyval \<Rightarrow> ((string \<times> int \<times> string) \<times> store) res" where
  "redeem_link_code st discord0 code0 =
     bind_res (identifier_of discord0 ''discordUserId'' 64) (\<lambda>discord.
     let digest = redeem_digest code0;
         invalid = ValueError ''link code is invalid or expired'' in
     case row_where (\<lambda>l. lc_hash l = digest) (link_codes st) of
       None \<Rightarrow> Inl invalid
     | Some row \<Rightarrow>
         require (\<not> link_code_used row) invalid
        (let (t0, st1) = now st in
         require (\<not> lc_expires_at row < t0) invalid
        (require (discord_available st1 discord (lc_account row))
           (ValueError ''Discord user is already linked to another account'')
        (let (t, st2) = now st1 in
         Inr ((discord, lc_account row, t),
           st2\<lparr>accounts := update_where (\<lambda>a. acc_id a = lc_account row)
                  (\<lambda>a. a\<lparr>acc_discord := Some discord, acc_linked_at := Some t\<rparr>) (accounts st2),
               link_codes := update_where (\<lambda>l. lc_hash l = digest)
                  (\<lambda>l. l\<lparr>lc_used_at := Some t\<rparr>) (link_codes st2)\<rparr>)))))"

text \<open>Reads: an account and its balance, if the account has a wallet.\<close>

definition account_with_balance :: "store \<Rightarrow> account_row \<Rightarrow> (account_row \<times> int) list" where
  "account_with_balance st a = map (\<lambda>w. (a, wal_balance w)) (filter (\<lambda>w. wal_account w = acc_id a) (wallets st))"

definition account_for_discord :: "store \<Rightarrow> pyval \<Rightarrow> (account_row \<times> int) option" where
  "account_for_discord st discord =
     (case concat (map (account_with_balance st) (filter (\<lambda>a. acc_discord a = Some (py_str discord)) (accounts st))) of
        [] \<Rightarrow> None | r # _ \<Rightarrow> Some r)"

definition linked_accounts :: "store \<Rightarrow> (account_row \<times> int) list" where
  "linked_accounts st =
     concat (map (account_with_balance st) (sort_key acc_id (filter (\<lambda>a. acc_discord a \<noteq> None) (accounts st))))"

end
