(* ===== verification/RewardsShop.thy ===== *)
theory RewardsShop
  imports RewardsLedger
begin

section \<open>Community rewards: offers, purchases, deliveries, webhooks and playtime\<close>

text \<open>
  The mutating operations of \<^verbatim>\<open>Store\<close> in \<^verbatim>\<open>admin/community_rewards.py\<close> between
  \<^verbatim>\<open>purchase\<close> and \<^verbatim>\<open>observe_playtime\<close>, each with its guards in the order of the code.  A
  delivery is queued, claimed by a worker that gets a one-time token, and then completed,
  released for a retry, failed with a refund, or parked for reconciliation.
\<close>

subsection \<open>Purchases\<close>

definition offer_of :: "store \<Rightarrow> string \<Rightarrow> offer_row option" where
  "offer_of st i = row_where (\<lambda>r. off_id r = i) (offers st)"

definition in_stock :: "offer_row \<Rightarrow> int \<Rightarrow> bool" where
  "in_stock offer quantity = (case off_stock offer of None \<Rightarrow> True | Some s \<Rightarrow> \<not> s < quantity)"

definition take_stock :: "string \<Rightarrow> int \<Rightarrow> store \<Rightarrow> store" where
  "take_stock i q st = st\<lparr>offers := update_where (\<lambda>r. off_id r = i)
     (\<lambda>r. r\<lparr>off_stock := map_option (\<lambda>s. s - q) (off_stock r)\<rparr>) (offers st)\<rparr>"

text \<open>\<^verbatim>\<open>stock=stock+? where id=? and stock is not null\<close>\<close>

definition return_stock :: "string \<Rightarrow> int \<Rightarrow> store \<Rightarrow> store" where
  "return_stock i q st = st\<lparr>offers := update_where (\<lambda>r. off_id r = i)
     (\<lambda>r. r\<lparr>off_stock := map_option (\<lambda>s. s + q) (off_stock r)\<rparr>) (offers st)\<rparr>"

text \<open>The new purchase with the id of its delivery, or the earlier purchase with the same key.\<close>

definition purchase ::
  "store \<Rightarrow> pyval \<Rightarrow> pyval \<Rightarrow> pyval \<Rightarrow> pyval \<Rightarrow> ((purchase_row \<times> string option) \<times> store) res" where
  "purchase st account0 offer_id quantity0 key0 =
     bind_res (positive_int quantity0 ''quantity'' MAX_PURCHASE_QUANTITY) (\<lambda>quantity.
     bind_res (identifier_of key0 ''idempotencyKey'' 128) (\<lambda>key.
     let (t, st0) = now st in
     bind_res (ensure_account account0 st0) (\<lambda>(account, st1).
     case row_where (\<lambda>p. pur_account p = account \<and> pur_key p = key) (purchases st1) of
       Some existing \<Rightarrow> Inr ((existing, None), st1)
     | None \<Rightarrow>
        (case offer_of st1 (py_str offer_id) of
           None \<Rightarrow> Inl (ValueError ''offer is unavailable'')
         | Some offer \<Rightarrow>
             require (off_enabled offer) (ValueError ''offer is unavailable'')
            (require (in_stock offer quantity) (ValueError ''offer is out of stock'')
            (let (purchase_id, st2) = uuid4 st1;
                 (delivery_id, st3) = uuid4 st2;
                 total = off_price offer * quantity
             in bind_res (json_loads (off_rewards_json offer)) (\<lambda>loaded.
                bind_res (py_iter loaded) (\<lambda>items.
                let rewards = PList (concat (replicate (nat quantity) items));
                    row = \<lparr>pur_id = purchase_id, pur_account = account, pur_offer = off_id offer,
                           pur_offer_version = off_version offer, pur_quantity = quantity, pur_total = total,
                           pur_status = PurchaseQueued, pur_key = key, pur_error = None,
                           pur_created_at = t, pur_updated_at = t\<rparr>
                in bind_res (insert_purchase row st3) (\<lambda>st4.
                   bind_res (if total \<noteq> 0
                       then map_sum id snd (append_ledger st4 account (- total) (PStr ''purchase'')
                              (PStr (''purchase:'' @ purchase_id))
                              (PDict [(''offerId'', PStr (off_id offer)), (''quantity'', PInt quantity)]))
                       else Inr st4) (\<lambda>st5.
                   let st6 = (if off_stock offer \<noteq> None then take_stock (off_id offer) quantity st5 else st5)
                   in bind_res (insert_delivery delivery_id ''purchase'' purchase_id account (canonical rewards) t t st6) (\<lambda>st7.
                      Inr ((row, Some delivery_id), st7))))))))))))"

subsection \<open>Deliveries: claim, complete, release\<close>

definition delivery_of :: "store \<Rightarrow> string \<Rightarrow> delivery_row option" where
  "delivery_of st i = row_where (\<lambda>d. del_id d = i) (deliveries st)"

definition purchase_of :: "store \<Rightarrow> string \<Rightarrow> purchase_row option" where
  "purchase_of st i = row_where (\<lambda>p. pur_id p = i) (purchases st)"

definition update_delivery :: "string \<Rightarrow> (delivery_row \<Rightarrow> delivery_row) \<Rightarrow> store \<Rightarrow> store" where
  "update_delivery i f st = st\<lparr>deliveries := update_where (\<lambda>d. del_id d = i) f (deliveries st)\<rparr>"

definition update_purchase :: "string \<Rightarrow> (purchase_row \<Rightarrow> purchase_row) \<Rightarrow> store \<Rightarrow> store" where
  "update_purchase i f st = st\<lparr>purchases := update_where (\<lambda>p. pur_id p = i) f (purchases st)\<rparr>"

definition claimable :: "delivery_row \<Rightarrow> bool" where
  "claimable d = (del_status d = Queued \<or> del_status d = Retry)"

text \<open>\<^verbatim>\<open>order by created_at limit 1\<close>: the first row with the least creation text.\<close>

fun oldest :: "delivery_row list \<Rightarrow> delivery_row option" where
  "oldest [] = None"
| "oldest (d # ds) = (case oldest ds of
     None \<Rightarrow> Some d
   | Some e \<Rightarrow> if del_created_at e < del_created_at d then Some e else Some d)"

definition claim_target :: "store \<Rightarrow> pyval \<Rightarrow> delivery_row option" where
  "claim_target st delivery_id =
     (if truthy delivery_id
      then row_where (\<lambda>d. del_id d = py_str delivery_id \<and> claimable d) (deliveries st)
      else oldest (filter claimable (deliveries st)))"

text \<open>The claimed row with its decoded rewards, or nothing to do.\<close>

definition claim_delivery :: "store \<Rightarrow> pyval \<Rightarrow> ((delivery_row \<times> pyval) option \<times> store) res" where
  "claim_delivery st delivery_id =
     (case claim_target st delivery_id of
        None \<Rightarrow> Inr (None, st)
      | Some row \<Rightarrow>
          let (tok, st1) = random_token st;
              (t, st2) = now st1;
              claim = (\<lambda>d. d\<lparr>del_status := Processing, del_attempts := del_attempts d + 1,
                         del_token := Some tok, del_claimed_at := Some t, del_updated_at := t\<rparr>)
          in bind_res (json_loads (del_rewards_json row)) (\<lambda>rewards.
             Inr (Some (claim row, rewards), update_delivery (del_id row) claim st2)))"

text \<open>
  The guard the three ways to settle a claim share: the delivery exists, is being
  processed, and the caller presents the token of the claim.
\<close>

definition claimed_row :: "store \<Rightarrow> pyval \<Rightarrow> pyval \<Rightarrow> delivery_row res" where
  "claimed_row st delivery_id claim_token =
     (let stale = ValueError ''delivery claim is stale or invalid'' in
      case delivery_of st (py_str delivery_id) of
        None \<Rightarrow> Inl stale
      | Some row \<Rightarrow>
          require (del_status row = Processing) stale
         (bind_res (compare_digest (case del_token row of None \<Rightarrow> [] | Some tok \<Rightarrow> tok) (str_or_empty claim_token)) (\<lambda>same.
          require same stale (Inr row))))"

definition complete_delivery :: "store \<Rightarrow> pyval \<Rightarrow> pyval \<Rightarrow> pyval \<Rightarrow> ((string \<times> string) \<times> store) res" where
  "complete_delivery st delivery_id claim_token receipt =
     bind_res (claimed_row st delivery_id claim_token) (\<lambda>row.
     let (t, st1) = now st;
         st2 = update_delivery (del_id row) (\<lambda>d. d\<lparr>del_status := Delivered, del_delivered_at := Some t,
                 del_receipt := Some (canonical (py_or receipt (PDict []))), del_token := None,
                 del_error := None, del_updated_at := t\<rparr>) st1;
         st3 = (if del_source_type row = ''purchase''
                then update_purchase (del_source row) (\<lambda>p. p\<lparr>pur_status := PurchaseDelivered, pur_updated_at := t\<rparr>) st2
                else st2)
     in Inr ((del_id row, t), st3))"

definition release_delivery :: "store \<Rightarrow> pyval \<Rightarrow> pyval \<Rightarrow> pyval \<Rightarrow> (string \<times> store) res" where
  "release_delivery st delivery_id claim_token reason =
     bind_res (claimed_row st delivery_id claim_token) (\<lambda>row.
     let (t, st1) = now st in
     Inr (del_id row, update_delivery (del_id row) (\<lambda>d. d\<lparr>del_status := Retry,
        del_error := Some (take 2000 (py_str (py_or reason (PStr ''retry requested'')))),
        del_token := None, del_updated_at := t\<rparr>) st1))"

subsection \<open>Deliveries: refunds, failure, reconciliation\<close>

text \<open>
  The refund inside \<^verbatim>\<open>fail_delivery\<close> and \<^verbatim>\<open>resolve_reconciliation\<close>: the price goes back to
  the wallet, the stock to the offer, and the purchase becomes refunded.  The result says
  whether a refund took place; a purchase that is refunded or delivered is left alone.
\<close>

definition refund_purchase ::
  "delivery_row \<Rightarrow> string \<Rightarrow> string \<Rightarrow> string \<Rightarrow> string \<Rightarrow> string \<Rightarrow> store \<Rightarrow> (bool \<times> store) res" where
  "refund_purchase row kind note_key note error_text t st =
     (if del_source_type row \<noteq> ''purchase'' then Inr (False, st)
      else case purchase_of st (del_source row) of
        None \<Rightarrow> Inr (False, st)
      | Some p \<Rightarrow>
          if pur_status p = PurchaseRefunded \<or> pur_status p = PurchaseDelivered then Inr (False, st)
          else bind_res (if pur_total p \<noteq> 0
                 then map_sum id snd (append_ledger st (pur_account p) (pur_total p) (PStr kind)
                        (PStr (''refund:'' @ pur_id p))
                        (PDict [(''deliveryId'', PStr (del_id row)), (note_key, PStr note)]))
                 else Inr st) (\<lambda>st1.
               Inr (True, update_purchase (pur_id p)
                 (\<lambda>q. q\<lparr>pur_status := PurchaseRefunded, pur_error := Some error_text, pur_updated_at := t\<rparr>)
                 (return_stock (pur_offer p) (pur_quantity p) st1))))"

text \<open>The delivery id, its new status and whether a refund took place.\<close>

definition fail_delivery ::
  "store \<Rightarrow> pyval \<Rightarrow> pyval \<Rightarrow> pyval \<Rightarrow> bool \<Rightarrow> ((string \<times> delivery_status \<times> bool) \<times> store) res" where
  "fail_delivery st delivery_id claim_token error0 definitive =
     bind_res (claimed_row st delivery_id claim_token) (\<lambda>row.
     let error = take 2000 (py_str (py_or error0 (PStr ''delivery failed'')));
         (t, st1) = now st
     in if \<not> definitive then
          Inr ((del_id row, Reconciliation, False), update_delivery (del_id row)
            (\<lambda>d. d\<lparr>del_status := Reconciliation, del_error := Some error, del_token := None, del_updated_at := t\<rparr>) st1)
        else bind_res (refund_purchase row ''delivery-refund'' ''error'' error error t st1) (\<lambda>(refunded, st2).
          Inr ((del_id row, Failed, refunded), update_delivery (del_id row)
            (\<lambda>d. d\<lparr>del_status := Failed, del_error := Some error, del_token := None, del_updated_at := t\<rparr>) st2)))"

definition resolve_reconciliation ::
  "store \<Rightarrow> pyval \<Rightarrow> bool \<Rightarrow> pyval \<Rightarrow> pyval \<Rightarrow> ((string \<times> delivery_status \<times> bool) \<times> store) res" where
  "resolve_reconciliation st delivery_id delivered receipt reason =
     (case row_where (\<lambda>d. del_id d = py_str delivery_id \<and> del_status d = Reconciliation) (deliveries st) of
        None \<Rightarrow> Inl (ValueError ''delivery is not awaiting reconciliation'')
      | Some row \<Rightarrow>
          let (t, st1) = now st in
          if delivered then
            let st2 = update_delivery (del_id row) (\<lambda>d. d\<lparr>del_status := Delivered, del_delivered_at := Some t,
                        del_receipt := Some (canonical (py_or receipt (PDict [(''reconciled'', PBool True)]))),
                        del_error := None, del_updated_at := t\<rparr>) st1;
                st3 = (if del_source_type row = ''purchase''
                       then update_purchase (del_source row)
                         (\<lambda>p. p\<lparr>pur_status := PurchaseDelivered, pur_error := None, pur_updated_at := t\<rparr>) st2
                       else st2)
            in Inr ((del_id row, Delivered, False), st3)
          else bind_res (refund_purchase row ''reconciliation-refund'' ''reason'' (take 1000 (py_str reason))
                 (take 2000 (py_str reason)) t st1) (\<lambda>(refunded, st2).
               Inr ((del_id row, Failed, refunded), update_delivery (del_id row)
                 (\<lambda>d. d\<lparr>del_status := Failed, del_error := Some (take 2000 (py_str reason)), del_updated_at := t\<rparr>) st2)))"

subsection \<open>Webhook credits\<close>

record webhook_result =
  whr_provider :: string
  whr_event :: string
  whr_account :: int
  whr_amount :: int
  whr_ledger :: string
  whr_balance :: "int option"
  whr_idempotent :: bool

definition ingest_webhook ::
  "store \<Rightarrow> pyval \<Rightarrow> pyval \<Rightarrow> pyval \<Rightarrow> pyval \<Rightarrow> pyval \<Rightarrow> (webhook_result \<times> store) res" where
  "ingest_webhook st provider0 event0 account0 amount0 payload =
     bind_res (identifier_of provider0 ''provider'' 32) (\<lambda>provider1.
     let provider = lower provider1 in
     bind_res (identifier_of event0 ''eventId'' 128) (\<lambda>event.
     bind_res (positive_int amount0 ''amount'' MAX_LEDGER_AMOUNT) (\<lambda>amount.
     let digest = sha256_hex (canonical payload) in
     case row_where (\<lambda>w. wh_provider w = provider \<and> wh_event w = event) (webhook_receipts st) of
       Some existing \<Rightarrow>
         require (wh_payload_sha256 existing = digest)
           (ValueError ''webhook event id was reused with a different payload'')
           (Inr (\<lparr>whr_provider = wh_provider existing, whr_event = wh_event existing,
                  whr_account = wh_account existing, whr_amount = wh_amount existing,
                  whr_ledger = wh_ledger existing, whr_balance = None, whr_idempotent = True\<rparr>, st))
     | None \<Rightarrow>
         bind_res (ensure_account account0 st) (\<lambda>(account, st1).
         bind_res (append_ledger st1 account amount (PStr (''webhook-'' @ provider))
             (PStr (''webhook:'' @ provider @ '':'' @ event)) (PDict [(''payloadSha256'', PStr digest)])) (\<lambda>(row, st2).
         let (t, st3) = now st2 in
         Inr (\<lparr>whr_provider = provider, whr_event = event, whr_account = account, whr_amount = amount,
               whr_ledger = led_id row, whr_balance = Some (led_balance_after row), whr_idempotent = False\<rparr>,
              st3\<lparr>webhook_receipts := webhook_receipts st3 @ [\<lparr>wh_provider = provider, wh_event = event,
                 wh_payload_sha256 = digest, wh_account = account, wh_amount = amount,
                 wh_ledger = led_id row, wh_created_at = t\<rparr>]\<rparr>))))))"

subsection \<open>Playtime credits\<close>

record playtime_result =
  ptr_credited :: int
  ptr_intervals :: int
  ptr_remainder :: "int option"
  ptr_balance :: "int option"
  ptr_first :: bool

text \<open>Seconds counted since the last observation: only online time, at most \<open>max_gap\<close>.\<close>

definition playtime_elapsed :: "playtime_row \<Rightarrow> int \<Rightarrow> int \<Rightarrow> int" where
  "playtime_elapsed row observed max_gap =
     (if pt_online row then max 0 (min (observed - pt_observed_at row) max_gap) else 0)"

definition observe_playtime ::
  "store \<Rightarrow> pyval \<Rightarrow> pyval \<Rightarrow> pyval \<Rightarrow> pyval \<Rightarrow> pyval \<Rightarrow> pyval \<Rightarrow> (playtime_result \<times> store) res" where
  "observe_playtime st account0 online observed0 interval0 credits0 max_gap0 =
     bind_res (py_int observed0) (\<lambda>observed.
     bind_res (positive_int interval0 ''intervalSeconds'' 86400) (\<lambda>interval.
     bind_res (positive_int credits0 ''creditsPerInterval'' 1000000) (\<lambda>credits.
     bind_res (py_int max_gap0) (\<lambda>gap.
     let max_gap = max interval (min gap 86400) in
     bind_res (ensure_account account0 st) (\<lambda>(account, st1).
     case row_where (\<lambda>p. pt_account p = account) (playtime_checkpoints st1) of
       None \<Rightarrow> sqlite_int observed
         (Inr (\<lparr>ptr_credited = 0, ptr_intervals = 0, ptr_remainder = None, ptr_balance = None, ptr_first = True\<rparr>,
           st1\<lparr>playtime_checkpoints := playtime_checkpoints st1 @ [\<lparr>pt_account = account,
              pt_observed_at = observed, pt_online = truthy online, pt_remainder = 0, pt_credited = 0\<rparr>]\<rparr>))
     | Some row \<Rightarrow>
         let elapsed = playtime_elapsed row observed max_gap;
             total = pt_remainder row + elapsed;
             intervals = total div interval;
             remainder = total mod interval;
             credited = intervals * credits;
             st2 = st1\<lparr>playtime_checkpoints := update_where (\<lambda>p. pt_account p = account)
               (\<lambda>p. p\<lparr>pt_observed_at := observed, pt_online := truthy online, pt_remainder := remainder,
                  pt_credited := pt_credited p + intervals\<rparr>) (playtime_checkpoints st1)\<rparr>
         in sqlite_int observed
           (if credited = 0 then
              Inr (\<lparr>ptr_credited = credited, ptr_intervals = intervals, ptr_remainder = Some remainder,
                    ptr_balance = None, ptr_first = False\<rparr>, st2)
            else bind_res (append_ledger st2 account credited (PStr ''playtime'')
                (PStr (''playtime:'' @ show_int account @ '':'' @ show_int (pt_credited row + intervals)))
                (PDict [(''seconds'', PInt (intervals * interval))])) (\<lambda>(lrow, st3).
              Inr (\<lparr>ptr_credited = credited, ptr_intervals = intervals, ptr_remainder = Some remainder,
                    ptr_balance = Some (led_balance_after lrow), ptr_first = False\<rparr>, st3))))))))"

end
