(* ===== verification/RewardsEngagement.thy ===== *)
theory RewardsEngagement
  imports RewardsShop
begin

section \<open>Community rewards: configuration sync, reward tracks and engagement\<close>

text \<open>
  \<^verbatim>\<open>Store.sync_config\<close>, the reward tracks and the engagement observer of
  \<^verbatim>\<open>admin/community_rewards.py\<close>.  The levels of a track are stored as JSON text by the code
  and kept decoded here.  The observer compares squared distances where the code compares
  a square root, which is the same comparison for the non-negative minimum it is given.
\<close>

subsection \<open>Synchronising offers and tracks\<close>

definition is_blank :: "pyval \<Rightarrow> bool" where
  "is_blank v = (v = PNone \<or> v = PStr [])"

definition offer_from_config :: "string \<Rightarrow> pyval \<Rightarrow> offer_row res" where
  "offer_from_config t v =
     (case as_dict v of
        None \<Rightarrow> Inl (ValueError ''offer entries must be objects'')
      | Some raw \<Rightarrow>
          bind_res (identifier_of (pget raw ''id'') ''offer id'' 64) (\<lambda>offer_id.
          bind_res (positive_int (pget_default raw ''version'' (PInt 1)) ''offer version'' 1000000) (\<lambda>version.
          bind_res (py_int (pget_default raw ''price'' (PInt 0))) (\<lambda>price.
          require (\<not> (price < 0 \<or> price > MAX_LEDGER_AMOUNT)) (ValueError ''offer price is outside the supported range'')
         (bind_res (if is_blank (pget raw ''stock'') then Inr None else map_sum id Some (py_int (pget raw ''stock''))) (\<lambda>stock.
          require (case stock of None \<Rightarrow> True | Some s \<Rightarrow> \<not> s < 0) (ValueError ''offer stock cannot be negative'')
         (bind_res (rewards (pget raw ''rewards'')) (\<lambda>items.
          bind_res (identifier_of (pget_default raw ''name'' (PStr offer_id)) ''offer name'' 128) (\<lambda>name.
          sqlite_int (case stock of None \<Rightarrow> 0 | Some s \<Rightarrow> s)
         (Inr \<lparr>off_id = offer_id, off_version = version, off_name = name,
               off_description = take 1000 (str_or_empty (pget raw ''description'')),
               off_kind = take 32 (py_str (py_or (pget raw ''kind'') (PStr ''item''))),
               off_price = price, off_stock = stock,
               off_enabled = truthy (pget_default raw ''enabled'' (PBool True)),
               off_rewards_json = canonical (rewards_json items), off_updated_at = t\<rparr>))))))))))"

text \<open>A changed version takes the configured stock, the same version keeps the stock left.\<close>

definition upsert_offer :: "offer_row \<Rightarrow> offer_row list \<Rightarrow> offer_row list" where
  "upsert_offer new rows =
     (if \<exists>r\<in>set rows. off_id r = off_id new
      then update_where (\<lambda>r. off_id r = off_id new)
             (\<lambda>r. new\<lparr>off_stock := (if off_version r = off_version new then off_stock r else off_stock new)\<rparr>) rows
      else rows @ [new])"

fun levels_from :: "int \<Rightarrow> pyval list \<Rightarrow> (int \<times> reward_item list) list res" where
  "levels_from previous_xp [] = Inr []"
| "levels_from previous_xp (v # vs) =
     (case as_dict v of
        None \<Rightarrow> Inl (ValueError ''track levels must be objects'')
      | Some level \<Rightarrow>
          bind_res (py_int (pget_default level ''xp'' (PInt 0))) (\<lambda>xp.
          require (\<not> xp \<le> previous_xp) (ValueError ''track level XP thresholds must increase'')
         (bind_res (rewards (pget level ''rewards'')) (\<lambda>items.
          bind_res (levels_from xp vs) (\<lambda>rest. Inr ((xp, items) # rest))))))"

fun bindable :: "pyval \<Rightarrow> bool" where
  "bindable (PList vs) = False"
| "bindable (PDict d) = False"
| "bindable (PInt i) = (- (2 ^ 63) \<le> i \<and> i < 2 ^ 63)"
| "bindable _ = True"

definition track_from_config :: "string \<Rightarrow> pyval \<Rightarrow> track_row res" where
  "track_from_config t v =
     (case as_dict v of
        None \<Rightarrow> Inl (ValueError ''track entries must be objects'')
      | Some raw \<Rightarrow>
          bind_res (identifier_of (pget raw ''id'') ''track id'' 64) (\<lambda>track_id.
          bind_res (positive_int (pget_default raw ''version'' (PInt 1)) ''track version'' 1000000) (\<lambda>version.
          case as_list (pget raw ''levels'') of
            None \<Rightarrow> Inl (ValueError ''track levels must be a non-empty array'')
          | Some levels \<Rightarrow>
              require (levels \<noteq> []) (ValueError ''track levels must be a non-empty array'')
             (bind_res (levels_from (-1) levels) (\<lambda>normalized.
              bind_res (identifier_of (pget_default raw ''name'' (PStr track_id)) ''track name'' 128) (\<lambda>name.
              require (bindable (pget raw ''startsAt'') \<and> bindable (pget raw ''endsAt''))
                (TypeError ''Error binding parameter: type is not supported'')
             (Inr \<lparr>trk_id = track_id, trk_version = version, trk_name = name,
                   trk_enabled = truthy (pget_default raw ''enabled'' (PBool True)),
                   trk_starts_at = pget raw ''startsAt'', trk_ends_at = pget raw ''endsAt'',
                   trk_levels = normalized, trk_updated_at = t\<rparr>)))))))"

definition upsert_track :: "track_row \<Rightarrow> track_row list \<Rightarrow> track_row list" where
  "upsert_track new rows =
     (if \<exists>r\<in>set rows. trk_id r = trk_id new \<and> trk_version r = trk_version new
      then update_where (\<lambda>r. trk_id r = trk_id new \<and> trk_version r = trk_version new) (\<lambda>r. new) rows
      else rows @ [new])"

definition sync_config :: "store \<Rightarrow> string option \<Rightarrow> store res" where
  "sync_config st file =
     bind_res (load_config file) (\<lambda>config.
     let (t, st1) = now st in
     bind_res (py_iter (pget_default config ''offers'' (PList []))) (\<lambda>offer_values.
     bind_res (map_res (offer_from_config t) offer_values) (\<lambda>new_offers.
     bind_res (py_iter (pget_default config ''tracks'' (PList []))) (\<lambda>track_values.
     bind_res (map_res (track_from_config t) track_values) (\<lambda>new_tracks.
     let upserted = fold upsert_offer new_offers (offers st1) in
     Inr (st1\<lparr>offers := update_where (\<lambda>r. off_id r \<notin> off_id ` set new_offers) (\<lambda>r. r\<lparr>off_enabled := False\<rparr>) upserted,
              tracks := fold upsert_track new_tracks (tracks st1)\<rparr>))))))"

subsection \<open>Reward tracks\<close>

text \<open>\<^verbatim>\<open>where id=? and enabled=1 order by version desc limit 1\<close>\<close>

fun newest_track :: "string \<Rightarrow> track_row list \<Rightarrow> track_row option" where
  "newest_track i [] = None"
| "newest_track i (r # rs) =
     (if trk_id r = i \<and> trk_enabled r then
        (case newest_track i rs of None \<Rightarrow> Some r
         | Some q \<Rightarrow> if trk_version q > trk_version r then Some q else Some r)
      else newest_track i rs)"

definition progress_xp :: "store \<Rightarrow> int \<Rightarrow> string \<Rightarrow> int \<Rightarrow> int" where
  "progress_xp st a i v =
     (case row_where (\<lambda>p. prg_account p = a \<and> prg_track p = i \<and> prg_version p = v) (track_progress st) of
        None \<Rightarrow> 0 | Some p \<Rightarrow> prg_xp p)"

definition upsert_progress :: "progress_row \<Rightarrow> progress_row list \<Rightarrow> progress_row list" where
  "upsert_progress new rows =
     (if \<exists>p\<in>set rows. prg_account p = prg_account new \<and> prg_track p = prg_track new \<and> prg_version p = prg_version new
      then update_where (\<lambda>p. prg_account p = prg_account new \<and> prg_track p = prg_track new \<and> prg_version p = prg_version new)
             (\<lambda>p. p\<lparr>prg_xp := prg_xp p + prg_xp new, prg_updated_at := prg_updated_at new\<rparr>) rows
      else rows @ [new])"

definition progress_marker :: "track_row \<Rightarrow> string \<Rightarrow> string" where
  "progress_marker track reference =
     ''track-progress:'' @ trk_id track @ '':'' @ show_int (trk_version track) @ '':'' @ reference"

text \<open>The XP after the call and whether the reference had been counted before.\<close>

definition add_track_progress_in ::
  "store \<Rightarrow> int \<Rightarrow> pyval \<Rightarrow> pyval \<Rightarrow> pyval \<Rightarrow> ((int \<times> bool) \<times> store) res" where
  "add_track_progress_in st account track_id amount0 reference0 =
     bind_res (positive_int amount0 ''amount'' MAX_LEDGER_AMOUNT) (\<lambda>amount.
     case newest_track (py_str track_id) (tracks st) of
       None \<Rightarrow> Inl (ValueError (''reward track '' @ py_repr track_id @ '' is unavailable''))
     | Some track \<Rightarrow>
         bind_res (identifier_of reference0 ''reference'' 128) (\<lambda>reference.
         let marker = progress_marker track reference in
         if marker \<in> fst ` set (metadata st)
         then Inr ((progress_xp st account (trk_id track) (trk_version track), True), st)
         else
           let (t, st1) = now st;
               st2 = st1\<lparr>track_progress := upsert_progress
                       \<lparr>prg_account = account, prg_track = trk_id track, prg_version = trk_version track,
                        prg_xp = amount, prg_updated_at = t\<rparr> (track_progress st1),
                     metadata := metadata st1 @ [(marker, t)]\<rparr>
           in Inr ((progress_xp st2 account (trk_id track) (trk_version track), False), st2)))"

definition add_track_progress ::
  "store \<Rightarrow> pyval \<Rightarrow> pyval \<Rightarrow> pyval \<Rightarrow> pyval \<Rightarrow> ((int \<times> bool) \<times> store) res" where
  "add_track_progress st account0 track_id amount reference =
     bind_res (ensure_account account0 st) (\<lambda>(account, st1).
       add_track_progress_in st1 account track_id amount reference)"

text \<open>The delivery id, and whether the level had been claimed before.\<close>

definition claim_track_level :: "store \<Rightarrow> pyval \<Rightarrow> pyval \<Rightarrow> pyval \<Rightarrow> ((string \<times> bool) \<times> store) res" where
  "claim_track_level st account0 track_id level0 =
     bind_res (positive_int level0 ''level'' 10000) (\<lambda>level.
     let (t, st0) = now st in
     bind_res (ensure_account account0 st0) (\<lambda>(account, st1).
     case newest_track (py_str track_id) (tracks st1) of
       None \<Rightarrow> Inl (ValueError ''reward track is unavailable'')
     | Some track \<Rightarrow>
         let levels = trk_levels track in
         require (\<not> level > int (length levels)) (ValueError ''reward track level does not exist'')
        (let (xp, items) = levels ! nat (level - 1) in
         require (\<not> progress_xp st1 account (trk_id track) (trk_version track) < xp)
           (ValueError ''reward track level is not unlocked'')
        (case row_where (\<lambda>c. tcl_account c = account \<and> tcl_track c = trk_id track \<and>
                tcl_version c = trk_version track \<and> tcl_level c = level) (track_claims st1) of
           Some existing \<Rightarrow> Inr ((tcl_delivery existing, True), st1)
         | None \<Rightarrow>
             let (delivery_id, st2) = uuid4 st1;
                 source = show_int account @ '':'' @ trk_id track @ '':'' @ show_int (trk_version track) @ '':'' @ show_int level
             in bind_res (insert_delivery delivery_id ''track-claim'' source account (canonical (rewards_json items)) t t st2) (\<lambda>st3.
                Inr ((delivery_id, False), st3\<lparr>track_claims := track_claims st3 @ [\<lparr>tcl_account = account,
                   tcl_track = trk_id track, tcl_version = trk_version track, tcl_level = level,
                   tcl_delivery = delivery_id, tcl_claimed_at = t\<rparr>]\<rparr>))))))"

subsection \<open>Granting an engagement reward once\<close>

record grant =
  gr_kind :: string
  gr_period :: string
  gr_tier :: int
  gr_delivery :: "string option"
  gr_ledger :: "string option"
  gr_idempotent :: bool

definition grant_engagement_reward ::
  "store \<Rightarrow> int \<Rightarrow> string \<Rightarrow> string \<Rightarrow> int \<Rightarrow> engagement_reward \<Rightarrow> (grant \<times> store) res" where
  "grant_engagement_reward st account kind period tier reward =
     (case row_where (\<lambda>c. clm_account c = account \<and> clm_kind c = kind \<and> clm_period c = period \<and> clm_tier c = tier)
             (engagement_claims st) of
        Some existing \<Rightarrow> Inr (\<lparr>gr_kind = kind, gr_period = period, gr_tier = tier,
            gr_delivery = clm_delivery existing, gr_ledger = clm_ledger existing, gr_idempotent = True\<rparr>, st)
      | None \<Rightarrow>
          let source = ''engagement:'' @ kind @ '':'' @ show_int account @ '':'' @ period @ '':'' @ show_int tier in
          bind_res (if er_credits reward \<noteq> 0
              then map_sum id (\<lambda>(row, s). (Some (led_id row), s))
                (append_ledger st account (er_credits reward) (PStr (''engagement-'' @ kind)) (PStr source)
                   (PDict [(''periodKey'', PStr period), (''tier'', PInt tier)]))
              else Inr (None, st)) (\<lambda>(ledger_id, st1).
          bind_res (case er_track reward of
                None \<Rightarrow> Inr st1
              | Some (track_id, xp) \<Rightarrow> map_sum id snd
                  (add_track_progress_in st1 account (PStr track_id) (PInt xp) (PStr source))) (\<lambda>st2.
          bind_res (if er_items reward = [] then Inr (None, st2)
              else let (delivery_id, st2a) = uuid4 st2; (t1, st2b) = now st2a; (t2, st2c) = now st2b
                   in map_sum id (\<lambda>s. (Some delivery_id, s))
                        (insert_delivery delivery_id (''engagement-'' @ kind) source account
                           (canonical (rewards_json (er_items reward))) t1 t2 st2c)) (\<lambda>(delivery_id, st3).
          let (claim_id, st4) = uuid4 st3; (t, st5) = now st4 in
          require (\<forall>c\<in>set (engagement_claims st5). clm_id c \<noteq> claim_id)
            (IntegrityError ''UNIQUE constraint failed: engagement_claims'')
            (Inr (\<lparr>gr_kind = kind, gr_period = period, gr_tier = tier,
                   gr_delivery = delivery_id, gr_ledger = ledger_id, gr_idempotent = False\<rparr>,
              st5\<lparr>engagement_claims := engagement_claims st5 @ [\<lparr>clm_id = claim_id, clm_account = account,
                 clm_kind = kind, clm_period = period, clm_tier = tier,
                 clm_reward_json = canonical (engagement_reward_json reward),
                 clm_delivery = delivery_id, clm_ledger = ledger_id, clm_created_at = t\<rparr>]\<rparr>))))))"

subsection \<open>Observing a player\<close>

record location =
  loc_map :: "string option"
  loc_partition :: "int option"
  loc_x :: "rat option"
  loc_y :: "rat option"
  loc_z :: "rat option"

definition no_location :: location where
  "no_location = \<lparr>loc_map = None, loc_partition = None, loc_x = None, loc_y = None, loc_z = None\<rparr>"

definition coordinate :: "(string \<times> pyval) list \<Rightarrow> string \<Rightarrow> rat \<Rightarrow> rat option res" where
  "coordinate d key precision =
     (if is_blank (pget d key) then Inr None
      else bind_res (py_float (pget d key)) (\<lambda>x. Inr (Some (of_int (py_round (x / precision)) * precision))))"

definition location_of :: "pyval \<Rightarrow> rat \<Rightarrow> location res" where
  "location_of v precision =
     (case as_dict v of
        None \<Rightarrow> Inr no_location
      | Some d \<Rightarrow>
          let m = strip (str_or_empty (pget d ''map''));
              partition = pget_default d ''partitionId'' (pget d ''partition_id'')
          in bind_res (if is_blank partition then Inr None else map_sum id Some (py_int partition)) (\<lambda>part.
             bind_res (coordinate d ''x'' precision) (\<lambda>x.
             bind_res (coordinate d ''y'' precision) (\<lambda>y.
             bind_res (coordinate d ''z'' precision) (\<lambda>z.
             Inr \<lparr>loc_map = (if m = [] then None else Some m), loc_partition = part,
                  loc_x = x, loc_y = y, loc_z = z\<rparr>)))))"

text \<open>Whether the player has moved, and the squared distance when there is one.\<close>

definition movement_proven :: "location \<Rightarrow> location \<Rightarrow> rat \<Rightarrow> bool \<times> rat option" where
  "movement_proven previous current minimum_distance =
     (case (loc_map previous, loc_map current) of
        (Some m, Some m') \<Rightarrow>
          if m = [] \<or> m' = [] then (False, None)
          else if m \<noteq> m' \<or> loc_partition previous \<noteq> loc_partition current then (True, None)
          else (case (loc_x previous, loc_y previous, loc_z previous, loc_x current, loc_y current, loc_z current) of
                  (Some x, Some y, Some z, Some x', Some y', Some z') \<Rightarrow>
                    (let squared = (x' - x)\<^sup>2 + (y' - y)\<^sup>2 + (z' - z)\<^sup>2
                     in (minimum_distance\<^sup>2 \<le> squared, Some squared))
                | _ \<Rightarrow> (False, None))
      | _ \<Rightarrow> (False, None))"

text \<open>The last tier of the increasing prefix whose threshold is reached.\<close>

fun tier_for :: "tier list \<Rightarrow> int \<Rightarrow> tier option" where
  "tier_for [] v = None"
| "tier_for (t # ts) v =
     (if fst t \<le> v then (case tier_for ts v of None \<Rightarrow> Some t | Some u \<Rightarrow> Some u) else None)"

definition checkpoint_location :: "checkpoint_row \<Rightarrow> location" where
  "checkpoint_location r = \<lparr>loc_map = cp_map r, loc_partition = cp_partition r,
     loc_x = cp_x r, loc_y = cp_y r, loc_z = cp_z r\<rparr>"

type_synonym grants_state = "grant list \<times> store"

definition grant_into ::
  "int \<Rightarrow> string \<Rightarrow> string \<Rightarrow> grants_state \<Rightarrow> tier \<Rightarrow> grants_state res" where
  "grant_into account kind period gs t =
     bind_res (grant_engagement_reward (snd gs) account kind period (fst t) (snd t)) (\<lambda>(g, st).
       Inr (fst gs @ [g], st))"

text \<open>The day of the observation: its row, the streak, and the daily reward of a new day.\<close>

definition observe_day ::
  "engagement_policy \<Rightarrow> int \<Rightarrow> int \<Rightarrow> int \<Rightarrow> grants_state \<Rightarrow> grants_state res" where
  "observe_day policy account observed active_seconds gs =
     (let st = snd gs; day = iso_date (day_of observed) in
      if \<exists>r\<in>set (engagement_days st). day_account r = account \<and> day_key r = day
      then Inr (fst gs, st\<lparr>engagement_days := update_where (\<lambda>r. day_account r = account \<and> day_key r = day)
             (\<lambda>r. r\<lparr>day_seconds := day_seconds r + active_seconds, day_last_at := observed\<rparr>) (engagement_days st)\<rparr>)
      else require (datetime_range (observed - 86400)) (OverflowError ''date value out of range'')
       (let yesterday = iso_date (day_of observed - 1);
            streak = (case row_where (\<lambda>r. day_account r = account \<and> day_key r = yesterday) (engagement_days st) of
                        None \<Rightarrow> 0 | Some r \<Rightarrow> day_streak r) + 1;
            st1 = st\<lparr>engagement_days := engagement_days st @ [\<lparr>day_account = account, day_key = day,
                    day_seconds = active_seconds, day_streak = streak, day_first_at = observed, day_last_at = observed\<rparr>]\<rparr>
        in if ep_daily_enabled policy then
             (case tier_for (ep_daily_tiers policy) streak of
                None \<Rightarrow> Inr (fst gs, st1)
              | Some t \<Rightarrow> if ep_daily_repeat_last policy \<or> fst t = streak
                  then grant_into account ''daily'' day (fst gs, st1) t else Inr (fst gs, st1))
           else Inr (fst gs, st1)))"

definition observe_week ::
  "engagement_policy \<Rightarrow> int \<Rightarrow> int \<Rightarrow> int \<Rightarrow> grants_state \<Rightarrow> grants_state res" where
  "observe_week policy account observed active_seconds gs =
     (let st = snd gs;
          week = iso_week_key (day_of observed);
          mine = (\<lambda>r. week_account r = account \<and> week_key r = week);
          before = (case row_where mine (engagement_weeks st) of None \<Rightarrow> 0 | Some r \<Rightarrow> week_seconds r);
          after = before + active_seconds;
          st1 = (if \<exists>r\<in>set (engagement_weeks st). mine r
                 then st\<lparr>engagement_weeks := update_where mine
                        (\<lambda>r. r\<lparr>week_seconds := after, week_last_at := observed\<rparr>) (engagement_weeks st)\<rparr>
                 else st\<lparr>engagement_weeks := engagement_weeks st @ [\<lparr>week_account = account, week_key = week,
                        week_seconds = after, week_first_at = observed, week_last_at = observed\<rparr>]\<rparr>)
      in if ep_weekly_enabled policy
         then fold_res (grant_into account ''weekly'' week) (fst gs, st1)
                (filter (\<lambda>t. before < fst t \<and> fst t \<le> after) (ep_weekly_thresholds policy))
         else Inr (fst gs, st1))"

text \<open>\<^verbatim>\<open>str(session_started)\<close>: the period of the hourly rewards.\<close>

definition session_key :: "int option \<Rightarrow> string" where
  "session_key s = (case s of None \<Rightarrow> ''None'' | Some t \<Rightarrow> show_int t)"

definition grant_hour ::
  "engagement_policy \<Rightarrow> int \<Rightarrow> int option \<Rightarrow> grants_state \<Rightarrow> int \<Rightarrow> grants_state res" where
  "grant_hour policy account session_started gs hour =
     (case tier_for (ep_hourly_tiers policy) hour of
        None \<Rightarrow> Inr gs
      | Some t \<Rightarrow> grant_into account ''hourly'' (session_key session_started) gs (hour, snd t))"

definition observe_hours ::
  "engagement_policy \<Rightarrow> int \<Rightarrow> int option \<Rightarrow> int \<Rightarrow> int \<Rightarrow> grants_state \<Rightarrow> (int \<times> grants_state) res" where
  "observe_hours policy account session_started session_seconds rewarded gs =
     (if ep_hourly_enabled policy \<and> ep_hourly_max policy \<noteq> 0 then
        let earned = min (session_seconds div ep_hourly_interval policy) (ep_hourly_max policy)
        in bind_res (fold_res (grant_hour policy account session_started) gs [rewarded + 1..earned])
             (\<lambda>gs'. Inr (max rewarded earned, gs'))
      else Inr (rewarded, gs))"

record engagement_result =
  egr_active :: bool
  egr_seconds :: int
  egr_first :: bool
  egr_replay :: bool
  egr_moved :: bool
  egr_squared_distance :: "rat option"
  egr_session_seconds :: int
  egr_rewards :: "grant list"

definition idle_result :: engagement_result where
  "idle_result = \<lparr>egr_active = False, egr_seconds = 0, egr_first = False, egr_replay = False,
     egr_moved = False, egr_squared_distance = None, egr_session_seconds = 0, egr_rewards = []\<rparr>"

text \<open>What an observation after the first one derives from the checkpoint before it.\<close>

record progress_step =
  ps_moved :: bool
  ps_squared_distance :: "rat option"
  ps_last_movement :: "int option"
  ps_active :: bool
  ps_seconds :: int
  ps_session_started :: "int option"
  ps_session_seconds :: int
  ps_rewarded_hours :: int

definition engagement_step ::
  "engagement_policy \<Rightarrow> bool \<Rightarrow> int \<Rightarrow> location \<Rightarrow> checkpoint_row \<Rightarrow> progress_step" where
  "engagement_step policy online observed current row =
     (let (moved, squared) = movement_proven (checkpoint_location row) current (ep_min_distance policy);
          last_movement = (if moved then Some observed else cp_last_movement row);
          elapsed_raw = observed - cp_observed_at row;
          elapsed = max 0 (min elapsed_raw (ep_max_gap policy));
          continuous = (online \<and> cp_online row \<and> elapsed_raw \<le> ep_max_gap policy);
          active = (continuous \<and> (case last_movement of None \<Rightarrow> False
                      | Some t \<Rightarrow> t \<noteq> 0 \<and> observed - t \<le> ep_grace policy));
          seconds = (if active then elapsed else 0)
      in \<lparr>ps_moved = moved, ps_squared_distance = squared, ps_last_movement = last_movement,
          ps_active = active, ps_seconds = seconds,
          ps_session_started = (if continuous then cp_session_started row else if online then Some observed else None),
          ps_session_seconds = (if continuous then cp_session_seconds row else 0) + seconds,
          ps_rewarded_hours = (if continuous then cp_rewarded_hours row else 0)\<rparr>)"

definition first_checkpoint :: "int \<Rightarrow> int \<Rightarrow> bool \<Rightarrow> location \<Rightarrow> checkpoint_row" where
  "first_checkpoint account observed online loc =
     \<lparr>cp_account = account, cp_observed_at = observed, cp_online = online, cp_map = loc_map loc,
      cp_partition = loc_partition loc, cp_x = loc_x loc, cp_y = loc_y loc, cp_z = loc_z loc,
      cp_last_movement = None, cp_session_started = (if online then Some observed else None),
      cp_session_seconds = 0, cp_rewarded_hours = 0\<rparr>"

definition next_checkpoint :: "int \<Rightarrow> bool \<Rightarrow> location \<Rightarrow> progress_step \<Rightarrow> int \<Rightarrow> checkpoint_row \<Rightarrow> checkpoint_row" where
  "next_checkpoint observed online loc ps rewarded row =
     row\<lparr>cp_observed_at := observed, cp_online := online, cp_map := loc_map loc,
         cp_partition := loc_partition loc, cp_x := loc_x loc, cp_y := loc_y loc, cp_z := loc_z loc,
         cp_last_movement := (if online then ps_last_movement ps else None),
         cp_session_started := (if online then ps_session_started ps else None),
         cp_session_seconds := (if online then ps_session_seconds ps else 0),
         cp_rewarded_hours := (if online then rewarded else 0)\<rparr>"

definition grant_observation ::
  "engagement_policy \<Rightarrow> int \<Rightarrow> int \<Rightarrow> progress_step \<Rightarrow> store \<Rightarrow> (int \<times> grants_state) res" where
  "grant_observation policy account observed ps st =
     (if ep_enabled policy \<and> ps_seconds ps \<noteq> 0 then
        bind_res (check_datetime observed) (\<lambda>moment.
        bind_res (observe_day policy account observed (ps_seconds ps) ([], st)) (\<lambda>gs1.
        bind_res (observe_week policy account observed (ps_seconds ps) gs1) (\<lambda>gs2.
        observe_hours policy account (ps_session_started ps) (ps_session_seconds ps) (ps_rewarded_hours ps) gs2)))
      else Inr (ps_rewarded_hours ps, [], st))"

definition observe_engagement ::
  "store \<Rightarrow> pyval \<Rightarrow> pyval \<Rightarrow> pyval \<Rightarrow> pyval \<Rightarrow> pyval \<Rightarrow> (engagement_result \<times> store) res" where
  "observe_engagement st account0 online0 observed0 location0 policy0 =
     bind_res (engagement_config [(''engagementRewards'', py_or policy0 (PDict []))]) (\<lambda>policy.
     bind_res (py_int observed0) (\<lambda>observed.
     bind_res (location_of location0 (ep_precision policy)) (\<lambda>current.
     let online = truthy online0 in
     bind_res (ensure_account account0 st) (\<lambda>(account, st1).
     case row_where (\<lambda>r. cp_account r = account) (engagement_checkpoints st1) of
       None \<Rightarrow> sqlite_int observed
         (Inr (idle_result\<lparr>egr_first := True\<rparr>,
            st1\<lparr>engagement_checkpoints := engagement_checkpoints st1 @ [first_checkpoint account observed online current]\<rparr>))
     | Some row \<Rightarrow>
         if observed \<le> cp_observed_at row then Inr (idle_result\<lparr>egr_replay := True\<rparr>, st1)
         else
           let ps = engagement_step policy online observed current row in
           bind_res (grant_observation policy account observed ps st1) (\<lambda>(rewarded, gs).
           sqlite_int observed
             (Inr (\<lparr>egr_active = ps_active ps, egr_seconds = ps_seconds ps, egr_first = False, egr_replay = False,
                   egr_moved = ps_moved ps, egr_squared_distance = ps_squared_distance ps,
                   egr_session_seconds = (if online then ps_session_seconds ps else 0), egr_rewards = fst gs\<rparr>,
                (snd gs)\<lparr>engagement_checkpoints := update_where (\<lambda>r. cp_account r = account)
                   (next_checkpoint observed online current ps rewarded) (engagement_checkpoints (snd gs))\<rparr>)))))))"

end
