(* ===== verification/HashChain.thy ===== *)
theory HashChain
  imports Sha256
begin

section \<open>Append-only logs: hash chains and invariants of runs\<close>

text \<open>
  Two contracts that several components share.

  A hash-chained log is a list of rows in which every row stores the hash of its
  predecessor and a hash of its own text, and the text covers the link to the predecessor.
  The locale \<open>hash_chain\<close> proves once what such a log promises: appending a properly linked
  row keeps the chain intact, and two intact chains of the same length with the same head
  agree row by row, or exhibit two different texts with the same hash.

  A component whose operations are steps of a relation keeps an invariant in every state it
  reaches when its initial states have it and every step preserves it: \<open>invariant_system\<close>.
\<close>

subsection \<open>Intact chains\<close>

fun linked :: "('r \<Rightarrow> string) \<Rightarrow> ('r \<Rightarrow> string) \<Rightarrow> ('r \<Rightarrow> string) \<Rightarrow> string \<Rightarrow> 'r list \<Rightarrow> bool" where
  "linked prev own expected z [] = True"
| "linked prev own expected z (r # rs) =
     (prev r = z \<and> own r = expected r \<and> linked prev own expected (own r) rs)"

definition chain_head :: "('r \<Rightarrow> string) \<Rightarrow> string \<Rightarrow> 'r list \<Rightarrow> string" where
  "chain_head own z rows = (if rows = [] then z else own (last rows))"

lemma chain_head_simps [simp]:
  "chain_head own z [] = z"
  "chain_head own z (rows @ [r]) = own r"
  "chain_head own z (r # rows) = chain_head own (own r) rows"
  by (simp_all add: chain_head_def)

lemma linked_snoc:
  "linked prev own expected z (rows @ [r]) \<longleftrightarrow>
     linked prev own expected z rows \<and> prev r = chain_head own z rows \<and> own r = expected r"
  by (induction rows arbitrary: z) auto

lemma linked_append:
  "linked prev own expected z (rows @ rows') \<longleftrightarrow>
     linked prev own expected z rows \<and> linked prev own expected (chain_head own z rows) rows'"
  by (induction rows arbitrary: z) auto

text \<open>Two texts with one hash.\<close>

definition collision :: "(string \<Rightarrow> string) \<Rightarrow> string \<Rightarrow> string \<Rightarrow> bool" where
  "collision H a b = (a \<noteq> b \<and> H a = H b)"

locale hash_chain =
  fixes prev :: "'r \<Rightarrow> string" and own :: "'r \<Rightarrow> string" and msg :: "'r \<Rightarrow> string"
    and H :: "string \<Rightarrow> string" and zero :: string and well :: "'r \<Rightarrow> bool"
  assumes msg_prev: "well r \<Longrightarrow> well q \<Longrightarrow> msg r = msg q \<Longrightarrow> prev r = prev q"
begin

definition intact :: "'r list \<Rightarrow> bool" where
  "intact rows = linked prev own (\<lambda>r. H (msg r)) zero rows"

lemma intact_Nil: "intact []"
  by (simp add: intact_def)

lemma intact_snoc:
  "intact (rows @ [r]) \<longleftrightarrow> intact rows \<and> prev r = chain_head own zero rows \<and> own r = H (msg r)"
  by (simp add: intact_def linked_snoc)

lemma intact_prefix: "intact (rows @ rows') \<Longrightarrow> intact rows"
  by (simp add: intact_def linked_append)

text \<open>
  Comparing two chains from their heads backwards: equal heads give equal last texts or a
  collision, equal texts give equal links, and the links are the heads of the prefixes.
\<close>

lemma same_head_same_texts:
  assumes "length rows = length rows'" and "intact rows" and "intact rows'"
    and "chain_head own zero rows = chain_head own zero rows'"
    and "\<forall>r\<in>set rows. well r" and "\<forall>r\<in>set rows'. well r"
  shows "map msg rows = map msg rows' \<or>
    (\<exists>r\<in>set rows. \<exists>q\<in>set rows'. collision H (msg r) (msg q))"
  using assms
proof (induction rows arbitrary: rows' rule: rev_induct)
  case Nil
  then show ?case by simp
next
  case (snoc r rows)
  then obtain q qs where q: "rows' = qs @ [q]"
    by (cases rows' rule: rev_cases) simp_all
  have own_eq: "H (msg r) = H (msg q)"
    using snoc.prems(2,3,4) q by (simp add: intact_snoc)
  show ?case
  proof (cases "msg r = msg q")
    case False
    then show ?thesis using own_eq q by (auto simp: collision_def)
  next
    case True
    then have "prev r = prev q" using snoc.prems(5,6) q msg_prev by simp
    then have "map msg rows = map msg qs \<or> (\<exists>r\<in>set rows. \<exists>q\<in>set qs. collision H (msg r) (msg q))"
      using snoc.prems q by (intro snoc.IH) (auto simp: intact_snoc)
    then show ?thesis using True q by auto
  qed
qed

lemma intact_own: "intact rows \<Longrightarrow> r \<in> set rows \<Longrightarrow> own r = H (msg r)"
proof -
  have "own r = H (msg r)" if "linked prev own (\<lambda>r. H (msg r)) z rows" "r \<in> set rows" for z
    using that by (induction rows arbitrary: z) auto
  then show "intact rows \<Longrightarrow> r \<in> set rows \<Longrightarrow> own r = H (msg r)" unfolding intact_def by blast
qed

text \<open>Rows with one text have one link and one hash, and whatever else the text determines.\<close>

lemma same_head_same_rows:
  assumes "length rows = length rows'" and "intact rows" and "intact rows'"
    and "chain_head own zero rows = chain_head own zero rows'"
    and "\<forall>r\<in>set rows. well r" and "\<forall>r\<in>set rows'. well r"
    and facts: "\<And>r q. r \<in> set rows \<Longrightarrow> q \<in> set rows' \<Longrightarrow> msg r = msg q \<Longrightarrow> facts r = facts q"
  shows "map (\<lambda>r. (facts r, prev r, own r)) rows = map (\<lambda>r. (facts r, prev r, own r)) rows' \<or>
    (\<exists>r\<in>set rows. \<exists>q\<in>set rows'. collision H (msg r) (msg q))"
proof -
  have "map (\<lambda>r. (facts r, prev r, own r)) rows = map (\<lambda>r. (facts r, prev r, own r)) rows'"
    if texts: "map msg rows = map msg rows'"
  proof (rule nth_equalityI)
    show "length (map (\<lambda>r. (facts r, prev r, own r)) rows) = length (map (\<lambda>r. (facts r, prev r, own r)) rows')"
      using assms(1) by simp
  next
    fix i assume "i < length (map (\<lambda>r. (facts r, prev r, own r)) rows)"
    then have i: "i < length rows" "i < length rows'" and m: "msg (rows ! i) = msg (rows' ! i)"
      using assms(1) arg_cong [OF texts, of "\<lambda>xs. xs ! i"] by simp_all
    then have "rows ! i \<in> set rows" "rows' ! i \<in> set rows'" by simp_all
    then show "map (\<lambda>r. (facts r, prev r, own r)) rows ! i = map (\<lambda>r. (facts r, prev r, own r)) rows' ! i"
      using i m facts msg_prev assms(5,6) intact_own [OF assms(2)] intact_own [OF assms(3)] by simp
  qed
  then show ?thesis using same_head_same_texts [OF assms(1-6)] by blast
qed

end

subsection \<open>Runs and their invariants\<close>

inductive reach :: "('s \<Rightarrow> bool) \<Rightarrow> ('s \<Rightarrow> 's \<Rightarrow> bool) \<Rightarrow> 's \<Rightarrow> bool" for init step where
  reach_init: "init s \<Longrightarrow> reach init step s"
| reach_step: "reach init step s \<Longrightarrow> step s t \<Longrightarrow> reach init step t"

inductive steps :: "('s \<Rightarrow> 's \<Rightarrow> bool) \<Rightarrow> 's \<Rightarrow> 's \<Rightarrow> bool" for step where
  steps_refl: "steps step s s"
| steps_step: "steps step s t \<Longrightarrow> step t u \<Longrightarrow> steps step s u"

lemma steps_one: "step s t \<Longrightarrow> steps step s t"
  by (meson steps.intros)

lemma steps_trans:
  assumes "steps step t u" and "steps step s t"
  shows "steps step s u"
  using assms by induction (auto intro: steps.intros)

locale invariant_system =
  fixes init :: "'s \<Rightarrow> bool" and step :: "'s \<Rightarrow> 's \<Rightarrow> bool" and inv :: "'s \<Rightarrow> bool"
  assumes inv_init: "init s \<Longrightarrow> inv s"
    and inv_step: "inv s \<Longrightarrow> step s t \<Longrightarrow> inv t"
begin

lemma reach_inv: "reach init step s \<Longrightarrow> inv s"
  by (induction rule: reach.induct) (auto intro: inv_init inv_step)

lemma steps_inv: "steps step s t \<Longrightarrow> inv s \<Longrightarrow> inv t"
  by (induction rule: steps.induct) (auto intro: inv_step)

end

text \<open>
  Refinement: along an invariant, every step of the detailed machine is a sequence of
  steps (possibly none) of an abstract one.  A run then refines a run.
\<close>

locale simulation = invariant_system init step inv
  for init :: "'s \<Rightarrow> bool" and step :: "'s \<Rightarrow> 's \<Rightarrow> bool" and inv :: "'s \<Rightarrow> bool" +
  fixes abs :: "'s \<Rightarrow> 'a" and astep :: "'a \<Rightarrow> 'a \<Rightarrow> bool"
  assumes sim: "inv s \<Longrightarrow> step s t \<Longrightarrow> steps astep (abs s) (abs t)"
begin

lemma run_refines: "steps step s t \<Longrightarrow> inv s \<Longrightarrow> steps astep (abs s) (abs t)"
proof (induction rule: steps.induct)
  case (steps_refl s)
  show ?case by (rule steps.steps_refl)
next
  case (steps_step s t u)
  have "inv t" using steps_step.hyps(1) steps_step.prems by (rule steps_inv)
  then have "steps astep (abs t) (abs u)" using steps_step.hyps(2) by (rule sim)
  then show ?case using steps_step.IH [OF steps_step.prems] by (rule steps_trans)
qed

end

end
