(* ===== verification/RewardsBank.thy ===== *)
theory RewardsBank
  imports RewardsEngagement HashChain
begin

section \<open>Community rewards: the bank behind the store\<close>

text \<open>
  What the credits of the store promise, stated on an abstract bank: accounts are opened,
  and entries are posted that never make a balance negative and never reuse a reference.
  Every operation of the store moves money by opening accounts and appending ledger entries
  only (\<open>money_path\<close>), which is how the invariants of wallets and ledger and the refinement
  of the abstract bank are proved once for all operations.
\<close>

subsection \<open>The abstract bank\<close>

record bank =
  bk_open :: "int set"
  bk_entries :: "(int \<times> int \<times> string) list"

definition bank_balance :: "bank \<Rightarrow> int \<Rightarrow> int" where
  "bank_balance b a = sum_where (\<lambda>e. fst e = a) (\<lambda>e. fst (snd e)) (bk_entries b)"

definition bank_refs :: "bank \<Rightarrow> string set" where
  "bank_refs b = (\<lambda>e. snd (snd e)) ` set (bk_entries b)"

inductive bank_step :: "bank \<Rightarrow> bank \<Rightarrow> bool" where
  bank_open: "bank_step b (b\<lparr>bk_open := insert a (bk_open b)\<rparr>)"
| bank_post: "a \<in> bk_open b \<Longrightarrow> d \<noteq> 0 \<Longrightarrow> \<bar>d\<bar> \<le> MAX_LEDGER_AMOUNT \<Longrightarrow> 0 \<le> bank_balance b a + d \<Longrightarrow>
    r \<notin> bank_refs b \<Longrightarrow> bank_step b (b\<lparr>bk_entries := bk_entries b @ [(a, d, r)]\<rparr>)"

definition bank_of :: "store \<Rightarrow> bank" where
  "bank_of st = \<lparr>bk_open = acc_id ` set (accounts st),
     bk_entries = map (\<lambda>l. (led_account l, led_delta l, led_reference l)) (ledger st)\<rparr>"

subsection \<open>The two primitive movements\<close>

definition led_text :: "ledger_row \<Rightarrow> string" where
  "led_text l = (case json_loads (led_metadata_json l) of
     Inl e \<Rightarrow> []
   | Inr meta \<Rightarrow> ledger_material (led_id l) (led_account l) (led_delta l) (led_balance_after l)
       (led_kind l) (led_reference l) meta (led_previous_hash l) (led_created_at l))"

definition led_readable :: "ledger_row \<Rightarrow> bool" where
  "led_readable l = (\<exists>meta. json_loads (led_metadata_json l) = Inr meta)"

lemma append_ledger_cases:
  assumes "append_ledger st a d k r m = Inr (row, st')"
  shows "d \<noteq> 0" "\<bar>d\<bar> \<le> MAX_LEDGER_AMOUNT" "0 \<le> balance_of st a + d" "account_exists st a"
    and "led_account row = a" "led_delta row = d" "led_balance_after row = balance_of st a + d"
    and "led_previous_hash row = last_hash (ledger st)" "led_readable row"
    and "led_entry_hash row = sha256_hex (led_text row)"
    and "\<forall>l\<in>set (ledger st). led_id l \<noteq> led_id row \<and> led_reference l \<noteq> led_reference row"
    and "st' = st\<lparr>ledger := ledger st @ [row], wallets := update_where (\<lambda>w. wal_account w = a)
      (\<lambda>w. w\<lparr>wal_balance := balance_of st a + d, wal_updated_at := led_created_at row\<rparr>) (wallets st),
      uuids := Suc (uuids st), ticks := Suc (ticks st)\<rparr>"
    and "identifier_of r ''reference'' 256 = Inr (led_reference row)"
    and "identifier_of k ''kind'' 64 = Inr (led_kind row)"
  using assms
  by (auto simp: append_ledger_def Let_def uuid4_def now_def set_balance_def insert_ledger_def
      account_exists_def led_readable_def led_text_def split: prod.splits)

lemma ensure_account_cases:
  assumes "ensure_account v st = Inr (a, st')"
  shows "positive_int v ''duneAccountId'' MAX_ACCOUNT_ID = Inr a" "account_exists st' a"
    and "ledger st' = ledger st"
    and "set (map acc_id (accounts st')) = insert a (set (map acc_id (accounts st)))"
    and "accounts st' = accounts st \<or> (\<not> account_exists st a \<and> accounts st' = accounts st @
      [\<lparr>acc_id = a, acc_discord = None, acc_linked_at = None, acc_created_at = clock st (ticks st)\<rparr>])"
    and "wallets st' = (if \<exists>w\<in>set (wallets st). wal_account w = a then wallets st
      else wallets st @ [\<lparr>wal_account = a, wal_balance = 0, wal_updated_at = clock st (ticks st)\<rparr>])"
    and "st' = st\<lparr>accounts := accounts st', wallets := wallets st', ticks := Suc (ticks st)\<rparr>"
  using assms
  by (auto simp: ensure_account_def now_def Let_def account_exists_def rev_image_eqI split: if_splits)

definition same_money :: "store \<Rightarrow> store \<Rightarrow> bool" where
  "same_money st st' = (wallets st' = wallets st \<and> ledger st' = ledger st \<and>
     map acc_id (accounts st') = map acc_id (accounts st))"

inductive money_path :: "store \<Rightarrow> store \<Rightarrow> bool" where
  mp_same: "same_money st st' \<Longrightarrow> money_path st st'"
| mp_open: "money_path st st1 \<Longrightarrow> ensure_account v st1 = Inr (a, st2) \<Longrightarrow> money_path st st2"
| mp_post: "money_path st st1 \<Longrightarrow> append_ledger st1 a d k r m = Inr (row, st2) \<Longrightarrow> money_path st st2"
| mp_then: "money_path st st1 \<Longrightarrow> same_money st1 st2 \<Longrightarrow> money_path st st2"

lemma same_money_refl [simp]: "same_money st st"
  by (simp add: same_money_def)

lemma money_path_refl [simp]: "money_path st st"
  by (simp add: mp_same)

lemma money_path_trans:
  assumes "money_path st1 st2" and "money_path st st1"
  shows "money_path st st2"
  using assms by induction (auto intro: money_path.intros)

lemma money_path_open: "ensure_account v st = Inr (a, st') \<Longrightarrow> money_path st st'"
  by (rule mp_open [OF money_path_refl])

lemma money_path_post: "append_ledger st a d k r m = Inr (row, st') \<Longrightarrow> money_path st st'"
  by (rule mp_post [OF money_path_refl])

lemma now_eq: "now st = (t, st') \<longleftrightarrow> t = clock st (ticks st) \<and> st' = st\<lparr>ticks := Suc (ticks st)\<rparr>"
  by (auto simp: now_def)

lemma uuid4_eq: "uuid4 st = (u, st') \<longleftrightarrow> u = uuid st (uuids st) \<and> st' = st\<lparr>uuids := Suc (uuids st)\<rparr>"
  by (auto simp: uuid4_def)

lemma random_token_eq:
  "random_token st = (u, st') \<longleftrightarrow> u = token st (tokens st) \<and> st' = st\<lparr>tokens := Suc (tokens st)\<rparr>"
  by (auto simp: random_token_def)

lemma same_money_sym: "same_money st st' \<Longrightarrow> same_money st' st"
  by (simp add: same_money_def)

lemma same_money_right: "same_money s s' \<Longrightarrow> money_path st s' \<longleftrightarrow> money_path st s"
  using mp_then same_money_sym by blast

lemma same_money_left: "same_money s s' \<Longrightarrow> money_path s' st \<longleftrightarrow> money_path s st"
  using money_path_trans mp_same same_money_sym by blast

text \<open>The fields that hold no money do not matter on either side of a path.\<close>

lemma money_frame_right [simp]:
  "money_path st (s\<lparr>ticks := n\<rparr>) \<longleftrightarrow> money_path st s"
  "money_path st (s\<lparr>uuids := n\<rparr>) \<longleftrightarrow> money_path st s"
  "money_path st (s\<lparr>tokens := n\<rparr>) \<longleftrightarrow> money_path st s"
  "money_path st (s\<lparr>link_codes := x1\<rparr>) \<longleftrightarrow> money_path st s"
  "money_path st (s\<lparr>offers := x2\<rparr>) \<longleftrightarrow> money_path st s"
  "money_path st (s\<lparr>purchases := x3\<rparr>) \<longleftrightarrow> money_path st s"
  "money_path st (s\<lparr>deliveries := x4\<rparr>) \<longleftrightarrow> money_path st s"
  "money_path st (s\<lparr>webhook_receipts := x5\<rparr>) \<longleftrightarrow> money_path st s"
  "money_path st (s\<lparr>playtime_checkpoints := x6\<rparr>) \<longleftrightarrow> money_path st s"
  "money_path st (s\<lparr>engagement_checkpoints := x7\<rparr>) \<longleftrightarrow> money_path st s"
  "money_path st (s\<lparr>engagement_days := x8\<rparr>) \<longleftrightarrow> money_path st s"
  "money_path st (s\<lparr>engagement_weeks := x9\<rparr>) \<longleftrightarrow> money_path st s"
  "money_path st (s\<lparr>engagement_claims := x10\<rparr>) \<longleftrightarrow> money_path st s"
  "money_path st (s\<lparr>tracks := x11\<rparr>) \<longleftrightarrow> money_path st s"
  "money_path st (s\<lparr>track_progress := x12\<rparr>) \<longleftrightarrow> money_path st s"
  "money_path st (s\<lparr>track_claims := x13\<rparr>) \<longleftrightarrow> money_path st s"
  "money_path st (s\<lparr>metadata := x14\<rparr>) \<longleftrightarrow> money_path st s"
  by (rule same_money_right, simp add: same_money_def)+

lemma money_frame_left [simp]:
  "money_path (s\<lparr>ticks := n\<rparr>) st \<longleftrightarrow> money_path s st"
  "money_path (s\<lparr>uuids := n\<rparr>) st \<longleftrightarrow> money_path s st"
  "money_path (s\<lparr>tokens := n\<rparr>) st \<longleftrightarrow> money_path s st"
  "money_path (s\<lparr>offers := x2\<rparr>) st \<longleftrightarrow> money_path s st"
  "money_path (s\<lparr>purchases := x3\<rparr>) st \<longleftrightarrow> money_path s st"
  "money_path (s\<lparr>deliveries := x4\<rparr>) st \<longleftrightarrow> money_path s st"
  "money_path (s\<lparr>playtime_checkpoints := x6\<rparr>) st \<longleftrightarrow> money_path s st"
  "money_path (s\<lparr>engagement_days := x8\<rparr>) st \<longleftrightarrow> money_path s st"
  "money_path (s\<lparr>engagement_weeks := x9\<rparr>) st \<longleftrightarrow> money_path s st"
  "money_path (s\<lparr>track_progress := x12\<rparr>) st \<longleftrightarrow> money_path s st"
  "money_path (s\<lparr>metadata := x14\<rparr>) st \<longleftrightarrow> money_path s st"
  by (rule same_money_left, simp add: same_money_def)+

lemma money_accounts_right:
  "accounts s = rows \<Longrightarrow> (\<And>r. p r \<Longrightarrow> acc_id (f r) = acc_id r) \<Longrightarrow>
    money_path st (s\<lparr>accounts := update_where p f rows\<rparr>) \<longleftrightarrow> money_path st s"
  by (rule same_money_right) (simp add: same_money_def map_update_where_same)

lemmas money_dest = money_path_open money_path_post

lemma insert_delivery_money: "insert_delivery i a b c d e f st = Inr st' \<Longrightarrow> money_path st st'"
  by (auto simp: insert_delivery_def)

lemma insert_purchase_money: "insert_purchase r st = Inr st' \<Longrightarrow> money_path st st'"
  by (auto simp: insert_purchase_def)

lemma update_delivery_money [simp]: "money_path st (update_delivery i f s) \<longleftrightarrow> money_path st s"
  by (simp add: update_delivery_def)

lemma update_purchase_money [simp]: "money_path st (update_purchase i f s) \<longleftrightarrow> money_path st s"
  by (simp add: update_purchase_def)

lemma stock_money [simp]:
  "money_path st (take_stock i q s) \<longleftrightarrow> money_path st s"
  "money_path st (return_stock i q s) \<longleftrightarrow> money_path st s"
  by (simp_all add: take_stock_def return_stock_def)

lemma stock_money_left [simp]: "money_path (take_stock i q s) st \<longleftrightarrow> money_path s st"
  by (simp add: take_stock_def)

subsection \<open>Every operation is a money path\<close>

lemmas money_ops = money_dest insert_purchase_money insert_delivery_money

lemma credit_money: "credit st a m k r md = Inr (res, st') \<Longrightarrow> money_path st st'"
  by (auto simp: credit_def res_simps dest!: money_ops intro: money_path_trans)

lemma create_link_code_money: "create_link_code st a t e = Inr (res, st') \<Longrightarrow> money_path st st'"
  by (auto simp: create_link_code_def Let_def random_token_def now_def res_simps dest!: money_ops)

lemma redeem_link_code_money: "redeem_link_code st a t = Inr (res, st') \<Longrightarrow> money_path st st'"
  by (auto simp: redeem_link_code_def Let_def now_def money_accounts_right res_simps)

lemma purchase_money: "purchase st a oi q k = Inr (res, st') \<Longrightarrow> money_path st st'"
  by (auto simp: purchase_def Let_def uuid4_def now_def res_simps
      dest!: money_ops split: if_splits) (meson money_path_trans)+

lemma claim_delivery_money: "claim_delivery st i = Inr (res, st') \<Longrightarrow> money_path st st'"
  by (auto simp: claim_delivery_def Let_def random_token_def now_def res_simps)

lemma complete_delivery_money: "complete_delivery st i tok rec = Inr (res, st') \<Longrightarrow> money_path st st'"
  by (auto simp: complete_delivery_def Let_def now_def)

lemma release_delivery_money: "release_delivery st i tok rsn = Inr (res, st') \<Longrightarrow> money_path st st'"
  by (auto simp: release_delivery_def Let_def now_def)

lemma refund_purchase_money: "refund_purchase row k nk n e t st = Inr (b, st') \<Longrightarrow> money_path st st'"
  by (auto simp: refund_purchase_def res_simps dest!: money_ops)

lemma fail_delivery_money: "fail_delivery st i tok e d = Inr (res, st') \<Longrightarrow> money_path st st'"
  by (auto simp: fail_delivery_def Let_def now_def res_simps dest!: refund_purchase_money)

lemma resolve_reconciliation_money: "resolve_reconciliation st i d rc rs = Inr (res, st') \<Longrightarrow> money_path st st'"
  by (auto simp: resolve_reconciliation_def Let_def now_def res_simps dest!: refund_purchase_money)

lemma ingest_webhook_money: "ingest_webhook st p e a m pl = Inr (res, st') \<Longrightarrow> money_path st st'"
  by (auto simp: ingest_webhook_def Let_def now_def res_simps dest!: money_ops intro: money_path_trans)

lemma observe_playtime_money: "observe_playtime st a on ob i c g = Inr (res, st') \<Longrightarrow> money_path st st'"
  by (auto simp: observe_playtime_def Let_def res_simps dest!: money_ops intro: money_path_trans)

lemma sync_config_money: "sync_config st f = Inr st' \<Longrightarrow> money_path st st'"
  by (auto simp: sync_config_def Let_def now_def res_simps)

lemma add_track_progress_in_money:
  "add_track_progress_in st a i m r = Inr (res, st') \<Longrightarrow> money_path st st'"
  by (auto simp: add_track_progress_in_def Let_def now_def res_simps)

lemma add_track_progress_money: "add_track_progress st a i m r = Inr (res, st') \<Longrightarrow> money_path st st'"
  by (auto simp: add_track_progress_def res_simps dest!: money_ops add_track_progress_in_money
      intro: money_path_trans)

lemma claim_track_level_money: "claim_track_level st a i l = Inr (res, st') \<Longrightarrow> money_path st st'"
  by (auto simp: claim_track_level_def Let_def now_def uuid4_def res_simps dest!: money_ops
      intro: money_path_trans)

lemma grant_engagement_reward_money:
  "grant_engagement_reward st a k p t r = Inr (res, st') \<Longrightarrow> money_path st st'"
  by (auto simp: grant_engagement_reward_def Let_def now_def uuid4_def res_simps
      dest!: money_ops add_track_progress_in_money; blast intro: money_path_trans)

lemma grant_into_money: "grant_into a k p gs t = Inr gs' \<Longrightarrow> money_path (snd gs) (snd gs')"
  by (auto simp: grant_into_def res_simps dest!: grant_engagement_reward_money)

lemma observe_day_money: "observe_day p a ob s gs = Inr gs' \<Longrightarrow> money_path (snd gs) (snd gs')"
  by (auto simp: observe_day_def Let_def res_simps dest!: grant_into_money)

lemma fold_money:
  assumes "fold_res f gs xs = Inr gs'"
    and "\<And>gs x gs'. f gs x = Inr gs' \<Longrightarrow> money_path (snd gs) (snd gs')"
  shows "money_path (snd gs) (snd gs')"
  using assms(1)
proof (rule fold_res_invariant [where P = "\<lambda>g. money_path (snd gs) (snd g)"])
  show "money_path (snd gs) (snd t')" if "money_path (snd gs) (snd g)" "f g x = Inr t'" for g x t'
    using assms(2) [OF that(2)] that(1) by (rule money_path_trans)
qed simp

lemma observe_week_money: "observe_week p a ob s gs = Inr gs' \<Longrightarrow> money_path (snd gs) (snd gs')"
  by (auto simp: observe_week_def Let_def res_simps dest!: fold_money [OF _ grant_into_money] split: if_splits)

lemma grant_hour_money: "grant_hour p a ss gs h = Inr gs' \<Longrightarrow> money_path (snd gs) (snd gs')"
  by (auto simp: grant_hour_def res_simps dest!: grant_into_money)

lemma observe_hours_money:
  "observe_hours p a ss sec r gs = Inr (r', gs') \<Longrightarrow> money_path (snd gs) (snd gs')"
  by (auto simp: observe_hours_def Let_def res_simps dest!: fold_money [OF _ grant_hour_money])

lemma grant_observation_money:
  "grant_observation p a ob ps st = Inr (r, gs) \<Longrightarrow> money_path st (snd gs)"
  by (auto simp: grant_observation_def res_simps dest!: observe_day_money observe_week_money
      observe_hours_money; metis money_path_trans)

lemma observe_engagement_money: "observe_engagement st a on ob l p = Inr (res, st') \<Longrightarrow> money_path st st'"
  by (auto simp: observe_engagement_def Let_def res_simps dest!: money_ops grant_observation_money
      intro: money_path_trans)

end
