(* ===== verification/RewardsInvariants.thy ===== *)
theory RewardsInvariants
  imports RewardsBank
begin

section \<open>Community rewards: wallets, the audit and the runs of the store\<close>

text \<open>
  The invariant of wallets and ledger, the ledger as a hash chain and the meaning of
  \<^verbatim>\<open>verify_ledger\<close>, the runs of the store as a step relation with one rule per operation, and
  the interpretations of the shared contracts on them.
\<close>

subsection \<open>Wallets and ledger\<close>

definition posted :: "ledger_row list \<Rightarrow> int \<Rightarrow> int" where
  "posted rows a = sum_where (\<lambda>l. led_account l = a) led_delta rows"

definition wallet_ok :: "ledger_row list \<Rightarrow> wallet_row \<Rightarrow> bool" where
  "wallet_ok rows w = (0 \<le> wal_balance w \<and> wal_balance w = posted rows (wal_account w))"

definition money_inv :: "store \<Rightarrow> bool" where
  "money_inv st = (distinct (map acc_id (accounts st)) \<and> distinct (map wal_account (wallets st)) \<and>
     wal_account ` set (wallets st) = acc_id ` set (accounts st) \<and>
     (\<forall>w\<in>set (wallets st). wallet_ok (ledger st) w) \<and>
     (\<forall>l\<in>set (ledger st). account_exists st (led_account l)) \<and>
     distinct (map led_reference (ledger st)) \<and> distinct (map led_id (ledger st)))"

lemma posted_simps [simp]:
  "posted [] a = 0"
  "posted (rows @ rows') a = posted rows a + posted rows' a"
  "posted (l # rows) a = (if led_account l = a then led_delta l else 0) + posted rows a"
  by (simp_all add: posted_def table_simps)

lemma posted_none: "a \<notin> led_account ` set rows \<Longrightarrow> posted rows a = 0"
  by (auto simp: posted_def intro: sum_where_none)

lemma account_exists_iff: "account_exists st a \<longleftrightarrow> a \<in> acc_id ` set (accounts st)"
  by (auto simp: account_exists_def)

lemma balance_posted:
  assumes "money_inv st"
  shows "balance_of st a = posted (ledger st) a"
proof (cases "wallet_of st a")
  case None
  then have "a \<notin> acc_id ` set (accounts st)"
    using assms by (force simp: wallet_of_def table_simps money_inv_def)
  then have "posted (ledger st) a = 0"
    using assms by (intro posted_none) (auto simp: money_inv_def account_exists_iff)
  with None show ?thesis by (simp add: balance_of_def)
next
  case (Some w)
  then have "w \<in> set (wallets st)" "wal_account w = a"
    using row_where_Some unfolding wallet_of_def by fastforce+
  with Some assms show ?thesis by (auto simp: balance_of_def money_inv_def wallet_ok_def)
qed

lemma money_inv_cong:
  assumes "same_money st st'"
  shows "money_inv st' = money_inv st"
proof -
  have "wallets st' = wallets st" "ledger st' = ledger st" "map acc_id (accounts st') = map acc_id (accounts st)"
    using assms by (simp_all add: same_money_def)
  moreover from this(3) have "acc_id ` set (accounts st') = acc_id ` set (accounts st)" by (metis image_set)
  ultimately show ?thesis by (simp add: money_inv_def account_exists_iff)
qed

lemma money_inv_open:
  assumes "money_inv st" and e: "ensure_account v st = Inr (a, st')"
  shows "money_inv st'"
proof -
  note c = ensure_account_cases [OF e]
  have ids: "acc_id ` set (accounts st') = insert a (acc_id ` set (accounts st))"
    using c(4) by simp
  show ?thesis
  proof (cases "account_exists st a")
    case True
    then have "\<exists>w\<in>set (wallets st). wal_account w = a"
      using assms(1) by (simp add: money_inv_def account_exists_iff) (metis image_iff)
    then have "accounts st' = accounts st" "wallets st' = wallets st"
      using c(5,6) True by simp_all
    with assms(1) c(3) show ?thesis by (simp add: money_inv_def account_exists_iff)
  next
    case False
    then have new: "a \<notin> acc_id ` set (accounts st)" by (simp add: account_exists_iff)
    then have "\<not> (\<exists>w\<in>set (wallets st). wal_account w = a)"
      using assms(1) by (simp add: money_inv_def) (metis image_iff)
    then have w: "wallets st' = wallets st @ [\<lparr>wal_account = a, wal_balance = 0, wal_updated_at = clock st (ticks st)\<rparr>]"
      using c(6) by simp
    have acc: "distinct (map acc_id (accounts st'))"
      using c(5) assms(1) new by (auto simp: money_inv_def)
    have "posted (ledger st) a = 0"
      using assms(1) new by (intro posted_none) (auto simp: money_inv_def account_exists_iff)
    then have "wallet_ok (ledger st) \<lparr>wal_account = a, wal_balance = 0, wal_updated_at = t\<rparr>" for t
      by (simp add: wallet_ok_def)
    with assms(1) w c(3) acc ids new show ?thesis
      by (simp add: money_inv_def account_exists_iff)
  qed
qed

lemma money_inv_post:
  assumes "money_inv st" and ap: "append_ledger st a d k r m = Inr (row, st')"
  shows "money_inv st'"
proof -
  note c = append_ledger_cases [OF ap]
  define upd where "upd w = w\<lparr>wal_balance := posted (ledger st) a + d, wal_updated_at := led_created_at row\<rparr>" for w :: wallet_row
  have l: "ledger st' = ledger st @ [row]" and acc: "accounts st' = accounts st"
    and w: "wallets st' = update_where (\<lambda>w. wal_account w = a) upd (wallets st)"
    unfolding upd_def balance_posted [OF assms(1), symmetric] using c(12) by simp_all
  have wa: "map wal_account (wallets st') = map wal_account (wallets st)"
    unfolding w upd_def by (rule map_update_where_same) simp
  have "wallet_ok (ledger st') v" if "v \<in> set (wallets st')" for v
    using set_update_where [OF that [unfolded w]] assms(1) c(3,5,6) balance_posted [OF assms(1)]
    unfolding l money_inv_def by (auto simp: upd_def wallet_ok_def)
  moreover have "wal_account ` set (wallets st') = wal_account ` set (wallets st)"
    using wa by (metis image_set)
  ultimately show ?thesis
    using assms(1) c(4,5,11) l acc wa by (auto simp: money_inv_def account_exists_iff)
qed

lemma money_inv_path: "money_path st st' \<Longrightarrow> money_inv st \<Longrightarrow> money_inv st'"
  by (induction rule: money_path.induct) (auto simp: money_inv_cong dest: money_inv_open money_inv_post)

subsection \<open>The audited ledger\<close>

text \<open>Every entry states the balance its account has after it.\<close>

definition running :: "ledger_row list \<Rightarrow> bool" where
  "running rows = (\<forall>i<length rows. led_balance_after (rows ! i) = posted (take (Suc i) rows) (led_account (rows ! i)))"

lemma running_Nil [simp]: "running []"
  by (simp add: running_def)

lemma running_snoc [simp]:
  "running (rows @ [l]) \<longleftrightarrow> running rows \<and> led_balance_after l = posted rows (led_account l) + led_delta l"
  by (auto simp: running_def nth_append less_Suc_eq)

text \<open>
  The rows whose text determines their fields: readable metadata without floats and
  integers within the reader's range.
\<close>

definition led_plain :: "ledger_row \<Rightarrow> bool" where
  "led_plain l = ((case json_loads (led_metadata_json l) of Inl e \<Rightarrow> False | Inr meta \<Rightarrow> json_plain meta)
     \<and> short_int (led_account l) \<and> short_int (led_delta l) \<and> short_int (led_balance_after l))"

type_synonym ledger_fields = "string \<times> int \<times> int \<times> int \<times> string \<times> string \<times> pyval \<times> string \<times> string"

definition led_fields :: "ledger_row \<Rightarrow> ledger_fields" where
  "led_fields l = (led_id l, led_account l, led_delta l, led_balance_after l, led_kind l, led_reference l,
     (case json_loads (led_metadata_json l) of Inl e \<Rightarrow> PNone | Inr meta \<Rightarrow> json_norm meta),
     led_previous_hash l, led_created_at l)"

lemma led_text_fields:
  assumes "led_plain l" and "led_plain l'" and eq: "led_text l = led_text l'"
  shows "led_fields l = led_fields l'"
proof -
  obtain m where m: "json_loads (led_metadata_json l) = Inr m" "json_plain m"
    using assms(1) by (auto simp: led_plain_def split: sum.splits)
  obtain m' where m': "json_loads (led_metadata_json l') = Inr m'" "json_plain m'"
    using assms(2) by (auto simp: led_plain_def split: sum.splits)
  define d where "d l m = [(''id'', PStr (led_id l)), (''account'', PInt (led_account l)),
       (''delta'', PInt (led_delta l)), (''balanceAfter'', PInt (led_balance_after l)),
       (''kind'', PStr (led_kind l)), (''reference'', PStr (led_reference l)), (''metadata'', m),
       (''previousHash'', PStr (led_previous_hash l)), (''createdAt'', PStr (led_created_at l))]" for l :: ledger_row and m
  have "canonical (PDict (d l m)) = canonical (PDict (d l' m'))"
    using eq m m' by (simp add: led_text_def ledger_material_def d_def)
  moreover have "json_plain (PDict (d l m))" "json_plain (PDict (d l' m'))"
    using assms(1,2) m(2) m'(2) by (simp_all add: d_def led_plain_def)
  ultimately have f: "map_option json_norm (map_of (d l m) k) = map_option json_norm (map_of (d l' m') k)" for k
    by (intro canonical_fields) auto
  show ?thesis
    using f [of "''id''"] f [of "''account''"] f [of "''delta''"] f [of "''balanceAfter''"] f [of "''kind''"]
      f [of "''reference''"] f [of "''metadata''"] f [of "''previousHash''"] f [of "''createdAt''"]
    by (simp add: d_def led_fields_def m(1) m'(1))
qed

interpretation ledger_chain: hash_chain led_previous_hash led_entry_hash led_text sha256_hex ZERO_HASH led_plain
proof
  show "led_previous_hash l = led_previous_hash l'"
    if "led_plain l" "led_plain l'" "led_text l = led_text l'" for l l'
    using led_text_fields [OF that] by (simp add: led_fields_def)
qed

text \<open>What the fold of the audit computes, whatever the rows.\<close>

definition balances_of :: "ledger_row list \<Rightarrow> int \<rightharpoonup> int" where
  "balances_of rows a = (if a \<in> led_account ` set rows then Some (posted rows a) else None)"

lemma last_hash_head: "last_hash rows = chain_head led_entry_hash ZERO_HASH rows"
  by (simp add: last_hash_def chain_head_def)

lemma audit_fold:
  assumes "fold_res audit_row (ZERO_HASH, [], Map.empty) rows = Inr (p, errors, balances)"
  shows "p = last_hash rows \<and> (errors = [] \<longleftrightarrow> ledger_chain.intact rows \<and> running rows) \<and>
    (errors = [] \<longrightarrow> balances = balances_of rows)"
  using assms
proof (induction rows arbitrary: p errors balances rule: rev_induct)
  case Nil
  then show ?case by (auto simp: last_hash_def ledger_chain.intact_Nil balances_of_def)
next
  case (snoc l rows)
  obtain q es bs where before: "fold_res audit_row (ZERO_HASH, [], Map.empty) rows = Inr (q, es, bs)"
      and after: "audit_row (q, es, bs) l = Inr (p, errors, balances)"
    using snoc.prems by (auto simp: fold_res_append)
  obtain meta where meta: "json_loads (led_metadata_json l) = Inr meta"
    using after by (auto simp: audit_row_def)
  note IH = snoc.IH [OF before]
  have msg: "led_text l = ledger_material (led_id l) (led_account l) (led_delta l) (led_balance_after l)
      (led_kind l) (led_reference l) meta (led_previous_hash l) (led_created_at l)"
    by (simp add: led_text_def meta)
  define prior where "prior = (case bs (led_account l) of None \<Rightarrow> 0 | Some b \<Rightarrow> b)"
  have prior: "prior = posted rows (led_account l)" if "es = []"
    using that IH posted_none [of "led_account l" rows] by (auto simp: prior_def balances_of_def)
  have out: "p = led_entry_hash l" "balances = bs(led_account l \<mapsto> led_balance_after l)"
    "errors = (if led_previous_hash l \<noteq> q \<or> led_entry_hash l \<noteq> sha256_hex (led_text l)
                \<or> led_balance_after l \<noteq> prior + led_delta l then es @ [led_id l] else es)"
    using after by (auto simp: audit_row_def meta msg prior_def Let_def)
  have iff: "errors = [] \<longleftrightarrow> ledger_chain.intact (rows @ [l]) \<and> running (rows @ [l])"
    using IH prior by (auto simp: out ledger_chain.intact_snoc last_hash_head)
  moreover have "balances = balances_of (rows @ [l])" if "errors = []"
  proof -
    from that have "es = []" by (auto simp: out split: if_splits)
    with that IH iff show ?thesis by (auto simp: out balances_of_def fun_eq_iff)
  qed
  ultimately show ?case by (simp add: out last_hash_def)
qed

lemma audit_fold_total:
  "\<forall>l\<in>set rows. led_readable l \<Longrightarrow> \<exists>s'. fold_res audit_row s rows = Inr s'"
proof (induction rows arbitrary: s)
  case Nil
  show ?case by (metis fold_res.simps(1))
next
  case (Cons l rows)
  then obtain meta where "json_loads (led_metadata_json l) = Inr meta" by (auto simp: led_readable_def)
  then have "\<exists>s1. audit_row s l = Inr s1" by (cases s rule: prod_cases3) (simp add: audit_row_def Let_def)
  with Cons show ?case by auto
qed

definition audit_inv :: "store \<Rightarrow> bool" where
  "audit_inv st = (ledger_chain.intact (ledger st) \<and> running (ledger st) \<and> (\<forall>l\<in>set (ledger st). led_readable l))"

lemma audit_inv_path: "money_path st st' \<Longrightarrow> money_inv st \<and> audit_inv st \<Longrightarrow> money_inv st' \<and> audit_inv st'"
proof (induction rule: money_path.induct)
  case (mp_post st st1 a d k r m row st2)
  then have inv: "money_inv st1" "audit_inv st1" by simp_all
  note c = append_ledger_cases [OF mp_post.hyps(2)]
  have l: "ledger st2 = ledger st1 @ [row]" using c(12) by simp
  have "money_inv st2" using inv(1) mp_post.hyps(2) by (rule money_inv_post)
  moreover have "audit_inv st2"
    using inv c(5-10) balance_posted [OF inv(1)]
    by (simp add: audit_inv_def l ledger_chain.intact_snoc last_hash_head)
  ultimately show ?case ..
qed (auto simp: money_inv_cong audit_inv_def same_money_def [of st] dest: money_inv_open ensure_account_cases(3),
     auto simp: same_money_def)

text \<open>The meaning of the audit: no error is reported for exactly the intact ledgers.\<close>

lemma verify_ledger_meaning:
  assumes "verify_ledger st = Inr a"
  shows "aud_entries a = length (ledger st)" "aud_head a = last_hash (ledger st)"
    and "aud_ok a \<longleftrightarrow> ledger_chain.intact (ledger st) \<and> running (ledger st)"
    and "aud_ok a \<longleftrightarrow> aud_errors a = []"
  using assms audit_fold by (auto simp: verify_ledger_def)

end
