(* ===== verification/RewardsOrders.thy ===== *)
theory RewardsOrders
  imports RewardsInvariants
begin

section \<open>Community rewards: purchases, their deliveries and the stock\<close>

text \<open>
  The invariant that ties a purchase to its one delivery, to its charge and to its refund,
  and the stock of the offers; the operations that do not settle a delivery are framed by
  \<open>queue_path\<close>, those that do go through \<open>orders_settle\<close>.
\<close>

subsection \<open>The invariant\<close>

fun matches :: "purchase_status \<Rightarrow> delivery_status \<Rightarrow> bool" where
  "matches PurchaseQueued s = (s \<in> {Queued, Retry, Processing, Reconciliation})"
| "matches PurchaseDelivered s = (s = Delivered)"
| "matches PurchaseRefunded s = (s = Failed)"

text \<open>The transitions a delivery may take; delivered and failed are final.\<close>

fun delivery_next :: "delivery_status \<Rightarrow> delivery_status set" where
  "delivery_next Queued = {Processing}"
| "delivery_next Retry = {Processing}"
| "delivery_next Processing = {Delivered, Retry, Failed, Reconciliation}"
| "delivery_next Reconciliation = {Delivered, Failed}"
| "delivery_next Delivered = {}"
| "delivery_next Failed = {}"

definition entry_of :: "string \<Rightarrow> int \<Rightarrow> int \<Rightarrow> ledger_row list \<Rightarrow> bool" where
  "entry_of ref a d rows = (\<exists>l\<in>set rows. led_reference l = ref \<and> led_account l = a \<and> led_delta l = d)"

definition charged :: "purchase_row \<Rightarrow> ledger_row list \<Rightarrow> bool" where
  "charged p rows = (pur_total p \<noteq> 0 \<longrightarrow>
     entry_of (strip (''purchase:'' @ pur_id p)) (pur_account p) (- pur_total p) rows)"

definition refunded :: "purchase_row \<Rightarrow> ledger_row list \<Rightarrow> bool" where
  "refunded p rows = (pur_total p \<noteq> 0 \<longrightarrow>
     entry_of (strip (''refund:'' @ pur_id p)) (pur_account p) (pur_total p) rows)"

definition fulfils :: "delivery_row \<Rightarrow> purchase_row \<Rightarrow> bool" where
  "fulfils d p = (del_source_type d = ''purchase'' \<and> del_source d = pur_id p \<and> matches (pur_status p) (del_status d))"

definition order_ok :: "delivery_row list \<Rightarrow> ledger_row list \<Rightarrow> purchase_row \<Rightarrow> bool" where
  "order_ok ds rows p = (0 < pur_quantity p \<and> charged p rows \<and> (pur_status p = PurchaseRefunded \<longrightarrow> refunded p rows)
     \<and> (\<exists>d\<in>set ds. fulfils d p))"

definition delivery_ok :: "purchase_row list \<Rightarrow> delivery_row \<Rightarrow> bool" where
  "delivery_ok ps d = ((del_status d = Processing \<longleftrightarrow> del_token d \<noteq> None) \<and>
     (del_status d = Delivered \<longleftrightarrow> del_delivered_at d \<noteq> None) \<and>
     (del_source_type d = ''purchase'' \<longrightarrow> (\<exists>p\<in>set ps. pur_id p = del_source d)))"

definition orders :: "purchase_row list \<Rightarrow> delivery_row list \<Rightarrow> ledger_row list \<Rightarrow> bool" where
  "orders ps ds rows = (distinct (map pur_id ps) \<and> distinct (map del_id ds) \<and> distinct (map del_source ds) \<and>
     (\<forall>p\<in>set ps. order_ok ds rows p) \<and> (\<forall>d\<in>set ds. delivery_ok ps d))"

definition stock_ok :: "offer_row list \<Rightarrow> bool" where
  "stock_ok os = (distinct (map off_id os) \<and> (\<forall>r\<in>set os. case off_stock r of None \<Rightarrow> True | Some s \<Rightarrow> 0 \<le> s))"

definition orders_inv :: "store \<Rightarrow> bool" where
  "orders_inv st = (orders (purchases st) (deliveries st) (ledger st) \<and> stock_ok (offers st))"

definition moved_on :: "delivery_row \<Rightarrow> delivery_row \<Rightarrow> bool" where
  "moved_on d d' = (del_id d' = del_id d \<and> del_source d' = del_source d \<and> del_source_type d' = del_source_type d \<and>
     del_account d' = del_account d \<and> del_rewards_json d' = del_rewards_json d \<and>
     (d' = d \<or> del_status d' \<in> delivery_next (del_status d)))"

text \<open>No delivery is lost or redirected, and each one moves along its state machine.\<close>

definition evolves :: "delivery_row list \<Rightarrow> delivery_row list \<Rightarrow> bool" where
  "evolves ds ds' = (\<forall>d\<in>set ds. \<exists>d'\<in>set ds'. moved_on d d')"

subsection \<open>Operations that settle no delivery\<close>

definition same_orders :: "store \<Rightarrow> store \<Rightarrow> bool" where
  "same_orders st st' = (purchases st' = purchases st \<and> deliveries st' = deliveries st \<and> offers st' = offers st)"

inductive queue_path :: "store \<Rightarrow> store \<Rightarrow> bool" where
  qp_same: "same_orders st st' \<Longrightarrow> queue_path st st'"
| qp_queue: "queue_path st st1 \<Longrightarrow> insert_delivery i ty src a r c u st1 = Inr st2 \<Longrightarrow> ty \<noteq> ''purchase'' \<Longrightarrow> queue_path st st2"
| qp_then: "queue_path st st1 \<Longrightarrow> same_orders st1 st2 \<Longrightarrow> queue_path st st2"

lemma queue_path_refl [simp]: "queue_path st st"
  by (simp add: qp_same same_orders_def)

lemma queue_path_trans:
  assumes "queue_path st1 st2" and "queue_path st st1"
  shows "queue_path st st2"
  using assms by induction (auto intro: queue_path.intros)

lemma same_orders_sym: "same_orders st st' \<Longrightarrow> same_orders st' st"
  by (simp add: same_orders_def)

lemma same_orders_right: "same_orders s s' \<Longrightarrow> queue_path st s' \<longleftrightarrow> queue_path st s"
  using qp_then same_orders_sym by blast

lemma same_orders_left: "same_orders s s' \<Longrightarrow> queue_path s' st \<longleftrightarrow> queue_path s st"
  using queue_path_trans qp_same same_orders_sym by blast

lemma queue_frame_right [simp]:
  "queue_path st (s\<lparr>ticks := n\<rparr>) \<longleftrightarrow> queue_path st s"
  "queue_path st (s\<lparr>uuids := n\<rparr>) \<longleftrightarrow> queue_path st s"
  "queue_path st (s\<lparr>tokens := n\<rparr>) \<longleftrightarrow> queue_path st s"
  "queue_path st (s\<lparr>accounts := x1\<rparr>) \<longleftrightarrow> queue_path st s"
  "queue_path st (s\<lparr>link_codes := x2\<rparr>) \<longleftrightarrow> queue_path st s"
  "queue_path st (s\<lparr>wallets := x3\<rparr>) \<longleftrightarrow> queue_path st s"
  "queue_path st (s\<lparr>ledger := x4\<rparr>) \<longleftrightarrow> queue_path st s"
  "queue_path st (s\<lparr>webhook_receipts := x5\<rparr>) \<longleftrightarrow> queue_path st s"
  "queue_path st (s\<lparr>playtime_checkpoints := x6\<rparr>) \<longleftrightarrow> queue_path st s"
  "queue_path st (s\<lparr>engagement_checkpoints := x7\<rparr>) \<longleftrightarrow> queue_path st s"
  "queue_path st (s\<lparr>engagement_days := x8\<rparr>) \<longleftrightarrow> queue_path st s"
  "queue_path st (s\<lparr>engagement_weeks := x9\<rparr>) \<longleftrightarrow> queue_path st s"
  "queue_path st (s\<lparr>engagement_claims := x10\<rparr>) \<longleftrightarrow> queue_path st s"
  "queue_path st (s\<lparr>tracks := x11\<rparr>) \<longleftrightarrow> queue_path st s"
  "queue_path st (s\<lparr>track_progress := x12\<rparr>) \<longleftrightarrow> queue_path st s"
  "queue_path st (s\<lparr>track_claims := x13\<rparr>) \<longleftrightarrow> queue_path st s"
  "queue_path st (s\<lparr>metadata := x14\<rparr>) \<longleftrightarrow> queue_path st s"
  by (rule same_orders_right, simp add: same_orders_def)+

lemma queue_frame_left [simp]:
  "queue_path (s\<lparr>ticks := n\<rparr>) st \<longleftrightarrow> queue_path s st"
  "queue_path (s\<lparr>uuids := n\<rparr>) st \<longleftrightarrow> queue_path s st"
  "queue_path (s\<lparr>tokens := n\<rparr>) st \<longleftrightarrow> queue_path s st"
  "queue_path (s\<lparr>playtime_checkpoints := x6\<rparr>) st \<longleftrightarrow> queue_path s st"
  "queue_path (s\<lparr>engagement_days := x8\<rparr>) st \<longleftrightarrow> queue_path s st"
  "queue_path (s\<lparr>engagement_weeks := x9\<rparr>) st \<longleftrightarrow> queue_path s st"
  "queue_path (s\<lparr>track_progress := x12\<rparr>) st \<longleftrightarrow> queue_path s st"
  "queue_path (s\<lparr>metadata := x14\<rparr>) st \<longleftrightarrow> queue_path s st"
  by (rule same_orders_left, simp add: same_orders_def)+

lemma ensure_account_queue: "ensure_account v st = Inr (a, st') \<Longrightarrow> queue_path st st'"
  by (drule ensure_account_cases(7)) (metis queue_frame_right(1,4,6) queue_path_refl)

lemma append_ledger_queue: "append_ledger st a d k r m = Inr (row, st') \<Longrightarrow> queue_path st st'"
  by (drule append_ledger_cases(12)) simp

lemma insert_delivery_queue:
  "insert_delivery i ty src a r c u st = Inr st' \<Longrightarrow> ty \<noteq> ''purchase'' \<Longrightarrow> queue_path st st'"
  by (rule qp_queue [OF queue_path_refl])

lemmas queue_ops = ensure_account_queue append_ledger_queue

lemma credit_queue: "credit st a m k r md = Inr (res, st') \<Longrightarrow> queue_path st st'"
  by (auto simp: credit_def res_simps dest!: queue_ops intro: queue_path_trans)

lemma create_link_code_queue: "create_link_code st a t e = Inr (res, st') \<Longrightarrow> queue_path st st'"
  by (auto simp: create_link_code_def Let_def random_token_def now_def res_simps dest!: queue_ops)

lemma redeem_link_code_queue: "redeem_link_code st a t = Inr (res, st') \<Longrightarrow> queue_path st st'"
  by (auto simp: redeem_link_code_def Let_def now_def res_simps)

lemma ingest_webhook_queue: "ingest_webhook st p e a m pl = Inr (res, st') \<Longrightarrow> queue_path st st'"
  by (auto simp: ingest_webhook_def Let_def now_def res_simps dest!: queue_ops intro: queue_path_trans)

lemma observe_playtime_queue: "observe_playtime st a on ob i c g = Inr (res, st') \<Longrightarrow> queue_path st st'"
  by (auto simp: observe_playtime_def Let_def res_simps dest!: queue_ops intro: queue_path_trans)

lemma add_track_progress_in_queue:
  "add_track_progress_in st a i m r = Inr (res, st') \<Longrightarrow> queue_path st st'"
  by (auto simp: add_track_progress_in_def Let_def now_def res_simps)

lemma add_track_progress_queue: "add_track_progress st a i m r = Inr (res, st') \<Longrightarrow> queue_path st st'"
  by (auto simp: add_track_progress_def res_simps dest!: queue_ops add_track_progress_in_queue
      intro: queue_path_trans)

lemma claim_track_level_queue: "claim_track_level st a i l = Inr (res, st') \<Longrightarrow> queue_path st st'"
  by (auto simp: claim_track_level_def Let_def now_def uuid4_def res_simps
      dest!: queue_ops insert_delivery_queue intro: queue_path_trans)

lemma grant_engagement_reward_queue:
  "grant_engagement_reward st a k p t r = Inr (res, st') \<Longrightarrow> queue_path st st'"
  by (auto simp: grant_engagement_reward_def Let_def now_def uuid4_def res_simps
      dest!: queue_ops add_track_progress_in_queue insert_delivery_queue; blast intro: queue_path_trans)

lemma grant_into_queue: "grant_into a k p gs t = Inr gs' \<Longrightarrow> queue_path (snd gs) (snd gs')"
  by (auto simp: grant_into_def res_simps dest!: grant_engagement_reward_queue)

lemma observe_day_queue: "observe_day p a ob s gs = Inr gs' \<Longrightarrow> queue_path (snd gs) (snd gs')"
  by (auto simp: observe_day_def Let_def res_simps dest!: grant_into_queue)

lemma fold_queue:
  assumes "fold_res f gs xs = Inr gs'"
    and "\<And>gs x gs'. f gs x = Inr gs' \<Longrightarrow> queue_path (snd gs) (snd gs')"
  shows "queue_path (snd gs) (snd gs')"
  using assms(1)
proof (rule fold_res_invariant [where P = "\<lambda>g. queue_path (snd gs) (snd g)"])
  show "queue_path (snd gs) (snd t')" if "queue_path (snd gs) (snd g)" "f g x = Inr t'" for g x t'
    using assms(2) [OF that(2)] that(1) by (rule queue_path_trans)
qed simp

lemma observe_week_queue: "observe_week p a ob s gs = Inr gs' \<Longrightarrow> queue_path (snd gs) (snd gs')"
  by (auto simp: observe_week_def Let_def res_simps dest!: fold_queue [OF _ grant_into_queue] split: if_splits)

lemma grant_hour_queue: "grant_hour p a ss gs h = Inr gs' \<Longrightarrow> queue_path (snd gs) (snd gs')"
  by (auto simp: grant_hour_def res_simps dest!: grant_into_queue)

lemma observe_hours_queue:
  "observe_hours p a ss sec r gs = Inr (r', gs') \<Longrightarrow> queue_path (snd gs) (snd gs')"
  by (auto simp: observe_hours_def Let_def res_simps dest!: fold_queue [OF _ grant_hour_queue])

lemma grant_observation_queue:
  "grant_observation p a ob ps st = Inr (r, gs) \<Longrightarrow> queue_path st (snd gs)"
  by (auto simp: grant_observation_def res_simps dest!: observe_day_queue observe_week_queue
      observe_hours_queue; metis queue_path_trans)

lemma observe_engagement_queue: "observe_engagement st a on ob l p = Inr (res, st') \<Longrightarrow> queue_path st st'"
  by (auto simp: observe_engagement_def Let_def res_simps dest!: queue_ops grant_observation_queue
      intro: queue_path_trans)

subsection \<open>Queueing, settling and charging keep the invariant\<close>

lemma money_path_prefix: "money_path st st' \<Longrightarrow> \<exists>rows. ledger st' = ledger st @ rows"
proof (induction rule: money_path.induct)
  case (mp_open st st1 v a st2)
  then show ?case using ensure_account_cases(3) by metis
next
  case (mp_post st st1 a d k r m row st2)
  then show ?case by (auto dest: append_ledger_cases(12))
qed (simp_all add: same_money_def)

lemma orders_more_rows: "orders ps ds rows \<Longrightarrow> set rows \<subseteq> set rows' \<Longrightarrow> orders ps ds rows'"
  by (fastforce simp: orders_def order_ok_def charged_def refunded_def entry_of_def)

lemma evolves_refl [simp]: "evolves ds ds"
  by (auto simp: evolves_def moved_on_def)

lemma evolves_snoc: "evolves ds ds' \<Longrightarrow> evolves ds (ds' @ [d])"
  by (auto simp: evolves_def)

lemma orders_queue:
  assumes "orders ps ds rows" and "del_id d \<notin> del_id ` set ds" and "del_source d \<notin> del_source ` set ds"
    and "delivery_ok ps d"
  shows "orders ps (ds @ [d]) rows"
  using assms by (auto simp: orders_def order_ok_def)

lemma insert_delivery_cases:
  assumes "insert_delivery i ty src a r c u st = Inr st'"
  shows "st' = st\<lparr>deliveries := deliveries st @ [\<lparr>del_id = i, del_source_type = ty,
        del_source = src, del_account = a, del_rewards_json = r,
        del_status = Queued, del_attempts = 0, del_token = None, del_claimed_at = None,
        del_delivered_at = None, del_receipt = None, del_error = None,
        del_created_at = c, del_updated_at = u\<rparr>]\<rparr>"
    and "i \<notin> del_id ` set (deliveries st)" and "src \<notin> del_source ` set (deliveries st)"
    and "account_exists st a"
  using assms by (auto simp: insert_delivery_def)

lemma orders_queue_path:
  "queue_path st st' \<Longrightarrow> orders (purchases st) (deliveries st) rows \<Longrightarrow>
    orders (purchases st') (deliveries st') rows \<and> evolves (deliveries st) (deliveries st') \<and>
    purchases st' = purchases st \<and> offers st' = offers st"
proof (induction rule: queue_path.induct)
  case (qp_queue st st1 i ty src a r c u st2)
  note ins = insert_delivery_cases [OF qp_queue.hyps(2)]
  obtain d where d: "st2 = st1\<lparr>deliveries := deliveries st1 @ [d]\<rparr>" "del_id d = i" "del_source d = src"
      "delivery_ok ps d" for ps
    using ins(1) qp_queue.hyps(3) by (auto simp: delivery_ok_def)
  have "orders (purchases st1) (deliveries st1) rows" using qp_queue by blast
  then have "orders (purchases st1) (deliveries st1 @ [d]) rows"
    by (rule orders_queue) (simp_all add: ins(2,3) d)
  then show ?case using qp_queue d(1) by (simp add: evolves_snoc)
next
  case (qp_then st st1 st2)
  then show ?case by (metis same_orders_def)
qed (simp add: same_orders_def)

lemma orders_inv_queue:
  assumes "orders_inv st" and "queue_path st st'" and "money_path st st'"
  shows "orders_inv st' \<and> evolves (deliveries st) (deliveries st')"
proof -
  obtain rows where rows: "ledger st' = ledger st @ rows" using money_path_prefix assms(3) by blast
  have "orders (purchases st') (deliveries st') (ledger st)" and "evolves (deliveries st) (deliveries st')"
    and "offers st' = offers st"
    using orders_queue_path [OF assms(2)] assms(1) by (auto simp: orders_inv_def)
  then show ?thesis using assms(1) rows orders_more_rows by (fastforce simp: orders_inv_def)
qed

lemma row_by_id:
  "distinct (map k t) \<Longrightarrow> r \<in> set t \<Longrightarrow> q \<in> set t \<Longrightarrow> k q = k r \<Longrightarrow> q = r"
  using distinct_map_unique by metis

lemma update_where_id [simp]: "update_where p (\<lambda>r. r) t = t"
  by (simp add: update_where_def)

text \<open>
  A delivery moves to its next status, and the purchase it fulfils (if any) is updated so
  that the two still match.
\<close>

lemma orders_settle:
  assumes inv: "orders ps ds rows" and d0: "d0 \<in> set ds"
    and keep: "\<And>d. del_id (f d) = del_id d \<and> del_source (f d) = del_source d \<and> del_source_type (f d) = del_source_type d
        \<and> del_account (f d) = del_account d \<and> del_rewards_json (f d) = del_rewards_json d"
    and keepp: "\<And>p. pur_id (g p) = pur_id p \<and> pur_total (g p) = pur_total p \<and> pur_account (g p) = pur_account p
        \<and> pur_quantity (g p) = pur_quantity p"
    and next_d: "del_status (f d0) \<in> delivery_next (del_status d0)"
    and ok: "del_status (f d0) = Processing \<longleftrightarrow> del_token (f d0) \<noteq> None"
        "del_status (f d0) = Delivered \<longleftrightarrow> del_delivered_at (f d0) \<noteq> None"
    and more: "set rows \<subseteq> set rows'"
    and upd: "ps' = (if del_source_type d0 = ''purchase'' then update_where (\<lambda>p. pur_id p = del_source d0) g ps else ps)"
    and match: "\<And>p. p \<in> set ps \<Longrightarrow> pur_id p = del_source d0 \<Longrightarrow> fulfils d0 p \<Longrightarrow>
        matches (pur_status (g p)) (del_status (f d0)) \<and> (pur_status (g p) = PurchaseRefunded \<longrightarrow> refunded p rows')"
  shows "orders ps' (update_where (\<lambda>d. del_id d = del_id d0) f ds) rows' \<and>
    evolves ds (update_where (\<lambda>d. del_id d = del_id d0) f ds)"
proof -
  let ?ds = "update_where (\<lambda>d. del_id d = del_id d0) f ds"
  define h where "h p = (if del_source_type d0 = ''purchase'' \<and> pur_id p = del_source d0 then g p else p)" for p
  have ps': "ps' = map h ps"
    using upd by (simp add: update_where_def h_def map_idI)
  have h: "pur_id (h p) = pur_id p" "pur_total (h p) = pur_total p" "pur_account (h p) = pur_account p"
    "pur_quantity (h p) = pur_quantity p" for p using keepp by (auto simp: h_def)
  have dist: "distinct (map pur_id ps')" "distinct (map del_id ?ds)" "distinct (map del_source ?ds)"
  proof -
    have "map pur_id ps' = map pur_id ps"
      by (subst ps') (simp add: h(1) o_def)
    moreover have "map del_id ?ds = map del_id ds" "map del_source ?ds = map del_source ds"
      using keep by (simp_all add: map_update_where_same)
    ultimately show "distinct (map pur_id ps')" "distinct (map del_id ?ds)" "distinct (map del_source ?ds)"
      using inv by (simp_all add: orders_def)
  qed
  have uniq: "d = d0" if "d \<in> set ds" "del_id d = del_id d0 \<or> del_source d = del_source d0" for d
    using inv d0 that row_by_id [of del_id ds d0 d] row_by_id [of del_source ds d0 d] by (auto simp: orders_def)
  have mem: "d \<in> set ds \<Longrightarrow> (if d = d0 then f d else d) \<in> set ?ds" for d
    using uniq d0 by (force simp: update_where_def)
  have ok_p: "order_ok ?ds rows' (h p)" if p: "p \<in> set ps" for p
  proof -
    have o': "order_ok ds rows p" using inv p by (simp add: orders_def)
    then obtain d where d: "d \<in> set ds" "fulfils d p" by (auto simp: order_ok_def)
    have money: "charged (h p) rows'" using o' more h by (auto simp: order_ok_def charged_def entry_of_def)
    show ?thesis
    proof (cases "d = d0")
      case True
      then have s: "del_source_type d0 = ''purchase''" "pur_id p = del_source d0"
        using d(2) by (auto simp: fulfils_def)
      have m: "matches (pur_status (h p)) (del_status (f d0)) \<and> (pur_status (h p) = PurchaseRefunded \<longrightarrow> refunded p rows')"
        using match [OF p s(2)] s d(2) True by (auto simp: h_def)
      have "refunded (h p) rows' = refunded p rows'" using h by (simp add: refunded_def)
      with m have "pur_status (h p) = PurchaseRefunded \<longrightarrow> refunded (h p) rows'" by blast
      moreover have "fulfils (f d0) (h p)" using m s h keep by (simp add: fulfils_def)
      moreover have "f d0 \<in> set ?ds" using mem [OF d0] by simp
      moreover have "0 < pur_quantity (h p)" using o' h(4) [of p] by (auto simp: order_ok_def)
      ultimately show ?thesis using money by (auto simp: order_ok_def)
    next
      case False
      then have "pur_id p \<noteq> del_source d0" using d uniq [of d] by (auto simp: fulfils_def)
      then have hp: "h p = p" by (simp add: h_def)
      have "d \<in> set ?ds" using mem [OF d(1)] False by simp
      with o' d(2) more show ?thesis unfolding hp
        by (auto simp: order_ok_def charged_def refunded_def entry_of_def)
    qed
  qed
  have ok_d: "delivery_ok ps' d" if "d \<in> set ?ds" for d
  proof -
    have ex: "(\<exists>p\<in>set ps'. pur_id p = x) \<longleftrightarrow> (\<exists>p\<in>set ps. pur_id p = x)" for x
      by (subst ps') (simp add: h(1))
    from set_update_where [OF that] obtain q where q: "q \<in> set ds" "d = q \<or> (q = d0 \<and> d = f d0)"
      using uniq by blast
    have "delivery_ok ps q" using inv q(1) by (simp add: orders_def)
    then show ?thesis using q(2) ok keep [of d0] by (auto simp: delivery_ok_def ex)
  qed
  have "evolves ds ?ds"
    unfolding evolves_def
  proof
    fix d assume "d \<in> set ds"
    from mem [OF this] show "\<exists>d'\<in>set ?ds. moved_on d d'"
      using next_d keep by (cases "d = d0") (auto simp: moved_on_def)
  qed
  moreover have "orders ps' ?ds rows'"
  proof -
    have "order_ok ?ds rows' p'" if "p' \<in> set ps'" for p'
      using that ok_p by (subst (asm) ps') auto
    with dist ok_d show ?thesis by (simp add: orders_def)
  qed
  ultimately show ?thesis by simp
qed

end
