(* ===== verification/RewardsRuns.thy ===== *)
theory RewardsRuns
  imports RewardsOrders
begin

section \<open>Community rewards: runs of the store\<close>

text \<open>
  The operations that buy and settle keep the order invariant; the step relation of the
  store with one rule per operation; and the shared contracts interpreted on it.
\<close>

subsection \<open>Stock\<close>

lemma stock_ok_update:
  assumes "stock_ok os" and "\<And>r. off_id (f r) = off_id r"
    and "\<And>r s'. r \<in> set os \<Longrightarrow> p r \<Longrightarrow> off_stock (f r) = Some s' \<Longrightarrow> 0 \<le> s'"
  shows "stock_ok (update_where p f os)"
  using assms by (auto simp: stock_ok_def map_update_where_same dest!: set_update_where split: option.splits)

lemma stock_ok_take:
  assumes "stock_ok (offers st)" and "offer_of st i = Some r" and "in_stock r q"
  shows "stock_ok (offers (take_stock i q st))"
proof -
  have r: "r \<in> set (offers st)" "off_id r = i"
    using row_where_Some assms(2) unfolding offer_of_def by fastforce+
  have "r' = r" if "r' \<in> set (offers st)" "off_id r' = i" for r'
    using assms(1) r that row_by_id by (fastforce simp: stock_ok_def)
  with assms show ?thesis
    unfolding take_stock_def by (auto intro!: stock_ok_update simp: in_stock_def)
qed

lemma stock_ok_return: "stock_ok (offers st) \<Longrightarrow> 0 \<le> q \<Longrightarrow> stock_ok (offers (return_stock i q st))"
  by (simp add: return_stock_def, rule stock_ok_update) (auto simp: stock_ok_def split: option.splits)

lemma stock_ok_upsert:
  assumes "stock_ok rows" and "case off_stock new of None \<Rightarrow> True | Some s \<Rightarrow> 0 \<le> s"
  shows "stock_ok (upsert_offer new rows)"
proof (cases "\<exists>r\<in>set rows. off_id r = off_id new")
  case True
  let ?f = "\<lambda>r. new\<lparr>off_stock := (if off_version r = off_version new then off_stock r else off_stock new)\<rparr>"
  have "map off_id (update_where (\<lambda>r. off_id r = off_id new) ?f rows) = map off_id rows"
    by (rule map_update_where_same) simp
  with True assms show ?thesis
    by (auto simp: upsert_offer_def stock_ok_def dest!: set_update_where split: option.splits if_splits)
next
  case False
  with assms show ?thesis by (auto simp: upsert_offer_def stock_ok_def)
qed

lemma offer_from_config_stock:
  "offer_from_config t v = Inr r \<Longrightarrow> case off_stock r of None \<Rightarrow> True | Some s \<Rightarrow> 0 \<le> s"
  by (auto simp: offer_from_config_def res_simps split: option.splits)

lemma sync_config_orders:
  assumes inv: "orders_inv st" and ok: "sync_config st file = Inr st'"
  shows "orders_inv st' \<and> evolves (deliveries st) (deliveries st')"
proof -
  obtain t vs news where news: "map_res (offer_from_config t) vs = Inr news"
    and st': "purchases st' = purchases st" "deliveries st' = deliveries st" "ledger st' = ledger st"
      "offers st' = update_where (\<lambda>r. off_id r \<notin> off_id ` set news) (\<lambda>r. r\<lparr>off_enabled := False\<rparr>)
        (fold upsert_offer news (offers st))"
    using ok by (auto simp: sync_config_def now_def Let_def)
  have "stock_ok (fold upsert_offer xs rows)" if "set xs \<subseteq> set news" "stock_ok rows" for xs rows
    using that
  proof (induction xs arbitrary: rows)
    case (Cons x xs)
    then have "case off_stock x of None \<Rightarrow> True | Some s \<Rightarrow> 0 \<le> s"
      using map_res_set [OF news, of x] offer_from_config_stock by auto
    with Cons show ?case by (simp add: stock_ok_upsert)
  qed simp
  then have "stock_ok (fold upsert_offer news (offers st))" using inv by (simp add: orders_inv_def)
  then have "stock_ok (offers st')"
    unfolding st'(4)
  proof (rule stock_ok_update)
    fix r s'
    assume "r \<in> set (fold upsert_offer news (offers st))"
      and "off_stock (r\<lparr>off_enabled := False\<rparr>) = Some s'"
    then show "0 \<le> s'" using \<open>stock_ok (fold upsert_offer news (offers st))\<close> by (auto simp: stock_ok_def dest!: bspec)
  qed simp_all
  then show ?thesis using inv st' by (simp add: orders_inv_def)
qed

subsection \<open>Settling a delivery\<close>

lemma delivery_of_row:
  "delivery_of st i = Some d \<Longrightarrow> d \<in> set (deliveries st) \<and> del_id d = i"
  unfolding delivery_of_def using row_where_Some by fastforce

lemma claimed_row_props:
  assumes "claimed_row st i tok = Inr row"
  shows "delivery_of st (py_str i) = Some row" "row \<in> set (deliveries st)" "del_status row = Processing"
    and "(case del_token row of None \<Rightarrow> [] | Some t \<Rightarrow> t) = str_or_empty tok"
  using assms delivery_of_row by (auto simp: claimed_row_def compare_digest_def Let_def split: option.splits)

lemma orders_delivery:
  "orders ps ds rows \<Longrightarrow> d \<in> set ds \<Longrightarrow> delivery_ok ps d"
  by (simp add: orders_def)

text \<open>A purchase in the table fulfils exactly the delivery that names it.\<close>

lemma orders_fulfils:
  assumes "orders ps ds rows" and "p \<in> set ps" and "d \<in> set ds"
    and "del_source_type d = ''purchase''" and "pur_id p = del_source d"
  shows "fulfils d p"
proof -
  obtain d' where "d' \<in> set ds" "fulfils d' p" using assms(1,2) by (auto simp: orders_def order_ok_def)
  moreover have "d' = d" using calculation assms row_by_id [of del_source ds d d']
    by (auto simp: orders_def fulfils_def)
  ultimately show ?thesis by simp
qed

lemma settle:
  assumes ds: "deliveries st' = update_where (\<lambda>d. del_id d = del_id row) f (deliveries st)"
    and ps: "purchases st' = (if del_source_type row = ''purchase''
        then update_where (\<lambda>p. pur_id p = del_source row) g (purchases st) else purchases st)"
    and inv: "orders_inv st" and row: "row \<in> set (deliveries st)"
    and rows: "set (ledger st) \<subseteq> set (ledger st')" and stock: "stock_ok (offers st')"
    and keepd: "\<And>d. del_id (f d) = del_id d \<and> del_source (f d) = del_source d \<and> del_source_type (f d) = del_source_type d
        \<and> del_account (f d) = del_account d \<and> del_rewards_json (f d) = del_rewards_json d"
    and keepp: "\<And>p. pur_id (g p) = pur_id p \<and> pur_total (g p) = pur_total p \<and> pur_account (g p) = pur_account p
        \<and> pur_quantity (g p) = pur_quantity p"
    and next_d: "del_status (f row) \<in> delivery_next (del_status row)"
    and ok: "delivery_ok (purchases st) row \<Longrightarrow> (del_status (f row) = Processing \<longleftrightarrow> del_token (f row) \<noteq> None) \<and>
        (del_status (f row) = Delivered \<longleftrightarrow> del_delivered_at (f row) \<noteq> None)"
    and match: "\<And>p. p \<in> set (purchases st) \<Longrightarrow> pur_id p = del_source row \<Longrightarrow> fulfils row p \<Longrightarrow>
        matches (pur_status (g p)) (del_status (f row)) \<and> (pur_status (g p) = PurchaseRefunded \<longrightarrow> refunded p (ledger st'))"
  shows "orders_inv st' \<and> evolves (deliveries st) (deliveries st')"
proof -
  have o': "orders (purchases st) (deliveries st) (ledger st)" using inv by (simp add: orders_inv_def)
  have "delivery_ok (purchases st) row" using orders_delivery [OF o' row] .
  note oks = ok [OF this]
  show ?thesis
    unfolding orders_inv_def ds
    using orders_settle [OF o' row keepd keepp next_d conjunct1 [OF oks] conjunct2 [OF oks] rows ps match] stock
    by blast
qed

lemma claim_target_props:
  "claim_target st i = Some d \<Longrightarrow> d \<in> set (deliveries st) \<and> claimable d"
proof -
  have old: "oldest ds = Some e \<Longrightarrow> e \<in> set ds" for ds e
    by (induction ds arbitrary: e) (auto split: option.splits if_splits)
  show "claim_target st i = Some d \<Longrightarrow> d \<in> set (deliveries st) \<and> claimable d"
    using old [of "filter claimable (deliveries st)" d] row_where_Some [of _ "deliveries st" d]
    by (auto simp: claim_target_def split: if_splits)
qed

lemma claim_delivery_orders:
  assumes inv: "orders_inv st" and ok: "claim_delivery st i = Inr (res, st')"
  shows "orders_inv st' \<and> evolves (deliveries st) (deliveries st')"
proof (cases "claim_target st i")
  case None
  with ok inv show ?thesis by (simp add: claim_delivery_def)
next
  case (Some row)
  note row = claim_target_props [OF Some]
  obtain tok t where st': "st' = update_delivery (del_id row) (\<lambda>d. d\<lparr>del_status := Processing,
      del_attempts := del_attempts d + 1, del_token := Some tok, del_claimed_at := Some t, del_updated_at := t\<rparr>)
      (st\<lparr>tokens := Suc (tokens st), ticks := Suc (ticks st)\<rparr>)"
    using ok Some by (auto simp: claim_delivery_def random_token_def now_def Let_def)
  have eq: "deliveries st' = update_where (\<lambda>d. del_id d = del_id row) (\<lambda>d. d\<lparr>del_status := Processing,
      del_attempts := del_attempts d + 1, del_token := Some tok, del_claimed_at := Some t, del_updated_at := t\<rparr>)
      (deliveries st)"
    "purchases st' = (if del_source_type row = ''purchase''
      then update_where (\<lambda>p. pur_id p = del_source row) (\<lambda>p. p) (purchases st) else purchases st)"
    "ledger st' = ledger st" "offers st' = offers st"
    by (simp_all add: st' update_delivery_def)
  have open_p: "pur_status p = PurchaseQueued" if "fulfils row p" for p
    using that row by (cases "pur_status p") (auto simp: fulfils_def claimable_def)
  have "delivery_ok (purchases st) row"
    using inv row orders_delivery unfolding orders_inv_def by blast
  then have "del_delivered_at row = None" and "Processing \<in> delivery_next (del_status row)"
    using row by (auto simp: delivery_ok_def claimable_def)
  then show ?thesis
    by (intro settle [OF eq(1,2) inv conjunct1 [OF row]])
      (use inv open_p eq(3,4) in \<open>simp_all add: orders_inv_def\<close>)
qed

lemma complete_delivery_orders:
  assumes inv: "orders_inv st" and ok: "complete_delivery st i tok receipt = Inr (res, st')"
  shows "orders_inv st' \<and> evolves (deliveries st) (deliveries st')"
proof -
  obtain row where row: "claimed_row st i tok = Inr row" using ok by (auto simp: complete_delivery_def)
  note c = claimed_row_props [OF row]
  have eq: "deliveries st' = update_where (\<lambda>d. del_id d = del_id row) (\<lambda>d. d\<lparr>del_status := Delivered,
      del_delivered_at := Some (clock st (ticks st)), del_receipt := Some (canonical (py_or receipt (PDict []))),
      del_token := None, del_error := None, del_updated_at := clock st (ticks st)\<rparr>) (deliveries st)"
    "purchases st' = (if del_source_type row = ''purchase'' then update_where (\<lambda>p. pur_id p = del_source row)
      (\<lambda>p. p\<lparr>pur_status := PurchaseDelivered, pur_updated_at := clock st (ticks st)\<rparr>) (purchases st) else purchases st)"
    "ledger st' = ledger st" "offers st' = offers st"
    using ok row by (auto simp: complete_delivery_def now_def Let_def update_delivery_def update_purchase_def)
  show ?thesis
    by (rule settle [OF eq(1,2) inv c(2)]) (use c inv eq(3,4) in \<open>auto simp: orders_inv_def\<close>)
qed

lemma purchase_of_row: "purchase_of st i = Some p \<Longrightarrow> p \<in> set (purchases st) \<and> pur_id p = i"
  unfolding purchase_of_def using row_where_Some by fastforce

lemma append_entry:
  assumes "append_ledger st a d k (PStr ref) m = Inr (row, st')"
  shows "entry_of (strip ref) a d (ledger st')"
  using append_ledger_cases(5,6,12,13) [OF assms]
  by (auto simp: entry_of_def identifier_of_def Let_def)

text \<open>
  The refund inside a definitive failure: for the delivery of a purchase it always takes
  place, and books the price back.
\<close>

lemma refund_purchase_cases:
  assumes inv: "orders_inv st" and row: "row \<in> set (deliveries st)"
    and status: "del_status row = Processing \<or> del_status row = Reconciliation"
    and ok: "refund_purchase row k nk n e t st = Inr (b, st')"
  shows "deliveries st' = deliveries st \<and> set (ledger st) \<subseteq> set (ledger st') \<and> stock_ok (offers st') \<and>
      b = (del_source_type row = ''purchase'') \<and>
      purchases st' = (if del_source_type row = ''purchase'' then update_where (\<lambda>p. pur_id p = del_source row)
        (\<lambda>p. p\<lparr>pur_status := PurchaseRefunded, pur_error := Some e, pur_updated_at := t\<rparr>) (purchases st) else purchases st) \<and>
      (\<forall>p\<in>set (purchases st). fulfils row p \<longrightarrow> refunded p (ledger st'))"
proof -
  have o': "orders (purchases st) (deliveries st) (ledger st)" using inv by (simp add: orders_inv_def)
  have stock: "stock_ok (offers st)" using inv by (simp add: orders_inv_def)
  show ?thesis
  proof (cases "del_source_type row = ''purchase''")
    case False
    then show ?thesis
      using ok stock by (simp add: refund_purchase_def fulfils_def)
  next
    case True
    have "\<exists>q\<in>set (purchases st). pur_id q = del_source row"
      using orders_delivery [OF o' row] True by (simp add: delivery_ok_def)
    then obtain q where q: "purchase_of st (del_source row) = Some q"
      by (cases "purchase_of st (del_source row)") (auto simp: purchase_of_def table_simps)
    note qr = purchase_of_row [OF q]
    have ful: "fulfils row q" using orders_fulfils [OF o' _ row True] qr by blast
    then have queued: "pur_status q = PurchaseQueued"
      using status by (cases "pur_status q") (auto simp: fulfils_def)
    have pos: "0 \<le> pur_quantity q" using o' qr by (auto simp: orders_def order_ok_def)
    obtain st1 where st1: "purchases st1 = purchases st" "deliveries st1 = deliveries st" "offers st1 = offers st"
        "set (ledger st) \<subseteq> set (ledger st1)" "refunded q (ledger st1)"
      and out: "b = True" "st' = update_purchase (pur_id q)
        (\<lambda>p. p\<lparr>pur_status := PurchaseRefunded, pur_error := Some e, pur_updated_at := t\<rparr>)
        (return_stock (pur_offer q) (pur_quantity q) st1)"
    proof (cases "pur_total q = 0")
      case True
      then have "b = True" "st' = update_purchase (pur_id q)
        (\<lambda>p. p\<lparr>pur_status := PurchaseRefunded, pur_error := Some e, pur_updated_at := t\<rparr>)
        (return_stock (pur_offer q) (pur_quantity q) st)"
        using ok q queued \<open>del_source_type row = ''purchase''\<close> by (simp_all add: refund_purchase_def)
      then show ?thesis using that [of st] True by (simp add: refunded_def)
    next
      case False
      then obtain l st1 m where l: "append_ledger st (pur_account q) (pur_total q) (PStr k)
          (PStr (''refund:'' @ pur_id q)) m = Inr (l, st1)"
        and "b = True" "st' = update_purchase (pur_id q)
        (\<lambda>p. p\<lparr>pur_status := PurchaseRefunded, pur_error := Some e, pur_updated_at := t\<rparr>)
        (return_stock (pur_offer q) (pur_quantity q) st1)"
        using ok q queued True by (auto simp: refund_purchase_def map_sum_Inr)
      then show ?thesis
        using that [of st1] append_entry [OF l] append_ledger_cases(12) [OF l] by (simp add: refunded_def subset_insertI)
    qed
    have "stock_ok (offers (return_stock (pur_offer q) (pur_quantity q) st1))"
      using stock pos by (intro stock_ok_return) (simp_all add: st1)
    moreover have "refunded p (ledger st1)" if "p \<in> set (purchases st)" "fulfils row p" for p
    proof -
      have "distinct (map pur_id (purchases st))" using o' by (simp add: orders_def)
      moreover have "pur_id p = pur_id q" using that(2) qr by (simp add: fulfils_def)
      ultimately have "p = q" using that(1) qr by (meson row_by_id)
      then show ?thesis using st1(5) by simp
    qed
    moreover have "deliveries st' = deliveries st" "ledger st' = ledger st1"
      "offers st' = offers (return_stock (pur_offer q) (pur_quantity q) st1)"
      "purchases st' = update_where (\<lambda>p. pur_id p = del_source row)
        (\<lambda>p. p\<lparr>pur_status := PurchaseRefunded, pur_error := Some e, pur_updated_at := t\<rparr>) (purchases st)"
      unfolding out(2) update_purchase_def return_stock_def by (simp_all add: st1(1,2) qr)
    ultimately show ?thesis unfolding out(1) using True st1(4) by metis
  qed
qed

lemma release_delivery_orders:
  assumes inv: "orders_inv st" and ok: "release_delivery st i tok reason = Inr (res, st')"
  shows "orders_inv st' \<and> evolves (deliveries st) (deliveries st')"
proof -
  obtain row where row: "claimed_row st i tok = Inr row" using ok by (auto simp: release_delivery_def)
  note c = claimed_row_props [OF row]
  have eq: "deliveries st' = update_where (\<lambda>d. del_id d = del_id row) (\<lambda>d. d\<lparr>del_status := Retry,
        del_error := Some (take 2000 (py_str (py_or reason (PStr ''retry requested'')))),
        del_token := None, del_updated_at := clock st (ticks st)\<rparr>) (deliveries st)"
    "purchases st' = (if del_source_type row = ''purchase''
      then update_where (\<lambda>p. pur_id p = del_source row) (\<lambda>p. p) (purchases st) else purchases st)"
    "ledger st' = ledger st" "offers st' = offers st"
    using ok row by (auto simp: release_delivery_def now_def Let_def update_delivery_def)
  have open_p: "pur_status p = PurchaseQueued" if "fulfils row p" for p
    using that c(3) by (cases "pur_status p") (auto simp: fulfils_def)
  show ?thesis
    by (rule settle [OF eq(1,2) inv c(2)])
      (use c inv eq(3,4) open_p in \<open>auto simp: orders_inv_def delivery_ok_def\<close>)
qed

text \<open>Failing for good after the refund: the delivery fails, the purchase is refunded.\<close>

lemma settle_failed:
  assumes inv: "orders_inv st" and row: "row \<in> set (deliveries st)"
    and status: "del_status row = Processing \<or> del_status row = Reconciliation"
    and refund: "refund_purchase row k nk n e t (st\<lparr>ticks := m\<rparr>) = Inr (b, st2)"
    and st': "st' = update_delivery (del_id row) f st2"
    and f: "\<And>d. del_id (f d) = del_id d \<and> del_source (f d) = del_source d \<and> del_source_type (f d) = del_source_type d
        \<and> del_account (f d) = del_account d \<and> del_rewards_json (f d) = del_rewards_json d \<and> del_status (f d) = Failed
        \<and> del_delivered_at (f d) = del_delivered_at d \<and> (del_token (f d) = None \<or> del_token (f d) = del_token d)"
    and token: "del_status row = Processing \<Longrightarrow> del_token (f row) = None"
  shows "orders_inv st' \<and> evolves (deliveries st) (deliveries st')"
proof -
  have inv': "orders_inv (st\<lparr>ticks := m\<rparr>)" using inv by (simp add: orders_inv_def)
  note r = refund_purchase_cases [OF inv' _ status refund, simplified, OF row]
  have eq: "deliveries st' = update_where (\<lambda>d. del_id d = del_id row) f (deliveries st)"
    "purchases st' = (if del_source_type row = ''purchase'' then update_where (\<lambda>p. pur_id p = del_source row)
        (\<lambda>p. p\<lparr>pur_status := PurchaseRefunded, pur_error := Some e, pur_updated_at := t\<rparr>) (purchases st) else purchases st)"
    "ledger st' = ledger st2" "offers st' = offers st2"
    using r by (simp_all add: st' update_delivery_def)
  have "delivery_ok (purchases st) row" using inv row orders_delivery unfolding orders_inv_def by blast
  then have at: "del_delivered_at row = None" "del_status row = Reconciliation \<Longrightarrow> del_token row = None"
    using status by (auto simp: delivery_ok_def)
  show ?thesis
  proof (rule settle [OF eq(1,2) inv row])
    show "del_status (f row) \<in> delivery_next (del_status row)" using f status by auto
    show "(del_status (f row) = Processing \<longleftrightarrow> del_token (f row) \<noteq> None) \<and>
        (del_status (f row) = Delivered \<longleftrightarrow> del_delivered_at (f row) \<noteq> None)"
      using f [of row] at status token by (auto simp: at(1))
  qed (use r f eq(3,4) in simp_all)
qed

lemma fail_delivery_orders:
  assumes inv: "orders_inv st" and ok: "fail_delivery st i tok err definitive = Inr (res, st')"
  shows "orders_inv st' \<and> evolves (deliveries st) (deliveries st')"
proof -
  obtain row where row: "claimed_row st i tok = Inr row" using ok by (auto simp: fail_delivery_def)
  note c = claimed_row_props [OF row]
  let ?e = "take 2000 (py_str (py_or err (PStr ''delivery failed'')))"
  show ?thesis
  proof (cases definitive)
    case False
    have eq: "deliveries st' = update_where (\<lambda>d. del_id d = del_id row) (\<lambda>d. d\<lparr>del_status := Reconciliation,
        del_error := Some ?e, del_token := None, del_updated_at := clock st (ticks st)\<rparr>) (deliveries st)"
      "purchases st' = (if del_source_type row = ''purchase''
        then update_where (\<lambda>p. pur_id p = del_source row) (\<lambda>p. p) (purchases st) else purchases st)"
      "ledger st' = ledger st" "offers st' = offers st"
      using ok row False by (auto simp: fail_delivery_def now_def Let_def update_delivery_def)
    have open_p: "pur_status p = PurchaseQueued" if "fulfils row p" for p
      using that c(3) by (cases "pur_status p") (auto simp: fulfils_def)
    show ?thesis
      by (rule settle [OF eq(1,2) inv c(2)])
        (use c inv eq(3,4) open_p in \<open>auto simp: orders_inv_def delivery_ok_def\<close>)
  next
    case True
    then obtain b st2 where r: "refund_purchase row ''delivery-refund'' ''error'' ?e ?e (clock st (ticks st))
          (st\<lparr>ticks := Suc (ticks st)\<rparr>) = Inr (b, st2)"
        and st': "st' = update_delivery (del_id row) (\<lambda>d. d\<lparr>del_status := Failed, del_error := Some ?e,
          del_token := None, del_updated_at := clock st (ticks st)\<rparr>) st2"
      using ok row by (auto simp: fail_delivery_def now_def Let_def)
    show ?thesis by (rule settle_failed [OF inv c(2) disjI1 [OF c(3)] r st']) simp_all
  qed
qed

lemma resolve_reconciliation_orders:
  assumes inv: "orders_inv st" and ok: "resolve_reconciliation st i delivered receipt reason = Inr (res, st')"
  shows "orders_inv st' \<and> evolves (deliveries st) (deliveries st')"
proof -
  obtain row where sel: "row_where (\<lambda>d. del_id d = py_str i \<and> del_status d = Reconciliation) (deliveries st) = Some row"
    using ok by (auto simp: resolve_reconciliation_def split: option.splits)
  then have row: "row \<in> set (deliveries st)" "del_status row = Reconciliation"
    using row_where_Some by fastforce+
  have "delivery_ok (purchases st) row" using inv row orders_delivery unfolding orders_inv_def by blast
  then have token: "del_token row = None" using row(2) by (auto simp: delivery_ok_def)
  show ?thesis
  proof (cases delivered)
    case True
    have eq: "deliveries st' = update_where (\<lambda>d. del_id d = del_id row) (\<lambda>d. d\<lparr>del_status := Delivered,
        del_delivered_at := Some (clock st (ticks st)),
        del_receipt := Some (canonical (py_or receipt (PDict [(''reconciled'', PBool True)]))),
        del_error := None, del_updated_at := clock st (ticks st)\<rparr>) (deliveries st)"
      "purchases st' = (if del_source_type row = ''purchase'' then update_where (\<lambda>p. pur_id p = del_source row)
        (\<lambda>p. p\<lparr>pur_status := PurchaseDelivered, pur_error := None, pur_updated_at := clock st (ticks st)\<rparr>) (purchases st)
        else purchases st)"
      "ledger st' = ledger st" "offers st' = offers st"
      using ok sel True by (auto simp: resolve_reconciliation_def now_def Let_def update_delivery_def update_purchase_def)
    show ?thesis
      by (rule settle [OF eq(1,2) inv row(1)]) (use row token inv eq(3,4) in \<open>auto simp: orders_inv_def\<close>)
  next
    case False
    then obtain b st2 where r: "refund_purchase row ''reconciliation-refund'' ''reason'' (take 1000 (py_str reason))
          (take 2000 (py_str reason)) (clock st (ticks st)) (st\<lparr>ticks := Suc (ticks st)\<rparr>) = Inr (b, st2)"
        and st': "st' = update_delivery (del_id row) (\<lambda>d. d\<lparr>del_status := Failed,
          del_error := Some (take 2000 (py_str reason)), del_updated_at := clock st (ticks st)\<rparr>) st2"
      using ok sel by (auto simp: resolve_reconciliation_def now_def Let_def)
    show ?thesis by (rule settle_failed [OF inv row(1) disjI2 [OF row(2)] r st']) (simp_all add: row(2))
  qed
qed

subsection \<open>Buying\<close>

lemma purchase_retry:
  assumes "purchase st acc oi q key = Inr ((p, None), st')"
  shows "\<exists>st1. ensure_account acc (st\<lparr>ticks := Suc (ticks st)\<rparr>) = Inr (pur_account p, st1) \<and> st' = st1
    \<and> p \<in> set (purchases st)"
proof -
  obtain account st1 key' where e: "ensure_account acc (st\<lparr>ticks := Suc (ticks st)\<rparr>) = Inr (account, st1)"
    and r: "row_where (\<lambda>p. pur_account p = account \<and> pur_key p = key') (purchases st1) = Some p" "st' = st1"
    using assms by (auto simp: purchase_def now_def Let_def res_simps uuid4_def)
  have "purchases st1 = purchases st" using ensure_account_cases(7) [OF e] by (metis store.select_convs store.surjective store.update_convs)
  then show ?thesis using e r row_where_Some by fastforce
qed

text \<open>The stages of a purchase that is not a retry.\<close>

lemma purchase_stages:
  assumes "purchase st acc oi q key = Inr ((p, Some i), st')"
  shows "\<exists>a st1 offer text m st4 st5. ensure_account acc (st\<lparr>ticks := Suc (ticks st)\<rparr>) = Inr (a, st1) \<and>
    offer_of st1 (py_str oi) = Some offer \<and> off_enabled offer \<and> in_stock offer (pur_quantity p) \<and>
    positive_int q ''quantity'' MAX_PURCHASE_QUANTITY = Inr (pur_quantity p) \<and>
    pur_account p = a \<and> pur_offer p = off_id offer \<and> pur_total p = off_price offer * pur_quantity p \<and>
    pur_status p = PurchaseQueued \<and> (\<forall>r\<in>set (purchases st1). \<not> (pur_account r = a \<and> pur_key r = pur_key p)) \<and>
    identifier_of key ''idempotencyKey'' 128 = Inr (pur_key p) \<and>
    insert_purchase p (st1\<lparr>uuids := Suc (Suc (uuids st1))\<rparr>) = Inr st4 \<and>
    (if pur_total p = 0 then st5 = st4
     else \<exists>l. append_ledger st4 a (- pur_total p) (PStr ''purchase'') (PStr (''purchase:'' @ pur_id p)) m = Inr (l, st5)) \<and>
    insert_delivery i ''purchase'' (pur_id p) a text (pur_created_at p) (pur_created_at p)
      (if off_stock offer \<noteq> None then take_stock (off_id offer) (pur_quantity p) st5 else st5) = Inr st'"
proof -
  obtain quantity key' a st1 where
    quantity: "positive_int q ''quantity'' MAX_PURCHASE_QUANTITY = Inr quantity"
    and key': "identifier_of key ''idempotencyKey'' 128 = Inr key'"
    and e: "ensure_account acc (st\<lparr>ticks := Suc (ticks st)\<rparr>) = Inr (a, st1)"
    using assms by (auto simp: purchase_def now_def)
  have new: "row_where (\<lambda>p. pur_account p = a \<and> pur_key p = key') (purchases st1) = None"
    using assms quantity key' e by (auto simp: purchase_def now_def case_option_Inr)
  obtain offer where offer: "offer_of st1 (py_str oi) = Some offer" "off_enabled offer" "in_stock offer quantity"
    using assms quantity key' e new by (auto simp: purchase_def now_def case_option_Inr)
  have u: "st1\<lparr>uuids := x, uuids := y\<rparr> = st1\<lparr>uuids := y\<rparr>" "uuids (st1\<lparr>uuids := x\<rparr>) = x"
    "uuid (st1\<lparr>uuids := x\<rparr>) = uuid st1" for x y by simp_all
  obtain items where
    body: "(let rewards = PList (concat (replicate (nat quantity) items));
         row = \<lparr>pur_id = uuid st1 (uuids st1), pur_account = a, pur_offer = off_id offer,
           pur_offer_version = off_version offer, pur_quantity = quantity, pur_total = off_price offer * quantity,
           pur_status = PurchaseQueued, pur_key = key', pur_error = None, pur_created_at = clock st (ticks st),
           pur_updated_at = clock st (ticks st)\<rparr>
       in bind_res (insert_purchase row (st1\<lparr>uuids := Suc (Suc (uuids st1))\<rparr>)) (\<lambda>st4.
          bind_res (if off_price offer * quantity \<noteq> 0
            then map_sum id snd (append_ledger st4 a (- (off_price offer * quantity)) (PStr ''purchase'')
               (PStr (''purchase:'' @ uuid st1 (uuids st1)))
               (PDict [(''offerId'', PStr (off_id offer)), (''quantity'', PInt quantity)]))
            else Inr st4) (\<lambda>st5.
          bind_res (insert_delivery (uuid st1 (Suc (uuids st1))) ''purchase'' (uuid st1 (uuids st1)) a (canonical rewards)
             (clock st (ticks st)) (clock st (ticks st))
             (if off_stock offer \<noteq> None then take_stock (off_id offer) quantity st5 else st5)) (\<lambda>st7.
          Inr ((row, Some (uuid st1 (Suc (uuids st1)))), st7))))) = Inr ((p, Some i), st')"
    using assms quantity key' e new offer
    by (simp only: purchase_def now_def uuid4_def bind_res_simps Let_def case_prod_conv option.case
        require_simps simp_thms u) (simp only: bind_res_Inr_iff [of "json_loads _"] bind_res_Inr_iff [of "py_iter _"], blast)
  define p' where "p' = \<lparr>pur_id = uuid st1 (uuids st1), pur_account = a, pur_offer = off_id offer,
        pur_offer_version = off_version offer, pur_quantity = quantity, pur_total = off_price offer * quantity,
        pur_status = PurchaseQueued, pur_key = key', pur_error = None, pur_created_at = clock st (ticks st),
        pur_updated_at = clock st (ticks st)\<rparr>"
  obtain st4 st5 where p: "p = p'" and st4: "insert_purchase p' (st1\<lparr>uuids := Suc (Suc (uuids st1))\<rparr>) = Inr st4"
    and st5: "(if off_price offer * quantity \<noteq> 0
        then map_sum id snd (append_ledger st4 a (- (off_price offer * quantity)) (PStr ''purchase'')
               (PStr (''purchase:'' @ uuid st1 (uuids st1)))
               (PDict [(''offerId'', PStr (off_id offer)), (''quantity'', PInt quantity)]))
        else Inr st4) = Inr st5"
    and st': "insert_delivery i ''purchase'' (uuid st1 (uuids st1)) a (canonical (PList (concat (replicate (nat quantity) items))))
        (clock st (ticks st)) (clock st (ticks st))
        (if off_stock offer \<noteq> None then take_stock (off_id offer) quantity st5 else st5) = Inr st'"
    using body unfolding p'_def [symmetric] Let_def bind_res_Inr_iff by blast
  show ?thesis
    using quantity key' e new offer st4 st5 st'
    by (intro exI [of _ a] exI [of _ st1] exI [of _ offer] exI [of _ "canonical (PList (concat (replicate (nat quantity) items)))"]
        exI [of _ "PDict [(''offerId'', PStr (off_id offer)), (''quantity'', PInt quantity)]"] exI [of _ st4] exI [of _ st5])
      (auto simp: p p'_def table_simps map_sum_Inr split: if_splits)
qed

lemma ensure_account_frame:
  assumes "ensure_account v (st\<lparr>ticks := n\<rparr>) = Inr (a, st')"
  shows "purchases st' = purchases st" "deliveries st' = deliveries st" "offers st' = offers st" "ledger st' = ledger st"
    "offer_of st' i = offer_of st i"
proof -
  have "st' = st\<lparr>accounts := accounts st', wallets := wallets st', ticks := Suc n\<rparr>"
    using ensure_account_cases(7) [OF assms] by simp
  then have "purchases st' = purchases (st\<lparr>accounts := accounts st', wallets := wallets st', ticks := Suc n\<rparr>)"
    "deliveries st' = deliveries (st\<lparr>accounts := accounts st', wallets := wallets st', ticks := Suc n\<rparr>)"
    "offers st' = offers (st\<lparr>accounts := accounts st', wallets := wallets st', ticks := Suc n\<rparr>)"
    by (rule arg_cong)+
  then show "purchases st' = purchases st" "deliveries st' = deliveries st" "offers st' = offers st" by simp_all
  then show "offer_of st' i = offer_of st i" by (simp add: offer_of_def)
  show "ledger st' = ledger st" using ensure_account_cases(3) [OF assms] by simp
qed

text \<open>What a purchase that is not a retry changes.\<close>

lemma purchase_effect:
  assumes ok: "purchase st acc oi q key = Inr ((p, Some i), st')"
  obtains offer d where "offer_of st (py_str oi) = Some offer" "off_enabled offer" "in_stock offer (pur_quantity p)"
    "pur_offer p = off_id offer" "pur_total p = off_price offer * pur_quantity p" "0 < pur_quantity p"
    "pur_status p = PurchaseQueued" "purchases st' = purchases st @ [p]" "deliveries st' = deliveries st @ [d]"
    "del_id d = i" "del_source_type d = ''purchase''" "del_source d = pur_id p" "del_account d = pur_account p"
    "del_status d = Queued" "del_token d = None" "del_delivered_at d = None"
    "del_source d \<notin> del_source ` set (deliveries st)" "i \<notin> del_id ` set (deliveries st)"
    "pur_id p \<notin> pur_id ` set (purchases st)"
    "\<forall>r\<in>set (purchases st). \<not> (pur_account r = pur_account p \<and> pur_key r = pur_key p)"
    "offers st' = (if off_stock offer \<noteq> None then offers (take_stock (off_id offer) (pur_quantity p) st) else offers st)"
    "charged p (ledger st')" "set (ledger st) \<subseteq> set (ledger st')"
    "\<exists>rows. ledger st' = ledger st @ rows \<and> (\<forall>a. posted rows a = (if a = pur_account p then - pur_total p else 0))"
proof -
  obtain a st1 offer body m st4 st5 where
    e: "ensure_account acc (st\<lparr>ticks := Suc (ticks st)\<rparr>) = Inr (a, st1)"
    and o': "offer_of st1 (py_str oi) = Some offer" "off_enabled offer" "in_stock offer (pur_quantity p)"
    and q: "positive_int q ''quantity'' MAX_PURCHASE_QUANTITY = Inr (pur_quantity p)"
    and p: "pur_account p = a" "pur_offer p = off_id offer" "pur_total p = off_price offer * pur_quantity p"
      "pur_status p = PurchaseQueued" "\<forall>r\<in>set (purchases st1). \<not> (pur_account r = a \<and> pur_key r = pur_key p)"
    and st4: "insert_purchase p (st1\<lparr>uuids := Suc (Suc (uuids st1))\<rparr>) = Inr st4"
    and st5: "if pur_total p = 0 then st5 = st4
     else \<exists>l. append_ledger st4 a (- pur_total p) (PStr ''purchase'') (PStr (''purchase:'' @ pur_id p)) m = Inr (l, st5)"
    and st': "insert_delivery i ''purchase'' (pur_id p) a body (pur_created_at p) (pur_created_at p)
      (if off_stock offer \<noteq> None then take_stock (off_id offer) (pur_quantity p) st5 else st5) = Inr st'"
    using purchase_stages [OF ok] by auto
  note f = ensure_account_frame [OF e]
  note ins = insert_delivery_cases [OF st']
  have s4: "st4 = st1\<lparr>uuids := Suc (Suc (uuids st1)), purchases := purchases st1 @ [p]\<rparr>"
    "pur_id p \<notin> pur_id ` set (purchases st1)"
    using st4 by (auto simp: insert_purchase_def)
  have s5: "purchases st5 = purchases st @ [p]" "deliveries st5 = deliveries st" "offers st5 = offers st"
    "\<exists>rows. ledger st5 = ledger st @ rows \<and> (\<forall>a. posted rows a = (if a = pur_account p then - pur_total p else 0))"
    "charged p (ledger st5)"
  proof -
    have "purchases st5 = purchases st4 \<and> deliveries st5 = deliveries st4 \<and> offers st5 = offers st4 \<and>
        (\<exists>rows. ledger st5 = ledger st4 @ rows \<and> (\<forall>a. posted rows a = (if a = pur_account p then - pur_total p else 0)))
        \<and> charged p (ledger st5)"
    proof (cases "pur_total p = 0")
      case True
      with st5 show ?thesis by (simp add: charged_def exI [of _ "[]"])
    next
      case False
      with st5 obtain l where l: "append_ledger st4 a (- pur_total p) (PStr ''purchase'')
        (PStr (''purchase:'' @ pur_id p)) m = Inr (l, st5)" by auto
      from append_ledger_cases(5,6,12) [OF l] append_entry [OF l] p(1) show ?thesis
        by (simp add: charged_def exI [of _ "[l]"])
    qed
    then show "purchases st5 = purchases st @ [p]" "deliveries st5 = deliveries st" "offers st5 = offers st"
      "\<exists>rows. ledger st5 = ledger st @ rows \<and> (\<forall>a. posted rows a = (if a = pur_account p then - pur_total p else 0))"
      "charged p (ledger st5)"
      using f by (simp_all add: s4)
  qed
  let ?d = "\<lparr>del_id = i, del_source_type = ''purchase'', del_source = pur_id p, del_account = a, del_rewards_json = body,
        del_status = Queued, del_attempts = 0, del_token = None, del_claimed_at = None,
        del_delivered_at = None, del_receipt = None, del_error = None,
        del_created_at = pur_created_at p, del_updated_at = pur_created_at p\<rparr>"
  show ?thesis
  proof (rule that [of offer ?d])
    show "0 < pur_quantity p" using positive_int_range [OF q] by simp
    show "offers st' = (if off_stock offer \<noteq> None then offers (take_stock (off_id offer) (pur_quantity p) st) else offers st)"
      using ins(1) s5(3) by (auto simp: take_stock_def)
    have led: "ledger st' = ledger st5" using ins(1) by (simp add: take_stock_def)
    then show "\<exists>rows. ledger st' = ledger st @ rows \<and> (\<forall>a. posted rows a = (if a = pur_account p then - pur_total p else 0))"
      using s5(4) by simp
    show "set (ledger st) \<subseteq> set (ledger st')" using s5(4) led by auto
    show "charged p (ledger st')" using s5(5) led by simp
  qed (use o' p f s4 s5 ins in \<open>auto simp: take_stock_def split: if_splits\<close>)
qed

lemma purchase_orders:
  assumes inv: "orders_inv st" and ok: "purchase st acc oi q key = Inr ((p, di), st')"
  shows "orders_inv st' \<and> evolves (deliveries st) (deliveries st')"
proof (cases di)
  case None
  then obtain st1 where "ensure_account acc (st\<lparr>ticks := Suc (ticks st)\<rparr>) = Inr (pur_account p, st1)" "st' = st1"
    using purchase_retry ok by blast
  then show ?thesis using inv ensure_account_frame by (simp add: orders_inv_def)
next
  case (Some i)
  from purchase_effect [OF ok [unfolded Some]] obtain offer d where
    eff: "offer_of st (py_str oi) = Some offer" "in_stock offer (pur_quantity p)" "0 < pur_quantity p"
    "pur_status p = PurchaseQueued" "purchases st' = purchases st @ [p]" "deliveries st' = deliveries st @ [d]"
    "del_id d = i" "del_source_type d = ''purchase''" "del_source d = pur_id p"
    "del_status d = Queued" "del_token d = None" "del_delivered_at d = None"
    "del_source d \<notin> del_source ` set (deliveries st)" "i \<notin> del_id ` set (deliveries st)"
    "pur_id p \<notin> pur_id ` set (purchases st)"
    "offers st' = (if off_stock offer \<noteq> None then offers (take_stock (off_id offer) (pur_quantity p) st) else offers st)"
    "charged p (ledger st')" "set (ledger st) \<subseteq> set (ledger st')"
    by metis
  have "orders (purchases st) (deliveries st) (ledger st')"
    using inv eff(18) orders_more_rows by (auto simp: orders_inv_def)
  moreover have "fulfils d p" using eff by (simp add: fulfils_def)
  ultimately have "orders (purchases st') (deliveries st') (ledger st')"
    using eff by (auto simp: orders_def order_ok_def delivery_ok_def)
  moreover have "off_id offer = py_str oi" using eff(1) row_where_Some unfolding offer_of_def by fastforce
  then have "stock_ok (offers st')"
    using inv eff stock_ok_take [of st "py_str oi" offer "pur_quantity p"] by (simp add: orders_inv_def)
  ultimately show ?thesis using eff(6) by (simp add: orders_inv_def evolves_snoc)
qed

subsection \<open>The step relation\<close>

definition init_store :: "store \<Rightarrow> bool" where
  "init_store st = (\<exists>c u t. st = empty_store c u t)"

text \<open>One rule per public operation of \<^verbatim>\<open>Store\<close> that writes; a failed call changes nothing.\<close>

inductive store_step :: "store \<Rightarrow> store \<Rightarrow> bool" where
  step_credit: "credit st acc m k r md = Inr (c, st') \<Longrightarrow> store_step st st'"
| step_create_link_code: "create_link_code st acc t e = Inr (l, st') \<Longrightarrow> store_step st st'"
| step_redeem_link_code: "redeem_link_code st dis cd = Inr (j, st') \<Longrightarrow> store_step st st'"
| step_purchase: "purchase st acc oi q key = Inr (pd, st') \<Longrightarrow> store_step st st'"
| step_claim: "claim_delivery st i = Inr (cl, st') \<Longrightarrow> store_step st st'"
| step_complete: "complete_delivery st i tok rc = Inr (cp, st') \<Longrightarrow> store_step st st'"
| step_release: "release_delivery st i tok rs = Inr (rl, st') \<Longrightarrow> store_step st st'"
| step_fail: "fail_delivery st i tok err df = Inr (fd, st') \<Longrightarrow> store_step st st'"
| step_resolve: "resolve_reconciliation st i dl rc rs = Inr (rv, st') \<Longrightarrow> store_step st st'"
| step_webhook: "ingest_webhook st pr ev acc m pl = Inr (wr, st') \<Longrightarrow> store_step st st'"
| step_playtime: "observe_playtime st acc on ob iv cr mg = Inr (pt, st') \<Longrightarrow> store_step st st'"
| step_sync: "sync_config st file = Inr st' \<Longrightarrow> store_step st st'"
| step_progress: "add_track_progress st acc ti m r = Inr (tp, st') \<Longrightarrow> store_step st st'"
| step_level: "claim_track_level st acc ti lv = Inr (tl', st') \<Longrightarrow> store_step st st'"
| step_engagement: "observe_engagement st acc on ob loc po = Inr (en, st') \<Longrightarrow> store_step st st'"

lemmas store_step_money = credit_money create_link_code_money redeem_link_code_money purchase_money
  claim_delivery_money complete_delivery_money release_delivery_money fail_delivery_money
  resolve_reconciliation_money ingest_webhook_money observe_playtime_money sync_config_money
  add_track_progress_money claim_track_level_money observe_engagement_money

lemma step_money_path: "store_step st st' \<Longrightarrow> money_path st st'"
  by (induction rule: store_step.induct) (auto dest: store_step_money)

lemma step_orders:
  assumes "store_step st st'" and "orders_inv st"
  shows "orders_inv st' \<and> evolves (deliveries st) (deliveries st')"
  using assms
proof (induction rule: store_step.induct)
  case (step_purchase st acc oi q key pd st')
  then show ?case using purchase_orders [of st acc oi q key "fst pd" "snd pd"] by simp
next
  case (step_credit st acc m k r md c st')
  show ?case using credit_queue [OF step_credit.hyps] credit_money [OF step_credit.hyps] by (rule orders_inv_queue [OF step_credit.prems])
next
  case (step_create_link_code st acc t e l st')
  show ?case using create_link_code_queue [OF step_create_link_code.hyps] create_link_code_money [OF step_create_link_code.hyps] by (rule orders_inv_queue [OF step_create_link_code.prems])
next
  case (step_redeem_link_code st dis cd j st')
  show ?case using redeem_link_code_queue [OF step_redeem_link_code.hyps] redeem_link_code_money [OF step_redeem_link_code.hyps] by (rule orders_inv_queue [OF step_redeem_link_code.prems])
next
  case (step_webhook st pr ev acc m pl wr st')
  show ?case using ingest_webhook_queue [OF step_webhook.hyps] ingest_webhook_money [OF step_webhook.hyps] by (rule orders_inv_queue [OF step_webhook.prems])
next
  case (step_playtime st acc on ob iv cr mg pt st')
  show ?case using observe_playtime_queue [OF step_playtime.hyps] observe_playtime_money [OF step_playtime.hyps] by (rule orders_inv_queue [OF step_playtime.prems])
next
  case (step_progress st acc ti m r tp st')
  show ?case using add_track_progress_queue [OF step_progress.hyps] add_track_progress_money [OF step_progress.hyps] by (rule orders_inv_queue [OF step_progress.prems])
next
  case (step_level st acc ti lv tl' st')
  show ?case using claim_track_level_queue [OF step_level.hyps] claim_track_level_money [OF step_level.hyps] by (rule orders_inv_queue [OF step_level.prems])
next
  case (step_engagement st acc on ob loc po en st')
  show ?case using observe_engagement_queue [OF step_engagement.hyps] observe_engagement_money [OF step_engagement.hyps] by (rule orders_inv_queue [OF step_engagement.prems])
next
  case (step_claim st i cl st')
  show ?case by (rule claim_delivery_orders [OF step_claim.prems step_claim.hyps])
next
  case (step_complete st i tok rc cp st')
  show ?case by (rule complete_delivery_orders [OF step_complete.prems step_complete.hyps])
next
  case (step_release st i tok rs rl st')
  show ?case by (rule release_delivery_orders [OF step_release.prems step_release.hyps])
next
  case (step_fail st i tok err df fd st')
  show ?case by (rule fail_delivery_orders [OF step_fail.prems step_fail.hyps])
next
  case (step_resolve st i dl rc rs rv st')
  show ?case by (rule resolve_reconciliation_orders [OF step_resolve.prems step_resolve.hyps])
next
  case (step_sync st cfg st')
  show ?case by (rule sync_config_orders [OF step_sync.prems step_sync.hyps])
qed

definition store_inv :: "store \<Rightarrow> bool" where
  "store_inv st = (money_inv st \<and> audit_inv st \<and> orders_inv st)"

lemma init_store_inv: "init_store st \<Longrightarrow> store_inv st"
  by (auto simp: init_store_def empty_store_def store_inv_def money_inv_def audit_inv_def orders_inv_def
      orders_def stock_ok_def ledger_chain.intact_Nil)

lemma step_store_inv: "store_inv st \<Longrightarrow> store_step st st' \<Longrightarrow> store_inv st'"
  using audit_inv_path step_money_path step_orders unfolding store_inv_def by blast

text \<open>Opening accounts and posting entries are the steps of the abstract bank.\<close>

lemma bank_of_same: "same_money st st' \<Longrightarrow> bank_of st' = bank_of st"
  by (simp add: same_money_def bank_of_def) (metis image_set)

lemma path_bank: "money_path st st' \<Longrightarrow> money_inv st \<Longrightarrow> money_inv st' \<and> steps bank_step (bank_of st) (bank_of st')"
proof (induction rule: money_path.induct)
  case (mp_same st st')
  then show ?case by (simp add: bank_of_same money_inv_cong steps.steps_refl)
next
  case (mp_then st st1 st2)
  then show ?case by (simp add: bank_of_same money_inv_cong)
next
  case (mp_open st st1 v a st2)
  then have inv: "money_inv st1" "steps bank_step (bank_of st) (bank_of st1)" by simp_all
  have b: "bank_of st2 = (bank_of st1)\<lparr>bk_open := insert a (bk_open (bank_of st1))\<rparr>"
    using ensure_account_cases(3,4) [OF mp_open.hyps(2)] unfolding bank_of_def set_map by simp
  have "bank_step (bank_of st1) (bank_of st2)" unfolding b by (rule bank_open)
  from money_inv_open [OF inv(1) mp_open.hyps(2)] steps.steps_step [OF inv(2) this] show ?case ..
next
  case (mp_post st st1 a d k r m row st2)
  then have inv: "money_inv st1" "steps bank_step (bank_of st) (bank_of st1)" by simp_all
  note c = append_ledger_cases [OF mp_post.hyps(2)]
  have bal: "bank_balance (bank_of st1) a = balance_of st1 a"
    unfolding balance_posted [OF inv(1)]
    by (simp add: bank_balance_def bank_of_def posted_def sum_where_def filter_map o_def)
  have b: "bank_of st2 = (bank_of st1)\<lparr>bk_entries := bk_entries (bank_of st1) @ [(a, d, led_reference row)]\<rparr>"
    using c(5,6,12) by (simp add: bank_of_def)
  have "led_reference row \<notin> bank_refs (bank_of st1)"
    using c(11) by (auto simp: bank_refs_def bank_of_def)
  moreover have "a \<in> bk_open (bank_of st1)" using c(4) by (simp add: bank_of_def account_exists_iff)
  ultimately have "bank_step (bank_of st1) (bank_of st2)"
    unfolding b using c(1-3) bal by (intro bank_post) simp_all
  from money_inv_post [OF inv(1) mp_post.hyps(2)] steps.steps_step [OF inv(2) this] show ?case ..
qed

interpretation rewards_sim: simulation init_store store_step store_inv bank_of bank_step
proof
  show "store_inv st" if "init_store st" for st using that by (rule init_store_inv)
  show "store_inv st'" if "store_inv st" "store_step st st'" for st st' using that by (rule step_store_inv)
  show "steps bank_step (bank_of st) (bank_of st')" if "store_inv st" "store_step st st'" for st st'
    using path_bank [OF step_money_path [OF that(2)]] that(1) by (simp add: store_inv_def)
qed

end
