(* ===== verification/RewardsDemo.thy ===== *)
theory RewardsDemo
  imports RewardsRuns
begin

section \<open>Community rewards: a concrete store\<close>

text \<open>
  One small run, evaluated: a configuration with one free offer is synchronised, an account
  is credited and buys the offer.  The witnesses of the properties start from its states.
  \<open>demo_funded\<close> is a store whose single ledger row is written down with a made-up hash, so
  that a priced purchase from it evaluates without computing SHA-256.
\<close>

definition demo_time :: string where
  "demo_time = ''2026-01-01T00:00:00Z''"

definition demo_store :: store where
  "demo_store = empty_store (\<lambda>n. demo_time) (\<lambda>n. CHR ''u'' # nat_digits n) (\<lambda>n. CHR ''k'' # nat_digits n)"

definition demo_offer :: "int \<Rightarrow> offer_row" where
  "demo_offer price = \<lparr>off_id = ''tent'', off_version = 1, off_name = ''tent'', off_description = '''',
     off_kind = ''item'', off_price = price, off_stock = Some 2, off_enabled = True,
     off_rewards_json = canonical (rewards_json [\<lparr>ri_template = ''Tent'', ri_count = 1, ri_quality = 0\<rparr>]),
     off_updated_at = demo_time\<rparr>"

definition demo_config :: pyval where
  "demo_config = PDict [(''offers'', PList [PDict [(''id'', PStr ''tent''), (''price'', PInt 0),
       (''rewards'', PList [PDict [(''count'', PInt 1), (''templateId'', PStr ''Tent'')]]), (''stock'', PInt 2)]]),
     (''version'', PInt 1)]"

definition demo_synced :: store where
  "demo_synced = demo_store\<lparr>ticks := 1, offers := [demo_offer 0]\<rparr>"

definition demo_funded :: store where
  "demo_funded = demo_store\<lparr>offers := [demo_offer 30],
     accounts := [\<lparr>acc_id = 7, acc_discord = None, acc_linked_at = None, acc_created_at = demo_time\<rparr>],
     wallets := [\<lparr>wal_account = 7, wal_balance = 100, wal_updated_at = demo_time\<rparr>],
     ledger := [\<lparr>led_id = ''seed'', led_account = 7, led_delta = 100, led_balance_after = 100,
       led_kind = ''seed'', led_reference = ''seed'', led_metadata_json = ''{}'', led_previous_hash = ZERO_HASH,
       led_entry_hash = '''', led_created_at = demo_time\<rparr>]\<rparr>"

lemmas demo_defs = demo_store_def empty_store_def demo_offer_def demo_synced_def demo_funded_def demo_time_def

lemma demo_strings:
  "strip ''tent'' = ''tent''" "strip ''Tent'' = ''Tent''" "lower (strip ''item'') = ''item''"
  "has_control ''tent'' = False" "has_control ''Tent'' = False"
  by code_simp+

lemma demo_json: "json_loads (canonical demo_config) = Inr demo_config"
  unfolding demo_config_def by (subst json_loads_canonical) simp_all

lemma demo_load: "load_config (Some (canonical demo_config)) =
    Inr [(''offers'', PList [PDict [(''id'', PStr ''tent''), (''price'', PInt 0),
       (''rewards'', PList [PDict [(''count'', PInt 1), (''templateId'', PStr ''Tent'')]]), (''stock'', PInt 2)]]),
     (''version'', PInt 1)]"
  by (simp add: load_config_def demo_json)
    (simp add: demo_config_def pget_def pget_default_def engagement_config_def section_of_def py_or_def
      positive_int_def engagement_tracks_def)

lemma demo_sync: "sync_config demo_store (Some (canonical demo_config)) = Inr demo_synced"
  by (simp add: sync_config_def demo_load now_def pget_def pget_default_def offer_from_config_def identifier_of_def
      demo_strings positive_int_def is_blank_def rewards_def MAX_REWARDS_def reward_row_def py_or_def
      MAX_LEDGER_AMOUNT_def Let_def sqlite_int_def upsert_offer_def)
    (simp add: demo_defs update_where_def)

lemma demo_identifiers:
  "identifier_of (PStr ''ref-1'') f 256 = Inr ''ref-1''" "identifier_of (PStr ''bonus'') f 64 = Inr ''bonus''"
  "identifier_of (PStr ''key-1'') f 128 = Inr ''key-1''" "identifier_of (PStr ''purchase'') f 64 = Inr ''purchase''"
  "identifier_of (PStr ''purchase:u0'') f 256 = Inr ''purchase:u0''"
  by (simp_all add: identifier_of_def) (code_simp+)

lemma nat_digits_01: "nat_digits 0 = ''0''" "nat_digits (Suc 0) = ''1''"
  by code_simp+

text \<open>A credit of 50 to account 7 and what follows from it.\<close>

lemma demo_credit: "\<exists>c st. credit demo_synced (PInt 7) (PInt 50) (PStr ''bonus'') (PStr ''ref-1'') PNone = Inr (c, st) \<and>
    balance_of st 7 = 50 \<and> offers st = [demo_offer 0] \<and> (\<exists>l. ledger st = [l] \<and> led_plain l \<and> led_delta l = 50)"
  by (simp add: led_plain_def credit_def positive_int_def MAX_LEDGER_AMOUNT_def ensure_account_def MAX_ACCOUNT_ID_def now_def
      Let_def demo_defs account_exists_def row_where_def demo_identifiers append_ledger_def uuid4_def py_or_def
      json_loads_canonical set_balance_def insert_ledger_def wallet_of_def balance_of_def update_where_def)

lemma demo_rewards_json: "json_loads (canonical (rewards_json [\<lparr>ri_template = ''Tent'', ri_count = 1, ri_quality = 0\<rparr>])) =
    Inr (PList [json_norm (reward_item_json \<lparr>ri_template = ''Tent'', ri_count = 1, ri_quality = 0\<rparr>)])"
  by (subst json_loads_canonical) (simp_all add: rewards_json_def reward_item_json_def)

lemma sha256_hex_nonempty [simp]: "sha256_hex m \<noteq> []" "[] \<noteq> sha256_hex m"
  by (metis length_sha256_hex list.size(3) zero_neq_numeral)+

lemma demo_purchase:
  "\<exists>p st. purchase demo_synced (PInt 7) (PStr ''tent'') (PInt 2) (PStr ''key-1'') = Inr ((p, Some ''u1''), st) \<and>
    purchases st = [p] \<and> pur_id p = ''u0'' \<and> pur_total p = 0 \<and> pur_status p = PurchaseQueued \<and>
    token st (tokens st) = ''k0'' \<and> offers st = [demo_offer 0\<lparr>off_stock := Some 0\<rparr>] \<and>
    (\<exists>d. deliveries st = [d] \<and> del_id d = ''u1'' \<and> del_status d = Queued \<and> del_source_type d = ''purchase'' \<and>
      del_source d = ''u0'' \<and>
      (\<exists>r. json_loads (del_rewards_json d) = Inr r))"
  by (simp add: json_loads_canonical reward_item_json_def purchase_def positive_int_def MAX_PURCHASE_QUANTITY_def ensure_account_def MAX_ACCOUNT_ID_def now_def
      Let_def demo_defs account_exists_def row_where_def demo_identifiers uuid4_def offer_of_def in_stock_def
      demo_rewards_json insert_purchase_def insert_delivery_def take_stock_def update_where_def nat_digits_01)

lemma demo_priced_purchase:
  "\<exists>p st. purchase demo_funded (PInt 7) (PStr ''tent'') (PInt 2) (PStr ''key-1'') = Inr ((p, Some ''u1''), st) \<and>
    pur_account p = 7 \<and> pur_total p = 60"
  by (simp add: purchase_def positive_int_def MAX_PURCHASE_QUANTITY_def ensure_account_def MAX_ACCOUNT_ID_def now_def
      Let_def demo_defs account_exists_def row_where_def demo_identifiers uuid4_def offer_of_def in_stock_def
      demo_rewards_json insert_purchase_def insert_delivery_def take_stock_def update_where_def nat_digits_01
      append_ledger_def MAX_LEDGER_AMOUNT_def py_or_def json_loads_canonical
      set_balance_def insert_ledger_def wallet_of_def balance_of_def sqlite_int_def)

end
