(* ===== verification/RewardsProps.thy ===== *)
theory RewardsProps
  imports RewardsDemo
begin

section \<open>Community rewards: the properties of runs\<close>

text \<open>
  What holds of every state the store reaches, and what buying and settling do, as
  consequences of the invariants and of the interpretations in \<^verbatim>\<open>RewardsRuns\<close>.
\<close>

lemma reach_money: "reach init_store store_step st \<Longrightarrow> money_inv st"
  and reach_audit: "reach init_store store_step st \<Longrightarrow> audit_inv st"
  and reach_orders: "reach init_store store_step st \<Longrightarrow> orders_inv st"
  using rewards_sim.reach_inv by (auto simp: store_inv_def)

lemma balance_nonneg:
  assumes "money_inv st"
  shows "0 \<le> balance_of st a"
proof (cases "wallet_of st a")
  case (Some w)
  then have "w \<in> set (wallets st)" unfolding wallet_of_def using row_where_Some by fastforce
  then have "wallet_ok (ledger st) w" using assms by (simp add: money_inv_def)
  with Some show ?thesis by (simp add: balance_of_def wallet_ok_def)
qed (simp add: balance_of_def)

lemma demo_synced_reach: "reach init_store store_step demo_synced"
  using reach_init [of init_store demo_store store_step] reach_step step_sync [OF demo_sync]
  by (metis demo_store_def init_store_def)

lemma demo_credited_reach:
  "\<exists>st w l. reach init_store store_step st \<and> store_step demo_synced st \<and> w \<in> set (wallets st) \<and>
    wal_account w = 7 \<and> wal_balance w = 50 \<and> ledger st = [l] \<and> led_plain l \<and> offers st = [demo_offer 0]"
proof -
  obtain c st l where c: "credit demo_synced (PInt 7) (PInt 50) (PStr ''bonus'') (PStr ''ref-1'') PNone = Inr (c, st)"
    and st: "balance_of st 7 = 50" "ledger st = [l]" "led_plain l" "offers st = [demo_offer 0]"
    using demo_credit by blast
  obtain w where "wallet_of st 7 = Some w" "wal_balance w = 50"
    using st(1) by (cases "wallet_of st 7") (auto simp: balance_of_def)
  moreover from this(1) have "w \<in> set (wallets st)" "wal_account w = 7"
    unfolding wallet_of_def using row_where_Some by fastforce+
  ultimately show ?thesis using reach_step [OF demo_synced_reach] step_credit [OF c] st(2-4) by blast
qed

lemma demo_bought_reach:
  "\<exists>st p d. reach init_store store_step st \<and> purchases st = [p] \<and> deliveries st = [d] \<and> pur_id p = ''u0'' \<and>
    del_status d = Queued \<and> (\<exists>r. json_loads (del_rewards_json d) = Inr r) \<and> offers st = [demo_offer 0\<lparr>off_stock := Some 0\<rparr>]"
proof -
  obtain p d st where b: "purchase demo_synced (PInt 7) (PStr ''tent'') (PInt 2) (PStr ''key-1'') = Inr ((p, Some ''u1''), st)"
    and st: "purchases st = [p]" "deliveries st = [d]" "pur_id p = ''u0''" "del_status d = Queued"
      "\<exists>r. json_loads (del_rewards_json d) = Inr r" "offers st = [demo_offer 0\<lparr>off_stock := Some 0\<rparr>]"
    using demo_purchase by blast
  show ?thesis using reach_step [OF demo_synced_reach step_purchase [OF b]] st by blast
qed

subsection \<open>Money\<close>

text \<open>
  C1. In every state the store reaches, each wallet holds a non-negative balance, and it is
  exactly the sum of the ledger entries of its account: no operation, and no order of
  operations, creates or loses credits.
\<close>

theorem wallets_match_ledger:
  assumes "reach init_store store_step st" and "w \<in> set (wallets st)"
  shows "0 \<le> wal_balance w \<and> wal_balance w = posted (ledger st) (wal_account w)"
  using reach_money [OF assms(1)] assms(2) by (auto simp: money_inv_def wallet_ok_def)

theorem wallets_match_ledger_witness:
  "\<exists>(st :: store) w. w \<in> set (wallets st) \<and> wal_balance w = 50 \<and> posted (ledger st) (wal_account w) = 50"
proof -
  obtain st w l where st: "reach init_store store_step st" "w \<in> set (wallets st)" "wal_balance w = 50"
    using demo_credited_reach by blast
  have "wal_balance w = posted (ledger st) (wal_account w)" using wallets_match_ledger [OF st(1,2)] by simp
  with st have "w \<in> set (wallets st) \<and> wal_balance w = 50 \<and> posted (ledger st) (wal_account w) = 50" by simp
  then show ?thesis by blast
qed

text \<open>
  C2. Every run of the store from a reachable state is, seen through its accounts and its
  ledger, a run of the abstract bank: accounts are opened and entries posted, an entry is
  never zero, never larger than the limit, never leaves a balance negative, and never
  repeats a reference.
\<close>

theorem runs_refine_bank:
  assumes "reach init_store store_step st" and "steps store_step st st'"
  shows "steps bank_step (bank_of st) (bank_of st')"
  using rewards_sim.run_refines [OF assms(2)] rewards_sim.reach_inv [OF assms(1)] by simp

theorem runs_refine_bank_witness:
  "\<exists>st. steps bank_step (bank_of demo_synced) (bank_of st) \<and> length (bk_entries (bank_of st)) = 1"
proof -
  obtain st l where st: "store_step demo_synced st" "ledger st = [l]" using demo_credited_reach by blast
  have "steps bank_step (bank_of demo_synced) (bank_of st)"
    using runs_refine_bank [OF demo_synced_reach steps_one [of store_step, OF st(1)]] .
  with st(2) show ?thesis by (auto simp: bank_of_def intro!: exI [of _ st])
qed

text \<open>
  C14. The audit accepts the ledger of every state the store reaches: it returns, reports no
  error and counts every entry.
\<close>

theorem reachable_ledger_verifies:
  assumes "reach init_store store_step st"
  shows "\<exists>a. verify_ledger st = Inr a \<and> aud_ok a \<and> aud_errors a = [] \<and> aud_entries a = length (ledger st)"
proof -
  have inv: "audit_inv st" using reach_audit [OF assms] .
  have "\<exists>s. fold_res audit_row (ZERO_HASH, [], Map.empty) (ledger st) = Inr s"
    using inv by (intro audit_fold_total) (simp add: audit_inv_def)
  then obtain s where "fold_res audit_row (ZERO_HASH, [], Map.empty) (ledger st) = Inr s" ..
  then obtain a where a: "verify_ledger st = Inr a" by (cases s) (auto simp: verify_ledger_def)
  have "aud_ok a" using verify_ledger_meaning(3) [OF a] inv by (simp add: audit_inv_def)
  with verify_ledger_meaning(1,4) [OF a] a show ?thesis by blast
qed

theorem reachable_ledger_verifies_witness:
  "\<exists>st a. length (ledger st) = 1 \<and> verify_ledger st = Inr a \<and> aud_ok a \<and> aud_entries a = 1"
proof -
  obtain st l where st: "reach init_store store_step st" "ledger st = [l]" using demo_credited_reach by blast
  then have "length (ledger st) = 1" by simp
  then show ?thesis using reachable_ledger_verifies [OF st(1)] by metis
qed

text \<open>
  C15. The ledger is tamper evident: when two databases' ledgers both pass the audit with the
  same number of entries and the same head, and the numbers in their metadata are ones the
  JSON reader gives back and their integers have fewer digits than its limit, then they agree
  entry by entry in the identifier, the account, the amount, the balance after it, the kind,
  the reference, the metadata as a value, the time, the link and the hash, unless two
  different texts with the same SHA-256 digest are at hand.  The layout of the stored metadata
  text is the one thing the hash does not cover.
\<close>

theorem ledger_tamper_evident:
  assumes "verify_ledger st = Inr a" and "verify_ledger st' = Inr a'"
    and "aud_ok a" and "aud_ok a'" and "aud_entries a = aud_entries a'" and "aud_head a = aud_head a'"
    and "\<forall>l\<in>set (ledger st) \<union> set (ledger st'). led_plain l"
  shows "map (\<lambda>l. (led_fields l, led_previous_hash l, led_entry_hash l)) (ledger st) =
      map (\<lambda>l. (led_fields l, led_previous_hash l, led_entry_hash l)) (ledger st') \<or>
    (\<exists>l\<in>set (ledger st). \<exists>l'\<in>set (ledger st'). collision sha256_hex (led_text l) (led_text l'))"
  using verify_ledger_meaning [OF assms(1)] verify_ledger_meaning [OF assms(2)] assms(3-) led_text_fields
  by (intro ledger_chain.same_head_same_rows) (auto simp: last_hash_head)

text \<open>The same entries with another layout of their metadata.\<close>

definition relaid_ledger :: "store \<Rightarrow> store" where
  "relaid_ledger st = st\<lparr>ledger := map (\<lambda>l. l\<lparr>led_metadata_json := ''{ }''\<rparr>) (ledger st)\<rparr>"

lemma relaid_text:
  assumes "led_metadata_json l = ''{}''"
  shows "led_text (l\<lparr>led_metadata_json := ''{ }''\<rparr>) = led_text l" and "audit_row s (l\<lparr>led_metadata_json := ''{ }''\<rparr>) = audit_row s l"
    and "led_plain (l\<lparr>led_metadata_json := ''{ }''\<rparr>) = led_plain l"
proof -
  have j: "json_loads ''{ }'' = json_loads ''{}''" by code_simp
  show "led_text (l\<lparr>led_metadata_json := ''{ }''\<rparr>) = led_text l" "led_plain (l\<lparr>led_metadata_json := ''{ }''\<rparr>) = led_plain l"
    using assms j by (auto simp: led_text_def led_plain_def split: sum.splits)
  show "audit_row s (l\<lparr>led_metadata_json := ''{ }''\<rparr>) = audit_row s l"
    using assms j by (cases s) (simp add: audit_row_def cong: if_cong)
qed

lemma demo_credit_metadata:
  "\<exists>c st l. credit demo_synced (PInt 7) (PInt 50) (PStr ''bonus'') (PStr ''ref-1'') PNone = Inr (c, st) \<and>
    ledger st = [l] \<and> led_plain l \<and> led_metadata_json l = ''{}''"
  by (simp add: led_plain_def credit_def positive_int_def MAX_LEDGER_AMOUNT_def ensure_account_def MAX_ACCOUNT_ID_def now_def
      Let_def demo_defs account_exists_def row_where_def demo_identifiers append_ledger_def uuid4_def py_or_def
      json_loads_canonical set_balance_def insert_ledger_def wallet_of_def balance_of_def update_where_def)
    (simp add: canonical_def)

theorem ledger_tamper_evident_witness:
  "\<exists>st l. ledger st = [l] \<and> ledger (relaid_ledger st) \<noteq> ledger st \<and>
    (led_fields l = led_fields (l\<lparr>led_metadata_json := ''{ }''\<rparr>) \<or>
     collision sha256_hex (led_text l) (led_text (l\<lparr>led_metadata_json := ''{ }''\<rparr>)))"
proof -
  obtain c st l where c: "credit demo_synced (PInt 7) (PInt 50) (PStr ''bonus'') (PStr ''ref-1'') PNone = Inr (c, st)"
    and st: "ledger st = [l]" "led_plain l" "led_metadata_json l = ''{}''"
    using demo_credit_metadata by blast
  have "store_inv st" using step_store_inv rewards_sim.reach_inv demo_synced_reach step_credit [OF c] by blast
  then have "\<exists>s. fold_res audit_row (ZERO_HASH, [], Map.empty) (ledger st) = Inr s"
    by (intro audit_fold_total) (simp add: audit_inv_def store_inv_def)
  then obtain a where a: "verify_ledger st = Inr a" by (auto simp: verify_ledger_def)
  have ok: "aud_ok a" using verify_ledger_meaning(3) [OF a] \<open>store_inv st\<close> by (simp add: store_inv_def audit_inv_def)
  have l': "ledger (relaid_ledger st) = [l\<lparr>led_metadata_json := ''{ }''\<rparr>]" by (simp add: relaid_ledger_def st(1))
  have a': "verify_ledger (relaid_ledger st) = Inr a"
    using a by (simp add: verify_ledger_def l' st(1) relaid_text [OF st(3)])
  have "l\<lparr>led_metadata_json := ''{ }''\<rparr> \<noteq> l"
  proof
    assume "l\<lparr>led_metadata_json := ''{ }''\<rparr> = l"
    from arg_cong [OF this, of led_metadata_json] show False using st(3) by simp
  qed
  then have differ: "ledger (relaid_ledger st) \<noteq> ledger st" unfolding l' st(1) by simp
  have plain: "\<forall>k\<in>set (ledger st) \<union> set (ledger (relaid_ledger st)). led_plain k"
    using st relaid_text(3) by (simp add: l')
  have "led_fields l = led_fields (l\<lparr>led_metadata_json := ''{ }''\<rparr>) \<or>
      collision sha256_hex (led_text l) (led_text (l\<lparr>led_metadata_json := ''{ }''\<rparr>))"
    using ledger_tamper_evident [OF a a' ok ok refl refl plain] unfolding l' st(1) by auto
  then show ?thesis using st(1) differ by blast
qed

subsection \<open>Orders\<close>

text \<open>
  C9. A purchase that is not a retry takes an enabled offer with enough stock, charges
  exactly price times quantity to the buyer and nobody else, takes the quantity from a
  limited stock, and queues exactly one delivery that names the purchase.
\<close>

theorem purchase_charges_and_queues:
  assumes "money_inv st" and "purchase st acc oi q key = Inr ((p, Some i), st')"
  shows "\<exists>offer d. offer_of st (py_str oi) = Some offer \<and> off_enabled offer \<and> in_stock offer (pur_quantity p) \<and>
    pur_total p = off_price offer * pur_quantity p \<and> 0 \<le> balance_of st' (pur_account p) \<and>
    (\<forall>a. balance_of st' a = balance_of st a - (if a = pur_account p then pur_total p else 0)) \<and>
    purchases st' = purchases st @ [p] \<and> deliveries st' = deliveries st @ [d] \<and> del_id d = i \<and>
    del_source d = pur_id p \<and> del_status d = Queued \<and>
    (\<forall>r\<in>set (offers st'). off_id r = off_id offer \<longrightarrow> (\<exists>r0\<in>set (offers st). off_id r0 = off_id offer \<and>
       off_stock r = (if off_stock offer = None then off_stock r0
                      else map_option (\<lambda>s. s - pur_quantity p) (off_stock r0))))"
proof -
  from purchase_effect [OF assms(2)] obtain offer d rows where eff:
    "offer_of st (py_str oi) = Some offer" "off_enabled offer" "in_stock offer (pur_quantity p)"
    "pur_total p = off_price offer * pur_quantity p" "purchases st' = purchases st @ [p]"
    "deliveries st' = deliveries st @ [d]" "del_id d = i" "del_source d = pur_id p" "del_status d = Queued"
    "offers st' = (if off_stock offer \<noteq> None then offers (take_stock (off_id offer) (pur_quantity p) st) else offers st)"
    "ledger st' = ledger st @ rows" "\<forall>a. posted rows a = (if a = pur_account p then - pur_total p else 0)"
    by metis
  have inv': "money_inv st'" using money_inv_path purchase_money assms by blast
  have bal: "balance_of st' a = balance_of st a - (if a = pur_account p then pur_total p else 0)" for a
    using eff(11,12) by (simp add: balance_posted [OF inv'] balance_posted [OF assms(1)])
  have "0 \<le> balance_of st' (pur_account p)"
    using inv' by (rule balance_nonneg)
  moreover have "\<exists>r0\<in>set (offers st). off_id r0 = off_id offer \<and>
       off_stock r = (if off_stock offer = None then off_stock r0
                      else map_option (\<lambda>s. s - pur_quantity p) (off_stock r0))"
    if "r \<in> set (offers st')" "off_id r = off_id offer" for r
    using that unfolding eff(10) by (auto simp: take_stock_def dest!: set_update_where split: if_splits)
  ultimately show ?thesis using eff bal by blast
qed

theorem purchase_charges_and_queues_witness:
  "\<exists>p st. pur_account p = 7 \<and> balance_of demo_funded 7 = 100 \<and> balance_of st 7 = 40 \<and> purchases st = [p]"
proof -
  have inv: "money_inv demo_funded"
    by (simp add: demo_defs money_inv_def wallet_ok_def account_exists_def)
  obtain p st where p: "purchase demo_funded (PInt 7) (PStr ''tent'') (PInt 2) (PStr ''key-1'') = Inr ((p, Some ''u1''), st)"
    "pur_account p = 7" "pur_total p = 60" using demo_priced_purchase by blast
  have b: "balance_of demo_funded 7 = 100" "purchases demo_funded = []"
    by (simp_all add: demo_defs balance_of_def wallet_of_def row_where_def)
  from purchase_charges_and_queues [OF inv p(1)] p(2,3) b show ?thesis
    by (intro exI [of _ p] exI [of _ st]) auto
qed

text \<open>
  C10. In every reachable state each purchase has exactly one delivery, their statuses agree
  (queued, delivered or refunded against pending, delivered or failed), its price is booked
  once in the ledger, and a refunded purchase has its refund booked: an order is never both
  delivered and refunded.
\<close>

theorem orders_consistent:
  assumes "reach init_store store_step st" and "p \<in> set (purchases st)"
  shows "(\<exists>!d. d \<in> set (deliveries st) \<and> del_source d = pur_id p) \<and>
    (\<forall>d\<in>set (deliveries st). del_source d = pur_id p \<longrightarrow> fulfils d p) \<and>
    charged p (ledger st) \<and> (pur_status p = PurchaseRefunded \<longrightarrow> refunded p (ledger st)) \<and>
    distinct (map led_reference (ledger st))"
proof -
  have o': "orders (purchases st) (deliveries st) (ledger st)"
    using reach_orders [OF assms(1)] by (simp add: orders_inv_def)
  then have p: "order_ok (deliveries st) (ledger st) p" using assms(2) by (simp add: orders_def)
  then obtain d where d: "d \<in> set (deliveries st)" "fulfils d p" by (auto simp: order_ok_def)
  have dist: "distinct (map del_source (deliveries st))" using o' by (simp add: orders_def)
  have src: "del_source d = pur_id p" using d(2) by (simp add: fulfils_def)
  have only: "q = d" if q: "q \<in> set (deliveries st)" "del_source q = pur_id p" for q
    by (rule row_by_id [OF dist d(1) q(1)]) (simp only: q(2) src)
  have "\<exists>!d. d \<in> set (deliveries st) \<and> del_source d = pur_id p"
    using conjI [OF d(1) src] by (rule ex1I) (use only in blast)
  moreover have "\<forall>q\<in>set (deliveries st). del_source q = pur_id p \<longrightarrow> fulfils q p"
    using d(2) only by metis
  moreover have "distinct (map led_reference (ledger st))"
    using reach_money [OF assms(1)] by (simp add: money_inv_def)
  ultimately show ?thesis using p by (simp add: order_ok_def)
qed

theorem orders_consistent_witness:
  "\<exists>(st :: store) p. p \<in> set (purchases st) \<and> (\<exists>!d. d \<in> set (deliveries st) \<and> del_source d = pur_id p)"
proof -
  obtain st p where st: "reach init_store store_step st" "purchases st = [p]" using demo_bought_reach by blast
  have "\<exists>!d. d \<in> set (deliveries st) \<and> del_source d = pur_id p"
    using orders_consistent [OF st(1), of p] st(2) by simp
  moreover have "p \<in> set (purchases st)" using st(2) by simp
  ultimately show ?thesis by blast
qed

text \<open>
  C11. Every operation leaves each delivery in the table, for the same source, account and
  rewards, unchanged or advanced by one edge of the delivery state machine; a delivered or
  failed delivery never changes again.
\<close>

theorem deliveries_follow_state_machine:
  assumes "reach init_store store_step st" and "store_step st st'" and "d \<in> set (deliveries st)"
  shows "(\<exists>d'\<in>set (deliveries st'). moved_on d d') \<and>
    (del_status d \<in> {Delivered, Failed} \<longrightarrow> d \<in> set (deliveries st'))"
proof -
  have "\<exists>d'\<in>set (deliveries st'). moved_on d d'"
    using step_orders [OF assms(2) reach_orders [OF assms(1)]] assms(3) by (auto simp: evolves_def)
  then show ?thesis by (auto simp: moved_on_def)
qed

theorem deliveries_follow_state_machine_witness:
  "\<exists>(st :: store) (st' :: store) d d'. d \<in> set (deliveries st) \<and> del_status d = Queued \<and>
    d' \<in> set (deliveries st') \<and> moved_on d d' \<and> deliveries st' = [d'] \<and> del_status d' = Processing"
proof -
  obtain st d r where st: "reach init_store store_step st" "deliveries st = [d]" "del_status d = Queued"
    "json_loads (del_rewards_json d) = Inr r" using demo_bought_reach by blast
  then obtain c st' where c: "claim_delivery st PNone = Inr (c, st')"
      and st': "length (deliveries st') = 1" "\<forall>d'\<in>set (deliveries st'). del_status d' = Processing"
    by (auto simp: claim_delivery_def claim_target_def claimable_def random_token_def now_def Let_def
        update_delivery_def update_where_def)
  obtain d' where d': "deliveries st' = [d']" using st'(1) by (auto simp: length_Suc_conv)
  have "moved_on d d'"
    using deliveries_follow_state_machine [OF st(1) step_claim [OF c], of d] st(2) d' by auto
  with st d' st'(2) show ?thesis by (intro exI [of _ st] exI [of _ st'] exI [of _ d] exI [of _ d']) simp
qed

text \<open>
  C31. The stock of a limited offer never goes below zero, whatever is bought, refunded or
  reconfigured, and no two offers ever have the same id.
\<close>

theorem stock_never_negative:
  assumes "reach init_store store_step st"
  shows "distinct (map off_id (offers st)) \<and> list_all (\<lambda>r. case off_stock r of None \<Rightarrow> True | Some s \<Rightarrow> 0 \<le> s) (offers st)"
  using reach_orders [OF assms] by (simp add: orders_inv_def stock_ok_def list_all_iff)

theorem stock_never_negative_witness:
  "\<exists>st :: store. offers st = [demo_offer 0\<lparr>off_stock := Some 0\<rparr>] \<and> distinct (map off_id (offers st)) \<and>
     list_all (\<lambda>r. case off_stock r of None \<Rightarrow> True | Some s \<Rightarrow> 0 \<le> s) (offers st)"
proof -
  obtain st where st: "reach init_store store_step st" "offers st = [demo_offer 0\<lparr>off_stock := Some 0\<rparr>]"
    using demo_bought_reach by blast
  show ?thesis using stock_never_negative [OF st(1)] st(2) by blast
qed

lemma refund_purchase_deliveries: "refund_purchase row k nk n e t st = Inr (b, st') \<Longrightarrow> deliveries st' = deliveries st"
  by (auto simp: refund_purchase_def update_purchase_def return_stock_def res_simps
      dest!: append_ledger_cases(12))

text \<open>
  C28. A delivery is settled by its claim only, and once: completing, releasing or failing
  it needs the processing status and the token of the claim, and after any of them every
  settlement with any token is refused as stale.
\<close>

theorem claim_settles_once:
  assumes "distinct (map del_id (deliveries st))"
    and "complete_delivery st i tok receipt = Inr (r1, st') \<or> release_delivery st i tok reason = Inr (r2, st') \<or>
      fail_delivery st i tok err definitive = Inr (r3, st')"
  shows "(\<exists>d. delivery_of st (py_str i) = Some d \<and> del_status d = Processing \<and>
      (case del_token d of None \<Rightarrow> [] | Some t \<Rightarrow> t) = str_or_empty tok) \<and>
    claimed_row st' i tok' = Inl (ValueError ''delivery claim is stale or invalid'')"
proof -
  obtain row where row: "claimed_row st i tok = Inr row"
    using assms(2) by (auto simp: complete_delivery_def release_delivery_def fail_delivery_def)
  note c = claimed_row_props [OF row]
  obtain f where f: "deliveries st' = update_where (\<lambda>d. del_id d = del_id row) f (deliveries st)"
      "\<And>d. del_id (f d) = del_id d" "\<And>d. del_status (f d) \<noteq> Processing"
  proof -
    have "\<exists>f. deliveries st' = update_where (\<lambda>d. del_id d = del_id row) f (deliveries st) \<and>
        (\<forall>d. del_id (f d) = del_id d \<and> del_status (f d) \<noteq> Processing)"
      using assms(2) row
      by (auto simp: complete_delivery_def release_delivery_def fail_delivery_def now_def Let_def
          update_delivery_def update_purchase_def split: if_splits dest!: refund_purchase_deliveries)
    then show ?thesis using that by blast
  qed
  have "\<exists>d. delivery_of st' (py_str i) = Some d \<and> del_status d \<noteq> Processing"
  proof -
    have id: "del_id row = py_str i" using delivery_of_row [OF c(1)] by simp
    have "f row \<in> set (deliveries st')"
      using c(2) unfolding f(1) update_where_def by force
    then obtain d where d: "delivery_of st' (py_str i) = Some d"
      using id f(2) by (cases "delivery_of st' (py_str i)") (auto simp: delivery_of_def table_simps)
    then have "d \<in> set (deliveries st')" "del_id d = del_id row" using delivery_of_row id by auto
    then have "\<exists>q. d = f q" using f(1,2) set_update_where [of d _ f "deliveries st"] by auto
    with d f(3) show ?thesis by blast
  qed
  with c show ?thesis by (auto simp: claimed_row_def Let_def)
qed

lemma demo_claimed:
  "\<exists>(st :: store) st' r. distinct (map del_id (deliveries st)) \<and> complete_delivery st (PStr ''u1'') (PStr ''k0'') PNone = Inr (r, st')"
proof -
  obtain p st d r where st: "deliveries st = [d]" "del_id d = ''u1''" "del_status d = Queued" "json_loads (del_rewards_json d) = Inr r"
    and b: "purchase demo_synced (PInt 7) (PStr ''tent'') (PInt 2) (PStr ''key-1'') = Inr ((p, Some ''u1''), st)"
    using demo_purchase by blast
  then obtain c st' where c: "claim_delivery (st\<lparr>token := \<lambda>n. ''k0''\<rparr>) PNone = Inr (c, st')"
      and st': "\<exists>d'. deliveries st' = [d'] \<and> del_id d' = ''u1'' \<and> del_status d' = Processing \<and> del_token d' = Some ''k0''"
    by (auto simp: claim_delivery_def claim_target_def claimable_def random_token_def now_def Let_def
        update_delivery_def update_where_def)
  have "ascii ''k0''" by code_simp
  with st' have "\<exists>r s. complete_delivery st' (PStr ''u1'') (PStr ''k0'') PNone = Inr (r, s)"
    by (auto simp: complete_delivery_def claimed_row_def delivery_of_def row_where_def compare_digest_def now_def Let_def)
  moreover have "distinct (map del_id (deliveries st'))" using st' by auto
  ultimately show ?thesis by blast
qed

theorem claim_settles_once_witness:
  "\<exists>(st :: store) st' r. complete_delivery st (PStr ''u1'') (PStr ''k0'') PNone = Inr (r, st') \<and>
    complete_delivery st' (PStr ''u1'') (PStr ''k0'') PNone = Inl (ValueError ''delivery claim is stale or invalid'')"
proof -
  obtain st st' :: store and r where st: "distinct (map del_id (deliveries st))"
    "complete_delivery st (PStr ''u1'') (PStr ''k0'') PNone = Inr (r, st')" using demo_claimed by blast
  have "claimed_row st' (PStr ''u1'') (PStr ''k0'') = Inl (ValueError ''delivery claim is stale or invalid'')"
    using claim_settles_once [OF st(1) disjI1 [OF st(2)]] by blast
  with st(2) show ?thesis by (intro exI [of _ st] exI [of _ st'] exI [of _ r]) (simp add: complete_delivery_def)
qed

end
