(* ===== verification/Utf8.thy ===== *)
theory Utf8
  imports PyData
begin

section \<open>UTF-8\<close>

text \<open>
  The decoding \<^verbatim>\<open>bytes.decode("utf-8")\<close> as a list of code points, and the round trip with the
  encoding \<open>utf8\<close>, which is therefore injective.
\<close>

definition in_range :: "nat \<Rightarrow> nat \<Rightarrow> char \<Rightarrow> bool" where
  "in_range lo hi c = (lo \<le> code c \<and> code c \<le> hi)"

definition low6 :: "char \<Rightarrow> nat" where
  "low6 c = code c mod 64"

text \<open>The code points of a byte string, or \<open>None\<close> when it is not valid UTF-8.\<close>

fun utf8_points :: "string \<Rightarrow> nat list option" where
  "utf8_points [] = Some []"
| "utf8_points (a # s) =
     (if in_range 0 127 a then map_option (\<lambda>r. code a # r) (utf8_points s)
      else if in_range 194 223 a then
        (case s of
           b # s2 \<Rightarrow> if in_range 128 191 b then map_option (\<lambda>r. ((code a mod 32) * 64 + low6 b) # r) (utf8_points s2) else None
         | _ \<Rightarrow> None)
      else if in_range 224 239 a then
        (case s of
           b # c # s3 \<Rightarrow>
             if in_range (if code a = 224 then 160 else 128) (if code a = 237 then 159 else 191) b \<and> in_range 128 191 c
             then map_option (\<lambda>r. ((code a mod 16) * 4096 + low6 b * 64 + low6 c) # r) (utf8_points s3) else None
         | _ \<Rightarrow> None)
      else if in_range 240 244 a then
        (case s of
           b # c # d # s4 \<Rightarrow>
             if in_range (if code a = 240 then 144 else 128) (if code a = 244 then 143 else 191) b
                \<and> in_range 128 191 c \<and> in_range 128 191 d
             then map_option (\<lambda>r. ((code a mod 8) * 262144 + low6 b * 4096 + low6 c * 64 + low6 d) # r) (utf8_points s4) else None
         | _ \<Rightarrow> None)
      else None)"

lemma utf8_points_utf8: "utf8_points (utf8 s) = Some (map code s)"
proof (induction s)
  case Nil
  then show ?case by (simp add: utf8_def)
next
  case (Cons c s)
  have u: "utf8 (c # s) = utf8_char c @ utf8 s" by (simp add: utf8_def)
  show ?case
  proof (cases "code c < 128")
    case True
    then show ?thesis using Cons u by (simp add: utf8_char_def in_range_def)
  next
    case False
    define n where "n = code c"
    have n: "128 \<le> n" "n < 256" using False code_less [of c] by (simp_all add: n_def)
    then have d: "n div 64 = 2 \<or> n div 64 = 3" "n mod 64 < 64" by (auto simp: div_eq_dividend_iff)
    have a: "code (chr (192 + n div 64)) = 192 + n div 64" "code (chr (128 + n mod 64)) = 128 + n mod 64"
      using d by (auto intro!: code_chr)
    have v: "(192 + q) mod 32 * 64 + (128 + r) mod 64 = q * 64 + r" if "q = 2 \<or> q = 3" "r < 64" for q r :: nat
    proof -
      have "(128 + r) mod 64 = (64 + (64 + r)) mod 64" by simp
      also have "\<dots> = r" using that(2) by (simp only: mod_add_self1 mod_less)
      finally have e: "(128 + r) mod 64 = r" .
      show ?thesis unfolding e using that(1) by (elim disjE) simp_all
    qed
    have v: "(192 + n div 64) mod 32 * 64 + (128 + n mod 64) mod 64 = n"
      unfolding v [OF d] by (rule div_mult_mod_eq)
    show ?thesis using Cons u False a d v
      by (auto simp: utf8_char_def in_range_def low6_def n_def [symmetric])
  qed
qed

lemma utf8_inject [simp]: "utf8 s = utf8 t \<longleftrightarrow> s = t"
proof
  assume "utf8 s = utf8 t"
  then have "map code s = map code t" by (metis option.inject utf8_points_utf8)
  then show "s = t" by (simp add: inj_map_eq_map code_inject inj_on_def)
qed simp

end
