(* ===== verification/RewardsContracts.thy ===== *)
theory RewardsContracts
  imports RewardsProps Utf8
begin

section \<open>Community rewards: contracts of single operations\<close>

text \<open>
  What one call promises: refunds, idempotent replays, the accounting of playtime, engagement
  tiers, link codes and webhook signatures.
\<close>

subsection \<open>Refunds\<close>

lemma refund_posts:
  assumes "refund_purchase row k nk n e t st = Inr (True, st')"
  shows "\<exists>p rows. purchase_of st (del_source row) = Some p \<and> ledger st' = ledger st @ rows \<and>
    (\<forall>a. posted rows a = (if a = pur_account p then pur_total p else 0)) \<and>
    purchases st' = update_where (\<lambda>q. pur_id q = pur_id p)
      (\<lambda>q. q\<lparr>pur_status := PurchaseRefunded, pur_error := Some e, pur_updated_at := t\<rparr>) (purchases st)"
proof -
  obtain p where p: "purchase_of st (del_source row) = Some p" "del_source_type row = ''purchase''"
      "\<not> (pur_status p = PurchaseRefunded \<or> pur_status p = PurchaseDelivered)"
    using assms by (auto simp: refund_purchase_def split: if_splits option.splits)
  show ?thesis
  proof (cases "pur_total p = 0")
    case True
    with assms p have "ledger st' = ledger st @ []" "purchases st' = update_where (\<lambda>q. pur_id q = pur_id p)
      (\<lambda>q. q\<lparr>pur_status := PurchaseRefunded, pur_error := Some e, pur_updated_at := t\<rparr>) (purchases st)"
      by (auto simp: refund_purchase_def update_purchase_def return_stock_def)
    with p(1) True show ?thesis by (intro exI [of _ p] exI [of _ "[]"]) simp
  next
    case False
    with assms p obtain l st1 where l: "append_ledger st (pur_account p) (pur_total p) (PStr k)
        (PStr (''refund:'' @ pur_id p)) (PDict [(''deliveryId'', PStr (del_id row)), (nk, PStr n)]) = Inr (l, st1)"
      and st': "st' = update_purchase (pur_id p)
        (\<lambda>q. q\<lparr>pur_status := PurchaseRefunded, pur_error := Some e, pur_updated_at := t\<rparr>)
        (return_stock (pur_offer p) (pur_quantity p) st1)"
      by (auto simp: refund_purchase_def map_sum_Inr)
    from append_ledger_cases(5,6,12) [OF l] p(1) show ?thesis
      by (intro exI [of _ p] exI [of _ "[l]"]) (simp add: st' update_purchase_def return_stock_def)
  qed
qed

text \<open>
  C12. When the delivery of a purchase fails for good, the refund always takes place: the
  whole price goes back to the buyer and to nobody else, and the purchase is refunded.
\<close>

theorem definitive_failure_refunds:
  assumes "reach init_store store_step st" and "fail_delivery st i tok err True = Inr ((di, s, b), st')"
    and "delivery_of st (py_str i) = Some row" and "del_source_type row = ''purchase''"
  shows "s = Failed \<and> b \<and> (\<exists>p\<in>set (purchases st). pur_id p = del_source row \<and> pur_status p = PurchaseQueued \<and>
    (\<forall>a. balance_of st' a = balance_of st a + (if a = pur_account p then pur_total p else 0)) \<and>
    (\<forall>q\<in>set (purchases st'). pur_id q = pur_id p \<longrightarrow> pur_status q = PurchaseRefunded))"
proof -
  obtain row' where "claimed_row st i tok = Inr row'" using assms(2) by (auto simp: fail_delivery_def)
  note c = claimed_row_props [OF this] this
  have [simp]: "row' = row" using c(1) assms(3) by simp
  let ?e = "take 2000 (py_str (py_or err (PStr ''delivery failed'')))"
  obtain st2 where r: "refund_purchase row ''delivery-refund'' ''error'' ?e ?e (clock st (ticks st))
          (st\<lparr>ticks := Suc (ticks st)\<rparr>) = Inr (b, st2)"
      and out: "s = Failed" "ledger st' = ledger st2" "purchases st' = purchases st2"
    using assms(2) c(5) by (auto simp: fail_delivery_def now_def Let_def update_delivery_def)
  have inv: "orders_inv st" "money_inv st" using reach_orders reach_money assms(1) by auto
  have inv': "orders_inv (st\<lparr>ticks := Suc (ticks st)\<rparr>)" using inv(1) by (simp add: orders_inv_def)
  have b: b using refund_purchase_cases [OF inv' _ _ r] c(2,3) assms(4) by simp
  obtain p rows where p: "purchase_of st (del_source row) = Some p" "ledger st2 = ledger st @ rows"
      "\<forall>a. posted rows a = (if a = pur_account p then pur_total p else 0)"
      "purchases st2 = update_where (\<lambda>q. pur_id q = pur_id p)
        (\<lambda>q. q\<lparr>pur_status := PurchaseRefunded, pur_error := Some ?e, pur_updated_at := clock st (ticks st)\<rparr>) (purchases st)"
    using refund_posts r b by (fastforce simp: purchase_of_def)
  note pr = purchase_of_row [OF p(1)]
  have "fulfils row p"
    using orders_fulfils [of "purchases st" "deliveries st" "ledger st" p row] inv(1) pr c(2) assms(4)
    by (simp add: orders_inv_def)
  then have q: "pur_status p = PurchaseQueued"
    using c(3) by (cases "pur_status p") (auto simp: fulfils_def)
  have mi: "money_inv st'" using money_inv_path [OF fail_delivery_money [OF assms(2)] inv(2)] .
  have "\<forall>a. balance_of st' a = balance_of st a + (if a = pur_account p then pur_total p else 0)"
    using p(2,3) out(2) by (simp add: balance_posted [OF mi] balance_posted [OF inv(2)])
  moreover have "\<forall>q\<in>set (purchases st'). pur_id q = pur_id p \<longrightarrow> pur_status q = PurchaseRefunded"
    unfolding out(3) p(4) by (auto dest!: set_update_where)
  ultimately show ?thesis using out(1) b pr q by blast
qed

lemma demo_failed:
  "\<exists>st row di s b st'. reach init_store store_step st \<and> delivery_of st ''u1'' = Some row \<and>
    del_source_type row = ''purchase'' \<and>
    fail_delivery st (PStr ''u1'') (PStr ''k0'') PNone True = Inr ((di, s, b), st')"
proof -
  obtain p st d r where st: "deliveries st = [d]" "del_id d = ''u1''" "del_status d = Queued" "purchases st = [p]"
      "json_loads (del_rewards_json d) = Inr r" "del_source_type d = ''purchase''" "del_source d = ''u0''"
      "pur_id p = ''u0''" "pur_total p = 0" "pur_status p = PurchaseQueued" "token st (tokens st) = ''k0''"
    and b: "purchase demo_synced (PInt 7) (PStr ''tent'') (PInt 2) (PStr ''key-1'') = Inr ((p, Some ''u1''), st)"
    using demo_purchase by blast
  obtain c st1 d1 where c: "claim_delivery st PNone = Inr (c, st1)"
      and st1: "deliveries st1 = [d1]" "del_id d1 = ''u1''" "del_status d1 = Processing" "del_token d1 = Some ''k0''"
        "del_source_type d1 = ''purchase''" "del_source d1 = ''u0''" "purchases st1 = [p]"
    using st by (auto simp: claim_delivery_def claim_target_def claimable_def random_token_def now_def Let_def
        update_delivery_def update_where_def)
  have "ascii ''k0''" by code_simp
  then have "\<exists>res st'. fail_delivery st1 (PStr ''u1'') (PStr ''k0'') PNone True = Inr (res, st')"
    using st1 st(8-10) by (simp add: fail_delivery_def claimed_row_def delivery_of_def row_where_def compare_digest_def
        now_def Let_def refund_purchase_def purchase_of_def) blast
  moreover have "reach init_store store_step st1"
    using reach_step [OF reach_step [OF demo_synced_reach step_purchase [OF b]] step_claim [OF c]] .
  moreover have "delivery_of st1 ''u1'' = Some d1" using st1(1,2) by (simp add: delivery_of_def row_where_def)
  ultimately show ?thesis using st1(5) by (metis prod.exhaust)
qed

theorem definitive_failure_refunds_witness:
  "\<exists>(st :: store) (st' :: store) p. p \<in> set (purchases st) \<and> pur_status p = PurchaseQueued \<and>
    (\<forall>q\<in>set (purchases st'). pur_id q = pur_id p \<longrightarrow> pur_status q = PurchaseRefunded)"
proof -
  obtain st row di s b st' where f: "reach init_store store_step st" "delivery_of st ''u1'' = Some row"
    "del_source_type row = ''purchase''" "fail_delivery st (PStr ''u1'') (PStr ''k0'') PNone True = Inr ((di, s, b), st')"
    using demo_failed by blast
  have "delivery_of st (py_str (PStr ''u1'')) = Some row" using f(2) by simp
  from definitive_failure_refunds [OF f(1,4) this f(3)] show ?thesis by blast
qed

subsection \<open>Webhooks\<close>

text \<open>
  C27. A webhook event is credited once: after it has been ingested, the same event with
  the same payload changes nothing and returns the first receipt, and with a payload of
  another digest it is refused.
\<close>

theorem webhook_credited_once:
  assumes "ingest_webhook st pr ev acc m pl = Inr (r, st')"
    and "positive_int m' ''amount'' MAX_LEDGER_AMOUNT = Inr n"
  shows "ingest_webhook st' pr ev acc' m' pl' =
    (if sha256_hex (canonical pl') = sha256_hex (canonical pl)
     then Inr (r\<lparr>whr_balance := None, whr_idempotent := True\<rparr>, st')
     else Inl (ValueError ''webhook event id was reused with a different payload''))"
proof -
  obtain p0 e where ids: "identifier_of pr ''provider'' 32 = Inr p0" "identifier_of ev ''eventId'' 128 = Inr e"
    using assms(1) by (auto simp: ingest_webhook_def Let_def)
  let ?mine = "\<lambda>w. wh_provider w = lower p0 \<and> wh_event w = e"
  have "\<exists>w. row_where ?mine (webhook_receipts st') = Some w \<and> wh_payload_sha256 w = sha256_hex (canonical pl) \<and>
    r\<lparr>whr_balance := None, whr_idempotent := True\<rparr> = \<lparr>whr_provider = wh_provider w, whr_event = wh_event w,
      whr_account = wh_account w, whr_amount = wh_amount w, whr_ledger = wh_ledger w, whr_balance = None,
      whr_idempotent = True\<rparr>"
  proof (cases "row_where ?mine (webhook_receipts st)")
    case (Some w)
    with assms(1) ids show ?thesis by (auto simp: ingest_webhook_def Let_def)
  next
    case None
    then obtain a st1 l st2 amount t where s: "ensure_account acc st = Inr (a, st1)"
        "append_ledger st1 a amount (PStr (''webhook-'' @ lower p0)) (PStr (''webhook:'' @ lower p0 @ '':'' @ e))
           (PDict [(''payloadSha256'', PStr (sha256_hex (canonical pl)))]) = Inr (l, st2)"
        "webhook_receipts st' = webhook_receipts st2 @ [\<lparr>wh_provider = lower p0, wh_event = e,
           wh_payload_sha256 = sha256_hex (canonical pl), wh_account = a, wh_amount = amount,
           wh_ledger = led_id l, wh_created_at = t\<rparr>]"
        "r = \<lparr>whr_provider = lower p0, whr_event = e, whr_account = a, whr_amount = amount, whr_ledger = led_id l,
           whr_balance = Some (led_balance_after l), whr_idempotent = False\<rparr>"
      using assms(1) ids by (auto simp: ingest_webhook_def Let_def now_def)
    have "webhook_receipts st2 = webhook_receipts st1" using append_ledger_cases(12) [OF s(2)] by simp
    moreover have "webhook_receipts st1 = webhook_receipts st"
      using ensure_account_cases(7) [OF s(1)] by (metis store.select_convs(8) store.surjective store.update_convs(1,3,19))
    ultimately show ?thesis using None s(3,4) by (simp add: row_where_new)
  qed
  then show ?thesis using ids assms(2) by (auto simp: ingest_webhook_def Let_def)
qed

lemma demo_webhook:
  "\<exists>r st. ingest_webhook demo_store (PStr ''kofi'') (PStr ''e1'') (PInt 7) (PInt 5) (PDict []) = Inr (r, st)"
proof -
  have ids: "identifier_of (PStr ''kofi'') f 32 = Inr ''kofi''" "identifier_of (PStr ''e1'') f 128 = Inr ''e1''"
    "lower ''kofi'' = ''kofi''" "identifier_of (PStr ''webhook-kofi'') f 64 = Inr ''webhook-kofi''"
    "identifier_of (PStr ''webhook:kofi:e1'') f 256 = Inr ''webhook:kofi:e1''" for f
    by (simp_all add: identifier_of_def) (code_simp+)
  show ?thesis
    by (simp add: ingest_webhook_def ids positive_int_def MAX_LEDGER_AMOUNT_def ensure_account_def MAX_ACCOUNT_ID_def
        now_def Let_def demo_defs account_exists_def row_where_def append_ledger_def uuid4_def py_or_def
        json_loads_canonical set_balance_def insert_ledger_def wallet_of_def balance_of_def update_where_def)
qed

theorem webhook_credited_once_witness:
  "\<exists>r st. ingest_webhook demo_store (PStr ''kofi'') (PStr ''e1'') (PInt 7) (PInt 5) (PDict []) = Inr (r, st) \<and>
    ingest_webhook st (PStr ''kofi'') (PStr ''e1'') (PInt 7) (PInt 5) (PDict []) =
      Inr (r\<lparr>whr_balance := None, whr_idempotent := True\<rparr>, st)"
proof -
  obtain r st where r: "ingest_webhook demo_store (PStr ''kofi'') (PStr ''e1'') (PInt 7) (PInt 5) (PDict []) = Inr (r, st)"
    using demo_webhook by blast
  have "positive_int (PInt 5) ''amount'' MAX_LEDGER_AMOUNT = Inr 5" by (simp add: positive_int_def MAX_LEDGER_AMOUNT_def)
  from webhook_credited_once [OF r this, of "PInt 7" "PDict []"] r show ?thesis by auto
qed

subsection \<open>Playtime\<close>

text \<open>
  An observation of an account that has a checkpoint: its arguments, the row it finds, the
  seconds it counts, the store with the new checkpoint, and the credit that may follow.
\<close>

definition playtime_counted :: "playtime_row \<Rightarrow> int \<Rightarrow> int \<Rightarrow> int \<Rightarrow> int" where
  "playtime_counted row t interval gap =
     (if pt_online row then max 0 (min (t - pt_observed_at row) (max interval (min gap 86400))) else 0)"

definition checkpoint_at :: "store \<Rightarrow> int \<Rightarrow> int \<Rightarrow> bool \<Rightarrow> int \<Rightarrow> int \<Rightarrow> store" where
  "checkpoint_at st a t on rem n = st\<lparr>playtime_checkpoints := update_where (\<lambda>p. pt_account p = a)
     (\<lambda>p. p\<lparr>pt_observed_at := t, pt_online := on, pt_remainder := rem, pt_credited := pt_credited p + n\<rparr>) (playtime_checkpoints st)\<rparr>"

lemma observe_later:
  assumes "observe_playtime st acc on ob iv cr mg = Inr (r, st')" and "\<not> ptr_first r"
  obtains a t interval credits gap row st1 total where
    "positive_int acc ''duneAccountId'' MAX_ACCOUNT_ID = Inr a" "py_int ob = Inr t"
    "positive_int iv ''intervalSeconds'' 86400 = Inr interval" "positive_int cr ''creditsPerInterval'' 1000000 = Inr credits"
    "py_int mg = Inr gap" "0 < interval" "0 < credits" "ensure_account acc st = Inr (a, st1)"
    "playtime_checkpoints st1 = playtime_checkpoints st"
    "row \<in> set (playtime_checkpoints st)" "pt_account row = a" "total = pt_remainder row + playtime_counted row t interval gap"
    "ptr_intervals r = total div interval" "ptr_credited r = total div interval * credits"
    "if ptr_credited r = 0 then st' = checkpoint_at st1 a t (truthy on) (total mod interval) (total div interval)
     else \<exists>l k rf md. append_ledger (checkpoint_at st1 a t (truthy on) (total mod interval) (total div interval)) a
       (ptr_credited r) k rf md = Inr (l, st')"
proof -
  obtain t interval credits gap a st1 where
    args: "py_int ob = Inr t" "positive_int iv ''intervalSeconds'' 86400 = Inr interval"
      "positive_int cr ''creditsPerInterval'' 1000000 = Inr credits" "py_int mg = Inr gap"
    and e: "ensure_account acc st = Inr (a, st1)"
    using assms(1) by (auto simp: observe_playtime_def Let_def)
  have pc: "playtime_checkpoints st1 = playtime_checkpoints st"
    using ensure_account_cases(7) [OF e] by (metis store.select_convs(9) store.surjective store.update_convs(1,3,19))
  obtain row where row: "row_where (\<lambda>p. pt_account p = a) (playtime_checkpoints st) = Some row"
    using assms args e pc by (auto simp: observe_playtime_def Let_def case_option_Inr)
  have mem: "row \<in> set (playtime_checkpoints st)" "pt_account row = a" using row_where_Some [OF row] by auto
  have iv: "0 < interval" "0 < credits" using positive_int_range args by blast+
  define total where "total = pt_remainder row + playtime_counted row t interval gap"
  have st2: "st1\<lparr>playtime_checkpoints := update_where (\<lambda>p. pt_account p = a)
      (\<lambda>p. p\<lparr>pt_observed_at := t, pt_online := truthy on, pt_remainder := total mod interval,
         pt_credited := pt_credited p + total div interval\<rparr>) (playtime_checkpoints st)\<rparr> =
      checkpoint_at st1 a t (truthy on) (total mod interval) (total div interval)"
    by (simp add: checkpoint_at_def pc)
  have counted: "playtime_elapsed row t (max interval (min gap 86400)) = playtime_counted row t interval gap"
    by (simp add: playtime_elapsed_def playtime_counted_def)
  have res: "ptr_intervals r = total div interval" "ptr_credited r = total div interval * credits"
    and tail: "if ptr_credited r = 0 then st' = checkpoint_at st1 a t (truthy on) (total mod interval) (total div interval)
     else \<exists>l k rf md. append_ledger (checkpoint_at st1 a t (truthy on) (total mod interval) (total div interval)) a
       (ptr_credited r) k rf md = Inr (l, st')"
    using assms args e row pc
    by (auto simp: observe_playtime_def Let_def counted total_def [symmetric] st2 split: if_splits intro!: exI)
  show thesis by (rule that [OF ensure_account_cases(1) [OF e] args iv e pc mem total_def res tail])
qed

lemma checkpoint_at_money: "money_inv st \<Longrightarrow> money_inv (checkpoint_at st a t on rem n)"
  by (simp add: checkpoint_at_def money_inv_def account_exists_def)

lemma checkpoint_at_ledger [simp]: "ledger (checkpoint_at st a t on rem n) = ledger st"
  by (simp add: checkpoint_at_def)

text \<open>
  C34. An observation of an account that has a checkpoint counts the seconds since the last
  one if the player was online then, at most one interval or the configured gap (itself at
  most a day), whichever is longer; every counted second is either credited in whole
  intervals or carried over, the carry is below one interval, and the wallet grows by exactly
  the credited amount.  The checkpoints are assumed to carry no negative remainder, as the
  first observation leaves them; every observation keeps that.
\<close>

theorem playtime_accounting:
  assumes "observe_playtime st acc on ob iv cr mg = Inr (r, st')" and "\<not> ptr_first r" and "money_inv st"
    and "\<forall>p\<in>set (playtime_checkpoints st). 0 \<le> pt_remainder p"
  shows "\<exists>a t interval credits gap row row'.
    positive_int acc ''duneAccountId'' MAX_ACCOUNT_ID = Inr a \<and> py_int ob = Inr t \<and>
    positive_int iv ''intervalSeconds'' 86400 = Inr interval \<and>
    positive_int cr ''creditsPerInterval'' 1000000 = Inr credits \<and> py_int mg = Inr gap \<and>
    row \<in> set (playtime_checkpoints st) \<and> row' \<in> set (playtime_checkpoints st') \<and>
    pt_account row = a \<and> pt_account row' = a \<and> pt_observed_at row' = t \<and>
    interval * ptr_intervals r + pt_remainder row' = pt_remainder row +
      (if pt_online row then max 0 (min (t - pt_observed_at row) (max interval (min gap 86400))) else 0) \<and>
    0 \<le> pt_remainder row' \<and> pt_remainder row' < interval \<and>
    ptr_credited r = ptr_intervals r * credits \<and> 0 \<le> ptr_credited r \<and>
    balance_of st' a = balance_of st a + ptr_credited r \<and>
    (\<forall>p\<in>set (playtime_checkpoints st'). 0 \<le> pt_remainder p)"
  using assms(1,2)
proof (rule observe_later)
  fix a t interval credits gap st1 total and row :: playtime_row
  let ?st2 = "checkpoint_at st1 a t (truthy on) (total mod interval) (total div interval)"
  let ?new = "row\<lparr>pt_observed_at := t, pt_online := truthy on, pt_remainder := total mod interval,
                  pt_credited := pt_credited row + total div interval\<rparr>"
  assume args: "positive_int acc ''duneAccountId'' MAX_ACCOUNT_ID = Inr a" "py_int ob = Inr t"
    "positive_int iv ''intervalSeconds'' 86400 = Inr interval" "positive_int cr ''creditsPerInterval'' 1000000 = Inr credits"
    "py_int mg = Inr gap"
    and iv: "0 < interval" "0 < credits" and e: "ensure_account acc st = Inr (a, st1)"
    and pc: "playtime_checkpoints st1 = playtime_checkpoints st"
    and mem: "row \<in> set (playtime_checkpoints st)" "pt_account row = a"
    and total: "total = pt_remainder row + playtime_counted row t interval gap"
    and res: "ptr_intervals r = total div interval" "ptr_credited r = total div interval * credits"
    and tail: "if ptr_credited r = 0 then st' = ?st2 else \<exists>l k rf md. append_ledger ?st2 a (ptr_credited r) k rf md = Inr (l, st')"
  have pc': "playtime_checkpoints st' = playtime_checkpoints ?st2"
    using tail append_ledger_cases(12) by (fastforce split: if_splits)
  have posted: "posted (ledger st') a = posted (ledger st) a + ptr_credited r"
    using tail append_ledger_cases(5,6,12) ensure_account_cases(3) [OF e] by (fastforce split: if_splits)
  have "money_inv st'" using money_inv_path [OF observe_playtime_money [OF assms(1)] assms(3)] .
  then have bal: "balance_of st' a = balance_of st a + ptr_credited r"
    using posted by (simp add: balance_posted assms(3))
  have new: "?new \<in> set (playtime_checkpoints st')"
    unfolding pc' checkpoint_at_def using mem pc by (auto simp: update_where_def image_iff intro!: bexI [of _ row])
  have kept: "\<forall>p\<in>set (playtime_checkpoints st'). 0 \<le> pt_remainder p"
    unfolding pc' checkpoint_at_def using assms(4) iv by (auto simp: update_where_def pc)
  have "0 \<le> total" using assms(4) mem(1) by (simp add: total playtime_counted_def)
  then have pos: "0 \<le> ptr_credited r" using iv by (simp add: res(2) pos_imp_zdiv_nonneg_iff)
  have sum: "interval * ptr_intervals r + pt_remainder ?new = pt_remainder row + playtime_counted row t interval gap"
    unfolding res(1) total [symmetric] by simp
  have out: "pt_account ?new = a" "pt_observed_at ?new = t" "0 \<le> pt_remainder ?new" "pt_remainder ?new < interval"
    "ptr_credited r = ptr_intervals r * credits"
    using mem(2) iv res by simp_all
  show ?thesis
    using args mem new out sum [unfolded playtime_counted_def] pos bal kept by blast
qed

definition demo_playing :: store where
  "demo_playing = demo_store\<lparr>playtime_checkpoints := [\<lparr>pt_account = 7, pt_observed_at = 1000, pt_online = True,
     pt_remainder = 50, pt_credited = 0\<rparr>]\<rparr>"

theorem playtime_accounting_witness:
  "\<exists>r st row. observe_playtime demo_playing (PInt 7) (PBool True) (PInt 1130) (PInt 60) (PInt 2) (PInt 300) = Inr (r, st) \<and>
    row \<in> set (playtime_checkpoints st) \<and> pt_account row = 7 \<and> pt_remainder row < 60 \<and>
    ptr_credited r = 2 * ptr_intervals r \<and> balance_of st 7 = ptr_credited r"
proof -
  have ids: "identifier_of (PStr ''playtime'') f 64 = Inr ''playtime''" "show_int 7 = ''7''" "show_int 3 = ''3''"
    "identifier_of (PStr ''playtime:7:3'') f 256 = Inr ''playtime:7:3''" for f
    by (simp_all add: identifier_of_def) (code_simp+)
  have inv: "money_inv demo_playing" and rem: "\<forall>p\<in>set (playtime_checkpoints demo_playing). 0 \<le> pt_remainder p"
    by (simp_all add: demo_playing_def demo_defs money_inv_def)
  have "\<exists>r st. observe_playtime demo_playing (PInt 7) (PBool True) (PInt 1130) (PInt 60) (PInt 2) (PInt 300) = Inr (r, st)
      \<and> \<not> ptr_first r"
    by (simp add: observe_playtime_def ids positive_int_def ensure_account_def MAX_ACCOUNT_ID_def now_def Let_def
        demo_playing_def demo_defs account_exists_def row_where_def playtime_elapsed_def update_where_def sqlite_int_def
        append_ledger_def MAX_LEDGER_AMOUNT_def uuid4_def py_or_def json_loads_canonical set_balance_def
        insert_ledger_def wallet_of_def balance_of_def)
  then obtain r st where r: "observe_playtime demo_playing (PInt 7) (PBool True) (PInt 1130) (PInt 60) (PInt 2) (PInt 300) = Inr (r, st)"
    "\<not> ptr_first r" by blast
  have args: "positive_int (PInt 7) f MAX_ACCOUNT_ID = Inr 7" "positive_int (PInt 60) f 86400 = Inr 60"
    "positive_int (PInt 2) f 1000000 = Inr 2" "balance_of demo_playing 7 = 0" for f
    by (simp_all add: positive_int_def MAX_ACCOUNT_ID_def demo_playing_def demo_defs balance_of_def wallet_of_def row_where_def)
  from playtime_accounting [OF r inv rem] r(1) show ?thesis
    by (auto simp: args)
qed

text \<open>
  An observation of playtime older than the last one is not refused: it moves the checkpoint back, and
  the seconds since then are counted again.  Here 50 seconds of play pay an interval of 60.
\<close>

theorem playtime_recounts_after_rewind:
  "\<exists>r1 st1 r2 st2 r3 st3.
    observe_playtime (demo_playing\<lparr>playtime_checkpoints := [\<lparr>pt_account = 7, pt_observed_at = 1000, pt_online = True,
       pt_remainder = 0, pt_credited = 0\<rparr>]\<rparr>) (PInt 7) (PBool True) (PInt 1050) (PInt 60) (PInt 2) (PInt 300) = Inr (r1, st1) \<and>
    observe_playtime st1 (PInt 7) (PBool True) (PInt 1000) (PInt 60) (PInt 2) (PInt 300) = Inr (r2, st2) \<and>
    observe_playtime st2 (PInt 7) (PBool True) (PInt 1050) (PInt 60) (PInt 2) (PInt 300) = Inr (r3, st3) \<and>
    ptr_credited r1 = 0 \<and> ptr_credited r2 = 0 \<and> ptr_credited r3 = 2"
proof -
  have ids: "identifier_of (PStr ''playtime'') f 64 = Inr ''playtime''" "show_int 7 = ''7''" "show_int 1 = ''1''"
    "identifier_of (PStr ''playtime:7:1'') f 256 = Inr ''playtime:7:1''" for f
    by (simp_all add: identifier_of_def) (code_simp+)
  show ?thesis
    by (simp add: observe_playtime_def ids positive_int_def ensure_account_def MAX_ACCOUNT_ID_def now_def Let_def
        demo_playing_def demo_defs account_exists_def row_where_def playtime_elapsed_def update_where_def sqlite_int_def
        append_ledger_def MAX_LEDGER_AMOUNT_def uuid4_def py_or_def json_loads_canonical set_balance_def
        insert_ledger_def wallet_of_def balance_of_def)
qed

subsection \<open>Engagement\<close>

text \<open>
  C29. A grant is given once per account, kind, period and tier: granting the same key again,
  with whatever reward, changes nothing and reports the first grant.
\<close>

theorem engagement_reward_once:
  assumes "grant_engagement_reward st a kind period tier rw = Inr (g, st')"
  shows "grant_engagement_reward st' a kind period tier rw' = Inr (g\<lparr>gr_idempotent := True\<rparr>, st')"
proof -
  let ?mine = "\<lambda>c. clm_account c = a \<and> clm_kind c = kind \<and> clm_period c = period \<and> clm_tier c = tier"
  have "\<exists>c. row_where ?mine (engagement_claims st') = Some c \<and> g\<lparr>gr_idempotent := True\<rparr> =
      \<lparr>gr_kind = kind, gr_period = period, gr_tier = tier, gr_delivery = clm_delivery c, gr_ledger = clm_ledger c,
       gr_idempotent = True\<rparr>"
  proof (cases "row_where ?mine (engagement_claims st)")
    case (Some c)
    with assms show ?thesis by (auto simp: grant_engagement_reward_def)
  next
    case None
    have led: "engagement_claims s' = engagement_claims s" if "append_ledger s x d k r m = Inr (l, s')" for s s' x d k r m l
      using append_ledger_cases(12) [OF that] by simp
    have trk: "engagement_claims s' = engagement_claims s" if "add_track_progress_in s x i m r = Inr (l, s')" for s s' x i m r l
      using that by (auto simp: add_track_progress_in_def Let_def now_def res_simps)
    have del: "engagement_claims s' = engagement_claims s" if "insert_delivery i x y z r u v s = Inr s'" for i x y z r u v s s'
      using insert_delivery_cases(1) [OF that] by simp
    from assms None show ?thesis
      by (auto simp: grant_engagement_reward_def Let_def now_def uuid4_def res_simps row_where_new
          dest!: led trk del)
  qed
  then show ?thesis by (auto simp: grant_engagement_reward_def)
qed

theorem engagement_reward_once_witness:
  "\<exists>g st. grant_engagement_reward demo_synced 7 ''daily'' ''2026-01-01'' 1
      \<lparr>er_credits = 0, er_items = [], er_track = None\<rparr> = Inr (g, st) \<and> \<not> gr_idempotent g \<and>
    grant_engagement_reward st 7 ''daily'' ''2026-01-01'' 1 \<lparr>er_credits = 9, er_items = [], er_track = None\<rparr> =
      Inr (g\<lparr>gr_idempotent := True\<rparr>, st)"
proof -
  have "\<exists>g st. grant_engagement_reward demo_synced 7 ''daily'' ''2026-01-01'' 1
      \<lparr>er_credits = 0, er_items = [], er_track = None\<rparr> = Inr (g, st) \<and> \<not> gr_idempotent g"
    by (simp add: grant_engagement_reward_def demo_defs row_where_def Let_def uuid4_def now_def)
  then obtain g st where g: "grant_engagement_reward demo_synced 7 ''daily'' ''2026-01-01'' 1
      \<lparr>er_credits = 0, er_items = [], er_track = None\<rparr> = Inr (g, st)" "\<not> gr_idempotent g" by blast
  with engagement_reward_once [OF g(1)] show ?thesis by blast
qed

text \<open>The tiers read from a configuration increase strictly.\<close>

lemma tiers_from_increasing:
  "tiers_from f l m no ni prev vs = Inr ts \<Longrightarrow> sorted_wrt (<) (map fst ts) \<and> (\<forall>t\<in>set ts. prev < fst t \<and> 0 < fst t \<and> fst t \<le> m)"
proof (induction vs arbitrary: prev ts)
  case (Cons v vs)
  then obtain row where row: "as_dict v = Some row" by (auto simp: case_option_Inr)
  from Cons.prems row obtain key r us where k: "positive_int (pget row f) l m = Inr key" "prev < key"
      "ts = (key, r) # us" "tiers_from f l m no ni key vs = Inr us"
    by auto
  with Cons.IH [OF k(4)] positive_int_range [OF k(1)] show ?case by force
qed simp

text \<open>What a reward read from a configuration may grant.\<close>

definition reward_in_bounds :: "engagement_reward \<Rightarrow> bool" where
  "reward_in_bounds r =
     (0 \<le> er_credits r \<and> er_credits r \<le> MAX_LEDGER_AMOUNT \<and> length (er_items r) \<le> MAX_REWARDS \<and>
      list_all (\<lambda>i. ri_template i \<noteq> [] \<and> length (ri_template i) \<le> 256 \<and> 0 < ri_count i \<and> ri_count i \<le> 1000000 \<and>
        0 \<le> ri_quality i \<and> ri_quality i \<le> 100) (er_items r) \<and>
      (case er_track r of None \<Rightarrow> True | Some (i, x) \<Rightarrow> i \<noteq> [] \<and> length i \<le> 64 \<and> 0 < x \<and> x \<le> MAX_LEDGER_AMOUNT) \<and>
      (er_credits r \<noteq> 0 \<or> er_items r \<noteq> [] \<or> er_track r \<noteq> None))"

lemma rewards_in_bounds:
  assumes "rewards v = Inr items"
  shows "length items \<le> MAX_REWARDS" and "i \<in> set items \<Longrightarrow> ri_template i \<noteq> [] \<and> length (ri_template i) \<le> 256 \<and>
    0 < ri_count i \<and> ri_count i \<le> 1000000 \<and> 0 \<le> ri_quality i \<and> ri_quality i \<le> 100"
proof -
  obtain rows where rows: "length rows \<le> MAX_REWARDS" "map_res reward_row rows = Inr items"
    using assms by (auto simp: rewards_def case_option_Inr not_less)
  then show "length items \<le> MAX_REWARDS" using map_res_length by metis
  assume "i \<in> set items"
  then obtain x where "reward_row x = Inr i" using map_res_set [OF rows(2)] by blast
  then show "ri_template i \<noteq> [] \<and> length (ri_template i) \<le> 256 \<and> 0 < ri_count i \<and> ri_count i \<le> 1000000 \<and>
      0 \<le> ri_quality i \<and> ri_quality i \<le> 100"
    by (auto simp: reward_row_def Let_def case_option_Inr dest!: identifier_props positive_int_range)
qed

lemma engagement_reward_in_bounds:
  assumes "engagement_reward_of v = Inr r"
  shows "reward_in_bounds r"
proof -
  obtain d track where d: "as_dict v = Some d" "as_dict (py_or (pget d ''track'') (PDict [])) = Some track"
    using assms by (auto simp: engagement_reward_of_def case_option_Inr Let_def)
  show ?thesis
    using assms d
    by (auto simp: engagement_reward_of_def Let_def reward_in_bounds_def list_all_iff not_less
        split: if_splits dest: rewards_in_bounds identifier_props)
qed

text \<open>The tiers of a policy: increasing thresholds up to the given one, each with its reward.\<close>

definition tiers_in_bounds :: "int \<Rightarrow> tier list \<Rightarrow> bool" where
  "tiers_in_bounds m ts = (sorted_wrt (<) (map fst ts) \<and> list_all (\<lambda>t. 0 < fst t \<and> fst t \<le> m \<and> reward_in_bounds (snd t)) ts)"

lemma tiers_from_bounds: "tiers_from f l m no ni prev vs = Inr ts \<Longrightarrow> tiers_in_bounds m ts"
proof -
  have "tiers_from f l m no ni prev vs = Inr ts \<Longrightarrow> list_all (\<lambda>t. reward_in_bounds (snd t)) ts"
  proof (induction vs arbitrary: prev ts)
    case (Cons v vs)
    then show ?case by (auto simp: case_option_Inr intro: engagement_reward_in_bounds)
  qed simp
  then show "tiers_from f l m no ni prev vs = Inr ts \<Longrightarrow> tiers_in_bounds m ts"
    using tiers_from_increasing by (fastforce simp: tiers_in_bounds_def list_all_iff)
qed

text \<open>
  C36. Whatever the configuration says, an engagement policy read from it stays within the
  bounds of the code: the clamped gap, distance, precision, grace and session limit, the
  range of the interval, tiers that increase strictly up to 1000 hours, 10000 days and
  604800 seconds, each with a reward of bounded credits, items and track points that is not
  empty; and an enabled part has tiers.
\<close>

theorem engagement_policy_bounds:
  assumes "engagement_config d = Inr p"
  shows "1 \<le> ep_max_gap p \<and> ep_max_gap p \<le> 3600 \<and> 0 \<le> ep_min_distance p \<and> ep_min_distance p \<le> 1000000 \<and>
    1 \<le> ep_precision p \<and> ep_precision p \<le> 100000 \<and> 0 \<le> ep_grace p \<and> ep_grace p \<le> 3600 \<and>
    0 < ep_hourly_interval p \<and> ep_hourly_interval p \<le> 86400 \<and> 0 \<le> ep_hourly_max p \<and> ep_hourly_max p \<le> 1000 \<and>
    tiers_in_bounds 1000 (ep_hourly_tiers p) \<and> tiers_in_bounds 10000 (ep_daily_tiers p) \<and>
    tiers_in_bounds 604800 (ep_weekly_thresholds p) \<and>
    (ep_hourly_enabled p \<longrightarrow> ep_hourly_tiers p \<noteq> []) \<and> (ep_daily_enabled p \<longrightarrow> ep_daily_tiers p \<noteq> []) \<and>
    (ep_weekly_enabled p \<longrightarrow> ep_weekly_thresholds p \<noteq> [])"
proof -
  obtain raw hourly daily weekly gap dist prec grace hmax interval hrows drows wrows ht dt wt where
    tiers: "tiers_from ''fromHour'' ''hourly fromHour'' 1000 ''hourly reward tiers must be objects''
        ''hourly reward tiers must have increasing fromHour values'' 0 hrows = Inr ht"
      "tiers_from ''day'' ''daily day'' 10000 ''daily reward tiers must be objects''
        ''daily reward tiers must have increasing day values'' 0 drows = Inr dt"
      "tiers_from ''activeSeconds'' ''weekly activeSeconds'' 604800 ''weekly reward thresholds must be objects''
        ''weekly reward thresholds must have increasing activeSeconds values'' 0 wrows = Inr wt"
    and interval: "positive_int (pget_default hourly ''intervalSeconds'' (PInt 3600)) ''hourly intervalSeconds'' 86400 = Inr interval"
    and enabled: "\<not> (truthy (pget_default hourly ''enabled'' (PBool False)) \<and> ht = [])"
      "\<not> (truthy (pget_default daily ''enabled'' (PBool False)) \<and> dt = [])"
      "\<not> (truthy (pget_default weekly ''enabled'' (PBool False)) \<and> wt = [])"
    and p: "p = \<lparr>ep_enabled = truthy (pget_default raw ''enabled'' (PBool False)),
          ep_max_gap = max 1 (min gap 3600), ep_min_distance = max 0 (min dist 1000000),
          ep_precision = max 1 (min prec 100000), ep_grace = max 0 (min grace 3600),
          ep_hourly_enabled = truthy (pget_default hourly ''enabled'' (PBool False)), ep_hourly_interval = interval,
          ep_hourly_max = max 0 (min hmax 1000), ep_hourly_tiers = ht,
          ep_daily_enabled = truthy (pget_default daily ''enabled'' (PBool False)),
          ep_daily_repeat_last = truthy (pget_default daily ''repeatLast'' (PBool False)),
          ep_daily_tiers = dt, ep_weekly_enabled = truthy (pget_default weekly ''enabled'' (PBool False)),
          ep_weekly_thresholds = wt\<rparr>"
    using assms unfolding engagement_config_def Let_def bind_res_Inr_iff require_Inr_iff sum.inject
    by (elim exE conjE) (rule that, assumption+, rule sym)
  show ?thesis
    using tiers_from_bounds [OF tiers(1)] tiers_from_bounds [OF tiers(2)] tiers_from_bounds [OF tiers(3)]
      enabled positive_int_range [OF interval]
    by (auto simp: p)
qed

theorem engagement_policy_bounds_witness:
  "\<exists>p. engagement_config [(''version'', PInt 1)] = Inr p \<and> 1 \<le> ep_max_gap p \<and> ep_max_gap p \<le> 3600"
proof -
  have "\<exists>p. engagement_config [(''version'', PInt 1)] = Inr p"
    by (simp add: engagement_config_def section_of_def pget_def pget_default_def py_or_def positive_int_def)
  then obtain p where "engagement_config [(''version'', PInt 1)] = Inr p" ..
  with engagement_policy_bounds [OF this] show ?thesis by blast
qed

text \<open>
  C37. The reward of an hour or a streak is that of the highest tier reached: on increasing
  tiers the scan that stops at the first tier above the value finds the last of all tiers at
  or below it.
\<close>

theorem tier_for_highest:
  assumes "sorted_wrt (<) (map fst ts)"
  shows "tier_for ts v = (let reached = filter (\<lambda>t. fst t \<le> v) ts in if reached = [] then None else Some (last reached))"
  using assms
proof (induction ts)
  case (Cons t ts)
  then have IH: "tier_for ts v = (let reached = filter (\<lambda>t. fst t \<le> v) ts in if reached = [] then None else Some (last reached))"
    by simp
  show ?case
  proof (cases "fst t \<le> v")
    case True
    then show ?thesis by (simp add: IH Let_def)
  next
    case False
    then have "\<forall>u\<in>set ts. \<not> fst u \<le> v" using Cons.prems by auto
    then show ?thesis using False by (simp add: Let_def filter_empty_conv)
  qed
qed simp

theorem tier_for_highest_witness:
  "let r = \<lparr>er_credits = 1, er_items = [], er_track = None\<rparr> in
    tier_for [(1, r), (3, r), (9, r)] 5 = Some (3, r) \<and> sorted_wrt (<) (map fst [(1 :: int, r), (3, r), (9, r)])"
  using tier_for_highest [of "[(1, \<lparr>er_credits = 1, er_items = [], er_track = None\<rparr>),
    (3, \<lparr>er_credits = 1, er_items = [], er_track = None\<rparr>), (9, \<lparr>er_credits = 1, er_items = [], er_track = None\<rparr>)]" 5]
  by (simp add: Let_def)

text \<open>
  C35. Track progress counts a reference once per track version: once it has been counted
  for one account, the same reference adds nothing for that account or for any other.
\<close>

theorem track_reference_counted_once:
  assumes "add_track_progress_in st a i m r = Inr (x, st')"
    and "positive_int m' ''amount'' MAX_LEDGER_AMOUNT = Inr n"
  shows "\<exists>xp. add_track_progress_in st' b i m' r = Inr ((xp, True), st')"
proof -
  obtain t ref where t: "newest_track (py_str i) (tracks st) = Some t" "identifier_of r ''reference'' 128 = Inr ref"
    using assms(1) by (auto simp: add_track_progress_in_def case_option_Inr)
  then have "tracks st' = tracks st \<and> progress_marker t ref \<in> fst ` set (metadata st')"
    using assms(1) by (auto simp: add_track_progress_in_def Let_def now_def split: if_splits)
  with t assms(2) show ?thesis by (simp add: add_track_progress_in_def Let_def)
qed

definition demo_track :: store where
  "demo_track = demo_store\<lparr>tracks := [\<lparr>trk_id = ''pass'', trk_version = 1, trk_name = ''Pass'', trk_enabled = True,
     trk_starts_at = PNone, trk_ends_at = PNone, trk_levels = [], trk_updated_at = demo_time\<rparr>]\<rparr>"

theorem track_reference_counted_once_witness:
  "\<exists>st. add_track_progress_in demo_track 7 (PStr ''pass'') (PInt 10) (PStr ''ref-1'') = Inr ((10, False), st) \<and>
    progress_xp st 8 ''pass'' 1 = 0 \<and>
    (\<exists>xp. add_track_progress_in st 8 (PStr ''pass'') (PInt 10) (PStr ''ref-1'') = Inr ((xp, True), st))"
proof -
  have id: "identifier_of (PStr ''ref-1'') ''reference'' 128 = Inr ''ref-1''"
    by (simp add: identifier_of_def) code_simp
  have m: "positive_int (PInt 10) ''amount'' MAX_LEDGER_AMOUNT = Inr 10"
    by (simp add: positive_int_def MAX_LEDGER_AMOUNT_def)
  have "\<exists>st. add_track_progress_in demo_track 7 (PStr ''pass'') (PInt 10) (PStr ''ref-1'') = Inr ((10, False), st) \<and>
      progress_xp st 8 ''pass'' 1 = 0"
    by (simp add: add_track_progress_in_def id m demo_track_def demo_defs Let_def now_def progress_marker_def
        upsert_progress_def progress_xp_def row_where_def)
  then obtain st where st: "add_track_progress_in demo_track 7 (PStr ''pass'') (PInt 10) (PStr ''ref-1'') = Inr ((10, False), st)"
    "progress_xp st 8 ''pass'' 1 = 0" by blast
  with track_reference_counted_once [OF st(1) m] show ?thesis by blast
qed

subsection \<open>Account links\<close>

text \<open>
  C30. A link code is spent by its use: after a successful redemption the account carries
  the Discord user, and the same code is refused for every user, as long as the clock does
  not read an empty text.
\<close>

theorem link_code_spent:
  assumes "redeem_link_code st dis cd = Inr ((d, a, t), st')" and "\<forall>n. clock st n \<noteq> []"
    and "identifier_of dis' ''discordUserId'' 64 = Inr d'"
  shows "(\<forall>r\<in>set (accounts st'). acc_id r = a \<longrightarrow> acc_discord r = Some d) \<and>
    redeem_link_code st' dis' cd = Inl (ValueError ''link code is invalid or expired'')"
proof -
  let ?mine = "\<lambda>l. lc_hash l = redeem_digest cd"
  obtain row where row: "row_where ?mine (link_codes st) = Some row"
    using assms(1) by (auto simp: redeem_link_code_def Let_def case_option_Inr)
  then have st': "accounts st' = update_where (\<lambda>r. acc_id r = a) (\<lambda>r. r\<lparr>acc_discord := Some d, acc_linked_at := Some t\<rparr>) (accounts st)"
      "link_codes st' = update_where ?mine (\<lambda>l. l\<lparr>lc_used_at := Some t\<rparr>) (link_codes st)" "t \<noteq> []"
    using assms(1,2) by (auto simp: redeem_link_code_def Let_def now_def)
  have "row_where ?mine (link_codes st') \<noteq> None"
    using row unfolding st'(2) by (simp add: row_where_update)
  then obtain row' where row': "row_where ?mine (link_codes st') = Some row'" by blast
  have "row' \<in> set (link_codes st')" "lc_hash row' = redeem_digest cd" using row_where_Some [OF row'] by auto
  then have "link_code_used row'"
    using st'(3) unfolding st'(2) by (auto simp: link_code_used_def dest!: set_update_where)
  then have refused: "redeem_link_code st' dis' cd = Inl (ValueError ''link code is invalid or expired'')"
    using row' assms(3) by (simp add: redeem_link_code_def Let_def)
  have "acc_discord r = Some d" if r: "r \<in> set (accounts st')" "acc_id r = a" for r
    using set_update_where [OF r(1) [unfolded st'(1)]] by (elim disjE bexE conjE) (simp_all add: r(2))
  then have "\<forall>r\<in>set (accounts st'). acc_id r = a \<longrightarrow> acc_discord r = Some d" by blast
  from this refused show ?thesis ..
qed

definition demo_linking :: store where
  "demo_linking = demo_store\<lparr>accounts := [\<lparr>acc_id = 7, acc_discord = None, acc_linked_at = None, acc_created_at = demo_time\<rparr>],
     link_codes := [\<lparr>lc_hash = redeem_digest (PStr ''CODE''), lc_account = 7, lc_expires_at = ''2026-02-01T00:00:00Z'',
       lc_used_at = None, lc_created_at = demo_time\<rparr>]\<rparr>"

theorem link_code_spent_witness:
  "\<exists>t st. redeem_link_code demo_linking (PStr ''d1'') (PStr ''CODE'') = Inr ((''d1'', 7, t), st) \<and>
    redeem_link_code st (PStr ''d1'') (PStr ''CODE'') = Inl (ValueError ''link code is invalid or expired'')"
proof -
  have id: "identifier_of (PStr ''d1'') f 64 = Inr ''d1''" for f by (simp add: identifier_of_def) code_simp
  have "\<not> ''2026-02-01T00:00:00Z'' < ''2026-01-01T00:00:00Z''" by code_simp
  then have "\<exists>t st. redeem_link_code demo_linking (PStr ''d1'') (PStr ''CODE'') = Inr ((''d1'', 7, t), st)"
    by (simp add: redeem_link_code_def id Let_def demo_linking_def demo_defs row_where_def now_def link_code_used_def
        discord_available_def)
  then obtain t st where r: "redeem_link_code demo_linking (PStr ''d1'') (PStr ''CODE'') = Inr ((''d1'', 7, t), st)" by blast
  moreover have "\<forall>n. clock demo_linking n \<noteq> []" by (simp add: demo_linking_def demo_defs)
  ultimately show ?thesis using link_code_spent [OF r _ id] by blast
qed

subsection \<open>Signatures and canonical JSON\<close>

text \<open>A text that reads as an integer is made of digits, underscores and a sign.\<close>

lemma grouped_digits_chars: "grouped_digits b s = Some ds \<Longrightarrow> CHR ''.'' \<notin> set s \<and> ascii s"
proof (induction b s arbitrary: ds rule: grouped_digits.induct)
  case (2 after_digit c s)
  then show ?case by (auto simp: ascii_def is_digit_def split: if_splits)
qed (simp add: ascii_def split: if_splits)

lemma utf8_ascii: "ascii s \<Longrightarrow> utf8 s = s"
  by (induction s) (simp_all add: utf8_def utf8_char_def ascii_def)

lemma int_text_chars:
  assumes "int_of_str s = Inr n" and "strip s = s"
  shows "CHR ''.'' \<notin> set (utf8 s)"
proof -
  obtain sg body ds where b: "split_sign s = (sg, body)" "grouped_digits False body = Some ds"
    using assms by (auto simp: int_of_str_def case_option_Inr split: prod.splits)
  have "set s \<subseteq> {CHR ''-'', CHR ''+''} \<union> set body" using b(1) by (auto simp: split_sign_def split: list.splits if_splits)
  then have "CHR ''.'' \<notin> set s" "ascii s"
    using grouped_digits_chars [OF b(2)] by (fastforce simp: ascii_def list_all_iff)+
  then show ?thesis by (simp add: utf8_ascii)
qed

text \<open>
  C26. The signature of a webhook binds the time and the body: a request that is accepted
  carries a timestamp within the tolerance of the clock, and two requests that are accepted
  under one secret with one signature have the same timestamp and the same body, or two
  different texts with the same HMAC are at hand.
\<close>

theorem webhook_signature_binds:
  assumes "verify_webhook secret ts body sig current tol = Inr True" and "verify_webhook secret ts' body' sig current' tol' = Inr True"
  shows "(\<exists>e. int_of_str (strip (str_or_empty ts)) = Inr e \<and> \<bar>current - e\<bar> \<le> tol) \<and>
    (strip (str_or_empty ts') = strip (str_or_empty ts) \<and> body' = body \<or>
     collision (hmac_hex (utf8 (str_or_empty secret))) (utf8 (strip (str_or_empty ts)) @ ''.'' @ body)
       (utf8 (strip (str_or_empty ts')) @ ''.'' @ body'))"
proof -
  have ok: "\<exists>e. int_of_str (strip (str_or_empty t)) = Inr e \<and> \<bar>c - e\<bar> \<le> l \<and>
      webhook_signature sig = hmac_hex (utf8 (str_or_empty secret)) (utf8 (strip (str_or_empty t)) @ ''.'' @ b)"
    if "verify_webhook secret t b sig c l = Inr True" for t b c l
    using that by (auto simp: verify_webhook_def Let_def split: sum.splits if_splits)
  show ?thesis
  proof (cases "utf8 (strip (str_or_empty ts)) @ ''.'' @ body = utf8 (strip (str_or_empty ts')) @ ''.'' @ body'")
    case True
    have "CHR ''.'' \<notin> set (utf8 (strip (str_or_empty ts)))" "CHR ''.'' \<notin> set (utf8 (strip (str_or_empty ts')))"
      using ok [OF assms(1)] ok [OF assms(2)] int_text_chars strip_idem by blast+
    then have "utf8 (strip (str_or_empty ts)) = utf8 (strip (str_or_empty ts'))"
      using arg_cong [OF True, of "before (CHR ''.'')"] by (simp add: before_append)
    then have "strip (str_or_empty ts) = strip (str_or_empty ts')" by (rule utf8_inject [THEN iffD1])
    then show ?thesis using True ok [OF assms(1)] by auto
  next
    case False
    then show ?thesis using ok [OF assms(1)] ok [OF assms(2)] by (auto simp: collision_def)
  qed
qed

lemma hex_signature:
  assumes "list_all is_lower_hex s" and "s \<noteq> []"
  shows "webhook_signature (PStr s) = s"
proof -
  have c: "\<not> is_space c" "lower_char c = c" "c \<noteq> CHR ''s''" if "c \<in> set s" for c
    using assms(1) that by (auto simp: list_all_iff is_lower_hex_def is_digit_def is_space_def lower_char_def)
  have "dropWhile is_space s = s" "dropWhile is_space (rev s) = rev s"
    using c(1) by (auto simp: dropWhile_eq_self_iff hd_rev)
  then have "strip s = s" by (simp add: strip_def lstrip_def rstrip_def)
  moreover have "lower s = s" using c(2) by (simp add: lower_def map_idI)
  moreover have "hd s \<noteq> CHR ''s''" using assms(2) c(3) by simp
  ultimately show ?thesis using assms(2) by (cases s) (simp_all add: webhook_signature_def Let_def)
qed

theorem webhook_signature_binds_witness:
  "\<exists>sig. verify_webhook (PStr ''key'') (PStr ''100'') ''{}'' sig 90 20 = Inr True \<and>
     verify_webhook (PStr ''key'') (PStr '' 100 '') ''{}'' sig 110 20 = Inr True \<and> strip '' 100 '' = strip ''100''"
proof -
  define sig where "sig = hmac_hex ''key'' ''100.{}''"
  have s: "webhook_signature (PStr sig) = sig" "length sig = 64"
    unfolding sig_def by (rule hex_signature) (auto simp: hmac_hex_lower list_all_iff dest: arg_cong [where f = length])
  have t: "strip ''100'' = ''100''" "strip '' 100 '' = ''100''" "int_of_str ''100'' = Inr 100" "utf8 ''100'' = ''100''" "utf8 ''key'' = ''key''"
    by code_simp+
  have a: "verify_webhook (PStr ''key'') (PStr ''100'') ''{}'' (PStr sig) 90 20 = Inr True"
    "verify_webhook (PStr ''key'') (PStr '' 100 '') ''{}'' (PStr sig) 110 20 = Inr True"
    by (simp_all add: verify_webhook_def Let_def t s) (simp_all add: sig_def compare_digest_def)
  show ?thesis using webhook_signature_binds [OF a] a t(1,2) by auto
qed

end
