(* ===== verification/RewardsStatus.thy ===== *)
theory RewardsStatus
  imports RewardsShop RewardsEngagement
begin

section \<open>Community rewards: the status report\<close>

text \<open>
  \<^verbatim>\<open>Store.status\<close> of \<^verbatim>\<open>admin/community_rewards.py\<close>: it only reads.  \<open>file\<close> is the text of the
  configuration, \<open>today\<close> the date of the database's clock.
\<close>

text \<open>\<^verbatim>\<open>order by k desc\<close>: rows with equal keys keep their order.\<close>

definition newest_first :: "('r \<Rightarrow> 'k::linorder) \<Rightarrow> 'r list \<Rightarrow> 'r list" where
  "newest_first k rows = rev (sort_key k (rev rows))"

definition status_text :: "delivery_status \<Rightarrow> string" where
  "status_text s = (case s of Queued \<Rightarrow> ''queued'' | Retry \<Rightarrow> ''retry'' | Processing \<Rightarrow> ''processing''
     | Delivered \<Rightarrow> ''delivered'' | Failed \<Rightarrow> ''failed'' | Reconciliation \<Rightarrow> ''reconciliation'')"

text \<open>\<^verbatim>\<open>select k, count(*) \<dots> group by k\<close>\<close>

definition counts_by :: "('r \<Rightarrow> string) \<Rightarrow> 'r list \<Rightarrow> (string \<times> nat) list" where
  "counts_by k rows = map (\<lambda>x. (x, length (filter (\<lambda>r. k r = x) rows))) (sort (remdups (map k rows)))"

record account_report =
  acr_account :: "(account_row \<times> int) option"
  acr_purchases :: "purchase_row list"
  acr_deliveries :: "delivery_row list"
  acr_ledger :: "ledger_row list"
  acr_progress :: "progress_row list"
  acr_checkpoint :: "checkpoint_row option"
  acr_days :: "day_row list"
  acr_weeks :: "week_row list"
  acr_claims :: "(claim_row \<times> pyval) list"

definition with_json :: "('r \<Rightarrow> string) \<Rightarrow> 'r \<Rightarrow> ('r \<times> pyval) res" where
  "with_json field row = bind_res (json_loads (field row)) (\<lambda>v. Inr (row, v))"

definition account_report_of :: "store \<Rightarrow> int \<Rightarrow> nat \<Rightarrow> account_report res" where
  "account_report_of st a limit =
     bind_res (map_res (with_json clm_reward_json)
       (take limit (newest_first clm_created_at (filter (\<lambda>r. clm_account r = a) (engagement_claims st))))) (\<lambda>claims.
     Inr \<lparr>acr_account = (case concat (map (account_with_balance st) (filter (\<lambda>r. acc_id r = a) (accounts st))) of
            [] \<Rightarrow> None | r # _ \<Rightarrow> Some r),
          acr_purchases = take limit (newest_first pur_created_at (filter (\<lambda>r. pur_account r = a) (purchases st))),
          acr_deliveries = take limit (newest_first del_created_at (filter (\<lambda>r. del_account r = a) (deliveries st))),
          acr_ledger = take limit (rev (filter (\<lambda>r. led_account r = a) (ledger st))),
          acr_progress = sort_key prg_track (newest_first prg_version (filter (\<lambda>r. prg_account r = a) (track_progress st))),
          acr_checkpoint = row_where (\<lambda>r. cp_account r = a) (engagement_checkpoints st),
          acr_days = take limit (newest_first day_key (filter (\<lambda>r. day_account r = a) (engagement_days st))),
          acr_weeks = take limit (newest_first week_key (filter (\<lambda>r. week_account r = a) (engagement_weeks st))),
          acr_claims = claims\<rparr>)"

record rewards_status =
  rst_enabled :: bool
  rst_policy :: engagement_policy
  rst_currency :: pyval
  rst_offers :: "(offer_row \<times> pyval) list"
  rst_tracks :: "track_row list"
  rst_deliveries :: "(string \<times> nat) list"
  rst_tracked :: nat
  rst_active_today :: nat
  rst_claims :: "(string \<times> nat) list"
  rst_ledger :: ledger_audit
  rst_account :: "account_report option"

definition report_limit :: "int \<Rightarrow> nat" where
  "report_limit n = nat (max 1 (min n 500))"

definition rewards_status_of :: "store \<Rightarrow> string option \<Rightarrow> string \<Rightarrow> pyval \<Rightarrow> pyval \<Rightarrow> rewards_status res" where
  "rewards_status_of st file_text today account0 limit0 =
     bind_res (py_int limit0) (\<lambda>n.
     bind_res (load_config file_text) (\<lambda>config.
     bind_res (engagement_config config) (\<lambda>policy.
     bind_res (map_res (with_json off_rewards_json) (sort_key off_kind (sort_key off_name (offers st)))) (\<lambda>offer_rows.
     bind_res (verify_ledger st) (\<lambda>audit.
     bind_res (if account0 = PNone \<or> account0 = PStr [] then Inr None
       else bind_res (py_int account0) (\<lambda>a. bind_res (account_report_of st a (report_limit n)) (\<lambda>r. Inr (Some r)))) (\<lambda>account.
     Inr \<lparr>rst_enabled = truthy (pget_default config ''enabled'' (PBool False)), rst_policy = policy,
          rst_currency = py_or (pget config ''currency'')
            (PDict [(''name'', PStr ''Community Credits''), (''symbol'', PStr ''CC'')]),
          rst_offers = offer_rows, rst_tracks = sort_key trk_id (newest_first trk_version (tracks st)),
          rst_deliveries = counts_by (status_text \<circ> del_status) (deliveries st),
          rst_tracked = length (engagement_checkpoints st),
          rst_active_today = length (filter (\<lambda>r. day_key r = today \<and> day_seconds r > 0) (engagement_days st)),
          rst_claims = counts_by clm_kind (engagement_claims st), rst_ledger = audit, rst_account = account\<rparr>))))))"

text \<open>The counts of a report account for every row once.\<close>

lemma counts_by_total: "sum_list (map snd (counts_by k rows)) = length rows"
proof -
  have "sum_list (map snd (counts_by k rows)) = (\<Sum>x\<in>k ` set rows. length (filter (\<lambda>r. k r = x) rows))"
    by (simp add: counts_by_def o_def sum_list_distinct_conv_sum_set)
  also have "\<dots> = length rows"
  proof (induction rows)
    case Nil
    then show ?case by simp
  next
    case (Cons r rows)
    let ?n = "\<lambda>rows x. length (filter (\<lambda>r. k r = x) rows)"
    have z: "?n rows x = 0" if "x \<notin> k ` set rows" for x using that by (auto simp: filter_empty_conv)
    have "(\<Sum>x\<in>k ` set (r # rows). ?n (r # rows) x) = (\<Sum>x\<in>insert (k r) (k ` set rows). ?n rows x + (if k r = x then 1 else 0))"
      by (rule sum.cong) auto
    also have "\<dots> = (\<Sum>x\<in>insert (k r) (k ` set rows). ?n rows x) + 1" by (simp add: sum.distrib)
    also have "(\<Sum>x\<in>insert (k r) (k ` set rows). ?n rows x) = (\<Sum>x\<in>k ` set rows. ?n rows x)"
    proof (cases "k r \<in> k ` set rows")
      case True
      then show ?thesis by (simp only: insert_absorb)
    next
      case False
      then show ?thesis using z [OF False] by (subst sum.insert) auto
    qed
    finally show ?case using Cons.IH by simp
  qed
  finally show ?thesis .
qed

end
