(* ===== verification/JsonText.thy ===== *)
theory JsonText
  imports Json
begin

section \<open>A canonical JSON text splits in one way\<close>

text \<open>
  Digests are computed over canonical texts that may hold floats.  Without reading a text
  back: when two canonical texts followed by a delimiter are equal, they end at the same
  place.  So two objects with one canonical text have the same keys, and under each key
  values with the same text (\<open>canonical_field_texts\<close>).
\<close>

definition num_char :: "char \<Rightarrow> bool" where
  "num_char c = (is_digit c \<or> c \<in> {CHR ''-'', CHR ''+'', CHR ''.'', CHR ''e''})"

definition num_text :: "string \<Rightarrow> bool" where
  "num_text s = (s \<noteq> [] \<and> list_all num_char s)"

definition delim :: "string \<Rightarrow> bool" where
  "delim r = (r = [] \<or> hd r \<in> {CHR '','', CHR '']'', CHR ''}''})"

lemma delim_simps [simp]: "delim []" "delim (c # s) \<longleftrightarrow> c \<in> {CHR '','', CHR '']'', CHR ''}''}"
  by (simp_all add: delim_def)

lemma num_digits: "list_all num_char (nat_digits n)"
  using nat_digits_digits by (auto simp: list_all_iff num_char_def)

lemma num_zeros: "list_all num_char (replicate k (CHR ''0''))"
  by (auto simp: list_all_iff num_char_def is_digit_def)

lemma num_pad: "list_all num_char (pad_zero w n)"
  by (simp add: pad_zero_def Let_def num_digits num_zeros)

lemma num_text_int: "num_text (show_int i)"
  by (auto simp: num_text_def show_int_def num_digits num_char_def)

lemma num_text_show_digits: "list_all num_char ds \<Longrightarrow> num_text (show_digits ds dp)"
proof -
  assume ds: "list_all num_char ds"
  have "list_all num_char (take k ds)" "list_all num_char (drop k ds)" for k
    using ds by (auto simp: list_all_iff dest: in_set_takeD in_set_dropD)
  moreover have "num_char (CHR ''0'')" "num_char (CHR ''.'')" "num_char (CHR ''e'')" "num_char (CHR ''-'')" "num_char (CHR ''+'')"
    by (simp_all add: num_char_def is_digit_def)
  ultimately show ?thesis using ds num_zeros num_pad
    by (simp add: num_text_def show_digits_def)
qed

lemma num_text_float: "num_text (float_repr r)"
proof (cases "r = 0")
  case True
  then show ?thesis by (simp add: float_repr_def num_text_def num_char_def is_digit_def)
next
  case False
  obtain m p where s: "shortest \<bar>r\<bar> = (m, p)" by fastforce
  have "list_all num_char (rev (dropWhile (\<lambda>c. c = CHR ''0'') (rev (nat_digits (nat m)))))"
    using num_digits [of "nat m"] by (auto simp: list_all_iff dest: set_dropWhileD)
  then have "num_text (show_digits (rev (dropWhile (\<lambda>c. c = CHR ''0'') (rev (nat_digits (nat m))))) dp)" for dp
    by (rule num_text_show_digits)
  then show ?thesis using False s
    by (simp add: float_repr_def Let_def num_text_def num_char_def)
qed

lemma num_text_split:
  assumes "num_text a" and "num_text b" and "delim r" and "delim s" and "a @ r = b @ s"
  shows "a = b \<and> r = s"
proof -
  have nd: "\<not> num_char c" if "c \<in> {CHR '','', CHR '']'', CHR ''}''}" for c
    using that by (auto simp: num_char_def is_digit_def)
  have "takeWhile num_char (x @ y) = x" if "num_text x" "delim y" for x y
  proof (cases y)
    case Nil
    then show ?thesis using that by (simp add: num_text_def takeWhile_eq_all_conv list_all_iff)
  next
    case (Cons c z)
    then have "\<not> num_char c" using that(2) nd by simp
    then show ?thesis using that(1) Cons by (simp add: num_text_def list_all_iff takeWhile_append)
  qed
  then have "a = b" using assms by metis
  then show ?thesis using assms(5) by simp
qed

lemma json_string_split:
  assumes "json_string True a @ r = json_string True b @ s"
  shows "a = b \<and> r = s"
proof -
  have "parse_chars (concat (map (escape_char True) a) @ quote # r) =
      parse_chars (concat (map (escape_char True) b) @ quote # s)"
    using assms by (simp add: json_string_def)
  then show ?thesis by (simp add: parse_chars_string)
qed

lemma json_string_inject [simp]: "json_string True a = json_string True b \<longleftrightarrow> a = b"
  using json_string_split [of a "[]" b "[]"] by auto

subsection \<open>Sequences of texts\<close>

definition splits :: "string \<Rightarrow> string \<Rightarrow> bool" where
  "splits t u = (\<forall>r s. delim r \<longrightarrow> delim s \<longrightarrow> t @ r = u @ s \<longrightarrow> t = u \<and> r = s)"

definition solid :: "string \<Rightarrow> bool" where
  "solid t = (t \<noteq> [] \<and> \<not> delim t)"

lemma solid_Cons: "solid t \<Longrightarrow> \<exists>c u. t = c # u \<and> c \<notin> {CHR '','', CHR '']'', CHR ''}''}"
  by (cases t) (auto simp: solid_def)

lemma join_split:
  assumes "\<forall>t\<in>set ts. \<forall>u\<in>set us. splits t u" and "\<forall>t\<in>set ts \<union> set us. solid t"
    and "c \<in> {CHR '']'', CHR ''}''}"
    and "join '','' ts @ c # r = join '','' us @ c # s"
  shows "ts = us \<and> r = s"
  using assms
proof (induction ts arbitrary: us)
  case Nil
  show ?case
  proof (cases us)
    case Nil
    then show ?thesis using Nil.prems by simp
  next
    case (Cons u us')
    then obtain d v where "u = d # v" "d \<noteq> c" using Nil.prems(2,3) solid_Cons by force
    then obtain x where "join '','' us = d # x" using Cons by (cases us') simp_all
    then show ?thesis using Nil.prems(4) \<open>d \<noteq> c\<close> by simp
  qed
next
  case (Cons t ts)
  show ?case
  proof (cases us)
    case Nil
    from Cons.prems(2,3) obtain d v where "t = d # v" "d \<noteq> c" using solid_Cons by force
    then obtain x where "join '','' (t # ts) = d # x" by (cases ts) simp_all
    then show ?thesis using Cons.prems(4) \<open>d \<noteq> c\<close> Nil by simp
  next
    case (Cons u us')
    define rest where "rest xs q = (if xs = [] then c # q else '','' @ join '','' xs @ c # q)" for xs q
    have j: "join '','' (x # xs) @ c # q = x @ rest xs q" for x xs q
      by (cases xs) (simp_all add: rest_def)
    have "delim (rest xs q)" for xs q using Cons.prems(3) by (auto simp: rest_def)
    moreover have "splits t u" using Cons.prems(1) Cons by simp
    moreover have "t @ rest ts r = u @ rest us' s" using Cons.prems(4) Cons j by simp
    ultimately have tu: "t = u" "rest ts r = rest us' s" unfolding splits_def by blast+
    have cc: "c \<noteq> CHR '',''" using Cons.prems(3) by auto
    show ?thesis
    proof (cases "ts = [] \<or> us' = []")
      case True
      then have "ts = [] \<and> us' = [] \<and> r = s" using tu(2) cc by (auto simp: rest_def split: if_splits)
      then show ?thesis using tu(1) Cons by simp
    next
      case False
      then have "join '','' ts @ c # r = join '','' us' @ c # s" using tu(2) by (simp add: rest_def)
      then have "ts = us' \<and> r = s" using Cons.prems(1,2,3) Cons by (intro Cons.IH) auto
      then show ?thesis using tu(1) Cons by simp
    qed
  qed
qed

definition field_text :: "string \<times> string \<Rightarrow> string" where
  "field_text p = json_string True (fst p) @ '':'' @ snd p"

lemma field_text_inject: "field_text p = field_text q \<longleftrightarrow> p = q"
proof
  assume "field_text p = field_text q"
  then have "fst p = fst q \<and> '':'' @ snd p = '':'' @ snd q"
    unfolding field_text_def by (rule json_string_split)
  then show "p = q" by (simp add: prod_eq_iff)
qed simp

lemma solid_field: "solid (field_text p)"
  by (simp add: solid_def field_text_def json_string_def code_inject [symmetric])

lemma splits_field: "splits (snd p) (snd q) \<Longrightarrow> splits (field_text p) (field_text q)"
  unfolding splits_def
proof (intro allI impI)
  fix r s
  assume a: "\<forall>r s. delim r \<longrightarrow> delim s \<longrightarrow> snd p @ r = snd q @ s \<longrightarrow> snd p = snd q \<and> r = s"
    and d: "delim r" "delim s" and eq: "field_text p @ r = field_text q @ s"
  have "json_string True (fst p) @ ('':'' @ snd p @ r) = json_string True (fst q) @ ('':'' @ snd q @ s)"
    using eq by (simp add: field_text_def)
  then have "fst p = fst q" "'':'' @ snd p @ r = '':'' @ snd q @ s" using json_string_split by blast+
  then show "field_text p = field_text q \<and> r = s" using a d by (simp add: field_text_def)
qed

subsection \<open>Values\<close>

definition dict_fields :: "(string \<times> pyval) list \<Rightarrow> (string \<times> string) list" where
  "dict_fields kvs = sort_key fst (map (map_prod id (dumps True)) kvs)"

lemma dumps_dict: "dumps True (PDict kvs) = CHR ''{'' # join '','' (map field_text (dict_fields kvs)) @ ''}''"
  by (simp add: dict_fields_def field_text_def [abs_def])

lemma set_dict_fields: "p \<in> set (dict_fields kvs) \<Longrightarrow> \<exists>v. (fst p, v) \<in> set kvs \<and> snd p = dumps True v"
  by (auto simp: dict_fields_def)

lemma num_head: "num_text t \<Longrightarrow> \<exists>c u. t = c # u \<and> num_char c"
  by (cases t) (auto simp: num_text_def)

lemma num_char_heads:
  "\<not> num_char (CHR ''n'')" "\<not> num_char (CHR ''t'')" "\<not> num_char (CHR ''f'')" "\<not> num_char quote"
  "\<not> num_char (CHR ''['')" "\<not> num_char (CHR ''{'')" "\<not> num_char (CHR '','')" "\<not> num_char (CHR '']'')"
  "\<not> num_char (CHR ''}'')"
  by (auto simp: num_char_def is_digit_def quote_def code_inject [symmetric])

text \<open>The first character of a text tells which kind of value it is.\<close>

definition head_ok :: "pyval \<Rightarrow> char \<Rightarrow> bool" where
  "head_ok v c = (case v of PNone \<Rightarrow> c = CHR ''n'' | PBool b \<Rightarrow> c = (if b then CHR ''t'' else CHR ''f'')
     | PInt _ \<Rightarrow> num_char c | PFloat _ \<Rightarrow> num_char c | PStr _ \<Rightarrow> c = quote | PList _ \<Rightarrow> c = CHR ''['' | PDict _ \<Rightarrow> c = CHR ''{'')"

lemma dumps_head: "\<exists>c u. dumps True v = c # u \<and> head_ok v c"
  using num_head [OF num_text_int] num_head [OF num_text_float]
  by (cases v) (auto simp: head_ok_def json_string_def)

lemma quote_heads:
  "quote \<noteq> CHR ''n''" "quote \<noteq> CHR ''t''" "quote \<noteq> CHR ''f''" "quote \<noteq> CHR ''[''" "quote \<noteq> CHR ''{''"
  "quote \<noteq> CHR '',''" "quote \<noteq> CHR '']''" "quote \<noteq> CHR ''}''"
  by (simp_all add: code_inject [symmetric])

lemma solid_dumps: "solid (dumps True v)"
proof -
  obtain c u where c: "dumps True v = c # u" "head_ok v c" using dumps_head by blast
  then have "c \<notin> {CHR '','', CHR '']'', CHR ''}''}"
    using num_char_heads quote_heads by (cases v) (auto simp: head_ok_def split: if_splits)
  with c show ?thesis by (simp add: solid_def)
qed

lemma num_text_of_head:
  assumes "\<exists>c u. x = c # u \<and> num_char c" and "x @ r = dumps True w @ s"
  shows "num_text (dumps True w)"
proof -
  obtain c u where c: "dumps True w = c # u" "head_ok w c" using dumps_head by blast
  with assms have "num_char c" by auto
  with c(2) num_char_heads have "(\<exists>i. w = PInt i) \<or> (\<exists>q. w = PFloat q)"
    by (cases w) (auto simp: head_ok_def split: if_splits)
  then show ?thesis using num_text_int num_text_float by auto
qed

lemma splits_dumps: "splits (dumps True v) (dumps True w)"
proof (induction v arbitrary: w rule: pyval_induct)
  case (PList vs)
  show ?case unfolding splits_def
  proof (intro allI impI)
    fix r s assume eq: "dumps True (PList vs) @ r = dumps True w @ s"
    obtain c u where "dumps True w = c # u" "head_ok w c" using dumps_head by blast
    with eq obtain ws where w: "w = PList ws"
      using num_char_heads quote_heads by (cases w) (auto simp: head_ok_def split: if_splits)
    have "map (dumps True) vs = map (dumps True) ws \<and> r = s"
      by (rule join_split [where c = "CHR '']''"]) (use eq w PList solid_dumps in auto)
    then show "dumps True (PList vs) = dumps True w \<and> r = s" using w by simp
  qed
next
  case (PDict kvs)
  show ?case unfolding splits_def
  proof (intro allI impI)
    fix r s assume eq: "dumps True (PDict kvs) @ r = dumps True w @ s"
    obtain c u where "dumps True w = c # u" "head_ok w c" using dumps_head by blast
    with eq obtain ws where w: "w = PDict ws"
      using num_char_heads quote_heads by (cases w) (auto simp: head_ok_def split: if_splits)
    have "map field_text (dict_fields kvs) = map field_text (dict_fields ws) \<and> r = s"
    proof (rule join_split [where c = "CHR ''}''"])
      show "\<forall>t\<in>set (map field_text (dict_fields kvs)). \<forall>u\<in>set (map field_text (dict_fields ws)). splits t u"
      proof (intro ballI)
        fix t u assume "t \<in> set (map field_text (dict_fields kvs))" "u \<in> set (map field_text (dict_fields ws))"
        then obtain p q where "p \<in> set (dict_fields kvs)" "t = field_text p" "q \<in> set (dict_fields ws)" "u = field_text q"
          by auto
        then show "splits t u"
          using PDict set_dict_fields by (metis snd_conv splits_field)
      qed
    qed (use eq w solid_field in \<open>auto simp: dumps_dict simp del: dumps.simps\<close>)
    then show "dumps True (PDict kvs) = dumps True w \<and> r = s" using w by (simp add: dumps_dict del: dumps.simps)
  qed
next
  case (PInt i)
  show ?case unfolding splits_def
  proof (intro allI impI)
    fix r s assume d: "delim r" "delim s" and eq: "dumps True (PInt i) @ r = dumps True w @ s"
    have "num_text (dumps True w)"
      by (rule num_text_of_head [OF num_head [OF num_text_int [of i]], of r w s]) (use eq in simp)
    then show "dumps True (PInt i) = dumps True w \<and> r = s"
      using num_text_split [OF num_text_int _ d] eq by simp
  qed
next
  case (PFloat x)
  show ?case unfolding splits_def
  proof (intro allI impI)
    fix r s assume d: "delim r" "delim s" and eq: "dumps True (PFloat x) @ r = dumps True w @ s"
    have "num_text (dumps True w)"
      by (rule num_text_of_head [OF num_head [OF num_text_float [of x]], of r w s]) (use eq in simp)
    then show "dumps True (PFloat x) = dumps True w \<and> r = s"
      using num_text_split [OF num_text_float _ d] eq by simp
  qed
next
  case (PStr t)
  show ?case unfolding splits_def
  proof (intro allI impI)
    fix r s assume eq: "dumps True (PStr t) @ r = dumps True w @ s"
    obtain c u where "dumps True w = c # u" "head_ok w c" using dumps_head by blast
    with eq obtain t' where w: "w = PStr t'"
      using num_char_heads quote_heads by (cases w) (auto simp: head_ok_def json_string_def split: if_splits)
    have "t = t' \<and> r = s" by (rule json_string_split) (use eq w in simp)
    then show "dumps True (PStr t) = dumps True w \<and> r = s" using w by simp
  qed
next
  case PNone
  show ?case unfolding splits_def
  proof (intro allI impI)
    fix r s assume eq: "dumps True PNone @ r = dumps True w @ s"
    obtain c u where "dumps True w = c # u" "head_ok w c" using dumps_head by blast
    with eq have "w = PNone"
      using num_char_heads quote_heads by (cases w) (auto simp: head_ok_def split: if_splits)
    then show "dumps True PNone = dumps True w \<and> r = s" using eq by simp
  qed
next
  case (PBool b)
  show ?case unfolding splits_def
  proof (intro allI impI)
    fix r s assume eq: "dumps True (PBool b) @ r = dumps True w @ s"
    obtain c u where "dumps True w = c # u" "head_ok w c" using dumps_head by blast
    with eq have "w = PBool b"
      using num_char_heads quote_heads by (cases w) (auto simp: head_ok_def split: if_splits)
    then show "dumps True (PBool b) = dumps True w \<and> r = s" using eq by simp
  qed
qed

text \<open>One canonical text, the same text under every key.\<close>

lemma canonical_field_texts:
  assumes "canonical (PDict a) = canonical (PDict b)" and "distinct (map fst a)" and "distinct (map fst b)"
  shows "map_option canonical (map_of a k) = map_option canonical (map_of b k)"
proof -
  have t: "splits t u"
    if t: "t \<in> set (map field_text (dict_fields a))" and u: "u \<in> set (map field_text (dict_fields b))" for t u
  proof -
    obtain p q where p: "p \<in> set (dict_fields a)" "q \<in> set (dict_fields b)" "t = field_text p" "u = field_text q"
      using t u by auto
    have "splits (snd p) (snd q)" using set_dict_fields [OF p(1)] set_dict_fields [OF p(2)] splits_dumps by auto
    then show ?thesis using p splits_field by simp
  qed
  have j: "join '','' (map field_text (dict_fields a)) @ CHR ''}'' # [] = join '','' (map field_text (dict_fields b)) @ CHR ''}'' # []"
    using assms(1) by (simp add: canonical_def dumps_dict del: dumps.simps)
  have "map field_text (dict_fields a) = map field_text (dict_fields b)"
    by (rule join_split [where c = "CHR ''}''", OF _ _ _ j, THEN conjunct1]) (use t solid_field in auto)
  then have eq: "dict_fields a = dict_fields b"
    using field_text_inject by (metis inj_onI inj_on_map_eq_map)
  have "map_of (dict_fields x) k = map_option canonical (map_of x k)" if "distinct (map fst x)" for x
    using that map_of_sort_key [of "map (map_prod id (dumps True)) x"]
    by (simp add: dict_fields_def map_fst_map_prod_id map_of_map_prod canonical_def [abs_def])
  then show ?thesis using eq assms(2,3) by metis
qed

lemma canonical_str_inject [simp]: "canonical (PStr a) = canonical (PStr b) \<longleftrightarrow> a = b"
  by (simp add: canonical_def)

subsection \<open>Sizes\<close>

lemma length_utf8: "length s \<le> length (utf8 s)" "length (utf8 s) \<le> 2 * length s"
  by (induction s) (auto simp: utf8_def utf8_char_def Let_def)

lemma length_json_string: "length (json_string a s) \<le> 6 * length s + 2"
proof -
  have "length (escape_char a c) \<le> 6" for c by (simp add: escape_char_def Let_def hex4_def hex2_def)
  then have "length (concat (map (escape_char a) s)) \<le> 6 * length s"
    by (induction s) (auto intro: add_mono [of _ 6, simplified])
  then show ?thesis by (simp add: json_string_def)
qed

lemma sum_list_upper: "\<forall>n\<in>set ns. n \<le> c \<Longrightarrow> sum_list ns \<le> length ns * (c :: nat)"
  by (induction ns) auto

text \<open>The size of an encoded object, from the sizes of its keys and of the texts of its values.\<close>

lemma dict_text_size:
  assumes "\<forall>p\<in>set kvs. length (fst p) \<le> k \<and> length (dumps a (snd p)) \<le> 6 * k + 2"
  shows "length (dumps a (PDict kvs)) \<le> length kvs * (12 * k + 6) + 2" and "2 \<le> length (utf8 (dumps a (PDict kvs)))"
    and "length (utf8 (dumps a (PDict kvs))) \<le> 2 * (length kvs * (12 * k + 6) + 2)"
proof -
  let ?item = "\<lambda>p. json_string a (fst p) @ '':'' @ snd p"
  let ?rows = "sort_key fst (map (map_prod id (dumps a)) kvs)"
  have one: "length (?item p) \<le> 12 * k + 5" if "p \<in> set ?rows" for p
  proof -
    have "length (fst p) \<le> k" "length (snd p) \<le> 6 * k + 2" using that assms by auto
    then show ?thesis using length_json_string [of a "fst p"] by simp
  qed
  have b: "\<forall>n\<in>set (map length (map ?item ?rows)). n \<le> 12 * k + 5" unfolding set_map using one by blast
  have "sum_list (map length (map ?item ?rows)) \<le> length kvs * (12 * k + 5)"
    using sum_list_upper [OF b] by (simp only: length_map length_sort)
  then show d: "length (dumps a (PDict kvs)) \<le> length kvs * (12 * k + 6) + 2"
    by (simp add: length_join algebra_simps del: map_map)
  have "2 \<le> length (dumps a (PDict kvs))" by simp
  then show "2 \<le> length (utf8 (dumps a (PDict kvs)))"
    and "length (utf8 (dumps a (PDict kvs))) \<le> 2 * (length kvs * (12 * k + 6) + 2)"
    using d length_utf8 [of "dumps a (PDict kvs)"] by simp_all
qed

end
