(* ===== verification/ChangePolicy.thy ===== *)
theory ChangePolicy
  imports HashChain JsonText PyTime
begin

section \<open>Two-person approvals: which requests are governed, and how bodies are bound and shown\<close>

text \<open>
  The stateless part of \<^verbatim>\<open>admin/change_approvals.py\<close>: the table of governed requests and
  their predicates, the policy mode, the normalised body that an approval is bound to, the
  redacted body a reviewer sees, and the identity of the acting principal.  Text is limited
  to code points below 256, so a redacted text of more than 2000 characters, to which the
  code appends a horizontal ellipsis, is \<open>Unmodelled\<close>.
\<close>

definition APPROVAL_SCHEMA_VERSION :: int where
  "APPROVAL_SCHEMA_VERSION = 1"

definition MAX_BODY_BYTES :: nat where
  "MAX_BODY_BYTES = 32 * 1024 * 1024"

definition MAX_SUMMARY_BYTES :: nat where
  "MAX_SUMMARY_BYTES = 1000"

definition RISK_ORDER :: "string \<rightharpoonup> nat" where
  "RISK_ORDER = map_of [(''standard'', 1), (''high'', 2), (''critical'', 3)]"

definition MODE_MINIMUM :: "string \<rightharpoonup> nat" where
  "MODE_MINIMUM = map_of [(''all'', 1), (''high'', 2), (''critical'', 3)]"

definition TERMINAL_STATES :: "string list" where
  "TERMINAL_STATES = [''consumed'', ''rejected'', ''cancelled'', ''expired'']"

text \<open>\<^verbatim>\<open>^approval-[0-9]{8}T[0-9]{6}Z-[0-9a-f]{16}$\<close>, matched whole.\<close>

definition request_id_ok :: "string \<Rightarrow> bool" where
  "request_id_ok s =
     (length s = 42 \<and> take 9 s = ''approval-'' \<and> list_all is_digit (take 8 (drop 9 s)) \<and>
      s ! 17 = CHR ''T'' \<and> list_all is_digit (take 6 (drop 18 s)) \<and>
      s ! 24 = CHR ''Z'' \<and> s ! 25 = CHR ''-'' \<and> list_all is_lower_hex (drop 26 s))"

text \<open>\<^verbatim>\<open>SECRET_KEY\<close>: a keyword anywhere in the key, in any case; \<^verbatim>\<open>private.?key\<close> allows one
  character other than a line feed in between.\<close>

fun contains :: "string \<Rightarrow> string \<Rightarrow> bool" where
  "contains [] w = (w = [])"
| "contains (c # s) w = (starts_with (c # s) w \<or> contains s w)"

fun contains_private_key :: "string \<Rightarrow> bool" where
  "contains_private_key [] = False"
| "contains_private_key (c # s) =
     ((starts_with (c # s) ''private'' \<and>
       (starts_with (drop 6 s) ''key'' \<or>
        (drop 6 s \<noteq> [] \<and> hd (drop 6 s) \<noteq> chr 10 \<and> starts_with (drop 7 s) ''key'')))
      \<or> contains_private_key s)"

definition secret_key :: "string \<Rightarrow> bool" where
  "secret_key s =
     (let k = lower s in
      list_ex (contains k) [''password'', ''secret'', ''token'', ''credential'', ''authorization'', ''archive_base64'']
      \<or> contains_private_key k)"

subsection \<open>The governed requests\<close>

type_synonym body = "(string \<times> pyval) list"

definition truthy_flag :: "pyval \<Rightarrow> bool" where
  "truthy_flag v = (lower (strip (py_str v)) \<in> {''1'', ''true'', ''yes'', ''on''})"

definition dry_run :: "body \<Rightarrow> bool \<Rightarrow> bool" where
  "dry_run b d =
     (case pget_default b ''dry_run'' (pget_default b ''dryRun'' (PBool d)) of
        PBool v \<Rightarrow> v
      | v \<Rightarrow> truthy_flag v)"

definition body_action :: "body \<Rightarrow> string" where
  "body_action b = lower (strip (str_or_empty (pget b ''action'')))"

definition p_always :: "body \<Rightarrow> bool" where
  "p_always b = True"

definition p_non_dry :: "body \<Rightarrow> bool" where
  "p_non_dry b = (\<not> dry_run b True)"

definition p_actions :: "string list \<Rightarrow> body \<Rightarrow> bool" where
  "p_actions names b = (body_action b \<in> set names)"

definition p_actions_non_dry :: "string list \<Rightarrow> body \<Rightarrow> bool" where
  "p_actions_non_dry names b = (body_action b \<in> set names \<and> \<not> dry_run b True)"

type_synonym policy = "string \<times> string \<times> (body \<Rightarrow> bool)"

definition POLICIES :: "(string \<times> policy) list" where
  "POLICIES = [
    (''/api/ops/backups/restore'', ''critical'', ''Restore a backup set'', p_non_dry),
    (''/api/ops/database/row'', ''critical'', ''Edit an arbitrary database row'', p_always),
    (''/api/ops/database/password'', ''critical'', ''Rotate the game database password'', p_always),
    (''/api/ops/database/query'', ''critical'', ''Execute write-capable database SQL'',
       \<lambda>b. strip (str_or_empty (pget b ''confirm'')) \<noteq> []),
    (''/api/ops/updates'', ''critical'', ''Apply a game or stack update'',
       p_actions [''game-apply'', ''stack-apply'', ''auto-update-install'']),
    (''/api/settings/env'', ''critical'', ''Change environment configuration'', p_always),
    (''/api/admin/base-retirement'', ''critical'', ''Archive and retire a player base'', p_actions [''archive'']),
    (''/api/admin/character-slots/execute'', ''critical'', ''Swap or restore a character slot'', p_non_dry),
    (''/api/admin/player-identity-integrity'', ''critical'', ''Clean orphan identity state or delete a character'',
       p_actions [''cleanup-orphans'', ''delete-character'']),
    (''/api/admin/blueprints'', ''critical'', ''Import or delete a Solido blueprint'',
       p_actions_non_dry [''import'', ''delete'']),
    (''/api/admin/cosmetics'', ''critical'', ''Change or roll back persistent cosmetic state'', p_always),
    (''/api/presets/gameplay'', ''critical'', ''Apply or roll back a gameplay preset'', p_actions [''apply'', ''rollback'']),
    (''/api/admin/player-maintenance'', ''high'', ''Change or roll back player progression/recovery state'', p_non_dry),
    (''/api/admin/player-runtime-action'', ''high'', ''Execute a native player runtime action'', p_non_dry),
    (''/api/admin/player-recovery/offline-teleport'', ''high'', ''Move an offline player'', p_non_dry),
    (''/api/admin/player-recovery/life-state'', ''high'', ''Recover an offline player's persisted life state'', p_non_dry),
    (''/api/admin/character-backups'', ''critical'', ''Restore or delete a native character backup'',
       p_actions [''restore'', ''delete'']),
    (''/api/admin/vehicle'', ''high'', ''Change persistent vehicle state'', p_non_dry),
    (''/api/admin/item'', ''high'', ''Grant or modify an item'', \<lambda>b. \<not> dry_run b False),
    (''/api/admin/item/delete'', ''high'', ''Delete an owned item'', p_always),
    (''/api/admin/item/stack'', ''high'', ''Change item stack or quality'', p_always),
    (''/api/admin/currency'', ''high'', ''Change player currency'', p_always),
    (''/api/admin/solari/inventory'', ''high'', ''Change inventory Solari'', p_non_dry),
    (''/api/admin/solari/bank'', ''high'', ''Change bank Solari'', p_non_dry),
    (''/api/admin/xp'', ''high'', ''Change specialization XP'', p_always),
    (''/api/admin/bundle'', ''high'', ''Execute an economy bundle'', p_non_dry),
    (''/api/admin/landsraad'', ''high'', ''Change Landsraad state'', p_non_dry),
    (''/api/admin/faction-reputation'', ''high'', ''Change faction reputation'', p_non_dry),
    (''/api/admin/faction'', ''high'', ''Change player faction'', p_non_dry),
    (''/api/admin/journey'', ''high'', ''Change journey state'', p_non_dry),
    (''/api/admin/guild'', ''high'', ''Change guild state'', p_non_dry),
    (''/api/admin/marker'', ''high'', ''Change world markers'', p_non_dry),
    (''/api/admin/landclaim'', ''high'', ''Change landclaim state'', p_non_dry),
    (''/api/admin/permission'', ''high'', ''Change actor permissions'', p_non_dry),
    (''/api/admin/access-code'', ''high'', ''Change a player access code'', p_non_dry),
    (''/api/admin/respawn-location'', ''high'', ''Change a player respawn location'', p_non_dry),
    (''/api/moderation'', ''high'', ''Change moderation enforcement state'',
       p_actions [''ban'', ''unban'', ''allowlist-policy'']),
    (''/api/ops/audit/reconcile'', ''high'', ''Resolve an investigated incomplete privileged request'', p_always),
    (''/api/ops/services/control'', ''standard'', ''Control a service'', p_always),
    (''/api/ops/memory'', ''standard'', ''Change map memory policy'', p_always),
    (''/api/ops/autoscaler'', ''standard'', ''Change autoscaler policy'', p_always),
    (''/api/ops/restart'', ''standard'', ''Schedule an executable restart'',
       \<lambda>b. truthy_flag (pget_default b ''execute'' (PBool False))),
    (''/api/ops/restore-drill'', ''standard'', ''Queue an isolated PostgreSQL recovery rehearsal'', p_always),
    (''/api/ops/rabbitmq-restore-drill'', ''standard'', ''Queue an isolated RabbitMQ recovery rehearsal'', p_always),
    (''/api/admin/gm/execute'', ''standard'', ''Execute a generic GM command'', p_always)]"

record governed =
  gov_path :: string
  gov_risk :: string
  gov_label :: string

definition policy_for :: "pyval \<Rightarrow> pyval \<Rightarrow> governed option res" where
  "policy_for path0 body0 =
     (let path = before (CHR ''?'') (str_or_empty path0) in
      case as_dict body0 of
        None \<Rightarrow> Inl (ValueError ''approval target body must be an object'')
      | Some b \<Rightarrow>
          (case map_of POLICIES path of
             None \<Rightarrow> Inr None
           | Some (risk, label, predicate) \<Rightarrow>
               if \<not> predicate b then Inr None
               else Inr (Some \<lparr>gov_path = path, gov_risk = risk, gov_label = label\<rparr>)))"

definition policy_enabled :: "pyval \<Rightarrow> string \<Rightarrow> bool res" where
  "policy_enabled mode0 risk =
     (let mode = lower (strip (if truthy mode0 then py_str mode0 else ''critical'')) in
      case MODE_MINIMUM mode of
        None \<Rightarrow> Inl (ValueError ''dual-control policy must be critical, high, or all'')
      | Some least \<Rightarrow>
          (case RISK_ORDER risk of None \<Rightarrow> Inl (KeyError risk) | Some n \<Rightarrow> Inr (least \<le> n)))"

definition public_policies :: "pyval \<Rightarrow> (governed \<times> bool) list res" where
  "public_policies mode =
     map_res (\<lambda>(path, risk, label, _).
         bind_res (policy_enabled mode risk) (\<lambda>on.
         Inr (\<lparr>gov_path = path, gov_risk = risk, gov_label = label\<rparr>, on)))
       (sort_key fst POLICIES)"

subsection \<open>Bodies\<close>

definition normalized_body :: "pyval \<Rightarrow> (body \<times> string) res" where
  "normalized_body v =
     (case as_dict v of
        None \<Rightarrow> Inl (ValueError ''approval request body must be an object'')
      | Some b \<Rightarrow>
          let clean = filter (\<lambda>p. fst p \<notin> {''approvalId'', ''approval_id''}) b;
              encoded = canonical (PDict clean)
          in require (\<not> length encoded > MAX_BODY_BYTES) (ValueError ''approval request body exceeds 32 MiB'')
               (Inr (clean, encoded)))"

lemma size_taken [termination_simp]: "v \<in> set (take n vs) \<Longrightarrow> size v < Suc (size_list size vs)"
  by (meson in_set_takeD le_imp_less_Suc size_list_estimation' order_refl)

text \<open>
  What a reviewer is shown.  A text that was cut to 2000 characters is followed by an ellipsis
  in the code; \<open>RText s True\<close> is the cut text \<open>s\<close> with that ellipsis, a character above 255 that
  the texts of this development do not have.
\<close>

datatype review = RText string bool | RValue pyval | RList "review list" | RDict "(string \<times> review) list"

fun redacted_body :: "string \<Rightarrow> pyval \<Rightarrow> review" where
  "redacted_body k v =
     (if secret_key k then RText ''[redacted]'' False
      else (case v of
          PDict kvs \<Rightarrow> RDict (map (\<lambda>(child, item). (child, redacted_body child item)) kvs)
        | PList vs \<Rightarrow> RList (map (redacted_body k) (take 200 vs) @ (if length vs > 200 then [RText ''[truncated]'' False] else []))
        | PStr s \<Rightarrow> RText (take 2000 s) (length s > 2000)
        | _ \<Rightarrow> RValue v))"

text \<open>The value that is stored as JSON; one with an ellipsis in it is beyond the model.\<close>

fun review_value :: "review \<Rightarrow> pyval res" where
  "review_value (RText s shortened) = (if shortened then Inl Unmodelled else Inr (PStr s))"
| "review_value (RValue v) = Inr v"
| "review_value (RList rs) = bind_res (map_res review_value rs) (\<lambda>vs. Inr (PList vs))"
| "review_value (RDict kvs) =
     bind_res (map_res (\<lambda>(child, item). bind_res (review_value item) (\<lambda>v. Inr (child, v))) kvs) (\<lambda>kvs'. Inr (PDict kvs'))"

declare redacted_body.simps [simp del]

subsection \<open>The acting identity\<close>

record actor =
  act_id :: string
  act_name :: string

definition actor_of :: "pyval \<Rightarrow> actor res" where
  "actor_of who =
     (if \<not> truthy who then Inl (PermissionError ''dual control requires an authenticated named identity'')
      else case as_dict who of
        None \<Rightarrow> Inl (AttributeError ''get'')
      | Some p \<Rightarrow>
          let i = strip (str_or_empty (pget p ''id''));
              shown = (if truthy (pget p ''displayName'') then py_str (pget p ''displayName'') else i)
          in require (\<not> (i = [] \<or> length i > 128 \<or> has_control i))
               (PermissionError ''dual control requires an authenticated named identity'')
               (Inr \<lparr>act_id = i, act_name = take 160 (strip shown)\<rparr>))"

end
