(* ===== verification/ChangeApprovals.thy ===== *)
theory ChangeApprovals
  imports ChangePolicy "HOL-Library.Product_Lexorder"
begin

section \<open>Two-person approvals: the store and its operations\<close>

text \<open>
  The \<^verbatim>\<open>Store\<close> of \<^verbatim>\<open>admin/change_approvals.py\<close>.  A store is the content of its two tables, the
  content of the key file and the lifetime of a request.  The readings of the clock and the
  random part of an identifier are arguments.  Every operation is one transaction, written
  as a function to \<open>res\<close> (a failure rolls back), followed in most cases by a second
  transaction that reads the request back: its failure leaves the first committed, so the
  operations return the outcome and the store.
\<close>

subsection \<open>Tables\<close>

record request_row =
  ar_id :: string
  ar_created :: rat
  ar_expires :: rat
  ar_requester :: string
  ar_requester_name :: string
  ar_target :: string
  ar_capability :: string
  ar_risk :: string
  ar_summary :: string
  ar_body_hmac :: string
  ar_review_json :: string
  ar_request_hmac :: string
  ar_state :: string
  ar_approver :: "string option"
  ar_approver_name :: "string option"
  ar_approved_at :: "rat option"
  ar_consumed_by :: "string option"
  ar_consumed_at :: "rat option"
  ar_decided_at :: "rat option"
  ar_state_hmac :: string

record event_row =
  ev_sequence :: int
  ev_request :: string
  ev_occurred :: rat
  ev_actor :: string
  ev_action :: string
  ev_previous_state :: "string option"
  ev_state :: string
  ev_details_json :: string
  ev_previous_hmac :: string
  ev_hmac :: string

record approvals =
  ap_requests :: "request_row list"
  ap_events :: "event_row list"
  ap_key :: string
  ap_ttl :: int

definition store_ttl :: "int \<Rightarrow> int" where
  "store_ttl ttl_seconds = max 60 (min ttl_seconds 3600)"

definition approval_key :: "approvals \<Rightarrow> string res" where
  "approval_key st = require (length (ap_key st) = 32)
     (RuntimeError ''change-approval HMAC key must contain exactly 32 bytes'') (Inr (ap_key st))"

subsection \<open>What the digests cover\<close>

definition p_text :: "string option \<Rightarrow> pyval" where
  "p_text s = (case s of None \<Rightarrow> PNone | Some t \<Rightarrow> PStr t)"

definition p_time :: "rat option \<Rightarrow> pyval" where
  "p_time s = (case s of None \<Rightarrow> PNone | Some t \<Rightarrow> PFloat t)"

definition body_hmac :: "approvals \<Rightarrow> pyval \<Rightarrow> string res" where
  "body_hmac st body =
     bind_res (normalized_body body) (\<lambda>(clean, encoded).
     bind_res (approval_key st) (\<lambda>key. Inr (hmac_hex key (''body'' @ [chr 0] @ encoded))))"

definition request_fields :: "request_row \<Rightarrow> pyval \<Rightarrow> (string \<times> pyval) list" where
  "request_fields r review =
     [(''schemaVersion'', PInt APPROVAL_SCHEMA_VERSION),
      (''id'', PStr (ar_id r)), (''createdAt'', PFloat (ar_created r)), (''expiresAt'', PFloat (ar_expires r)),
      (''requesterId'', PStr (ar_requester r)), (''requesterName'', PStr (ar_requester_name r)),
      (''targetPath'', PStr (ar_target r)), (''requiredCapability'', PStr (ar_capability r)),
      (''risk'', PStr (ar_risk r)), (''summary'', PStr (ar_summary r)),
      (''bodyHmacSha256'', PStr (ar_body_hmac r)), (''reviewBody'', review)]"

definition request_payload :: "request_row \<Rightarrow> pyval res" where
  "request_payload r = bind_res (json_loads (ar_review_json r)) (\<lambda>review. Inr (PDict (request_fields r review)))"

definition request_hmac :: "approvals \<Rightarrow> request_row \<Rightarrow> string res" where
  "request_hmac st r =
     bind_res (approval_key st) (\<lambda>key.
     bind_res (request_payload r) (\<lambda>payload. Inr (hmac_hex key (''request'' @ [chr 0] @ canonical payload))))"

definition state_payload :: "request_row \<Rightarrow> pyval" where
  "state_payload r = PDict
     [(''schemaVersion'', PInt APPROVAL_SCHEMA_VERSION),
      (''id'', PStr (ar_id r)), (''state'', PStr (ar_state r)),
      (''approverId'', p_text (ar_approver r)), (''approverName'', p_text (ar_approver_name r)),
      (''approvedAt'', p_time (ar_approved_at r)), (''consumedBy'', p_text (ar_consumed_by r)),
      (''consumedAt'', p_time (ar_consumed_at r)), (''decidedAt'', p_time (ar_decided_at r))]"

definition state_hmac :: "approvals \<Rightarrow> request_row \<Rightarrow> string res" where
  "state_hmac st r =
     bind_res (approval_key st) (\<lambda>key. Inr (hmac_hex key (''state'' @ [chr 0] @ canonical (state_payload r))))"

definition verify_request_row :: "approvals \<Rightarrow> request_row \<Rightarrow> request_row res" where
  "verify_request_row st r =
     bind_res (request_hmac st r) (\<lambda>expected.
     bind_res (compare_digest (ar_request_hmac r) expected) (\<lambda>same.
     require same (RuntimeError (''change approval '' @ ar_id r @ '' immutable record HMAC does not match''))
    (bind_res (state_hmac st r) (\<lambda>expected_state.
     bind_res (compare_digest (ar_state_hmac r) expected_state) (\<lambda>same_state.
     require same_state (RuntimeError (''change approval '' @ ar_id r @ '' state HMAC does not match''))
       (Inr r))))))"

subsection \<open>The event log\<close>

definition event_payload :: "event_row \<Rightarrow> pyval \<Rightarrow> string \<Rightarrow> pyval" where
  "event_payload e details previous = PDict
     [(''schemaVersion'', PInt APPROVAL_SCHEMA_VERSION),
      (''requestId'', PStr (ev_request e)), (''occurredAt'', PFloat (ev_occurred e)),
      (''actorId'', PStr (ev_actor e)), (''action'', PStr (ev_action e)),
      (''previousState'', p_text (ev_previous_state e)), (''state'', PStr (ev_state e)),
      (''details'', details), (''previousHmacSha256'', PStr previous)]"

definition event_message :: "event_row \<Rightarrow> pyval \<Rightarrow> string \<Rightarrow> string" where
  "event_message e details previous = ''event'' @ [chr 0] @ canonical (event_payload e details previous)"

definition append_event ::
  "approvals \<Rightarrow> string \<Rightarrow> string \<Rightarrow> string \<Rightarrow> string option \<Rightarrow> string \<Rightarrow> pyval \<Rightarrow> rat \<Rightarrow> approvals res" where
  "append_event st request_id actor_id action previous_state new_state details0 occurred_at =
     (let previous = chain_head ev_hmac ZERO_HASH (ap_events st);
          details_json = canonical (py_or details0 (PDict []));
          sequence = (if ap_events st = [] then 1 else ev_sequence (last (ap_events st)) + 1);
          e = \<lparr>ev_sequence = sequence, ev_request = request_id, ev_occurred = occurred_at, ev_actor = actor_id,
               ev_action = action, ev_previous_state = previous_state, ev_state = new_state,
               ev_details_json = details_json, ev_previous_hmac = previous, ev_hmac = []\<rparr>
      in bind_res (json_loads details_json) (\<lambda>details.
         bind_res (approval_key st) (\<lambda>key.
         Inr (st\<lparr>ap_events := ap_events st @ [e\<lparr>ev_hmac := hmac_hex key (event_message e details previous)\<rparr>]\<rparr>))))"

subsection \<open>Changing the state of a request\<close>

text \<open>
  \<^verbatim>\<open>update approval_requests set \<dots> state_hmac_sha256=? where id=? and state=?\<close>: the new fields
  \<open>f\<close> and the digest over them, on the rows with this identifier and the expected state.
\<close>

definition in_state :: "string \<Rightarrow> string \<Rightarrow> request_row \<Rightarrow> bool" where
  "in_state i s r = (ar_id r = i \<and> ar_state r = s)"

definition update_state ::
  "approvals \<Rightarrow> request_row \<Rightarrow> string \<Rightarrow> (request_row \<Rightarrow> request_row) \<Rightarrow> (nat \<times> approvals) res" where
  "update_state st row expected f =
     bind_res (state_hmac st (f row)) (\<lambda>digest.
     Inr (length (filter (in_state (ar_id row) expected) (ap_requests st)),
          st\<lparr>ap_requests := update_where (in_state (ar_id row) expected)
               (\<lambda>r. (f r)\<lparr>ar_state_hmac := digest\<rparr>) (ap_requests st)\<rparr>))"

text \<open>\<^verbatim>\<open>_expire\<close>: every pending or approved request whose time has come, oldest first.\<close>

definition due :: "rat \<Rightarrow> request_row \<Rightarrow> bool" where
  "due now r = (ar_state r \<in> {''pending'', ''approved''} \<and> ar_expires r \<le> now)"

definition expire_row :: "rat \<Rightarrow> approvals \<Rightarrow> request_row \<Rightarrow> approvals res" where
  "expire_row now st row0 =
     bind_res (verify_request_row st row0) (\<lambda>row.
     bind_res (update_state st row (ar_state row) (\<lambda>r. r\<lparr>ar_state := ''expired'', ar_decided_at := Some now\<rparr>)) (\<lambda>(n, st1).
     append_event st1 (ar_id row) ''system'' ''expire'' (Some (ar_state row)) ''expired'' (PDict []) now))"

definition expire :: "approvals \<Rightarrow> rat \<Rightarrow> approvals res" where
  "expire st now =
     fold_res (expire_row now) st (sort_key (\<lambda>r. (ar_created r, ar_id r)) (filter (due now) (ap_requests st)))"

subsection \<open>Reading a request\<close>

definition get_row :: "approvals \<Rightarrow> pyval \<Rightarrow> request_row res" where
  "get_row st request_id0 =
     (let request_id = strip (str_or_empty request_id0) in
      require (request_id_ok request_id) (ValueError ''invalid change approval id'')
     (case row_where (\<lambda>r. ar_id r = request_id) (ap_requests st) of
        None \<Rightarrow> Inl (ValueError ''change approval was not found'')
      | Some row \<Rightarrow> verify_request_row st row))"

record public_request =
  pr_id :: string
  pr_created :: string
  pr_expires :: string
  pr_requester :: "string \<times> string"
  pr_target :: string
  pr_capability :: string
  pr_risk :: string
  pr_summary :: string
  pr_body_hmac :: string
  pr_review :: pyval
  pr_state :: string
  pr_approver :: "(string \<times> string option) option"
  pr_approved_at :: "string option"
  pr_consumed_by :: "string option"
  pr_consumed_at :: "string option"

definition utc_iso :: "rat \<Rightarrow> string res" where
  "utc_iso t = bind_res (check_datetime (py_round (t * 1000000) div 1000000)) (\<lambda>_. Inr (iso_micros t ''+00:00''))"

definition utc_iso_opt :: "rat option \<Rightarrow> string option res" where
  "utc_iso_opt t = (case t of None \<Rightarrow> Inr None
     | Some x \<Rightarrow> if x = 0 then Inr None else map_sum id Some (utc_iso x))"

definition public_approver :: "request_row \<Rightarrow> (string \<times> string option) option" where
  "public_approver r = (case ar_approver r of None \<Rightarrow> None
     | Some a \<Rightarrow> if a = [] then None else Some (a, ar_approver_name r))"

definition public_request_of :: "request_row \<Rightarrow> public_request res" where
  "public_request_of r =
     bind_res (utc_iso (ar_created r)) (\<lambda>created.
     bind_res (utc_iso (ar_expires r)) (\<lambda>expires.
     bind_res (json_loads (ar_review_json r)) (\<lambda>review.
     bind_res (utc_iso_opt (ar_approved_at r)) (\<lambda>approved_at.
     bind_res (utc_iso_opt (ar_consumed_at r)) (\<lambda>consumed_at.
     Inr \<lparr>pr_id = ar_id r, pr_created = created, pr_expires = expires,
          pr_requester = (ar_requester r, ar_requester_name r), pr_target = ar_target r,
          pr_capability = ar_capability r, pr_risk = ar_risk r, pr_summary = ar_summary r,
          pr_body_hmac = ar_body_hmac r, pr_review = review, pr_state = ar_state r,
          pr_approver = public_approver r, pr_approved_at = approved_at,
          pr_consumed_by = ar_consumed_by r, pr_consumed_at = consumed_at\<rparr>)))))"

definition get_tx :: "approvals \<Rightarrow> rat \<Rightarrow> pyval \<Rightarrow> (request_row \<times> approvals) res" where
  "get_tx st now request_id =
     bind_res (expire st now) (\<lambda>st1.
     bind_res (get_row st1 request_id) (\<lambda>row. Inr (row, st1)))"

type_synonym 'a outcome = "'a res \<times> approvals"

definition get_request :: "approvals \<Rightarrow> rat \<Rightarrow> pyval \<Rightarrow> public_request outcome" where
  "get_request st now request_id =
     (case get_tx st now request_id of
        Inl e \<Rightarrow> (Inl e, st)
      | Inr (row, st1) \<Rightarrow> (public_request_of row, st1))"

text \<open>A committed transaction followed by \<^verbatim>\<open>return self.get(request_id)\<close> at the instant \<open>later\<close>.\<close>

definition then_get :: "approvals \<Rightarrow> approvals res \<Rightarrow> rat \<Rightarrow> pyval \<Rightarrow> public_request outcome" where
  "then_get st m later request_id =
     (case m of Inl e \<Rightarrow> (Inl e, st) | Inr st1 \<Rightarrow> get_request st1 later request_id)"

definition list_tx :: "approvals \<Rightarrow> rat \<Rightarrow> pyval \<Rightarrow> (request_row list \<times> approvals) res" where
  "list_tx st now limit0 =
     bind_res (py_int limit0) (\<lambda>limit1.
     let limit = nat (max 1 (min limit1 500)) in
     bind_res (expire st now) (\<lambda>st1.
     Inr (take limit (rev (sort_key (\<lambda>r. (ar_created r, ar_id r)) (ap_requests st1))), st1)))"

definition list_requests :: "approvals \<Rightarrow> rat \<Rightarrow> pyval \<Rightarrow> public_request list outcome" where
  "list_requests st now limit =
     (case list_tx st now limit of
        Inl e \<Rightarrow> (Inl e, st)
      | Inr (rows, st1) \<Rightarrow>
          (map_res (\<lambda>row. bind_res (verify_request_row st1 row) public_request_of) rows, st1))"

subsection \<open>Creating a request\<close>

definition request_ttl :: "approvals \<Rightarrow> pyval \<Rightarrow> int res" where
  "request_ttl st v =
     (if v = PNone \<or> v = PStr [] then Inr (ap_ttl st)
      else bind_res (py_int v) (\<lambda>n. Inr (max 60 (min n 3600))))"

definition new_request_id :: "rat \<Rightarrow> string \<Rightarrow> string res" where
  "new_request_id now nonce =
     bind_res (check_datetime (py_round (now * 1000000) div 1000000)) (\<lambda>s.
     Inr (''approval-'' @ compact_date (day_of s) @ ''T'' @ compact_clock (s mod 86400) @ ''Z-'' @ nonce))"

definition insert_request :: "request_row \<Rightarrow> approvals \<Rightarrow> approvals res" where
  "insert_request r st =
     require (\<forall>q\<in>set (ap_requests st). ar_id q \<noteq> ar_id r)
       (IntegrityError ''UNIQUE constraint failed: approval_requests.id'')
       (Inr (st\<lparr>ap_requests := ap_requests st @ [r]\<rparr>))"

definition create_tx ::
  "approvals \<Rightarrow> rat \<Rightarrow> string \<Rightarrow> pyval \<Rightarrow> pyval \<Rightarrow> pyval \<Rightarrow> pyval \<Rightarrow> string \<Rightarrow> pyval \<Rightarrow> pyval \<Rightarrow> (string \<times> approvals) res" where
  "create_tx st now nonce who target body capability risk summary0 ttl0 =
     bind_res (actor_of who) (\<lambda>a.
     bind_res (policy_for target body) (\<lambda>found.
     case found of None \<Rightarrow> Inl (ValueError ''target request is not a governed mutation'')
     | Some policy \<Rightarrow>
     require (gov_risk policy = risk) (ValueError ''approval risk does not match the governed target'')
    (let summary = strip (if truthy summary0 then py_str summary0 else gov_label policy) in
     require (\<not> (summary = [] \<or> length (utf8 summary) > MAX_SUMMARY_BYTES))
       (ValueError ''approval summary must be 1-1000 UTF-8 bytes'')
    (bind_res (request_ttl st ttl0) (\<lambda>ttl.
     bind_res (new_request_id now nonce) (\<lambda>request_id.
     bind_res (body_hmac st body) (\<lambda>digest.
     bind_res (normalized_body body) (\<lambda>(clean, encoded).
     bind_res (review_value (redacted_body [] (PDict clean))) (\<lambda>review.
     bind_res (expire st now) (\<lambda>st1.
     let row = \<lparr>ar_id = request_id, ar_created = now, ar_expires = now + of_int ttl,
           ar_requester = act_id a, ar_requester_name = act_name a, ar_target = gov_path policy,
           ar_capability = py_str capability, ar_risk = risk, ar_summary = summary, ar_body_hmac = digest,
           ar_review_json = canonical review, ar_request_hmac = [], ar_state = ''pending'',
           ar_approver = None, ar_approver_name = None, ar_approved_at = None, ar_consumed_by = None,
           ar_consumed_at = None, ar_decided_at = None, ar_state_hmac = []\<rparr>
     in bind_res (request_hmac st1 row) (\<lambda>rh.
        bind_res (state_hmac st1 row) (\<lambda>sh.
        bind_res (insert_request (row\<lparr>ar_request_hmac := rh, ar_state_hmac := sh\<rparr>) st1) (\<lambda>st2.
        bind_res (append_event st2 request_id (act_id a) ''request'' None ''pending''
          (PDict [(''targetPath'', PStr (gov_path policy)), (''risk'', PStr risk), (''bodyHmacSha256'', PStr digest)]) now) (\<lambda>st3.
        Inr (request_id, st3)))))))))))))))"

definition create_request ::
  "approvals \<Rightarrow> rat \<Rightarrow> rat \<Rightarrow> string \<Rightarrow> pyval \<Rightarrow> pyval \<Rightarrow> pyval \<Rightarrow> pyval \<Rightarrow> string \<Rightarrow> pyval \<Rightarrow> pyval \<Rightarrow> public_request outcome" where
  "create_request st now later nonce who target body capability risk summary ttl =
     (case create_tx st now nonce who target body capability risk summary ttl of
        Inl e \<Rightarrow> (Inl e, st)
      | Inr (request_id, st1) \<Rightarrow> get_request st1 later (PStr request_id))"

subsection \<open>Deciding a request\<close>

definition approve_tx :: "approvals \<Rightarrow> rat \<Rightarrow> pyval \<Rightarrow> pyval \<Rightarrow> approvals res" where
  "approve_tx st now request_id who =
     bind_res (actor_of who) (\<lambda>a.
     bind_res (expire st now) (\<lambda>st1.
     bind_res (get_row st1 request_id) (\<lambda>row.
     require (ar_state row = ''pending'') (RuntimeError (''change approval is '' @ ar_state row @ '', not pending''))
    (require (ar_requester row \<noteq> act_id a) (PermissionError ''requester cannot approve their own change'')
    (bind_res (update_state st1 row ''pending''
       (\<lambda>r. r\<lparr>ar_state := ''approved'', ar_approver := Some (act_id a), ar_approver_name := Some (act_name a),
             ar_approved_at := Some now, ar_decided_at := Some now\<rparr>)) (\<lambda>(n, st2).
     append_event st2 (ar_id row) (act_id a) ''approve'' (Some ''pending'') ''approved'' (PDict []) now))))))"

definition approve :: "approvals \<Rightarrow> rat \<Rightarrow> rat \<Rightarrow> pyval \<Rightarrow> pyval \<Rightarrow> public_request outcome" where
  "approve st now later request_id who = then_get st (approve_tx st now request_id who) later request_id"

definition reject_tx :: "approvals \<Rightarrow> rat \<Rightarrow> pyval \<Rightarrow> pyval \<Rightarrow> pyval \<Rightarrow> approvals res" where
  "reject_tx st now request_id who reason0 =
     bind_res (actor_of who) (\<lambda>a.
     let reason = take 1000 (strip (str_or_empty reason0)) in
     bind_res (expire st now) (\<lambda>st1.
     bind_res (get_row st1 request_id) (\<lambda>row.
     require (ar_state row = ''pending'') (RuntimeError (''change approval is '' @ ar_state row @ '', not pending''))
    (require (ar_requester row \<noteq> act_id a) (PermissionError ''requester must cancel rather than reject their own change'')
    (bind_res (update_state st1 row ''pending'' (\<lambda>r. r\<lparr>ar_state := ''rejected'', ar_decided_at := Some now\<rparr>)) (\<lambda>(n, st2).
     append_event st2 (ar_id row) (act_id a) ''reject'' (Some ''pending'') ''rejected''
       (PDict [(''reason'', PStr reason)]) now))))))"

definition reject :: "approvals \<Rightarrow> rat \<Rightarrow> rat \<Rightarrow> pyval \<Rightarrow> pyval \<Rightarrow> pyval \<Rightarrow> public_request outcome" where
  "reject st now later request_id who reason = then_get st (reject_tx st now request_id who reason) later request_id"

definition cancel_tx :: "approvals \<Rightarrow> rat \<Rightarrow> pyval \<Rightarrow> pyval \<Rightarrow> approvals res" where
  "cancel_tx st now request_id who =
     bind_res (actor_of who) (\<lambda>a.
     bind_res (expire st now) (\<lambda>st1.
     bind_res (get_row st1 request_id) (\<lambda>row.
     require (ar_requester row = act_id a) (PermissionError ''only the requester can cancel a change approval'')
    (require (ar_state row \<in> {''pending'', ''approved''})
       (RuntimeError (''change approval is '' @ ar_state row @ '' and cannot be cancelled''))
    (bind_res (update_state st1 row (ar_state row) (\<lambda>r. r\<lparr>ar_state := ''cancelled'', ar_decided_at := Some now\<rparr>)) (\<lambda>(n, st2).
     append_event st2 (ar_id row) (act_id a) ''cancel'' (Some (ar_state row)) ''cancelled'' (PDict []) now))))))"

definition cancel :: "approvals \<Rightarrow> rat \<Rightarrow> rat \<Rightarrow> pyval \<Rightarrow> pyval \<Rightarrow> public_request outcome" where
  "cancel st now later request_id who = then_get st (cancel_tx st now request_id who) later request_id"

subsection \<open>Consuming an approval\<close>

definition mismatches :: "request_row \<Rightarrow> pyval \<Rightarrow> string \<Rightarrow> pyval \<Rightarrow> pyval \<Rightarrow> string list res" where
  "mismatches row target digest capability risk =
     bind_res (compare_digest (ar_body_hmac row) digest) (\<lambda>same.
     Inr (map fst (filter (\<lambda>p. \<not> snd p)
       [(''target path'', ar_target row = py_str target), (''request body'', same),
        (''capability'', ar_capability row = py_str capability), (''risk'', ar_risk row = py_str risk)])))"

definition consume_tx ::
  "approvals \<Rightarrow> rat \<Rightarrow> pyval \<Rightarrow> pyval \<Rightarrow> pyval \<Rightarrow> pyval \<Rightarrow> pyval \<Rightarrow> pyval \<Rightarrow> approvals res" where
  "consume_tx st now request_id who target body capability risk =
     bind_res (actor_of who) (\<lambda>a.
     bind_res (body_hmac st body) (\<lambda>digest.
     bind_res (expire st now) (\<lambda>st1.
     bind_res (get_row st1 request_id) (\<lambda>row.
     require (ar_state row = ''approved'') (PermissionError (''change approval is '' @ ar_state row @ '', not approved''))
    (require (ar_requester row = act_id a) (PermissionError ''only the original requester can consume this approval'')
    (bind_res (mismatches row target digest capability risk) (\<lambda>failed.
     require (failed = []) (PermissionError (''change approval does not match execution '' @ join '', '' failed))
    (bind_res (update_state st1 row ''approved''
       (\<lambda>r. r\<lparr>ar_state := ''consumed'', ar_consumed_by := Some (act_id a), ar_consumed_at := Some now,
             ar_decided_at := Some now\<rparr>)) (\<lambda>(n, st2).
     require (n = 1) (RuntimeError ''change approval was consumed concurrently'')
      (append_event st2 (ar_id row) (act_id a) ''consume'' (Some ''approved'') ''consumed''
         (PDict [(''bodyHmacSha256'', PStr digest)]) now))))))))))"

definition consume ::
  "approvals \<Rightarrow> rat \<Rightarrow> rat \<Rightarrow> pyval \<Rightarrow> pyval \<Rightarrow> pyval \<Rightarrow> pyval \<Rightarrow> pyval \<Rightarrow> pyval \<Rightarrow> public_request outcome" where
  "consume st now later request_id who target body capability risk =
     then_get st (consume_tx st now request_id who target body capability risk) later request_id"

subsection \<open>The audit and the status\<close>

datatype approval_check =
    RequestFails nat string
  | EventFails nat int
  | AllVerified nat nat string

fun verify_events :: "string \<Rightarrow> string \<Rightarrow> nat \<Rightarrow> event_row list \<Rightarrow> (nat \<times> int + nat \<times> string) res" where
  "verify_events key previous checked [] = Inr (Inr (checked, previous))"
| "verify_events key previous checked (e # es) =
     bind_res (json_loads (ev_details_json e)) (\<lambda>details.
     let expected = hmac_hex key (event_message e details previous) in
     bind_res (if ev_previous_hmac e \<noteq> previous then Inr False else compare_digest (ev_hmac e) expected) (\<lambda>same.
     if \<not> same then Inr (Inl (checked, ev_sequence e))
     else verify_events key (ev_hmac e) (checked + 1) es))"

text \<open>The first request that \<^verbatim>\<open>_verify_request_row\<close> rejects with a \<^verbatim>\<open>RuntimeError\<close>, if any.\<close>

fun first_failed :: "approvals \<Rightarrow> request_row list \<Rightarrow> request_row option res" where
  "first_failed st [] = Inr None"
| "first_failed st (r # rs) =
     (case verify_request_row st r of
        Inl (RuntimeError _) \<Rightarrow> Inr (Some r)
      | Inl e \<Rightarrow> Inl e
      | Inr _ \<Rightarrow> first_failed st rs)"

definition verify_approvals :: "approvals \<Rightarrow> approval_check res" where
  "verify_approvals st =
     bind_res (first_failed st (sort_key (\<lambda>r. (ar_created r, ar_id r)) (ap_requests st))) (\<lambda>failed.
     case failed of
       Some r \<Rightarrow> Inr (RequestFails 0 (ar_id r))
     | None \<Rightarrow>
         bind_res (approval_key st) (\<lambda>key.
         bind_res (verify_events key ZERO_HASH 0 (ap_events st)) (\<lambda>v.
         Inr (case v of
            Inl (checked, sequence) \<Rightarrow> EventFails checked sequence
          | Inr (checked, head) \<Rightarrow> AllVerified checked (length (ap_requests st)) head))))"

record approval_status =
  as_counts :: "(string \<times> nat) list"
  as_oldest_age :: int
  as_ledger :: approval_check

definition count_states :: "request_row list \<Rightarrow> (string \<times> nat) list" where
  "count_states rows = map (\<lambda>s. (s, length (filter (\<lambda>r. ar_state r = s) rows))) (sort (remdups (map ar_state rows)))"

definition oldest_age :: "rat \<Rightarrow> request_row list \<Rightarrow> int" where
  "oldest_age now rows =
     (case map ar_created (filter (\<lambda>r. ar_state r = ''pending'') rows) of
        [] \<Rightarrow> 0
      | c # cs \<Rightarrow> max 0 (trunc (now - fold min cs c)))"

definition approval_status_of :: "approvals \<Rightarrow> rat \<Rightarrow> approval_status outcome" where
  "approval_status_of st now =
     (case expire st now of
        Inl e \<Rightarrow> (Inl e, st)
      | Inr st1 \<Rightarrow>
          (bind_res (verify_approvals st1) (\<lambda>ledger.
             Inr \<lparr>as_counts = count_states (ap_requests st1), as_oldest_age = oldest_age now (ap_requests st1),
                  as_ledger = ledger\<rparr>), st1))"

definition check_ok :: "approval_check \<Rightarrow> bool" where
  "check_ok c = (case c of AllVerified _ _ _ \<Rightarrow> True | _ \<Rightarrow> False)"

definition state_count :: "(string \<times> nat) list \<Rightarrow> string \<Rightarrow> nat" where
  "state_count counts s = (case map_of counts s of None \<Rightarrow> 0 | Some n \<Rightarrow> n)"

definition flag :: "bool \<Rightarrow> string" where
  "flag b = (if b then ''1'' else ''0'')"

definition approval_prometheus :: "approvals \<Rightarrow> rat \<Rightarrow> bool \<Rightarrow> string outcome" where
  "approval_prometheus st now enabled =
     (case approval_status_of st now of
        (Inl e, st1) \<Rightarrow> (Inl e, st1)
      | (Inr s, st1) \<Rightarrow>
         (let n = (\<lambda>k. nat_digits (state_count (as_counts s) k)) in
          (Inr (join [chr 10]
            [''dash_change_approval_enabled '' @ flag enabled,
             ''dash_change_approval_ledger_valid '' @ flag (check_ok (as_ledger s)),
             ''dash_change_approval_pending '' @ n ''pending'',
             ''dash_change_approval_approved '' @ n ''approved'',
             ''dash_change_approval_consumed_total '' @ n ''consumed'',
             ''dash_change_approval_rejected_total '' @ n ''rejected'',
             ''dash_change_approval_cancelled_total '' @ n ''cancelled'',
             ''dash_change_approval_expired_total '' @ n ''expired'',
             ''dash_change_approval_oldest_pending_age_seconds '' @ show_int (as_oldest_age s)] @ [chr 10]), st1)))"

end
