(* ===== verification/ApprovalsRuns.thy ===== *)
theory ApprovalsRuns
  imports ChangeApprovals
begin

section \<open>Two-person approvals: moves, invariant and runs\<close>

text \<open>
  Every operation of the store is a sequence of two kinds of moves, each of which writes one
  row and one event: a request is created, or a request changes its state along \<open>legal\<close>.
  The invariant is proved for the moves, and the operations inherit it.
\<close>

subsection \<open>Moves\<close>

inductive legal :: "request_row \<Rightarrow> request_row \<Rightarrow> bool" where
  legal_expire: "ar_state r \<in> {''pending'', ''approved''} \<Longrightarrow> ar_expires r \<le> now \<Longrightarrow>
     legal r (r\<lparr>ar_state := ''expired'', ar_decided_at := Some now\<rparr>)"
| legal_approve: "ar_state r = ''pending'' \<Longrightarrow> now < ar_expires r \<Longrightarrow> a \<noteq> ar_requester r \<Longrightarrow>
     legal r (r\<lparr>ar_state := ''approved'', ar_approver := Some a, ar_approver_name := Some n,
       ar_approved_at := Some now, ar_decided_at := Some now\<rparr>)"
| legal_reject: "ar_state r = ''pending'' \<Longrightarrow> legal r (r\<lparr>ar_state := ''rejected'', ar_decided_at := Some now\<rparr>)"
| legal_cancel: "ar_state r \<in> {''pending'', ''approved''} \<Longrightarrow>
     legal r (r\<lparr>ar_state := ''cancelled'', ar_decided_at := Some now\<rparr>)"
| legal_consume: "ar_state r = ''approved'' \<Longrightarrow> now < ar_expires r \<Longrightarrow>
     legal r (r\<lparr>ar_state := ''consumed'', ar_consumed_by := Some (ar_requester r),
       ar_consumed_at := Some now, ar_decided_at := Some now\<rparr>)"

inductive_cases legalE: "legal r q"

definition state_digest :: "string \<Rightarrow> request_row \<Rightarrow> string" where
  "state_digest key r = hmac_hex key (''state'' @ [chr 0] @ canonical (state_payload r))"

definition sealed :: "string \<Rightarrow> request_row \<Rightarrow> request_row" where
  "sealed key q = q\<lparr>ar_state_hmac := state_digest key q\<rparr>"

definition fresh_request :: "request_row \<Rightarrow> bool" where
  "fresh_request r = (ar_state r = ''pending'' \<and> ar_approver r = None \<and> ar_consumed_by r = None)"

inductive approval_move :: "approvals \<Rightarrow> approvals \<Rightarrow> bool" where
  move_create: "ar_id r \<notin> ar_id ` set (ap_requests st) \<Longrightarrow> fresh_request r \<Longrightarrow>
     verify_request_row st r = Inr r \<Longrightarrow>
     append_event (st\<lparr>ap_requests := ap_requests st @ [r]\<rparr>) (ar_id r) who ''request'' None ''pending'' d t = Inr st' \<Longrightarrow>
     approval_move st st'"
| move_state: "r \<in> set (ap_requests st) \<Longrightarrow> verify_request_row st r = Inr r \<Longrightarrow> legal r q \<Longrightarrow>
     append_event (st\<lparr>ap_requests := update_where (\<lambda>x. x = r) (\<lambda>_. sealed (ap_key st) q) (ap_requests st)\<rparr>)
       (ar_id r) who action (Some (ar_state r)) (ar_state q) d t = Inr st' \<Longrightarrow>
     approval_move st st'"

inductive_cases approval_moveE: "approval_move st st'"

subsection \<open>What the pieces of an operation do\<close>

lemma approval_key_Inr [simp]: "approval_key st = Inr k \<longleftrightarrow> length (ap_key st) = 32 \<and> k = ap_key st"
  by (auto simp: approval_key_def)

definition event_text :: "event_row \<Rightarrow> string" where
  "event_text e = (case json_loads (ev_details_json e) of Inl _ \<Rightarrow> []
     | Inr d \<Rightarrow> event_message e d (ev_previous_hmac e))"

definition event_readable :: "event_row \<Rightarrow> bool" where
  "event_readable e = (\<exists>d. json_loads (ev_details_json e) = Inr d)"

lemma append_event_cases:
  assumes "append_event st i who action p s d t = Inr st'"
  obtains e where "st' = st\<lparr>ap_events := ap_events st @ [e]\<rparr>" "ev_request e = i" "ev_actor e = who"
    "ev_action e = action" "ev_previous_state e = p" "ev_state e = s" "ev_occurred e = t"
    "ev_previous_hmac e = chain_head ev_hmac ZERO_HASH (ap_events st)"
    "ev_hmac e = hmac_hex (ap_key st) (event_text e)" "event_readable e" "length (ap_key st) = 32"
proof -
  obtain d' where d': "json_loads (canonical (py_or d (PDict []))) = Inr d'"
    using assms by (auto simp: append_event_def Let_def)
  show ?thesis
    by (rule that) (use assms d' in \<open>auto simp: append_event_def Let_def event_text_def event_readable_def event_message_def event_payload_def\<close>)
qed

lemma verify_row_iff:
  "verify_request_row st r = Inr q \<longleftrightarrow>
     q = r \<and> request_hmac st r = Inr (ar_request_hmac r) \<and> length (ap_key st) = 32 \<and>
     ar_state_hmac r = state_digest (ap_key st) r"
proof -
  have "ascii h" if "request_hmac st r = Inr h" for h
    using that by (auto simp: request_hmac_def)
  then show ?thesis
    by (auto simp: verify_request_row_def state_hmac_def state_digest_def)
qed

lemma verify_row_key: "ap_key st' = ap_key st \<Longrightarrow> verify_request_row st' r = verify_request_row st r"
  by (simp add: verify_request_row_def request_hmac_def state_hmac_def approval_key_def)

definition immutable :: "request_row \<Rightarrow> request_row" where
  "immutable r = r\<lparr>ar_state := [], ar_approver := None, ar_approver_name := None, ar_approved_at := None,
     ar_consumed_by := None, ar_consumed_at := None, ar_decided_at := None, ar_state_hmac := []\<rparr>"

lemma request_hmac_immutable:
  assumes "immutable q = immutable r"
  shows "request_hmac st q = request_hmac st r"
proof -
  have "request_hmac st x = request_hmac st (immutable x)" for x
    by (simp add: immutable_def request_hmac_def request_payload_def request_fields_def)
  then show ?thesis using assms by metis
qed

lemma immutable_fields:
  assumes "immutable q = immutable r"
  shows "ar_id q = ar_id r" "ar_requester q = ar_requester r" "ar_expires q = ar_expires r"
    "ar_body_hmac q = ar_body_hmac r" "ar_target q = ar_target r" "ar_capability q = ar_capability r"
    "ar_risk q = ar_risk r" "ar_request_hmac q = ar_request_hmac r"
proof -
  have eq: "f (immutable q) = f (immutable r)" for f :: "request_row \<Rightarrow> 'x"
    using assms by simp
  show "ar_id q = ar_id r" using eq [of ar_id] by (simp add: immutable_def)
  show "ar_requester q = ar_requester r" using eq [of ar_requester] by (simp add: immutable_def)
  show "ar_expires q = ar_expires r" using eq [of ar_expires] by (simp add: immutable_def)
  show "ar_body_hmac q = ar_body_hmac r" using eq [of ar_body_hmac] by (simp add: immutable_def)
  show "ar_target q = ar_target r" using eq [of ar_target] by (simp add: immutable_def)
  show "ar_capability q = ar_capability r" using eq [of ar_capability] by (simp add: immutable_def)
  show "ar_risk q = ar_risk r" using eq [of ar_risk] by (simp add: immutable_def)
  show "ar_request_hmac q = ar_request_hmac r" using eq [of ar_request_hmac] by (simp add: immutable_def)
qed

lemma immutable_sealed [simp]: "immutable (sealed key q) = immutable q"
  by (simp add: immutable_def sealed_def)

lemma sealed_simps [simp]:
  "ar_state (sealed key q) = ar_state q" "ar_approver (sealed key q) = ar_approver q"
  "ar_consumed_by (sealed key q) = ar_consumed_by q" "ar_consumed_at (sealed key q) = ar_consumed_at q"
  by (simp_all add: sealed_def)

lemma legal_immutable: "legal r q \<Longrightarrow> immutable q = immutable r"
  by (auto elim: legalE simp: immutable_def)

lemma state_digest_sealed: "ar_state_hmac (sealed key q) = state_digest key (sealed key q)"
  by (simp add: sealed_def state_digest_def state_payload_def)

lemma verify_sealed:
  assumes "verify_request_row st r = Inr r" and "legal r q"
  shows "verify_request_row st (sealed (ap_key st) q) = Inr (sealed (ap_key st) q)"
proof -
  have im: "immutable (sealed (ap_key st) q) = immutable r" using legal_immutable [OF assms(2)] by simp
  show ?thesis
    using assms(1) request_hmac_immutable [OF im] immutable_fields(8) [OF im] state_digest_sealed
    by (simp add: verify_row_iff)
qed

lemma update_state_row:
  assumes "distinct (map ar_id (ap_requests st))" and "r \<in> set (ap_requests st)" and "ar_state r = s"
    and "update_state st r s f = Inr (n, st')"
  shows "n = 1 \<and> st' = st\<lparr>ap_requests := update_where (\<lambda>x. x = r) (\<lambda>_. sealed (ap_key st) (f r)) (ap_requests st)\<rparr>"
proof -
  have same: "in_state (ar_id r) s x \<longleftrightarrow> x = r" if "x \<in> set (ap_requests st)" for x
    using assms that by (auto simp: in_state_def dest: distinct_map_unique)
  have "update_where (in_state (ar_id r) s) g (ap_requests st) = update_where (\<lambda>x. x = r) (\<lambda>_. g r) (ap_requests st)" for g
    using same unfolding update_where_def by (intro map_cong) auto
  moreover have "length (filter (in_state (ar_id r) s) (ap_requests st)) = 1"
  proof -
    have "filter (in_state (ar_id r) s) (ap_requests st) = filter (\<lambda>x. x = r) (ap_requests st)"
      using same by (rule filter_cong [OF refl])
    moreover have "length (filter (\<lambda>x. x = r) xs) = 1" if "r \<in> set xs" "distinct xs" for xs
      using that by (induction xs) (auto simp: filter_empty_conv)
    ultimately show ?thesis using assms(1,2) by (simp add: distinct_map)
  qed
  ultimately show ?thesis
    using assms(4) by (auto simp: update_state_def state_hmac_def sealed_def state_digest_def)
qed

subsection \<open>Operations are sequences of moves\<close>

definition distinct_requests :: "approvals \<Rightarrow> bool" where
  "distinct_requests st = distinct (map ar_id (ap_requests st))"

lemma move_ids: "ar_id ` set (update_where (\<lambda>x. x = r) (\<lambda>_. q) rows) \<subseteq> insert (ar_id q) (ar_id ` set rows)"
  by (auto simp: update_where_def)

lemma map_id_update:
  "ar_id q = ar_id r \<Longrightarrow> map ar_id (update_where (\<lambda>x. x = r) (\<lambda>_. q) rows) = map ar_id rows"
  by (simp add: update_where_def)

lemma approval_move_distinct:
  assumes "approval_move st st'" and "distinct_requests st"
  shows "distinct_requests st' \<and> ap_key st' = ap_key st"
  using assms
proof (cases rule: approval_move.cases)
  case (move_create r who d t)
  from this(4) show ?thesis using move_create(1) assms(2)
    by (elim append_event_cases) (simp add: distinct_requests_def)
next
  case (move_state r q who action d t)
  have "ar_id (sealed (ap_key st) q) = ar_id r"
    using legal_immutable [OF move_state(3)] immutable_fields(1) [of "sealed (ap_key st) q" r] by simp
  then show ?thesis using move_state(4) assms(2)
    by (elim append_event_cases) (simp add: distinct_requests_def map_id_update)
qed

lemma approval_moves_distinct:
  assumes "steps approval_move st st'" and "distinct_requests st"
  shows "distinct_requests st' \<and> ap_key st' = ap_key st"
  using assms by (induction rule: steps.induct) (use approval_move_distinct in auto)

lemma state_change_move:
  assumes "distinct_requests st" and "r \<in> set (ap_requests st)" and "verify_request_row st r = Inr r"
    and "update_state st r (ar_state r) f = Inr (n, st1)" and "legal r (f r)"
    and "append_event st1 (ar_id r) who action (Some (ar_state r)) (ar_state (f r)) d t = Inr st'"
  shows "approval_move st st'" and "ap_requests st' = update_where (\<lambda>x. x = r) (\<lambda>_. sealed (ap_key st) (f r)) (ap_requests st)"
proof -
  have st1: "st1 = st\<lparr>ap_requests := update_where (\<lambda>x. x = r) (\<lambda>_. sealed (ap_key st) (f r)) (ap_requests st)\<rparr>"
    using update_state_row [OF assms(1) [unfolded distinct_requests_def] assms(2) refl assms(4)] by simp
  then show "approval_move st st'"
    using assms(6) by (intro move_state [OF assms(2,3,5)]) simp
  show "ap_requests st' = update_where (\<lambda>x. x = r) (\<lambda>_. sealed (ap_key st) (f r)) (ap_requests st)"
    using assms(6) st1 by (elim append_event_cases) simp
qed

lemma expire_row_move:
  assumes "distinct_requests st" and "r \<in> set (ap_requests st)" and "due now r"
    and "expire_row now st r = Inr st'"
  shows "approval_move st st'"
    and "\<exists>q. ar_id q = ar_id r \<and> ar_state q = ''expired'' \<and> ap_requests st' = update_where (\<lambda>x. x = r) (\<lambda>_. q) (ap_requests st)"
proof -
  let ?f = "\<lambda>r. r\<lparr>ar_state := ''expired'', ar_decided_at := Some now\<rparr>"
  obtain n st1 where ok: "verify_request_row st r = Inr r"
    and up: "update_state st r (ar_state r) ?f = Inr (n, st1)"
    and ev: "append_event st1 (ar_id r) ''system'' ''expire'' (Some (ar_state r)) ''expired'' (PDict []) now = Inr st'"
    using assms(4) by (auto simp: expire_row_def verify_row_iff res_simps)
  have lg: "legal r (?f r)" using assms(3) by (intro legal_expire) (auto simp: due_def)
  have ev': "append_event st1 (ar_id r) ''system'' ''expire'' (Some (ar_state r)) (ar_state (?f r)) (PDict []) now = Inr st'"
    using ev by simp
  show "approval_move st st'" by (rule state_change_move(1) [OF assms(1,2) ok up lg ev'])
  have "ar_id (sealed (ap_key st) (?f r)) = ar_id r" by (simp add: sealed_def)
  then show "\<exists>q. ar_id q = ar_id r \<and> ar_state q = ''expired'' \<and> ap_requests st' = update_where (\<lambda>x. x = r) (\<lambda>_. q) (ap_requests st)"
    using state_change_move(2) [OF assms(1,2) ok up lg ev'] by (intro exI [of _ "sealed (ap_key st) (?f r)"]) simp
qed

lemma expire_rows:
  assumes "fold_res (expire_row now) st rows = Inr st'" and "distinct_requests st"
    and "distinct (map ar_id rows)" and "set rows \<subseteq> set (ap_requests st)" and "\<forall>r\<in>set rows. due now r"
  shows "steps approval_move st st' \<and>
    (\<forall>x\<in>set (ap_requests st'). (x \<in> set (ap_requests st) \<and> x \<notin> set rows) \<or> ar_state x = ''expired'')"
  using assms
proof (induction rows arbitrary: st)
  case Nil
  then show ?case by (auto intro: steps.intros)
next
  case (Cons r rows)
  obtain st1 where one: "expire_row now st r = Inr st1" and rest: "fold_res (expire_row now) st1 rows = Inr st'"
    using Cons.prems(1) by auto
  have m: "approval_move st st1" and "\<exists>q. ar_id q = ar_id r \<and> ar_state q = ''expired'' \<and>
      ap_requests st1 = update_where (\<lambda>x. x = r) (\<lambda>_. q) (ap_requests st)"
    using expire_row_move [OF Cons.prems(2) _ _ one] Cons.prems(4,5) by auto
  then obtain q where q: "ar_id q = ar_id r" "ar_state q = ''expired''"
    "ap_requests st1 = update_where (\<lambda>x. x = r) (\<lambda>_. q) (ap_requests st)" by blast
  have d1: "distinct_requests st1" using approval_move_distinct [OF m Cons.prems(2)] by simp
  have sub: "set rows \<subseteq> set (ap_requests st1)"
  proof
    fix x assume x: "x \<in> set rows"
    then have "x \<noteq> r" "x \<in> set (ap_requests st)" using Cons.prems(3,4) by auto
    then show "x \<in> set (ap_requests st1)" unfolding q(3) update_where_def by (auto simp: image_iff)
  qed
  have ih: "steps approval_move st1 st' \<and>
    (\<forall>x\<in>set (ap_requests st'). (x \<in> set (ap_requests st1) \<and> x \<notin> set rows) \<or> ar_state x = ''expired'')"
    using Cons.prems(3,5) by (intro Cons.IH [OF rest d1 _ sub]) auto
  have "(x \<in> set (ap_requests st) \<and> x \<noteq> r) \<or> ar_state x = ''expired''" if "x \<in> set (ap_requests st1)" for x
    using set_update_where [OF that [unfolded q(3)]] q(2) by auto
  with ih steps_trans [OF _ steps_one [of approval_move, OF m]] show ?case by fastforce
qed

lemma expire_moves:
  assumes "expire st now = Inr st'" and "distinct_requests st"
  shows "steps approval_move st st'" and "\<forall>x\<in>set (ap_requests st'). \<not> due now x"
    and "\<forall>x\<in>set (ap_requests st'). x \<in> set (ap_requests st) \<or> ar_state x = ''expired''"
proof -
  let ?rows = "sort_key (\<lambda>r. (ar_created r, ar_id r)) (filter (due now) (ap_requests st))"
  have "distinct (map ar_id ?rows)"
    using assms(2) by (auto simp: distinct_requests_def distinct_map inj_on_def)
  then have "steps approval_move st st' \<and>
    (\<forall>x\<in>set (ap_requests st'). (x \<in> set (ap_requests st) \<and> x \<notin> set ?rows) \<or> ar_state x = ''expired'')"
    using assms by (intro expire_rows) (auto simp: expire_def)
  then show "steps approval_move st st'" "\<forall>x\<in>set (ap_requests st'). \<not> due now x"
      "\<forall>x\<in>set (ap_requests st'). x \<in> set (ap_requests st) \<or> ar_state x = ''expired''"
    by (auto simp: due_def)
qed

lemma get_row_cases:
  assumes "get_row st v = Inr r"
  shows "r \<in> set (ap_requests st)" and "verify_request_row st r = Inr r" and "ar_id r = strip (str_or_empty v)"
proof -
  obtain q where "row_where (\<lambda>r. ar_id r = strip (str_or_empty v)) (ap_requests st) = Some q"
    "verify_request_row st q = Inr r"
    using assms by (auto simp: get_row_def Let_def res_simps)
  then show "r \<in> set (ap_requests st)" "verify_request_row st r = Inr r" "ar_id r = strip (str_or_empty v)"
    using row_where_Some by (fastforce simp: verify_row_iff)+
qed

lemma kept_row: "r \<in> set rows \<Longrightarrow> r \<noteq> q \<Longrightarrow> r \<in> set (update_where (\<lambda>x. x = q) f rows)"
  by (auto simp: update_where_def intro: rev_image_eqI)

end
