(* ===== verification/ApprovalsInvariant.thy ===== *)
theory ApprovalsInvariant
  imports ApprovalsRuns
begin

section \<open>Two-person approvals: every operation keeps the invariant\<close>

subsection \<open>The transactions\<close>

lemma get_tx_moves:
  assumes "get_tx st now i = Inr (r, st')" and "distinct_requests st"
  shows "steps approval_move st st'" and "r \<in> set (ap_requests st')" and "verify_request_row st' r = Inr r"
    and "ar_id r = strip (str_or_empty i)" and "\<not> due now r"
proof -
  have e: "expire st now = Inr st'" and g: "get_row st' i = Inr r"
    using assms(1) by (auto simp: get_tx_def)
  show "steps approval_move st st'" using expire_moves(1) [OF e assms(2)] .
  show "r \<in> set (ap_requests st')" "verify_request_row st' r = Inr r" "ar_id r = strip (str_or_empty i)"
    using get_row_cases [OF g] by simp_all
  then show "\<not> due now r" using expire_moves(2) [OF e assms(2)] by blast
qed

text \<open>
  The shape the four deciding transactions share: the identity is checked, overdue requests
  expire, the request is read, and one legal change of its state is made and logged.
\<close>

definition decides ::
  "approvals \<Rightarrow> rat \<Rightarrow> pyval \<Rightarrow> (request_row \<Rightarrow> request_row) \<Rightarrow> request_row \<Rightarrow> approvals \<Rightarrow> bool" where
  "decides st now i f r st' = (\<exists>st1. steps approval_move st st1 \<and> r \<in> set (ap_requests st1) \<and>
     ar_id r = strip (str_or_empty i) \<and> verify_request_row st1 r = Inr r \<and> legal r (f r) \<and>
     approval_move st1 st' \<and>
     ap_requests st' = update_where (\<lambda>x. x = r) (\<lambda>_. sealed (ap_key st1) (f r)) (ap_requests st1))"

lemma decides_intro:
  assumes "expire st now = Inr st1" and "distinct_requests st" and "get_row st1 i = Inr r"
    and "update_state st1 r (ar_state r) f = Inr (n, st2)" and "legal r (f r)"
    and "append_event st2 (ar_id r) who action (Some (ar_state r)) (ar_state (f r)) d t = Inr st'"
  shows "decides st now i f r st'"
proof -
  have m: "steps approval_move st st1" using assms(1,2) by (rule expire_moves)
  have d1: "distinct_requests st1" using approval_moves_distinct [OF m assms(2)] by simp
  note g = get_row_cases [OF assms(3)]
  note c = state_change_move [OF d1 g(1,2) assms(4,5,6)]
  show ?thesis unfolding decides_def using m g c assms(5) by blast
qed

lemma decides_moves: "decides st now i f r st' \<Longrightarrow> steps approval_move st st'"
  unfolding decides_def by (meson steps_step)

lemma not_due_fresh: "\<not> due now r \<Longrightarrow> ar_state r \<in> {''pending'', ''approved''} \<Longrightarrow> now < ar_expires r"
  by (auto simp: due_def)

lemma approve_decides:
  assumes "approve_tx st now i who = Inr st'" and "distinct_requests st"
  obtains a r where "actor_of who = Inr a" "ar_state r = ''pending''" "ar_requester r \<noteq> act_id a"
    "decides st now i (\<lambda>r. r\<lparr>ar_state := ''approved'', ar_approver := Some (act_id a),
       ar_approver_name := Some (act_name a), ar_approved_at := Some now, ar_decided_at := Some now\<rparr>) r st'"
proof -
  obtain a st1 r n st2 where *: "actor_of who = Inr a" "expire st now = Inr st1" "get_row st1 i = Inr r"
    "ar_state r = ''pending''" "ar_requester r \<noteq> act_id a"
    "update_state st1 r ''pending''
       (\<lambda>r. r\<lparr>ar_state := ''approved'', ar_approver := Some (act_id a), ar_approver_name := Some (act_name a),
             ar_approved_at := Some now, ar_decided_at := Some now\<rparr>) = Inr (n, st2)"
    "append_event st2 (ar_id r) (act_id a) ''approve'' (Some ''pending'') ''approved'' (PDict []) now = Inr st'"
    using assms(1) by (auto simp: approve_tx_def res_simps)
  have "r \<in> set (ap_requests st1)" using get_row_cases(1) [OF *(3)] .
  then have "now < ar_expires r"
    using expire_moves(2) [OF *(2) assms(2)] *(4) not_due_fresh by auto
  then have lg: "legal r (r\<lparr>ar_state := ''approved'', ar_approver := Some (act_id a), ar_approver_name := Some (act_name a),
       ar_approved_at := Some now, ar_decided_at := Some now\<rparr>)"
    using *(4,5) by (intro legal_approve) auto
  show ?thesis
    by (rule that [OF *(1,4,5)], rule decides_intro [OF *(2) assms(2) *(3)]) (use * lg in simp_all)
qed

lemma reject_decides:
  assumes "reject_tx st now i who reason = Inr st'" and "distinct_requests st"
  obtains a r where "actor_of who = Inr a" "ar_state r = ''pending''" "ar_requester r \<noteq> act_id a"
    "decides st now i (\<lambda>r. r\<lparr>ar_state := ''rejected'', ar_decided_at := Some now\<rparr>) r st'"
proof -
  obtain a st1 r n st2 where *: "actor_of who = Inr a" "expire st now = Inr st1" "get_row st1 i = Inr r"
    "ar_state r = ''pending''" "ar_requester r \<noteq> act_id a"
    "update_state st1 r ''pending'' (\<lambda>r. r\<lparr>ar_state := ''rejected'', ar_decided_at := Some now\<rparr>) = Inr (n, st2)"
    "append_event st2 (ar_id r) (act_id a) ''reject'' (Some ''pending'') ''rejected''
       (PDict [(''reason'', PStr (take 1000 (strip (str_or_empty reason))))]) now = Inr st'"
    using assms(1) by (auto simp: reject_tx_def Let_def res_simps)
  have lg: "legal r (r\<lparr>ar_state := ''rejected'', ar_decided_at := Some now\<rparr>)"
    using *(4) by (rule legal_reject)
  show ?thesis
    by (rule that [OF *(1,4,5)], rule decides_intro [OF *(2) assms(2) *(3)]) (use * lg in simp_all)
qed

lemma cancel_decides:
  assumes "cancel_tx st now i who = Inr st'" and "distinct_requests st"
  obtains a r where "actor_of who = Inr a" "ar_state r \<in> {''pending'', ''approved''}" "ar_requester r = act_id a"
    "decides st now i (\<lambda>r. r\<lparr>ar_state := ''cancelled'', ar_decided_at := Some now\<rparr>) r st'"
proof -
  obtain a st1 r n st2 where *: "actor_of who = Inr a" "expire st now = Inr st1" "get_row st1 i = Inr r"
    "ar_requester r = act_id a" "ar_state r \<in> {''pending'', ''approved''}"
    "update_state st1 r (ar_state r) (\<lambda>r. r\<lparr>ar_state := ''cancelled'', ar_decided_at := Some now\<rparr>) = Inr (n, st2)"
    "append_event st2 (ar_id r) (act_id a) ''cancel'' (Some (ar_state r)) ''cancelled'' (PDict []) now = Inr st'"
    using assms(1) unfolding cancel_tx_def case_prod_Inr bind_res_Inr_iff require_Inr_iff by blast
  have lg: "legal r (r\<lparr>ar_state := ''cancelled'', ar_decided_at := Some now\<rparr>)"
    using *(5) by (rule legal_cancel)
  show ?thesis
    by (rule that [OF *(1,5,4)], rule decides_intro [OF *(2) assms(2) *(3)]) (use * lg in simp_all)
qed

lemma consume_decides:
  assumes "consume_tx st now i who target body capability risk = Inr st'" and "distinct_requests st"
  obtains a digest r where "actor_of who = Inr a" "body_hmac st body = Inr digest" "r \<in> set (ap_requests st)"
    "ar_state r = ''approved''" "ar_requester r = act_id a" "now < ar_expires r"
    "ar_target r = py_str target" "ar_body_hmac r = digest" "ar_capability r = py_str capability" "ar_risk r = py_str risk"
    "decides st now i (\<lambda>r. r\<lparr>ar_state := ''consumed'', ar_consumed_by := Some (ar_requester r), ar_consumed_at := Some now,
       ar_decided_at := Some now\<rparr>) r st'"
proof -
  let ?f = "\<lambda>r. r\<lparr>ar_state := ''consumed'', ar_consumed_by := Some (ar_requester r), ar_consumed_at := Some now,
             ar_decided_at := Some now\<rparr>"
  obtain a digest st1 r n st2 where *: "actor_of who = Inr a" "body_hmac st body = Inr digest"
    "expire st now = Inr st1" "get_row st1 i = Inr r"
    "ar_state r = ''approved''" "ar_requester r = act_id a" "mismatches r target digest capability risk = Inr []"
    "update_state st1 r ''approved''
       (\<lambda>r. r\<lparr>ar_state := ''consumed'', ar_consumed_by := Some (act_id a), ar_consumed_at := Some now,
             ar_decided_at := Some now\<rparr>) = Inr (n, st2)"
    "append_event st2 (ar_id r) (act_id a) ''consume'' (Some ''approved'') ''consumed''
       (PDict [(''bodyHmacSha256'', PStr digest)]) now = Inr st'"
    using assms(1) unfolding consume_tx_def case_prod_Inr bind_res_Inr_iff require_Inr_iff by metis
  have mem1: "r \<in> set (ap_requests st1)" using get_row_cases(1) [OF *(4)] .
  then have now: "now < ar_expires r"
    using expire_moves(2) [OF *(3) assms(2)] *(5) not_due_fresh by auto
  have lg: "legal r (?f r)" using *(5) now by (rule legal_consume)
  have up: "update_state st1 r (ar_state r) ?f = Inr (n, st2)"
  proof -
    have d1: "distinct_requests st1"
      using approval_moves_distinct [OF expire_moves(1) [OF *(3) assms(2)] assms(2)] by simp
    have mem: "r \<in> set (ap_requests st1)" by fact
    note u = update_state_row [OF d1 [unfolded distinct_requests_def] mem *(5) *(8)]
    have "update_state st1 r ''approved'' ?f =
        Inr (length (filter (in_state (ar_id r) ''approved'') (ap_requests st1)),
          st1\<lparr>ap_requests := update_where (in_state (ar_id r) ''approved'')
               (\<lambda>q. (?f q)\<lparr>ar_state_hmac := state_digest (ap_key st1) (?f r)\<rparr>) (ap_requests st1)\<rparr>)"
      using *(8) by (auto simp: update_state_def state_hmac_def state_digest_def)
    then obtain m st3 where v: "update_state st1 r ''approved'' ?f = Inr (m, st3)" by blast
    note w = update_state_row [OF d1 [unfolded distinct_requests_def] mem *(5) v]
    have "m = n" "st3 = st2" using u w *(6) by simp_all
    with v *(5) show ?thesis by simp
  qed
  have stored: "r \<in> set (ap_requests st)" using expire_moves(3) [OF *(3) assms(2)] mem1 *(5) by fastforce
  show ?thesis
    by (rule that [OF *(1,2) stored *(5,6) now], use *(7) in \<open>simp_all add: mismatches_def split: if_splits\<close>,
        rule decides_intro [OF *(3) assms(2) *(4) up lg]) (use * in simp_all)
qed

lemma request_hmac_signed [simp]:
  "request_hmac st (r\<lparr>ar_request_hmac := h, ar_state_hmac := k\<rparr>) = request_hmac st r"
  by (simp add: request_hmac_def request_payload_def request_fields_def)

lemma create_cases:
  assumes "create_tx st now nonce who target body capability risk summary ttl = Inr (i, st')"
  obtains a st1 r rh sh st2 d where "actor_of who = Inr a" "expire st now = Inr st1" "fresh_request r"
    "ar_id r = i" "ar_requester r = act_id a" "ar_created r = now" "ar_risk r = risk"
    "request_hmac st1 r = Inr rh" "state_hmac st1 r = Inr sh"
    "insert_request (r\<lparr>ar_request_hmac := rh, ar_state_hmac := sh\<rparr>) st1 = Inr st2"
    "append_event st2 (ar_id r) (act_id a) ''request'' None ''pending'' d now = Inr st'"
  using assms unfolding create_tx_def Let_def case_prod_Inr case_option_Inr bind_res_Inr_iff require_Inr_iff
  by (elim exE conjE disjE, simp, elim exE conjE) (rule that, assumption, assumption, auto simp: fresh_request_def)

lemma create_moves:
  assumes "create_tx st now nonce who target body capability risk summary ttl = Inr (i, st')"
    and "distinct_requests st"
  shows "steps approval_move st st'"
  using assms(1)
proof (rule create_cases)
  fix a st1 r rh sh st2 d
  assume *: "expire st now = Inr st1" "fresh_request r" "request_hmac st1 r = Inr rh" "state_hmac st1 r = Inr sh"
    "insert_request (r\<lparr>ar_request_hmac := rh, ar_state_hmac := sh\<rparr>) st1 = Inr st2"
    "append_event st2 (ar_id r) (act_id a) ''request'' None ''pending'' d now = Inr st'"
  let ?q = "r\<lparr>ar_request_hmac := rh, ar_state_hmac := sh\<rparr>"
  have new: "ar_id ?q \<notin> ar_id ` set (ap_requests st1)" and st2: "st2 = st1\<lparr>ap_requests := ap_requests st1 @ [?q]\<rparr>"
    using *(5) by (auto simp: insert_request_def)
  have "verify_request_row st1 ?q = Inr ?q"
    using *(3,4) by (auto simp: verify_row_iff state_hmac_def state_digest_def state_payload_def)
  then have "approval_move st1 st'"
    using new *(2,6) st2 by (intro move_create [where r = ?q]) (auto simp: fresh_request_def)
  with expire_moves(1) [OF *(1) assms(2)] show ?thesis by (rule steps_step)
qed

end
