(* ===== verification/ApprovalsLog.thy ===== *)
theory ApprovalsLog
  imports ApprovalsInvariant
begin

section \<open>Two-person approvals: runs, the event log and the protocol they refine\<close>

subsection \<open>Runs of the store\<close>

definition approvals_init :: "approvals \<Rightarrow> bool" where
  "approvals_init st = (ap_requests st = [] \<and> ap_events st = [] \<and> length (ap_key st) = 32)"

inductive approval_step :: "approvals \<Rightarrow> approvals \<Rightarrow> bool" where
  ap_create: "approval_step st (snd (create_request st now later nonce who target body capability risk summary ttl))"
| ap_get: "approval_step st (snd (get_request st now i))"
| ap_list: "approval_step st (snd (list_requests st now limit))"
| ap_approve: "approval_step st (snd (approve st now later i who))"
| ap_reject: "approval_step st (snd (reject st now later i who reason))"
| ap_cancel: "approval_step st (snd (cancel st now later i who))"
| ap_consume: "approval_step st (snd (consume st now later i who target body capability risk))"
| ap_status: "approval_step st (snd (approval_status_of st now))"
| ap_prometheus: "approval_step st (snd (approval_prometheus st now on))"

lemma get_request_moves:
  "distinct_requests st \<Longrightarrow> steps approval_move st (snd (get_request st now i))"
  by (auto simp: get_request_def intro: steps_refl dest: get_tx_moves(1) split: sum.splits)

lemma then_get_moves:
  assumes "distinct_requests st" and "\<And>st'. m = Inr st' \<Longrightarrow> steps approval_move st st'"
  shows "steps approval_move st (snd (then_get st m later i))"
proof (cases m)
  case (Inl e)
  then show ?thesis by (simp add: then_get_def steps_refl)
next
  case (Inr st')
  have "distinct_requests st'" using approval_moves_distinct assms Inr by blast
  then show ?thesis
    using steps_trans [OF get_request_moves assms(2) [OF Inr]] Inr by (simp add: then_get_def)
qed

lemma status_moves: "distinct_requests st \<Longrightarrow> steps approval_move st (snd (approval_status_of st now))"
  by (auto simp: approval_status_of_def intro: steps_refl dest: expire_moves(1) split: sum.splits)

lemma approval_step_moves:
  assumes "approval_step st st'" and d: "distinct_requests st"
  shows "steps approval_move st st'"
  using assms(1)
proof cases
  case (ap_create now later nonce who target body capability risk summary ttl)
  show ?thesis
  proof (cases "create_tx st now nonce who target body capability risk summary ttl")
    case (Inl e)
    then show ?thesis using ap_create by (simp add: create_request_def steps_refl)
  next
    case (Inr p)
    obtain i st1 where p: "p = (i, st1)" by fastforce
    have m: "steps approval_move st st1" using create_moves Inr p d by blast
    then have "distinct_requests st1" using approval_moves_distinct d by blast
    then show ?thesis using steps_trans [OF get_request_moves m] ap_create Inr p by (simp add: create_request_def)
  qed
next
  case (ap_get now i)
  then show ?thesis using get_request_moves d by simp
next
  case (ap_list now limit)
  then show ?thesis using d
    by (auto simp: list_requests_def list_tx_def Let_def intro: steps_refl dest: expire_moves(1) split: sum.splits)
next
  case (ap_approve now later i who)
  show ?thesis unfolding ap_approve approve_def
    by (rule then_get_moves [OF d]) (auto elim: approve_decides [OF _ d] intro: decides_moves)
next
  case (ap_reject now later i who reason)
  show ?thesis unfolding ap_reject reject_def
    by (rule then_get_moves [OF d]) (auto elim: reject_decides [OF _ d] intro: decides_moves)
next
  case (ap_cancel now later i who)
  show ?thesis unfolding ap_cancel cancel_def
    by (rule then_get_moves [OF d]) (auto elim: cancel_decides [OF _ d] intro: decides_moves)
next
  case (ap_consume now later i who target body capability risk)
  show ?thesis unfolding ap_consume consume_def
    by (rule then_get_moves [OF d]) (auto elim: consume_decides [OF _ d] intro: decides_moves)
next
  case (ap_status now)
  then show ?thesis using status_moves d by simp
next
  case (ap_prometheus now on)
  have "snd (approval_prometheus st now on) = snd (approval_status_of st now)"
    by (simp add: approval_prometheus_def Let_def split: prod.splits sum.splits)
  then show ?thesis using status_moves d ap_prometheus by simp
qed

subsection \<open>The event log as a hash chain\<close>

lemma event_text_prev:
  assumes "event_readable e" and "event_readable e'" and eq: "event_text e = event_text e'"
  shows "ev_previous_hmac e = ev_previous_hmac e' \<and> ev_request e = ev_request e' \<and> ev_actor e = ev_actor e' \<and>
    ev_action e = ev_action e' \<and> ev_state e = ev_state e'"
proof -
  obtain d d' where "json_loads (ev_details_json e) = Inr d" "json_loads (ev_details_json e') = Inr d'"
    using assms(1,2) by (auto simp: event_readable_def)
  then have c: "canonical (event_payload e d (ev_previous_hmac e)) = canonical (event_payload e' d' (ev_previous_hmac e'))"
    using eq by (simp add: event_text_def event_message_def)
  note f = canonical_field_texts [OF c [unfolded event_payload_def]]
  show ?thesis
    using f [of "''previousHmacSha256''"] f [of "''requestId''"] f [of "''actorId''"] f [of "''action''"] f [of "''state''"]
    by simp
qed

interpretation approval_log: hash_chain ev_previous_hmac ev_hmac event_text "hmac_hex key" ZERO_HASH event_readable
  for key
proof
  show "ev_previous_hmac e = ev_previous_hmac e'"
    if "event_readable e" "event_readable e'" "event_text e = event_text e'" for e e'
    using event_text_prev [OF that] by simp
qed

text \<open>What the loop of \<^verbatim>\<open>verify\<close> decides.\<close>

lemma verify_events_chain:
  assumes "verify_events key z n es = Inr (Inr (m, h))"
  shows "linked ev_previous_hmac ev_hmac (\<lambda>e. hmac_hex key (event_text e)) z es \<and> (\<forall>e\<in>set es. event_readable e) \<and>
    m = n + length es \<and> h = chain_head ev_hmac z es"
  using assms
proof (induction key z n es rule: verify_events.induct)
  case (1 key z n)
  then show ?case by simp
next
  case (2 key z n e es)
  obtain d where d: "json_loads (ev_details_json e) = Inr d" and z: "ev_previous_hmac e = z"
    and h: "ev_hmac e = hmac_hex key (event_message e d z)"
    and rest: "verify_events key (ev_hmac e) (n + 1) es = Inr (Inr (m, h))"
    using "2.prems" by (auto simp: Let_def split: if_splits)
  have "event_text e = event_message e d z" "event_readable e" using d z by (simp_all add: event_text_def event_readable_def)
  then show ?case using "2.IH" [OF d refl _ _ rest] d z h by (auto simp: Let_def)
qed

lemma chain_verify_events:
  assumes "linked ev_previous_hmac ev_hmac (\<lambda>e. hmac_hex key (event_text e)) z es" and "\<forall>e\<in>set es. event_readable e"
  shows "verify_events key z n es = Inr (Inr (n + length es, chain_head ev_hmac z es))"
  using assms
proof (induction es arbitrary: z n)
  case Nil
  then show ?case by simp
next
  case (Cons e es)
  obtain d where d: "json_loads (ev_details_json e) = Inr d" using Cons.prems(2) by (auto simp: event_readable_def)
  then have "event_text e = event_message e d z" using Cons.prems(1) by (simp add: event_text_def)
  then have h: "ev_hmac e = hmac_hex key (event_message e d z)" and z: "ev_previous_hmac e = z"
    using Cons.prems(1) by simp_all
  have same: "compare_digest (hmac_hex key x) (hmac_hex key x) = Inr True" for x by simp
  have "verify_events key (ev_hmac e) (n + 1) es = Inr (Inr (n + 1 + length es, chain_head ev_hmac (ev_hmac e) es))"
    by (rule Cons.IH) (use Cons.prems in \<open>unfold linked.simps, auto\<close>)
  then show ?case using d z same by (auto simp: h)
qed

subsection \<open>The invariant\<close>

definition trail :: "string \<Rightarrow> event_row list \<Rightarrow> event_row list" where
  "trail i evs = filter (\<lambda>e. ev_request e = i) evs"

text \<open>Each event starts from the state the one before it ended in.\<close>

fun follows :: "string option \<Rightarrow> event_row list \<Rightarrow> bool" where
  "follows p [] = True"
| "follows p (e # es) = (ev_previous_state e = p \<and> follows (Some (ev_state e)) es)"

definition end_state :: "string option \<Rightarrow> event_row list \<Rightarrow> string option" where
  "end_state p es = (if es = [] then p else Some (ev_state (last es)))"

lemma follows_snoc: "follows p (es @ [e]) \<longleftrightarrow> follows p es \<and> ev_previous_state e = end_state p es"
  by (induction es arbitrary: p) (auto simp: end_state_def)

text \<open>
  An approved or consumed request names an approver, and it is not the requester; a consumed
  one was consumed by its requester and before it expired.
\<close>

definition two_person :: "request_row \<Rightarrow> bool" where
  "two_person r =
     ((ar_state r = ''pending'' \<longrightarrow> ar_approver r = None) \<and>
      (ar_state r \<in> {''approved'', ''consumed''} \<longrightarrow> (\<exists>a. ar_approver r = Some a \<and> a \<noteq> ar_requester r)) \<and>
      (ar_state r = ''consumed'' \<longrightarrow> ar_consumed_by r = Some (ar_requester r) \<and>
         (\<exists>t. ar_consumed_at r = Some t \<and> t < ar_expires r)))"

definition logged :: "event_row list \<Rightarrow> request_row \<Rightarrow> bool" where
  "logged evs r = (follows None (trail (ar_id r) evs) \<and> end_state None (trail (ar_id r) evs) = Some (ar_state r))"

definition approvals_inv :: "approvals \<Rightarrow> bool" where
  "approvals_inv st = (distinct_requests st \<and> length (ap_key st) = 32 \<and>
     approval_log.intact (ap_key st) (ap_events st) \<and> (\<forall>e\<in>set (ap_events st). event_readable e) \<and>
     ev_request ` set (ap_events st) \<subseteq> ar_id ` set (ap_requests st) \<and>
     (\<forall>r\<in>set (ap_requests st). verify_request_row st r = Inr r \<and> two_person r \<and> logged (ap_events st) r))"

lemma trail_snoc: "trail i (evs @ [e]) = trail i evs @ (if ev_request e = i then [e] else [])"
  by (simp add: trail_def)

lemma trail_none: "i \<notin> ev_request ` set evs \<Longrightarrow> trail i evs = []"
  by (auto simp: trail_def filter_empty_conv)

lemma legal_two_person: "legal r q \<Longrightarrow> two_person r \<Longrightarrow> two_person q"
  by (erule legalE) (auto simp: two_person_def)

lemma two_person_sealed [simp]: "two_person (sealed key q) = two_person q"
  by (simp add: two_person_def sealed_def)

lemma logged_other:
  "ev_request e \<noteq> ar_id r \<Longrightarrow> logged (evs @ [e]) r = logged evs r"
  by (simp add: logged_def trail_snoc)

lemma inv_append:
  assumes "append_event (st\<lparr>ap_requests := rows\<rparr>) i who action p s d t = Inr st'"
    and "approval_log.intact (ap_key st) (ap_events st)" and "\<forall>e\<in>set (ap_events st). event_readable e"
  obtains e where "ap_events st' = ap_events st @ [e]" "ap_requests st' = rows" "ap_key st' = ap_key st"
    "approval_log.intact (ap_key st') (ap_events st')" "\<forall>e\<in>set (ap_events st'). event_readable e"
    "ev_request e = i" "ev_previous_state e = p" "ev_state e = s"
  using assms(1)
  by (elim append_event_cases) (rule that, use assms(2,3) in \<open>auto simp: approval_log.intact_snoc\<close>)

lemma move_keeps_inv:
  assumes "approval_move st st'" and inv: "approvals_inv st"
  shows "approvals_inv st'"
  using assms(1)
proof cases
  case (move_create r who d t)
  have ch: "approval_log.intact (ap_key st) (ap_events st)" "\<forall>e\<in>set (ap_events st). event_readable e"
    using inv by (simp_all add: approvals_inv_def)
  obtain e where e: "ap_events st' = ap_events st @ [e]" "ap_requests st' = ap_requests st @ [r]" "ap_key st' = ap_key st"
    "approval_log.intact (ap_key st') (ap_events st')" "\<forall>e\<in>set (ap_events st'). event_readable e"
    "ev_request e = ar_id r" "ev_previous_state e = None" "ev_state e = ''pending''"
    using inv_append [OF move_create(4) ch] .
  have new: "trail (ar_id r) (ap_events st) = []"
    using move_create(1) inv by (intro trail_none) (auto simp: approvals_inv_def)
  have "two_person r" "logged (ap_events st') r"
    using move_create(2) new e by (simp_all add: two_person_def fresh_request_def logged_def trail_snoc end_state_def)
  moreover have "logged (ap_events st') q" if "q \<in> set (ap_requests st)" for q
  proof -
    have "ev_request e \<noteq> ar_id q" using e(6) move_create(1) that by auto
    then show ?thesis using that inv e(1) logged_other by (simp add: approvals_inv_def)
  qed
  ultimately show ?thesis
    using inv e move_create(1,3) verify_row_key [OF e(3)]
    unfolding approvals_inv_def distinct_requests_def by auto
next
  case (move_state r q who action d t)
  have ch: "approval_log.intact (ap_key st) (ap_events st)" "\<forall>e\<in>set (ap_events st). event_readable e"
    using inv by (simp_all add: approvals_inv_def)
  let ?q = "sealed (ap_key st) q"
  obtain e where e: "ap_events st' = ap_events st @ [e]"
    "ap_requests st' = update_where (\<lambda>x. x = r) (\<lambda>_. ?q) (ap_requests st)" "ap_key st' = ap_key st"
    "approval_log.intact (ap_key st') (ap_events st')" "\<forall>e\<in>set (ap_events st'). event_readable e"
    "ev_request e = ar_id r" "ev_previous_state e = Some (ar_state r)" "ev_state e = ar_state q"
    using inv_append [OF move_state(4) ch] .
  have id: "ar_id ?q = ar_id r"
    using immutable_fields(1) [of ?q r] legal_immutable [OF move_state(3)] by simp
  have r: "two_person r" "logged (ap_events st) r" using inv move_state(1) by (auto simp: approvals_inv_def)
  have "two_person ?q" using legal_two_person [OF move_state(3) r(1)] by simp
  moreover have "logged (ap_events st') ?q"
    using r(2) e id by (simp add: logged_def trail_snoc follows_snoc) (simp add: end_state_def)
  moreover have "verify_request_row st ?q = Inr ?q" by (rule verify_sealed [OF move_state(2,3)])
  moreover have "logged (ap_events st') x" if "x \<in> set (ap_requests st)" "x \<noteq> r" for x
  proof -
    have "ar_id x \<noteq> ar_id r"
      using that move_state(1) inv unfolding approvals_inv_def distinct_requests_def by (meson distinct_map_unique)
    then show ?thesis using that(1) inv e(1,6) logged_other by (simp add: approvals_inv_def)
  qed
  ultimately have rows: "verify_request_row st x = Inr x \<and> two_person x \<and> logged (ap_events st') x"
    if "x \<in> set (ap_requests st')" for x
    using set_update_where [OF that [unfolded e(2)]] inv by (auto simp: approvals_inv_def)
  have ids: "map ar_id (ap_requests st') = map ar_id (ap_requests st)"
    unfolding e(2) by (rule map_id_update [OF id])
  then have "ar_id ` set (ap_requests st') = ar_id ` set (ap_requests st)" by (metis image_set)
  then show ?thesis
    using inv e ids rows verify_row_key [OF e(3)] move_state(1)
    unfolding approvals_inv_def distinct_requests_def by auto
qed

interpretation approval_moves: invariant_system approvals_init approval_move approvals_inv
proof
  show "approvals_inv st" if "approvals_init st" for st
    using that by (simp add: approvals_init_def approvals_inv_def distinct_requests_def approval_log.intact_Nil)
  show "approvals_inv t" if "approvals_inv s" "approval_move s t" for s t
    using move_keeps_inv that by blast
qed

subsection \<open>The abstract protocol\<close>

text \<open>
  What a reviewer needs to know of a request: who asked, and how far it got.  The protocol
  has one rule per decision.
\<close>

datatype phase = Asked | Granted string | Spent string | Refused | Withdrawn | Lapsed

type_synonym protocol = "string \<rightharpoonup> string \<times> phase"

inductive protocol_step :: "protocol \<Rightarrow> protocol \<Rightarrow> bool" where
  ask: "p i = None \<Longrightarrow> protocol_step p (p(i \<mapsto> (who, Asked)))"
| grant: "p i = Some (who, Asked) \<Longrightarrow> a \<noteq> who \<Longrightarrow> protocol_step p (p(i \<mapsto> (who, Granted a)))"
| spend: "p i = Some (who, Granted a) \<Longrightarrow> protocol_step p (p(i \<mapsto> (who, Spent a)))"
| refuse: "p i = Some (who, Asked) \<Longrightarrow> protocol_step p (p(i \<mapsto> (who, Refused)))"
| withdraw: "p i = Some (who, ph) \<Longrightarrow> ph = Asked \<or> ph = Granted a \<Longrightarrow> protocol_step p (p(i \<mapsto> (who, Withdrawn)))"
| lapse: "p i = Some (who, ph) \<Longrightarrow> ph = Asked \<or> ph = Granted a \<Longrightarrow> protocol_step p (p(i \<mapsto> (who, Lapsed)))"

definition phase_of :: "request_row \<Rightarrow> phase" where
  "phase_of r =
     (let a = (case ar_approver r of None \<Rightarrow> [] | Some x \<Rightarrow> x) in
      if ar_state r = ''pending'' then Asked else if ar_state r = ''approved'' then Granted a
      else if ar_state r = ''consumed'' then Spent a else if ar_state r = ''rejected'' then Refused
      else if ar_state r = ''cancelled'' then Withdrawn else Lapsed)"

definition entry_in :: "request_row \<Rightarrow> string \<times> string \<times> phase" where
  "entry_in r = (ar_id r, ar_requester r, phase_of r)"

definition protocol_of :: "approvals \<Rightarrow> protocol" where
  "protocol_of st = map_of (map entry_in (ap_requests st))"

lemma protocol_of_row:
  assumes "distinct_requests st" and "r \<in> set (ap_requests st)"
  shows "protocol_of st (ar_id r) = Some (ar_requester r, phase_of r)"
proof -
  have "map fst (map entry_in (ap_requests st)) = map ar_id (ap_requests st)" by (simp add: entry_in_def)
  then have "distinct (map fst (map entry_in (ap_requests st)))" using assms(1) unfolding distinct_requests_def by (simp only:)
  moreover have "(ar_id r, ar_requester r, phase_of r) \<in> set (map entry_in (ap_requests st))"
    using assms(2) by (force simp: entry_in_def)
  ultimately show ?thesis unfolding protocol_of_def by (rule map_of_is_SomeI)
qed

lemma map_of_snoc: "map_of (xs @ [(k, v)]) = (\<lambda>i. case map_of xs i of None \<Rightarrow> if i = k then Some v else None | Some w \<Rightarrow> Some w)"
  by (rule ext) (auto simp: map_add_def split: option.splits)

lemma map_of_update:
  assumes "distinct (map ar_id rows)" and "r \<in> set rows" and "ar_id q = ar_id r"
  shows "map_of (map entry_in (update_where (\<lambda>x. x = r) (\<lambda>_. q) rows)) =
    (map_of (map entry_in rows))(ar_id r \<mapsto> (ar_requester q, phase_of q))"
  using assms
proof (induction rows)
  case Nil
  then show ?case by simp
next
  case (Cons x rows)
  show ?case
  proof (cases "x = r")
    case True
    then have "r \<notin> set rows" using Cons.prems by auto
    then have "update_where (\<lambda>x. x = r) (\<lambda>_. q) rows = rows"
      unfolding update_where_def by (intro map_idI) auto
    then show ?thesis using True Cons.prems(3) by (simp add: update_where_simps entry_in_def fun_eq_iff)
  next
    case False
    then have "r \<in> set rows" "ar_id x \<noteq> ar_id r" using Cons.prems by auto
    then show ?thesis using Cons False by (simp add: update_where_simps entry_in_def fun_eq_iff)
  qed
qed

lemma legal_protocol:
  assumes "legal r q" and "two_person r" and "p i = Some (ar_requester r, phase_of r)"
  shows "protocol_step p (p(i \<mapsto> (ar_requester q, phase_of q)))"
  using assms(1)
proof cases
  case (legal_expire now)
  then show ?thesis using assms by (auto simp: phase_of_def Let_def intro!: lapse)
next
  case (legal_approve now a n)
  then show ?thesis using assms by (auto simp: phase_of_def Let_def intro!: grant)
next
  case (legal_reject now)
  then show ?thesis using assms by (auto simp: phase_of_def Let_def intro!: refuse)
next
  case (legal_cancel now)
  then show ?thesis using assms by (auto simp: phase_of_def Let_def intro!: withdraw)
next
  case (legal_consume now)
  then show ?thesis using assms by (auto simp: phase_of_def Let_def intro!: spend)
qed

lemma move_protocol:
  assumes "approval_move st st'" and inv: "approvals_inv st"
  shows "protocol_step (protocol_of st) (protocol_of st')"
  using assms(1)
proof cases
  case (move_create r who d t)
  have none: "protocol_of st (ar_id r) = None"
    using move_create(1) by (force simp: protocol_of_def entry_in_def map_of_eq_None_iff)
  have "ap_requests st' = ap_requests st @ [r]" using move_create(4) by (elim append_event_cases) simp
  then have "protocol_of st' = (protocol_of st)(ar_id r \<mapsto> (ar_requester r, phase_of r))"
    using none by (auto simp: protocol_of_def entry_in_def map_add_def fun_eq_iff split: option.splits)
  moreover have "phase_of r = Asked" using move_create(2) by (simp add: phase_of_def fresh_request_def)
  ultimately show ?thesis using none ask by simp
next
  case (move_state r q who action d t)
  let ?q = "sealed (ap_key st) q"
  have im: "immutable ?q = immutable r" using legal_immutable [OF move_state(3)] by simp
  have rows: "ap_requests st' = update_where (\<lambda>x. x = r) (\<lambda>_. ?q) (ap_requests st)"
    using move_state(4) by (elim append_event_cases) simp
  have d: "distinct_requests st" and tp: "two_person r" using inv move_state(1) by (auto simp: approvals_inv_def)
  have "protocol_of st' = (protocol_of st)(ar_id r \<mapsto> (ar_requester ?q, phase_of ?q))"
    unfolding protocol_of_def rows
    using map_of_update [OF d [unfolded distinct_requests_def] move_state(1) immutable_fields(1) [OF im]] .
  moreover have "ar_requester ?q = ar_requester q" "phase_of ?q = phase_of q"
    by (simp_all add: phase_of_def Let_def) (simp_all add: sealed_def)
  ultimately show ?thesis
    using legal_protocol [where p = "protocol_of st" and i = "ar_id r", OF move_state(3) tp] protocol_of_row [OF d move_state(1)]
    by simp
qed

lemma moves_protocol:
  assumes "steps approval_move st st'" and "approvals_inv st"
  shows "steps protocol_step (protocol_of st) (protocol_of st')"
  using assms
proof (induction rule: steps.induct)
  case (steps_refl st)
  show ?case by (rule steps.steps_refl)
next
  case (steps_step st t u)
  then show ?case using move_protocol approval_moves.steps_inv by (blast intro: steps.steps_step)
qed

lemma inv_distinct: "approvals_inv st \<Longrightarrow> distinct_requests st"
  by (simp add: approvals_inv_def)

interpretation approvals_sim: simulation approvals_init approval_step approvals_inv protocol_of protocol_step
proof
  show "approvals_inv st" if "approvals_init st" for st
    using that by (rule approval_moves.inv_init)
  show "approvals_inv t" if "approvals_inv s" "approval_step s t" for s t
    using that approval_step_moves inv_distinct approval_moves.steps_inv by blast
  show "steps protocol_step (protocol_of s) (protocol_of t)" if "approvals_inv s" "approval_step s t" for s t
    using that approval_step_moves inv_distinct moves_protocol by blast
qed

end
