(* ===== verification/ApprovalsDemo.thy ===== *)
theory ApprovalsDemo
  imports ApprovalsLog
begin

section \<open>Two-person approvals: a concrete run\<close>

text \<open>
  Alice asks to change the environment, Bob approves, Alice may then consume the approval.
  The digests stay symbolic; everything else is evaluated.
\<close>

lemma expire_nothing:
  assumes "\<forall>r\<in>set (ap_requests st). \<not> due now r"
  shows "expire st now = Inr st"
proof -
  have "filter (due now) (ap_requests st) = []" using assms by (simp add: filter_empty_conv)
  then show ?thesis by (simp add: expire_def)
qed

lemma append_event_total:
  assumes "length (ap_key st) = 32" and "json_plain (py_or d (PDict []))"
  obtains e where "append_event st i who action p s d t = Inr (st\<lparr>ap_events := ap_events st @ [e]\<rparr>)"
  using assms json_loads_canonical [OF assms(2)] by (simp add: append_event_def Let_def)

lemma get_row_single:
  assumes "ap_requests st = [r]" and "verify_request_row st r = Inr r" and "request_id_ok (ar_id r)"
    and "strip (str_or_empty v) = ar_id r"
  shows "get_row st v = Inr r"
  using assms by (simp add: get_row_def table_simps)

lemma update_single:
  assumes "ap_requests st = [r]" and "length (ap_key st) = 32"
  shows "update_state st r (ar_state r) f = Inr (1, st\<lparr>ap_requests := [sealed (ap_key st) (f r)]\<rparr>)"
  using assms by (simp add: update_state_def state_hmac_def approval_key_def sealed_def state_digest_def in_state_def table_simps)

definition demo_approvals :: approvals where
  "demo_approvals = \<lparr>ap_requests = [], ap_events = [], ap_key = replicate 32 (CHR ''k''), ap_ttl = 900\<rparr>"

definition demo_alice :: pyval where
  "demo_alice = PDict [(''id'', PStr ''alice'')]"

definition demo_bob :: pyval where
  "demo_bob = PDict [(''id'', PStr ''bob'')]"

definition demo_asked :: approvals where
  "demo_asked = snd (create_request demo_approvals 0 1 ''0123456789abcdef'' demo_alice (PStr ''/api/settings/env'')
     (PDict []) (PStr ''configuration.write'') ''critical'' PNone PNone)"

definition demo_request_id :: pyval where
  "demo_request_id = PStr ''approval-19700101T000000Z-0123456789abcdef''"

definition demo_granted :: approvals where
  "demo_granted = snd (approve demo_asked 2 3 demo_request_id demo_bob)"

lemma demo_init: "approvals_init demo_approvals"
  by (simp add: approvals_init_def demo_approvals_def)

lemma demo_reach:
  "reach approvals_init approval_step demo_approvals"
  "reach approvals_init approval_step demo_asked"
  "reach approvals_init approval_step demo_granted"
proof -
  show a: "reach approvals_init approval_step demo_approvals"
    by (rule reach_init) (rule demo_init)
  show b: "reach approvals_init approval_step demo_asked"
    unfolding demo_asked_def by (rule reach_step [OF a]) (rule ap_create)
  show "reach approvals_init approval_step demo_granted"
    unfolding demo_granted_def by (rule reach_step [OF b]) (rule ap_approve)
qed

lemma demo_create_parts:
  "actor_of demo_alice = Inr \<lparr>act_id = ''alice'', act_name = ''alice''\<rparr>"
  "actor_of demo_bob = Inr \<lparr>act_id = ''bob'', act_name = ''bob''\<rparr>"
  "policy_for (PStr ''/api/settings/env'') (PDict []) =
     Inr (Some \<lparr>gov_path = ''/api/settings/env'', gov_risk = ''critical'', gov_label = ''Change environment configuration''\<rparr>)"
  "new_request_id 0 ''0123456789abcdef'' = Inr ''approval-19700101T000000Z-0123456789abcdef''"
  "review_value (redacted_body [] (PDict [])) = Inr (PDict [])"
  "strip ''Change environment configuration'' = ''Change environment configuration''"
  "request_id_ok ''approval-19700101T000000Z-0123456789abcdef''"
  "strip ''approval-19700101T000000Z-0123456789abcdef'' = ''approval-19700101T000000Z-0123456789abcdef''"
  "json_loads ''{}'' = Inr (PDict [])"
  by code_simp+

lemma demo_body:
  "normalized_body (PDict []) = Inr ([], ''{}'')"
  "canonical (PDict []) = ''{}''"
  "utf8 ''Change environment configuration'' = ''Change environment configuration''"
proof -
  show "canonical (PDict []) = ''{}''" by (simp add: canonical_def)
  then show "normalized_body (PDict []) = Inr ([], ''{}'')" by (simp add: normalized_body_def MAX_BODY_BYTES_def)
  show "utf8 ''Change environment configuration'' = ''Change environment configuration''" by code_simp
qed

definition demo_digest :: string where
  "demo_digest = hmac_hex (replicate 32 (CHR ''k'')) (''body'' @ [chr 0] @ ''{}'')"

definition demo_row :: request_row where
  "demo_row = \<lparr>ar_id = ''approval-19700101T000000Z-0123456789abcdef'', ar_created = 0, ar_expires = 900,
     ar_requester = ''alice'', ar_requester_name = ''alice'', ar_target = ''/api/settings/env'',
     ar_capability = ''configuration.write'', ar_risk = ''critical'', ar_summary = ''Change environment configuration'',
     ar_body_hmac = demo_digest, ar_review_json = ''{}'', ar_request_hmac = [], ar_state = ''pending'',
     ar_approver = None, ar_approver_name = None, ar_approved_at = None, ar_consumed_by = None,
     ar_consumed_at = None, ar_decided_at = None, ar_state_hmac = []\<rparr>"

definition demo_signed :: request_row where
  "demo_signed = demo_row\<lparr>ar_request_hmac := hmac_hex (replicate 32 (CHR ''k''))
       (''request'' @ [chr 0] @ canonical (PDict (request_fields demo_row (PDict [])))),
     ar_state_hmac := state_digest (replicate 32 (CHR ''k'')) demo_row\<rparr>"

lemma demo_hmacs:
  assumes "ap_key st = replicate 32 (CHR ''k'')"
  shows "request_hmac st demo_row = Inr (ar_request_hmac demo_signed)"
    and "state_hmac st demo_row = Inr (ar_state_hmac demo_signed)"
    and "body_hmac st (PDict []) = Inr demo_digest"
  using assms demo_create_parts(9)
  by (simp_all add: request_hmac_def approval_key_def request_payload_def demo_row_def demo_signed_def state_hmac_def
      state_digest_def body_hmac_def demo_body demo_digest_def)

lemma demo_create:
  obtains e where "create_tx demo_approvals 0 ''0123456789abcdef'' demo_alice (PStr ''/api/settings/env'')
     (PDict []) (PStr ''configuration.write'') ''critical'' PNone PNone =
     Inr (ar_id demo_signed, demo_approvals\<lparr>ap_requests := [demo_signed], ap_events := [e]\<rparr>)"
proof -
  let ?d = "PDict [(''targetPath'', PStr ''/api/settings/env''), (''risk'', PStr ''critical''), (''bodyHmacSha256'', PStr demo_digest)]"
  have k: "ap_key demo_approvals = replicate 32 (CHR ''k'')" by (simp add: demo_approvals_def)
  have z: "ap_events demo_approvals = []" "ar_id demo_signed = ''approval-19700101T000000Z-0123456789abcdef''"
    by (simp_all add: demo_approvals_def demo_signed_def demo_row_def)
  have x: "expire demo_approvals 0 = Inr demo_approvals"
    by (rule expire_nothing) (simp add: demo_approvals_def)
  have i: "insert_request (demo_row\<lparr>ar_request_hmac := ar_request_hmac demo_signed, ar_state_hmac := ar_state_hmac demo_signed\<rparr>)
      demo_approvals = Inr (demo_approvals\<lparr>ap_requests := [demo_signed]\<rparr>)"
    by (simp add: insert_request_def demo_approvals_def demo_signed_def)
  have "length (ap_key (demo_approvals\<lparr>ap_requests := [demo_signed]\<rparr>)) = 32" by (simp add: k)
  then obtain e where e: "append_event (demo_approvals\<lparr>ap_requests := [demo_signed]\<rparr>)
      ''approval-19700101T000000Z-0123456789abcdef'' ''alice'' ''request'' None ''pending'' ?d 0 =
      Inr (demo_approvals\<lparr>ap_requests := [demo_signed], ap_events := ap_events (demo_approvals\<lparr>ap_requests := [demo_signed]\<rparr>) @ [e]\<rparr>)"
    by (rule append_event_total) (auto simp: py_or_def intro: that)
  have ttl: "request_ttl demo_approvals PNone = Inr 900" by (simp add: request_ttl_def demo_approvals_def)
  have ok: "create_tx demo_approvals 0 ''0123456789abcdef'' demo_alice (PStr ''/api/settings/env'')
     (PDict []) (PStr ''configuration.write'') ''critical'' PNone PNone =
     Inr (ar_id demo_signed, demo_approvals\<lparr>ap_requests := [demo_signed], ap_events := [e]\<rparr>)"
    using demo_hmacs [OF k] x i [unfolded demo_row_def, simplified] e ttl z
    by (simp add: create_tx_def demo_create_parts demo_body Let_def MAX_SUMMARY_BYTES_def demo_row_def [symmetric])
  then show thesis by (rule that)
qed

lemma demo_signed_ok:
  assumes "ap_key st = replicate 32 (CHR ''k'')"
  shows "verify_request_row st demo_signed = Inr demo_signed"
proof -
  have "request_hmac st demo_signed = request_hmac st demo_row"
    unfolding demo_signed_def by (rule request_hmac_signed)
  moreover have "ar_state_hmac demo_signed = state_digest (replicate 32 (CHR ''k'')) demo_signed"
    by (simp add: demo_signed_def state_digest_def state_payload_def)
  ultimately show ?thesis using demo_hmacs(1) [OF assms] assms by (simp add: verify_row_iff)
qed

lemma demo_fields:
  "ar_id demo_signed = ''approval-19700101T000000Z-0123456789abcdef''" "ar_state demo_signed = ''pending''"
  "ar_requester demo_signed = ''alice''" "ar_expires demo_signed = 900" "ar_target demo_signed = ''/api/settings/env''"
  "ar_capability demo_signed = ''configuration.write''" "ar_risk demo_signed = ''critical''"
  "ar_body_hmac demo_signed = demo_digest"
  by (simp_all add: demo_signed_def demo_row_def)

lemma demo_asked_is:
  obtains e where "demo_asked = demo_approvals\<lparr>ap_requests := [demo_signed], ap_events := [e]\<rparr>"
proof -
  obtain e where c: "create_tx demo_approvals 0 ''0123456789abcdef'' demo_alice (PStr ''/api/settings/env'')
     (PDict []) (PStr ''configuration.write'') ''critical'' PNone PNone =
     Inr (ar_id demo_signed, demo_approvals\<lparr>ap_requests := [demo_signed], ap_events := [e]\<rparr>)"
    by (rule demo_create)
  let ?st = "demo_approvals\<lparr>ap_requests := [demo_signed], ap_events := [e]\<rparr>"
  have "expire ?st 1 = Inr ?st" by (rule expire_nothing) (simp add: due_def demo_fields)
  moreover have "get_row ?st (PStr (ar_id demo_signed)) = Inr demo_signed"
    by (rule get_row_single) (use demo_create_parts demo_signed_ok demo_fields in \<open>simp_all add: demo_approvals_def\<close>)
  ultimately have "snd (get_request ?st 1 (PStr (ar_id demo_signed))) = ?st"
    by (simp add: get_request_def get_tx_def)
  then show thesis using c by (intro that [of e]) (simp add: demo_asked_def create_request_def)
qed

definition demo_approved :: "request_row" where
  "demo_approved = sealed (replicate 32 (CHR ''k'')) (demo_signed\<lparr>ar_state := ''approved'', ar_approver := Some ''bob'',
     ar_approver_name := Some ''bob'', ar_approved_at := Some 2, ar_decided_at := Some 2\<rparr>)"

lemma demo_approved_fields:
  "ar_id demo_approved = ar_id demo_signed" "ar_state demo_approved = ''approved''" "ar_approver demo_approved = Some ''bob''"
  "ar_requester demo_approved = ''alice''" "ar_expires demo_approved = 900" "ar_target demo_approved = ''/api/settings/env''"
  "ar_capability demo_approved = ''configuration.write''" "ar_risk demo_approved = ''critical''"
  "ar_body_hmac demo_approved = demo_digest"
  by (simp_all add: demo_approved_def sealed_def demo_fields)

lemma demo_granted_is:
  obtains es where "demo_granted = demo_approvals\<lparr>ap_requests := [demo_approved], ap_events := es\<rparr>"
proof -
  obtain e where st: "demo_asked = demo_approvals\<lparr>ap_requests := [demo_signed], ap_events := [e]\<rparr>" by (rule demo_asked_is)
  have x: "expire demo_asked 2 = Inr demo_asked" by (rule expire_nothing) (simp add: st due_def demo_fields)
  have g: "get_row demo_asked demo_request_id = Inr demo_signed"
    by (rule get_row_single) (use demo_create_parts demo_signed_ok demo_fields in \<open>simp_all add: st demo_approvals_def demo_request_id_def\<close>)
  let ?f = "\<lambda>r. r\<lparr>ar_state := ''approved'', ar_approver := Some ''bob'', ar_approver_name := Some ''bob'',
       ar_approved_at := Some 2, ar_decided_at := Some 2\<rparr>"
  have u: "update_state demo_asked demo_signed (ar_state demo_signed) ?f = Inr (1, demo_asked\<lparr>ap_requests := [demo_approved]\<rparr>)"
    using update_single [of demo_asked demo_signed ?f] by (simp add: st demo_approvals_def demo_approved_def)
  have "length (ap_key (demo_asked\<lparr>ap_requests := [demo_approved]\<rparr>)) = 32" by (simp add: st demo_approvals_def)
  then obtain e2 where a: "append_event (demo_asked\<lparr>ap_requests := [demo_approved]\<rparr>) (ar_id demo_signed) ''bob'' ''approve''
      (Some ''pending'') ''approved'' (PDict []) 2 =
      Inr (demo_asked\<lparr>ap_requests := [demo_approved], ap_events := ap_events (demo_asked\<lparr>ap_requests := [demo_approved]\<rparr>) @ [e2]\<rparr>)"
    by (rule append_event_total) (auto simp: py_or_def intro: that)
  have tx: "approve_tx demo_asked 2 demo_request_id demo_bob = Inr (demo_approvals\<lparr>ap_requests := [demo_approved], ap_events := [e, e2]\<rparr>)"
    using x g u a demo_create_parts(2) by (simp add: approve_tx_def demo_fields st)
  let ?st = "demo_approvals\<lparr>ap_requests := [demo_approved], ap_events := [e, e2]\<rparr>"
  have m: "approvals_inv demo_granted" using approvals_sim.reach_inv [OF demo_reach(3)] .
  have "snd (get_request ?st 3 demo_request_id) = ?st"
  proof -
    have "expire ?st 3 = Inr ?st" by (rule expire_nothing) (simp add: due_def demo_approved_fields)
    then show ?thesis by (auto simp: get_request_def get_tx_def split: sum.splits)
  qed
  then show thesis using tx by (intro that [of "[e, e2]"]) (simp add: demo_granted_def approve_def then_get_def)
qed

lemma demo_consume:
  obtains st' where "consume_tx demo_granted 4 demo_request_id demo_alice (PStr ''/api/settings/env'') (PDict [])
    (PStr ''configuration.write'') (PStr ''critical'') = Inr st'"
proof -
  obtain es where st: "demo_granted = demo_approvals\<lparr>ap_requests := [demo_approved], ap_events := es\<rparr>" by (rule demo_granted_is)
  have k: "ap_key demo_granted = replicate 32 (CHR ''k'')" by (simp add: st demo_approvals_def)
  have "approvals_inv demo_granted" using approvals_sim.reach_inv [OF demo_reach(3)] .
  then have v: "verify_request_row demo_granted demo_approved = Inr demo_approved" by (simp add: approvals_inv_def st)
  have x: "expire demo_granted 4 = Inr demo_granted" by (rule expire_nothing) (simp add: st due_def demo_approved_fields)
  have g: "get_row demo_granted demo_request_id = Inr demo_approved"
    by (rule get_row_single [OF _ v])
      (use demo_create_parts in \<open>simp_all add: st demo_request_id_def demo_fields demo_approved_fields\<close>)
  have d: "ascii demo_digest" by (simp add: demo_digest_def)
  have m: "mismatches demo_approved (PStr ''/api/settings/env'') demo_digest (PStr ''configuration.write'') (PStr ''critical'') = Inr []"
    using d by (simp add: mismatches_def demo_approved_fields compare_digest_def)
  let ?f = "\<lambda>r. r\<lparr>ar_state := ''consumed'', ar_consumed_by := Some ''alice'', ar_consumed_at := Some 4, ar_decided_at := Some 4\<rparr>"
  have u: "update_state demo_granted demo_approved (ar_state demo_approved) ?f =
      Inr (1, demo_granted\<lparr>ap_requests := [sealed (ap_key demo_granted) (?f demo_approved)]\<rparr>)"
    by (rule update_single) (simp_all add: st demo_approvals_def)
  let ?st2 = "demo_granted\<lparr>ap_requests := [sealed (ap_key demo_granted) (?f demo_approved)]\<rparr>"
  have "length (ap_key ?st2) = 32" by (simp add: k)
  then obtain e where "append_event ?st2 (ar_id demo_approved) ''alice'' ''consume'' (Some ''approved'') ''consumed''
      (PDict [(''bodyHmacSha256'', PStr demo_digest)]) 4 = Inr (?st2\<lparr>ap_events := ap_events ?st2 @ [e]\<rparr>)"
    by (rule append_event_total) (auto simp: py_or_def intro: that)
  then show thesis
    using x g m u demo_create_parts(1) demo_hmacs(3) [OF k]
    by (intro that) (simp add: consume_tx_def demo_approved_fields)
qed

end
