(* ===== verification/ApprovalsProps.thy ===== *)
theory ApprovalsProps
  imports ApprovalsDemo
begin

section \<open>Two-person approvals: properties\<close>

subsection \<open>A decided request stays decided\<close>

definition terminal :: "request_row \<Rightarrow> bool" where
  "terminal r = (ar_state r \<in> set TERMINAL_STATES)"

lemma legal_from_live: "legal r q \<Longrightarrow> \<not> terminal r"
  by (erule legalE) (auto simp: terminal_def TERMINAL_STATES_def)

lemma move_keeps_terminal:
  assumes "approval_move st st'" and "r \<in> set (ap_requests st)" and "terminal r"
  shows "r \<in> set (ap_requests st')"
  using assms(1)
proof cases
  case (move_create q who d t)
  then have "ap_requests st' = ap_requests st @ [q]" by (elim append_event_cases) simp
  then show ?thesis using assms(2) by simp
next
  case (move_state q q' who action d t)
  then have "ap_requests st' = update_where (\<lambda>x. x = q) (\<lambda>_. sealed (ap_key st) q') (ap_requests st)"
    by (elim append_event_cases) simp
  moreover have "r \<noteq> q" using legal_from_live [OF move_state(3)] assms(3) by metis
  ultimately show ?thesis using kept_row [OF assms(2)] by simp
qed

lemma moves_keep_terminal:
  "steps approval_move st st' \<Longrightarrow> r \<in> set (ap_requests st) \<Longrightarrow> terminal r \<Longrightarrow> r \<in> set (ap_requests st')"
  by (induction rule: steps.induct) (blast intro: move_keeps_terminal)+

lemma steps_moves:
  assumes "steps approval_step st st'" and "distinct_requests st"
  shows "steps approval_move st st' \<and> distinct_requests st'"
  using assms
proof (induction rule: steps.induct)
  case (steps_refl st)
  then show ?case by (simp add: steps.steps_refl)
next
  case (steps_step st t u)
  then have m: "steps approval_move st t" and d: "distinct_requests t" by auto
  have n: "steps approval_move t u" using steps_step.hyps(2) d by (rule approval_step_moves)
  show ?case using steps_trans [OF n m] approval_moves_distinct [OF n d] by simp
qed

lemma decides_row:
  assumes "decides st now i f r st'" and "distinct_requests st" and "immutable (f r) = immutable r"
  obtains q where "q \<in> set (ap_requests st')" "ar_id q = strip (str_or_empty i)" "ar_state q = ar_state (f r)"
    "ar_consumed_by q = ar_consumed_by (f r)" "immutable q = immutable r" "distinct_requests st'"
proof -
  from assms(1) obtain st1 where s: "steps approval_move st st1" "r \<in> set (ap_requests st1)"
    "ar_id r = strip (str_or_empty i)" "approval_move st1 st'"
    "ap_requests st' = update_where (\<lambda>x. x = r) (\<lambda>_. sealed (ap_key st1) (f r)) (ap_requests st1)"
    by (auto simp: decides_def)
  let ?q = "sealed (ap_key st1) (f r)"
  have im: "immutable ?q = immutable r" using assms(3) by simp
  have "?q \<in> set (ap_requests st')" using s(2,5) by (auto simp: update_where_def image_iff)
  moreover have "ar_id ?q = strip (str_or_empty i)" using immutable_fields(1) [OF im] s(3) by simp
  moreover have "distinct_requests st'" using approval_moves_distinct s(1,4) approval_move_distinct assms(2) by blast
  ultimately show ?thesis using that im by simp
qed

subsection \<open>Runs\<close>

text \<open>
  C3. Every run of the approval store is a run of the abstract two-person protocol: the
  operations, in whatever order and with whatever failures, only ever ask, grant by another
  identity, spend a grant, refuse, withdraw or let lapse.
\<close>

theorem approvals_refine_protocol:
  assumes "reach approvals_init approval_step st" and "steps approval_step st st'"
  shows "steps protocol_step (protocol_of st) (protocol_of st')"
  using approvals_sim.run_refines [OF assms(2) approvals_sim.reach_inv [OF assms(1)]] .

theorem approvals_refine_protocol_witness:
  "steps protocol_step (protocol_of demo_approvals) (protocol_of demo_asked)"
  by (rule approvals_refine_protocol [OF demo_reach(1)], unfold demo_asked_def, rule steps_one, rule ap_create)

text \<open>
  C4. In every reachable state, a request that was approved or consumed names an approver
  who is not its requester, and a consumed one was consumed by its requester, before it
  expired.
\<close>

theorem approvals_need_two_people:
  assumes "reach approvals_init approval_step st" and "r \<in> set (ap_requests st)"
    and "ar_state r = ''approved'' \<or> ar_state r = ''consumed''"
  shows "\<exists>a. ar_approver r = Some a \<and> a \<noteq> ar_requester r \<and>
    (ar_state r = ''consumed'' \<longrightarrow> ar_consumed_by r = Some (ar_requester r) \<and>
       (\<exists>t. ar_consumed_at r = Some t \<and> t < ar_expires r))"
proof -
  have "two_person r" using approvals_sim.reach_inv [OF assms(1)] assms(2) by (auto simp: approvals_inv_def)
  then show ?thesis using assms(3) by (auto simp: two_person_def)
qed

theorem approvals_need_two_people_witness:
  "demo_approved \<in> set (ap_requests demo_granted) \<and> (\<exists>a. ar_approver demo_approved = Some a \<and> a \<noteq> ar_requester demo_approved)"
proof
  obtain es where st: "demo_granted = demo_approvals\<lparr>ap_requests := [demo_approved], ap_events := es\<rparr>" by (rule demo_granted_is)
  have "ap_requests demo_granted = [demo_approved]" unfolding st by simp
  then show m: "demo_approved \<in> set (ap_requests demo_granted)" by simp
  show "\<exists>a. ar_approver demo_approved = Some a \<and> a \<noteq> ar_requester demo_approved"
    using approvals_need_two_people [OF demo_reach(3) m] demo_approved_fields(2) by auto
qed

lemma first_failed_none:
  "\<forall>r\<in>set rows. verify_request_row st r = Inr r \<Longrightarrow> first_failed st rows = Inr None"
  by (induction rows) auto

lemma reachable_verifies:
  assumes "approvals_inv st"
  shows "verify_approvals st = Inr (AllVerified (length (ap_events st)) (length (ap_requests st))
    (chain_head ev_hmac ZERO_HASH (ap_events st)))"
proof -
  have f: "first_failed st (sort_key (\<lambda>r. (ar_created r, ar_id r)) (ap_requests st)) = Inr None"
    by (rule first_failed_none) (use assms in \<open>simp add: approvals_inv_def\<close>)
  have k: "approval_key st = Inr (ap_key st)" using assms by (simp add: approvals_inv_def)
  have "verify_events (ap_key st) ZERO_HASH 0 (ap_events st) =
      Inr (Inr (0 + length (ap_events st), chain_head ev_hmac ZERO_HASH (ap_events st)))"
    by (rule chain_verify_events) (use assms in \<open>simp_all add: approvals_inv_def approval_log.intact_def\<close>)
  then show ?thesis unfolding verify_approvals_def f k by simp
qed

text \<open>
  C13. In every reachable state the audit verifies everything: \<^verbatim>\<open>verify\<close> counts all requests
  and events and returns the head of the log, and the events of each request lead, each from
  the state the one before it reached, to the state the request is in.
\<close>

theorem approvals_audit_complete:
  assumes "reach approvals_init approval_step st"
  shows "verify_approvals st = Inr (AllVerified (length (ap_events st)) (length (ap_requests st))
      (chain_head ev_hmac ZERO_HASH (ap_events st))) \<and>
    (\<forall>r\<in>set (ap_requests st). follows None (trail (ar_id r) (ap_events st)) \<and>
      end_state None (trail (ar_id r) (ap_events st)) = Some (ar_state r))"
  using approvals_sim.reach_inv [OF assms] reachable_verifies
  by (simp add: approvals_inv_def logged_def)

theorem approvals_audit_complete_witness:
  "verify_approvals demo_granted = Inr (AllVerified (length (ap_events demo_granted)) (length (ap_requests demo_granted))
      (chain_head ev_hmac ZERO_HASH (ap_events demo_granted)))"
  using approvals_audit_complete [OF demo_reach(3)] by simp

text \<open>A consumed request is not consumed again, whatever happens in between.\<close>

lemma consumed_stays:
  assumes "distinct_requests st'" and "q \<in> set (ap_requests st')" and "ar_state q = ''consumed''"
    and "steps approval_step st' st''" and "strip (str_or_empty i) = ar_id q"
  shows "isl (fst (consume st'' now later i who target body capability risk))"
proof (cases "consume_tx st'' now i who target body capability risk")
  case (Inl e)
  then show ?thesis by (simp add: consume_def then_get_def)
next
  case (Inr st3)
  have d2: "distinct_requests st''" and m: "steps approval_move st' st''" using steps_moves [OF assms(4,1)] by simp_all
  have t: "terminal q" using assms(3) by (simp add: terminal_def TERMINAL_STATES_def)
  from Inr d2 show ?thesis
  proof (rule consume_decides)
    fix r f assume r: "ar_state r = ''approved''" and dec: "decides st'' now i f r st3"
    obtain st1 where st1: "steps approval_move st'' st1" "r \<in> set (ap_requests st1)" "ar_id r = strip (str_or_empty i)"
      using dec by (auto simp: decides_def)
    have "q \<in> set (ap_requests st1)"
      using moves_keep_terminal [OF m assms(2) t] moves_keep_terminal [OF st1(1) _ t] by blast
    moreover have "distinct_requests st1" using approval_moves_distinct [OF st1(1) d2] by simp
    ultimately have "q = r"
      using st1(2,3) assms(5) distinct_map_unique unfolding distinct_requests_def by metis
    then show ?thesis using assms(3) r by simp
  qed
qed

text \<open>
  C5. An approval authorises exactly one execution of exactly what was approved: when
  \<^verbatim>\<open>consume\<close> commits, the request of the store with the given identifier was approved and
  unexpired, the caller is its requester, path, capability, risk and the digest of the body
  are those it was stored with, and the store now holds it as consumed by the caller; and
  after any later operations, no call consumes that request again.
\<close>

theorem consume_exact_and_once:
  assumes "distinct_requests st" and "consume_tx st now i who target body capability risk = Inr st'"
  shows "\<exists>a. actor_of who = Inr a \<and> (\<exists>r\<in>set (ap_requests st). ar_id r = strip (str_or_empty i) \<and>
      ar_state r = ''approved'' \<and> ar_requester r = act_id a \<and> now < ar_expires r \<and>
      ar_target r = py_str target \<and> body_hmac st body = Inr (ar_body_hmac r) \<and>
      ar_capability r = py_str capability \<and> ar_risk r = py_str risk) \<and>
    (\<exists>q\<in>set (ap_requests st'). ar_id q = strip (str_or_empty i) \<and> ar_state q = ''consumed'' \<and> ar_consumed_by q = Some (act_id a)) \<and>
    (\<forall>st'' now' later' i' who' target' body' capability' risk'. steps approval_step st' st'' \<longrightarrow>
       str_or_empty i' = str_or_empty i \<longrightarrow>
       isl (fst (consume st'' now' later' i' who' target' body' capability' risk')))"
  using assms(2,1)
proof (rule consume_decides)
  fix a digest r
  let ?f = "\<lambda>r. r\<lparr>ar_state := ''consumed'', ar_consumed_by := Some (ar_requester r), ar_consumed_at := Some now,
       ar_decided_at := Some now\<rparr>"
  assume *: "actor_of who = Inr a" "body_hmac st body = Inr digest" "r \<in> set (ap_requests st)" "ar_state r = ''approved''"
    "ar_requester r = act_id a" "now < ar_expires r" "ar_target r = py_str target" "ar_body_hmac r = digest"
    "ar_capability r = py_str capability" "ar_risk r = py_str risk" "decides st now i ?f r st'"
  have "immutable (?f r) = immutable r" by (simp add: immutable_def)
  then obtain q where q: "q \<in> set (ap_requests st')" "ar_id q = strip (str_or_empty i)" "ar_state q = ''consumed''"
      "ar_consumed_by q = Some (act_id a)" and d': "distinct_requests st'"
    using decides_row [OF *(11) assms(1)] *(5) by auto
  have "ar_id r = strip (str_or_empty i)" using *(11) by (auto simp: decides_def)
  moreover have "isl (fst (consume st'' now' later' i' who' target' body' capability' risk'))"
    if "steps approval_step st' st''" and "str_or_empty i' = str_or_empty i"
    for st'' now' later' i' who' target' body' capability' risk'
    using consumed_stays [OF d' q(1,3) that(1)] q(2) that(2) by simp
  ultimately show ?thesis using * q by blast
qed

theorem consume_exact_and_once_witness:
  "\<exists>st'. consume_tx demo_granted 4 demo_request_id demo_alice (PStr ''/api/settings/env'') (PDict [])
      (PStr ''configuration.write'') (PStr ''critical'') = Inr st' \<and>
    (\<exists>q\<in>set (ap_requests st'). ar_state q = ''consumed'' \<and> ar_consumed_by q = Some ''alice'') \<and>
    isl (fst (consume st' 5 6 demo_request_id demo_alice (PStr ''/api/settings/env'') (PDict [])
      (PStr ''configuration.write'') (PStr ''critical'')))"
proof -
  have d: "distinct_requests demo_granted" using inv_distinct approvals_sim.reach_inv [OF demo_reach(3)] by blast
  obtain st' where tx: "consume_tx demo_granted 4 demo_request_id demo_alice (PStr ''/api/settings/env'') (PDict [])
    (PStr ''configuration.write'') (PStr ''critical'') = Inr st'" by (rule demo_consume)
  obtain a where a: "actor_of demo_alice = Inr a"
    "\<exists>q\<in>set (ap_requests st'). ar_state q = ''consumed'' \<and> ar_consumed_by q = Some (act_id a)"
    "isl (fst (consume st' 5 6 demo_request_id demo_alice (PStr ''/api/settings/env'') (PDict [])
      (PStr ''configuration.write'') (PStr ''critical'')))"
    using consume_exact_and_once [OF d tx] steps_refl [of approval_step st'] by blast
  then have "act_id a = ''alice''" using demo_create_parts(1) by auto
  then show ?thesis using tx a by auto
qed

subsection \<open>Evidence of tampering\<close>

lemma verified_parts:
  assumes "verify_approvals st = Inr (AllVerified n m h)"
  shows "first_failed st (sort_key (\<lambda>r. (ar_created r, ar_id r)) (ap_requests st)) = Inr None"
    and "verify_events (ap_key st) ZERO_HASH 0 (ap_events st) = Inr (Inr (n, h))"
    and "length (ap_key st) = 32" and "m = length (ap_requests st)"
proof -
  obtain v where v: "first_failed st (sort_key (\<lambda>r. (ar_created r, ar_id r)) (ap_requests st)) = Inr None"
      "length (ap_key st) = 32" "verify_events (ap_key st) ZERO_HASH 0 (ap_events st) = Inr v"
      "(case v of Inl (c, s) \<Rightarrow> EventFails c s | Inr (c, x) \<Rightarrow> AllVerified c (length (ap_requests st)) x) = AllVerified n m h"
    using assms by (auto simp: verify_approvals_def case_option_Inr)
  then show "first_failed st (sort_key (\<lambda>r. (ar_created r, ar_id r)) (ap_requests st)) = Inr None"
    "verify_events (ap_key st) ZERO_HASH 0 (ap_events st) = Inr (Inr (n, h))"
    "length (ap_key st) = 32" "m = length (ap_requests st)"
    by (cases v; auto split: prod.splits)+
qed

lemma verified_events:
  assumes "verify_approvals st = Inr (AllVerified n m h)"
  shows "approval_log.intact (ap_key st) (ap_events st) \<and> (\<forall>e\<in>set (ap_events st). event_readable e) \<and>
    n = length (ap_events st) \<and> h = chain_head ev_hmac ZERO_HASH (ap_events st)"
  using verify_events_chain [OF verified_parts(2) [OF assms]] by (simp add: approval_log.intact_def)

text \<open>
  What the digest of an event covers: the request, the time and the details as they are
  written into the hashed text, the actor, the action and the states.
\<close>

definition event_facts :: "event_row \<Rightarrow> string \<times> string \<times> string \<times> string \<times> string option \<times> string \<times> string" where
  "event_facts e = (ev_request e, canonical (PFloat (ev_occurred e)), ev_actor e, ev_action e, ev_previous_state e, ev_state e,
     case json_loads (ev_details_json e) of Inl _ \<Rightarrow> [] | Inr d \<Rightarrow> canonical d)"

lemma canonical_none: "canonical PNone \<noteq> canonical (PStr t)"
proof
  assume "canonical PNone = canonical (PStr t)"
  then have "hd (canonical PNone) = hd (canonical (PStr t))" by simp
  then have "CHR ''n'' = quote" by (simp add: canonical_def json_string_def)
  moreover have "CHR ''n'' \<noteq> quote" by code_simp
  ultimately show False by simp
qed

lemma canonical_p_text [simp]: "canonical (p_text s) = canonical (p_text t) \<longleftrightarrow> s = t"
  by (cases s; cases t) (simp_all add: p_text_def canonical_none canonical_none [symmetric])

lemma event_text_facts:
  assumes "event_readable e" and "event_readable e'" and eq: "event_text e = event_text e'"
  shows "event_facts e = event_facts e'"
proof -
  obtain d d' where l: "json_loads (ev_details_json e) = Inr d" "json_loads (ev_details_json e') = Inr d'"
    using assms(1,2) by (auto simp: event_readable_def)
  then have c: "canonical (event_payload e d (ev_previous_hmac e)) = canonical (event_payload e' d' (ev_previous_hmac e'))"
    using eq by (simp add: event_text_def event_message_def)
  note f = canonical_field_texts [OF c [unfolded event_payload_def]]
  show ?thesis
    using event_text_prev [OF assms] f [of "''occurredAt''"] f [of "''details''"] f [of "''previousState''"]
    by (simp add: event_facts_def l)
qed

text \<open>
  C24. The audited head of the event log commits to the log: two logs with the same number of
  events that both verify under one key with the same head agree, event by event, in the
  request, the written time, the actor, the action, both states, the canonical text of the
  details, the link and the keyed hash, or they exhibit two different texts with the same
  HMAC.  The digest does not cover the sequence numbers and the layout of the stored details.
\<close>

theorem approval_log_tamper_evident:
  assumes "verify_approvals st = Inr (AllVerified n m h)" and "verify_approvals st' = Inr (AllVerified n m' h)"
    and "ap_key st' = ap_key st"
  shows "map (\<lambda>e. (event_facts e, ev_previous_hmac e, ev_hmac e)) (ap_events st) =
      map (\<lambda>e. (event_facts e, ev_previous_hmac e, ev_hmac e)) (ap_events st') \<or>
    (\<exists>e\<in>set (ap_events st). \<exists>e'\<in>set (ap_events st'). collision (hmac_hex (ap_key st)) (event_text e) (event_text e'))"
  using verified_events [OF assms(1)] verified_events [OF assms(2)] assms(3) event_text_facts
  by (intro approval_log.same_head_same_rows) auto

text \<open>The events of another log, with other sequence numbers, under the same head.\<close>

definition renumbered :: "approvals \<Rightarrow> approvals" where
  "renumbered st = st\<lparr>ap_events := map (\<lambda>e. e\<lparr>ev_sequence := ev_sequence e + 7\<rparr>) (ap_events st)\<rparr>"

lemma renumbered_events_is:
  "ap_events (renumbered st) = map (\<lambda>e. e\<lparr>ev_sequence := ev_sequence e + 7\<rparr>) (ap_events st)"
  by (simp add: renumbered_def)

lemma renumbered_events:
  "verify_events key p n (map (\<lambda>e. e\<lparr>ev_sequence := ev_sequence e + 7\<rparr>) es) = Inr (Inr r) \<longleftrightarrow>
     verify_events key p n es = Inr (Inr r)"
  by (induction es arbitrary: p n) (auto simp: event_message_def event_payload_def Let_def bind_res_Inr_iff)

lemma renumbered_verifies:
  assumes "verify_approvals st = Inr (AllVerified n m h)"
  shows "verify_approvals (renumbered st) = Inr (AllVerified n m h)"
proof -
  have f: "first_failed (renumbered st) rows = first_failed st rows" for rows
    by (induction rows) (auto simp: renumbered_def verify_row_key [of "st\<lparr>ap_events := es\<rparr>" st for es] split: sum.splits pyerr.splits)
  have k: "approval_key (renumbered st) = approval_key st" by (simp add: approval_key_def renumbered_def)
  have r: "ap_requests (renumbered st) = ap_requests st" "ap_key (renumbered st) = ap_key st" by (simp_all add: renumbered_def)
  have e: "verify_events (ap_key st) ZERO_HASH 0 (ap_events (renumbered st)) = Inr (Inr (n, h))"
    using verified_parts(2) [OF assms] by (simp only: renumbered_events_is renumbered_events)
  show ?thesis
    using verified_parts [OF assms] e by (simp add: verify_approvals_def f k r)
qed

theorem approval_log_tamper_evident_witness:
  "ap_events (renumbered demo_asked) \<noteq> ap_events demo_asked \<and>
   (map event_facts (ap_events demo_asked) = map event_facts (ap_events (renumbered demo_asked)) \<or>
    (\<exists>e\<in>set (ap_events demo_asked). \<exists>e'\<in>set (ap_events (renumbered demo_asked)).
       collision (hmac_hex (ap_key demo_asked)) (event_text e) (event_text e')))"
proof -
  obtain e where "demo_asked = demo_approvals\<lparr>ap_requests := [demo_signed], ap_events := [e]\<rparr>" by (rule demo_asked_is)
  from arg_cong [OF this, of ap_events] have e: "ap_events demo_asked = [e]" by simp
  have v: "verify_approvals demo_asked = Inr (AllVerified 1 (length (ap_requests demo_asked)) (chain_head ev_hmac ZERO_HASH [e]))"
    using reachable_verifies [OF approvals_sim.reach_inv [OF demo_reach(2)]] by (simp add: e)
  have k: "ap_key (renumbered demo_asked) = ap_key demo_asked" by (simp add: renumbered_def)
  have "e\<lparr>ev_sequence := ev_sequence e + 7\<rparr> \<noteq> e"
  proof
    assume "e\<lparr>ev_sequence := ev_sequence e + 7\<rparr> = e"
    from arg_cong [OF this, of ev_sequence] show False by simp
  qed
  then have "ap_events (renumbered demo_asked) \<noteq> ap_events demo_asked" by (simp add: renumbered_events_is e)
  moreover have "map event_facts xs = map event_facts ys"
    if "map (\<lambda>e. (event_facts e, ev_previous_hmac e, ev_hmac e)) xs = map (\<lambda>e. (event_facts e, ev_previous_hmac e, ev_hmac e)) ys"
    for xs ys using arg_cong [OF that, of "map fst"] by (simp add: comp_def)
  ultimately show ?thesis
    using approval_log_tamper_evident [OF v renumbered_verifies [OF v] k] by blast
qed

subsection \<open>What a reviewer sees\<close>

text \<open>
  What a reviewer may see under the key \<open>k\<close>: no value under a secret key but the placeholder,
  and texts and arrays of bounded size.
\<close>

fun hides :: "string \<Rightarrow> review \<Rightarrow> bool" where
  "hides k (RDict kvs) = (\<not> secret_key k \<and> (\<forall>p\<in>set kvs. hides (fst p) (snd p)))"
| "hides k (RList vs) = (\<not> secret_key k \<and> length vs \<le> 201 \<and> (\<forall>v\<in>set vs. hides k v))"
| "hides k (RText s shortened) = (length s \<le> 2000 \<and> (secret_key k \<longrightarrow> s = ''[redacted]'' \<and> \<not> shortened))"
| "hides k (RValue v) = (\<not> secret_key k)"

text \<open>A value with no secret key in it, short texts and short arrays.\<close>

fun harmless :: "string \<Rightarrow> pyval \<Rightarrow> bool" where
  "harmless k (PDict kvs) = (\<not> secret_key k \<and> (\<forall>p\<in>set kvs. harmless (fst p) (snd p)))"
| "harmless k (PList vs) = (\<not> secret_key k \<and> length vs \<le> 200 \<and> (\<forall>v\<in>set vs. harmless k v))"
| "harmless k (PStr s) = (\<not> secret_key k \<and> length s \<le> 2000)"
| "harmless k v = (\<not> secret_key k)"

lemma redacted_hides: "hides k (redacted_body k v)"
proof (induction k v rule: redacted_body.induct)
  case (1 k v)
  then show ?case
    by (cases "secret_key k"; cases v) (auto simp: redacted_body.simps dest: in_set_takeD)
qed

lemma map_res_id: "(\<And>x. x \<in> set xs \<Longrightarrow> f (g x) = Inr x) \<Longrightarrow> map_res f (map g xs) = Inr xs"
  by (induction xs) auto

lemma redacted_shows: "harmless k v \<Longrightarrow> review_value (redacted_body k v) = Inr v"
proof (induction k v rule: redacted_body.induct)
  case (1 k v)
  note s = redacted_body.simps [of k v]
  show ?case
  proof (cases v)
    case (PDict kvs)
    then have "map_res (\<lambda>(child, item). bind_res (review_value item) (\<lambda>v. Inr (child, v)))
        (map (\<lambda>(child, item). (child, redacted_body child item)) kvs) = Inr kvs"
      using 1 by (intro map_res_id) auto
    then show ?thesis using PDict "1.prems" s by simp
  next
    case (PList vs)
    then have "map_res review_value (map (redacted_body k) vs) = Inr vs"
      using 1 by (intro map_res_id) auto
    then show ?thesis using PList "1.prems" s by simp
  qed (use "1.prems" s in simp_all)
qed



end
