(* ===== verification/ApprovalsProgress.thy ===== *)
theory ApprovalsProgress
  imports ApprovalsDemo
begin

section \<open>Two-person approvals: a live request can be finished\<close>

text \<open>
  No operation can fail for want of something another request left behind: expiring what is
  overdue always succeeds and keeps every other row, so the decision a live request waits for
  can always be taken.
\<close>

subsection \<open>The stages cannot fail\<close>

lemma inv_key: "approvals_inv st \<Longrightarrow> length (ap_key st) = 32"
  and inv_row: "approvals_inv st \<Longrightarrow> r \<in> set (ap_requests st) \<Longrightarrow> verify_request_row st r = Inr r"
  by (simp_all add: approvals_inv_def)

text \<open>A legal change of a row of a sound store, logged with a readable detail, goes through.\<close>

lemma change_total:
  assumes inv: "approvals_inv st" and r: "r \<in> set (ap_requests st)" and "legal r (f r)"
    and "json_plain (py_or d (PDict []))"
  obtains st1 st' where "update_state st r (ar_state r) f = Inr (1, st1)"
    and "append_event st1 (ar_id r) who action (Some (ar_state r)) (ar_state (f r)) d t = Inr st'"
    and "approvals_inv st'" and "ap_key st' = ap_key st"
    and "ap_requests st' = update_where (\<lambda>x. x = r) (\<lambda>_. sealed (ap_key st) (f r)) (ap_requests st)"
proof -
  have k: "length (ap_key st) = 32" and d: "distinct_requests st" using inv inv_key inv_distinct by auto
  obtain n st1 where u: "update_state st r (ar_state r) f = Inr (n, st1)"
    using k by (simp add: update_state_def state_hmac_def approval_key_def)
  have s: "n = 1" "st1 = st\<lparr>ap_requests := update_where (\<lambda>x. x = r) (\<lambda>_. sealed (ap_key st) (f r)) (ap_requests st)\<rparr>"
    using update_state_row [OF d [unfolded distinct_requests_def] r refl u] by simp_all
  have "length (ap_key st1) = 32" using k s by simp
  then obtain st' where a: "append_event st1 (ar_id r) who action (Some (ar_state r)) (ar_state (f r)) d t = Inr st'"
    using assms(4) by (rule append_event_total) blast
  note m = state_change_move [OF d r inv_row [OF inv r] u assms(3) a]
  show thesis
    by (rule that [OF u [unfolded s(1)] a move_keeps_inv [OF m(1) inv] _ m(2)])
      (use approval_move_distinct [OF m(1) d] in simp)
qed

lemma no_details: "json_plain (py_or (PDict []) (PDict []))"
  by (simp add: py_or_def)

lemma expire_row_total:
  assumes "approvals_inv st" and "r \<in> set (ap_requests st)" and "due now r"
  obtains st' where "expire_row now st r = Inr st'" "approvals_inv st'" "ap_key st' = ap_key st"
    "\<forall>x\<in>set (ap_requests st). x \<noteq> r \<longrightarrow> x \<in> set (ap_requests st')"
proof -
  let ?f = "\<lambda>r. r\<lparr>ar_state := ''expired'', ar_decided_at := Some now\<rparr>"
  have lg: "legal r (?f r)" using assms(3) by (intro legal_expire) (auto simp: due_def)
  obtain st1 st' where u: "update_state st r (ar_state r) ?f = Inr (1, st1)"
    and a: "append_event st1 (ar_id r) ''system'' ''expire'' (Some (ar_state r)) (ar_state (?f r)) (PDict []) now = Inr st'"
    and i: "approvals_inv st'" "ap_key st' = ap_key st"
    and q: "ap_requests st' = update_where (\<lambda>x. x = r) (\<lambda>_. sealed (ap_key st) (?f r)) (ap_requests st)"
    by (rule change_total [where f = ?f and who = "''system''" and action = "''expire''" and t = now, OF assms(1,2) lg no_details])
  have "expire_row now st r = Inr st'" using u a inv_row [OF assms(1,2)] by (simp add: expire_row_def)
  moreover have "\<forall>x\<in>set (ap_requests st). x \<noteq> r \<longrightarrow> x \<in> set (ap_requests st')" unfolding q using kept_row by metis
  ultimately show thesis using that i by blast
qed

lemma expire_rows_total:
  assumes "approvals_inv st" and "distinct rows" and "set rows \<subseteq> set (ap_requests st)" and "\<forall>r\<in>set rows. due now r"
  shows "\<exists>st'. fold_res (expire_row now) st rows = Inr st' \<and> approvals_inv st' \<and> ap_key st' = ap_key st \<and>
    (\<forall>x\<in>set (ap_requests st). x \<notin> set rows \<longrightarrow> x \<in> set (ap_requests st'))"
  using assms
proof (induction rows arbitrary: st)
  case Nil
  then show ?case by simp
next
  case (Cons r rows)
  obtain st1 where s: "expire_row now st r = Inr st1" "approvals_inv st1" "ap_key st1 = ap_key st"
    "\<forall>x\<in>set (ap_requests st). x \<noteq> r \<longrightarrow> x \<in> set (ap_requests st1)"
    using expire_row_total [OF Cons.prems(1), of r now] Cons.prems(3,4) by auto
  have "set rows \<subseteq> set (ap_requests st1)" using s(4) Cons.prems(2,3) by auto
  then obtain st' where "fold_res (expire_row now) st1 rows = Inr st'" "approvals_inv st'" "ap_key st' = ap_key st1"
    "\<forall>x\<in>set (ap_requests st1). x \<notin> set rows \<longrightarrow> x \<in> set (ap_requests st')"
    using Cons.IH [OF s(2)] Cons.prems(2,4) by auto
  then show ?case using s by auto
qed

lemma expire_total:
  assumes "approvals_inv st"
  obtains st' where "expire st now = Inr st'" "approvals_inv st'" "ap_key st' = ap_key st"
    "\<forall>x\<in>set (ap_requests st). \<not> due now x \<longrightarrow> x \<in> set (ap_requests st')"
proof -
  let ?rows = "sort_key (\<lambda>r. (ar_created r, ar_id r)) (filter (due now) (ap_requests st))"
  have "distinct (ap_requests st)"
    using inv_distinct [OF assms] by (simp add: distinct_requests_def distinct_map)
  then have "\<exists>st'. fold_res (expire_row now) st ?rows = Inr st' \<and> approvals_inv st' \<and> ap_key st' = ap_key st \<and>
    (\<forall>x\<in>set (ap_requests st). x \<notin> set ?rows \<longrightarrow> x \<in> set (ap_requests st'))"
    by (intro expire_rows_total [OF assms]) auto
  then show thesis using that by (auto simp: expire_def)
qed

lemma get_row_total:
  assumes "approvals_inv st" and "r \<in> set (ap_requests st)" and "strip (str_or_empty i) = ar_id r" and "request_id_ok (ar_id r)"
  shows "get_row st i = Inr r"
proof -
  have "row_where (\<lambda>x. ar_id x = ar_id r) (ap_requests st) = Some r"
    by (rule row_where_unique) (use assms inv_distinct distinct_requests_def in auto)
  then show ?thesis using assms inv_row by (simp add: get_row_def)
qed

subsection \<open>Deciding\<close>

lemma approve_total:
  assumes "approvals_inv st" and "r \<in> set (ap_requests st)" and "ar_state r = ''pending''" and "now < ar_expires r"
    and "strip (str_or_empty i) = ar_id r" and "request_id_ok (ar_id r)"
    and "actor_of who = Inr a" and "act_id a \<noteq> ar_requester r"
  obtains st' where "approve_tx st now i who = Inr st'" "approvals_inv st'" "ap_key st' = ap_key st"
    "sealed (ap_key st) (r\<lparr>ar_state := ''approved'', ar_approver := Some (act_id a), ar_approver_name := Some (act_name a),
       ar_approved_at := Some now, ar_decided_at := Some now\<rparr>) \<in> set (ap_requests st')"
proof -
  let ?f = "\<lambda>r. r\<lparr>ar_state := ''approved'', ar_approver := Some (act_id a), ar_approver_name := Some (act_name a),
       ar_approved_at := Some now, ar_decided_at := Some now\<rparr>"
  obtain st1 where e: "expire st now = Inr st1" "approvals_inv st1" "ap_key st1 = ap_key st" and r: "r \<in> set (ap_requests st1)"
    using assms(2,4) by (rule_tac expire_total [OF assms(1), of now]) (auto simp: due_def)
  have lg: "legal r (?f r)" using assms(3,4,8) by (intro legal_approve) auto
  obtain st2 st' where u: "update_state st1 r (ar_state r) ?f = Inr (1, st2)"
    and a: "append_event st2 (ar_id r) (act_id a) ''approve'' (Some (ar_state r)) (ar_state (?f r)) (PDict []) now = Inr st'"
    and i: "approvals_inv st'" "ap_key st' = ap_key st1"
    and q: "ap_requests st' = update_where (\<lambda>x. x = r) (\<lambda>_. sealed (ap_key st1) (?f r)) (ap_requests st1)"
    by (rule change_total [where f = ?f and who = "act_id a" and action = "''approve''" and t = now, OF e(2) r lg no_details])
  have "approve_tx st now i who = Inr st'"
    using assms(3,7,8) e(1) get_row_total [OF e(2) r assms(5,6)] u a by (simp add: approve_tx_def)
  moreover have "sealed (ap_key st) (?f r) \<in> set (ap_requests st')"
    using r e(3) by (auto simp: q update_where_def intro: rev_image_eqI)
  ultimately show thesis using i e(3) by (intro that) simp_all
qed

lemma consume_total:
  assumes "approvals_inv st" and "r \<in> set (ap_requests st)" and "ar_state r = ''approved''" and "now < ar_expires r"
    and "strip (str_or_empty i) = ar_id r" and "request_id_ok (ar_id r)"
    and "actor_of who = Inr a" and "act_id a = ar_requester r" and "body_hmac st body = Inr (ar_body_hmac r)"
  obtains st' where "consume_tx st now i who (PStr (ar_target r)) body (PStr (ar_capability r)) (PStr (ar_risk r)) = Inr st'"
    "sealed (ap_key st) (r\<lparr>ar_state := ''consumed'', ar_consumed_by := Some (ar_requester r), ar_consumed_at := Some now,
       ar_decided_at := Some now\<rparr>) \<in> set (ap_requests st')"
proof -
  let ?f = "\<lambda>r. r\<lparr>ar_state := ''consumed'', ar_consumed_by := Some (act_id a), ar_consumed_at := Some now, ar_decided_at := Some now\<rparr>"
  let ?d = "PDict [(''bodyHmacSha256'', PStr (ar_body_hmac r))]"
  obtain st1 where e: "expire st now = Inr st1" "approvals_inv st1" "ap_key st1 = ap_key st" and r: "r \<in> set (ap_requests st1)"
    using assms(2,4) by (rule_tac expire_total [OF assms(1), of now]) (auto simp: due_def)
  have lg: "legal r (?f r)" unfolding assms(8) using assms(3,4) by (rule legal_consume)
  have d: "json_plain (py_or ?d (PDict []))" by (simp add: py_or_def)
  obtain st2 st' where u: "update_state st1 r (ar_state r) ?f = Inr (1, st2)"
    and ev: "append_event st2 (ar_id r) (act_id a) ''consume'' (Some (ar_state r)) (ar_state (?f r)) ?d now = Inr st'"
    and q: "ap_requests st' = update_where (\<lambda>x. x = r) (\<lambda>_. sealed (ap_key st1) (?f r)) (ap_requests st1)"
    by (rule change_total [where f = ?f and who = "act_id a" and action = "''consume''" and t = now, OF e(2) r lg d])
  have "ascii x" if "body_hmac st body = Inr x" for x using that by (auto simp: body_hmac_def)
  then have "ascii (ar_body_hmac r)" using assms(9) .
  then have m: "mismatches r (PStr (ar_target r)) (ar_body_hmac r) (PStr (ar_capability r)) (PStr (ar_risk r)) = Inr []"
    by (simp add: mismatches_def compare_digest_def)
  have "consume_tx st now i who (PStr (ar_target r)) body (PStr (ar_capability r)) (PStr (ar_risk r)) = Inr st'"
    using assms(3,7,8,9) e(1) get_row_total [OF e(2) r assms(5,6)] u ev m by (simp add: consume_tx_def)
  moreover have "sealed (ap_key st) (?f r) \<in> set (ap_requests st')"
    using r e(3) by (auto simp: q update_where_def intro: rev_image_eqI)
  ultimately show thesis using assms(8) by (intro that) simp_all
qed

end
