(* ===== verification/AccessControl.thy ===== *)
theory AccessControl
  imports ChangePolicy
begin

section \<open>Named identities and capabilities\<close>

text \<open>
  \<^verbatim>\<open>admin/access_control.py\<close>: the validation of the access file, authentication by the
  digest of a token, and the capability every request of the admin API requires.  The access
  file is the text it holds, or \<open>None\<close> when it does not exist.
\<close>

definition WRITE_CAPABILITIES :: "string list" where
  "WRITE_CAPABILITIES = [''operations.write'', ''players.write'', ''economy.write'', ''world.write'',
     ''configuration.write'', ''infrastructure.write'', ''community.write'', ''moderation.write'', ''creator.write'']"

definition ROLE_CAPABILITIES :: "string \<rightharpoonup> string list" where
  "ROLE_CAPABILITIES = map_of [
     (''observer'', [''read'']),
     (''operator'', [''read'', ''operations.write'']),
     (''moderator'', [''read'', ''operations.write'', ''players.write'', ''community.write'', ''moderation.write'', ''creator.write'']),
     (''administrator'', ''read'' # WRITE_CAPABILITIES),
     (''owner'', [''*''])]"

text \<open>\<^verbatim>\<open>^[a-z0-9][a-z0-9_.-]{1,63}$\<close> and \<^verbatim>\<open>^[0-9a-f]{64}$\<close>, matched whole.\<close>

definition is_lower_alnum :: "char \<Rightarrow> bool" where
  "is_lower_alnum c = (is_digit c \<or> (97 \<le> code c \<and> code c \<le> 122))"

definition user_id_ok :: "string \<Rightarrow> bool" where
  "user_id_ok s = (2 \<le> length s \<and> length s \<le> 64 \<and> is_lower_alnum (hd s) \<and>
     list_all (\<lambda>c. is_lower_alnum c \<or> c \<in> {CHR ''_'', CHR ''.'', CHR ''-''}) (tl s))"

definition digest_ok :: "string \<Rightarrow> bool" where
  "digest_ok s = (length s = 64 \<and> list_all is_lower_hex s)"

definition token_hash :: "pyval \<Rightarrow> string" where
  "token_hash token = sha256_hex (utf8 (py_str token))"

subsection \<open>The access file\<close>

text \<open>A principal is what authentication hands out: a user without the digest of the token.\<close>

record principal_row =
  pri_id :: string
  pri_name :: string
  pri_enabled :: bool
  pri_role :: string
  pri_capabilities :: "string list"
  pri_auth_method :: "string option"

record access_user =
  us_principal :: principal_row
  us_token :: string

definition is_one :: "pyval \<Rightarrow> bool" where
  "is_one v = (v = PInt 1 \<or> v = PBool True \<or> v = PFloat 1)"

definition capability_item :: "pyval \<Rightarrow> string option" where
  "capability_item v = (case v of PStr s \<Rightarrow> if strip s = [] then None else Some (strip s) | _ \<Rightarrow> None)"

definition extra_capabilities :: "pyval \<Rightarrow> string list option" where
  "extra_capabilities v =
     (if \<not> truthy v then Some []
      else case as_list v of
          None \<Rightarrow> None
        | Some vs \<Rightarrow> if list_all (\<lambda>x. capability_item x \<noteq> None) vs
            then Some (map (\<lambda>x. the (capability_item x)) vs) else None)"

definition access_user_of :: "string list \<Rightarrow> pyval \<Rightarrow> access_user res" where
  "access_user_of seen row0 =
     (case as_dict row0 of
        None \<Rightarrow> Inl (ValueError ''each admin access user must be an object'')
      | Some row \<Rightarrow>
          let user_id = lower (strip (str_or_empty (pget row ''id'')));
              digest = lower (strip (str_or_empty (pget row ''tokenSha256'')));
              role = lower (strip (str_or_empty (pget row ''role'')))
          in require (user_id_ok user_id \<and> user_id \<notin> set seen)
               (ValueError (''invalid or duplicate admin access id: '' @ repr_str user_id))
            (require (digest_ok digest) (ValueError (''user '' @ user_id @ '' requires a lowercase SHA-256 token digest''))
            (case ROLE_CAPABILITIES role of
               None \<Rightarrow> Inl (ValueError (''user '' @ user_id @ '' has unknown role: '' @ repr_str role))
             | Some granted \<Rightarrow>
                 (case extra_capabilities (pget row ''capabilities'') of
                    None \<Rightarrow> Inl (ValueError (''user '' @ user_id @ '' capabilities must be non-empty strings''))
                  | Some extra \<Rightarrow>
                      Inr \<lparr>us_principal =
                          \<lparr>pri_id = user_id,
                           pri_name = take 128 (if truthy (pget row ''displayName'') then py_str (pget row ''displayName'') else user_id),
                           pri_enabled = truthy (pget_default row ''enabled'' (PBool True)), pri_role = role,
                           pri_capabilities = sort (remdups (granted @ extra)), pri_auth_method = None\<rparr>,
                        us_token = digest\<rparr>))))"

text \<open>The loop over the users; \<open>seen\<close> are the identifiers of the users so far.\<close>

fun access_users :: "string list \<Rightarrow> pyval list \<Rightarrow> access_user list res" where
  "access_users seen [] = Inr []"
| "access_users seen (row # rows) =
     bind_res (access_user_of seen row) (\<lambda>u.
     bind_res (access_users (pri_id (us_principal u) # seen) rows) (\<lambda>us. Inr (u # us)))"

definition validate_document :: "pyval \<Rightarrow> access_user list res" where
  "validate_document document =
     (case as_dict document of
        None \<Rightarrow> Inl (ValueError ''admin access file must be a version 1 JSON object'')
      | Some d \<Rightarrow>
          require (is_one (pget d ''version'')) (ValueError ''admin access file must be a version 1 JSON object'')
          (case as_list (pget d ''users'') of
             None \<Rightarrow> Inl (ValueError ''admin access file users must be an array'')
           | Some rows \<Rightarrow> access_users [] rows))"

type_synonym access_file = "string option"

definition load_users :: "access_file \<Rightarrow> access_user list res" where
  "load_users f = (case f of None \<Rightarrow> Inr [] | Some t \<Rightarrow> bind_res (json_loads t) validate_document)"

subsection \<open>Authentication\<close>

text \<open>Every user is compared, in the order of the file, and the last enabled match wins.\<close>

definition match_user :: "string \<Rightarrow> principal_row option \<Rightarrow> access_user \<Rightarrow> principal_row option res" where
  "match_user candidate matched u =
     bind_res (compare_digest candidate (us_token u)) (\<lambda>equal.
     Inr (if equal \<and> pri_enabled (us_principal u) then Some (us_principal u) else matched))"

definition authenticate :: "access_file \<Rightarrow> pyval \<Rightarrow> principal_row option res" where
  "authenticate f token =
     (if \<not> truthy token then Inr None
      else bind_res (load_users f) (\<lambda>users. fold_res (match_user (token_hash token)) None users))"

definition principal_by_id :: "access_file \<Rightarrow> pyval \<Rightarrow> principal_row option res" where
  "principal_by_id f user_id0 =
     (let user_id = lower (strip (str_or_empty user_id0)) in
      bind_res (load_users f) (\<lambda>users.
        Inr (map_option us_principal
          (row_where (\<lambda>u. pri_id (us_principal u) = user_id \<and> pri_enabled (us_principal u)) users))))"

subsection \<open>Authorisation\<close>

definition has_capability :: "principal_row option \<Rightarrow> string \<Rightarrow> bool" where
  "has_capability who required =
     (let capabilities = (case who of None \<Rightarrow> [] | Some p \<Rightarrow> pri_capabilities p)
      in ''*'' \<in> set capabilities \<or> required \<in> set capabilities)"

definition authorize :: "principal_row option \<Rightarrow> string \<Rightarrow> principal_row option res" where
  "authorize who required =
     (let identity = (case who of None \<Rightarrow> ''unknown'' | Some p \<Rightarrow> pri_id p) in
      require (has_capability who required)
        (PermissionError (''admin identity '' @ repr_str identity @ '' lacks capability '' @ repr_str required))
        (Inr who))"

definition READ_PATHS :: "string list" where
  "READ_PATHS = [''/api/ops/backups/verify'', ''/api/events/dry-run'', ''/api/admin/character-slots/plan'',
     ''/api/admin/character-backups/preview'', ''/api/auth/logout'', ''/api/security/approvals'',
     ''/api/security/change-contract'']"

definition INFRASTRUCTURE_PATHS :: "string list" where
  "INFRASTRUCTURE_PATHS = [''/api/ops/backups/import'', ''/api/ops/backups/delete'', ''/api/ops/backups/restore'',
     ''/api/ops/restore-drill'', ''/api/ops/rabbitmq-restore-drill'', ''/api/ops/slo'', ''/api/ops/capacity'',
     ''/api/ops/desired-state'', ''/api/ops/deployment-assurance'', ''/api/ops/audit/reconcile'',
     ''/api/ops/update-readiness'', ''/api/ops/public-ip-canary'', ''/api/ops/canary-autopilot'', ''/api/ops/updates'']"

definition starts_any :: "string \<Rightarrow> string list \<Rightarrow> bool" where
  "starts_any s ps = list_ex (starts_with s) ps"

definition admin_capability :: "string \<Rightarrow> string" where
  "admin_capability leaf =
     (if starts_any leaf [''artificial-exchange'', ''currency'', ''solari'', ''exchange'', ''vendor'', ''economy''] then ''economy.write''
      else if starts_any leaf [''guild'', ''marker'', ''landclaim'', ''landsraad'', ''faction'', ''world-state'', ''permission'',
           ''communinet'', ''tutorial'', ''base-retirement''] then ''world.write''
      else if starts_any leaf [''backup'', ''unsupported''] then ''infrastructure.write''
      else ''players.write'')"

definition required_capability :: "pyval \<Rightarrow> pyval \<Rightarrow> string" where
  "required_capability method0 path0 =
     (let method = upper (if truthy method0 then py_str method0 else ''GET'');
          path = before (CHR ''?'') (if truthy path0 then py_str path0 else ''/'')
      in if method \<in> {''GET'', ''HEAD'', ''OPTIONS''} then ''read''
         else if ends_with path ''/inspect'' \<or> ends_with path ''/preview'' \<or> path \<in> set READ_PATHS then ''read''
         else if starts_with path ''/api/ops/database/'' \<or> path \<in> set INFRASTRUCTURE_PATHS then ''infrastructure.write''
         else if starts_with path ''/api/ops/'' \<or> starts_with path ''/api/events'' then ''operations.write''
         else if starts_with path ''/api/community/'' then ''community.write''
         else if path = ''/api/moderation'' \<or> starts_with path ''/api/moderation/'' then ''moderation.write''
         else if starts_with path ''/api/creator/'' then ''creator.write''
         else if starts_with path ''/api/settings/'' \<or> starts_with path ''/api/presets/'' \<or> path = ''/api/bootstrap''
              \<or> starts_with path ''/api/addons/'' then ''configuration.write''
         else if starts_with path ''/api/admin/'' then admin_capability (drop (length ''/api/admin/'') path)
         else ''infrastructure.write'')"

definition public_principal :: "principal_row option \<Rightarrow> pyval" where
  "public_principal who =
     (case who of
        None \<Rightarrow> PNone
      | Some p \<Rightarrow> PDict ([(''id'', PStr (pri_id p)), (''displayName'', PStr (pri_name p)), (''role'', PStr (pri_role p)),
          (''capabilities'', PList (map PStr (pri_capabilities p)))]
          @ (case pri_auth_method p of None \<Rightarrow> [] | Some m \<Rightarrow> [(''authMethod'', PStr m)])))"

subsection \<open>A concrete access file\<close>

definition demo_access :: access_file where
  "demo_access = Some (canonical (PDict [(''users'', PList [PDict [(''id'', PStr ''alice''), (''role'', PStr ''operator''),
     (''tokenSha256'', PStr (sha256_hex ''t0''))]]), (''version'', PInt 1)]))"

definition demo_user :: access_user where
  "demo_user = \<lparr>us_principal = \<lparr>pri_id = ''alice'', pri_name = ''alice'', pri_enabled = True, pri_role = ''operator'',
     pri_capabilities = [''operations.write'', ''read''], pri_auth_method = None\<rparr>, us_token = sha256_hex ''t0''\<rparr>"


lemma lower_hex_plain:
  assumes "\<forall>c\<in>set s. is_lower_hex c"
  shows "strip s = s" and "lower s = s"
proof -
  have n: "\<not> is_space c" "lower_char c = c" if "c \<in> set s" for c
    using assms that by (auto simp: is_lower_hex_def is_digit_def is_space_def lower_char_def Let_def)
  have d: "dropWhile is_space t = t" if "\<forall>c\<in>set t. \<not> is_space c" for t
    using that by (cases t) auto
  show "strip s = s" using n(1) by (simp add: strip_def lstrip_def rstrip_def d)
  show "lower s = s" using n(2) by (simp add: lower_def map_idI)
qed

lemma demo_access_loads: "load_users demo_access = Inr [demo_user]"
proof -
  define d where "d = sha256_hex ''t0''"
  have d: "strip d = d" "lower d = d" "digest_ok d"
    using sha256_hex_lower by (auto simp: d_def digest_ok_def list_all_iff intro: lower_hex_plain)
  let ?user = "PDict [(''id'', PStr ''alice''), (''role'', PStr ''operator''), (''tokenSha256'', PStr d)]"
  let ?doc = "PDict [(''users'', PList [?user]), (''version'', PInt 1)]"
  have "json_loads (canonical ?doc) = Inr (json_norm ?doc)" by (rule json_loads_canonical) simp
  moreover have "json_norm ?doc = ?doc" by simp
  moreover have "access_user_of [] ?user = Inr demo_user"
  proof -
    have c: "lower (strip ''alice'') = ''alice''" "user_id_ok ''alice''" "lower (strip ''operator'') = ''operator''"
      "ROLE_CAPABILITIES ''operator'' = Some [''read'', ''operations.write'']"
      "sort (remdups ([''read'', ''operations.write''] @ [])) = [''operations.write'', ''read'']" "take 128 ''alice'' = ''alice''"
      by code_simp+
    show ?thesis using d c
      by (simp add: access_user_of_def Let_def pget_def pget_default_def extra_capabilities_def demo_user_def d_def [symmetric])
  qed
  ultimately show ?thesis
    by (simp add: demo_access_def load_users_def validate_document_def pget_def is_one_def d_def [symmetric])
qed

subsection \<open>Properties\<close>

definition well_formed_user :: "access_user \<Rightarrow> bool" where
  "well_formed_user u = (user_id_ok (pri_id (us_principal u)) \<and> digest_ok (us_token u) \<and>
     sorted (pri_capabilities (us_principal u)) \<and> distinct (pri_capabilities (us_principal u)) \<and>
     (\<exists>granted. ROLE_CAPABILITIES (pri_role (us_principal u)) = Some granted \<and>
        set granted \<subseteq> set (pri_capabilities (us_principal u))))"

lemma access_user_of_ok:
  assumes "access_user_of seen row = Inr u"
  shows "well_formed_user u \<and> pri_id (us_principal u) \<notin> set seen"
  using assms by (auto simp: access_user_of_def Let_def res_simps well_formed_user_def)

lemma access_users_ok:
  "access_users seen rows = Inr us \<Longrightarrow>
     list_all well_formed_user us \<and> distinct (map (\<lambda>u. pri_id (us_principal u)) us) \<and>
     set (map (\<lambda>u. pri_id (us_principal u)) us) \<inter> set seen = {}"
proof (induction seen rows arbitrary: us rule: access_users.induct)
  case (1 seen)
  then show ?case by simp
next
  case (2 seen row rows)
  then obtain u vs where u: "access_user_of seen row = Inr u"
    "access_users (pri_id (us_principal u) # seen) rows = Inr vs" "us = u # vs" by auto
  from "2.IH" [OF u(1,2)] access_user_of_ok [OF u(1)] u(3) show ?case by auto
qed

text \<open>
  C23. An access file that is accepted lists users with pairwise distinct, well-formed
  identifiers, SHA-256 digests, known roles, and sorted capabilities that include all of
  their role's.
\<close>

theorem accepted_access_file_well_formed:
  assumes "load_users f = Inr users"
  shows "list_all well_formed_user users \<and> distinct (map (\<lambda>u. pri_id (us_principal u)) users)"
  using assms access_users_ok [of "[]"]
  by (auto simp: load_users_def validate_document_def res_simps split: option.splits)

lemma compare_hash: "well_formed_user u \<Longrightarrow> compare_digest (token_hash t) (us_token u) = Inr (token_hash t = us_token u)"
  by (auto simp: well_formed_user_def digest_ok_def list_all_iff token_hash_def compare_digest_def
      intro!: lower_hex_ascii)

lemma fold_match:
  "list_all well_formed_user us \<Longrightarrow>
    fold_res (match_user (token_hash t)) m us =
      Inr (case filter (\<lambda>u. us_token u = token_hash t \<and> pri_enabled (us_principal u)) us of
         [] \<Rightarrow> m | v # vs \<Rightarrow> Some (us_principal (last (v # vs))))"
proof (induction us arbitrary: m)
  case Nil
  then show ?case by simp
next
  case (Cons u us)
  show ?case
  proof (cases "us_token u = token_hash t \<and> pri_enabled (us_principal u)")
    case True
    then show ?thesis using Cons compare_hash [of u t]
      by (auto simp: match_user_def split: list.splits)
  next
    case False
    then show ?thesis using Cons compare_hash [of u t] by (auto simp: match_user_def)
  qed
qed

theorem accepted_access_file_well_formed_witness: "well_formed_user demo_user"
  using accepted_access_file_well_formed [OF demo_access_loads] by simp

text \<open>
  C22. With an accepted access file and a token, authentication never fails, and it yields a
  principal exactly when the file lists an enabled user with the digest of that token: the
  last such user.  A disabled user, an unlisted token and an empty token get none.
\<close>

theorem authenticate_last_enabled_match:
  assumes "load_users f = Inr users"
  shows "authenticate f token =
    Inr (case filter (\<lambda>u. us_token u = token_hash token \<and> pri_enabled (us_principal u)) users of
       [] \<Rightarrow> None | u # us \<Rightarrow> if truthy token then Some (us_principal (last (u # us))) else None)"
proof -
  have "list_all well_formed_user users"
    using assms access_users_ok [of "[]"]
    by (auto simp: load_users_def validate_document_def res_simps split: option.splits)
  then show ?thesis using assms fold_match [of users token None]
    by (auto simp: authenticate_def split: list.splits)
qed

theorem authenticate_last_enabled_match_witness:
  "authenticate demo_access (PStr ''t0'') = Inr (Some (us_principal demo_user))"
proof -
  have "token_hash (PStr ''t0'') = us_token demo_user" by (simp add: token_hash_def demo_user_def utf8_def utf8_char_def Let_def)
  then show ?thesis
    using authenticate_last_enabled_match [OF demo_access_loads, of "PStr ''t0''"] by (simp add: demo_user_def)
qed

lemma governed_in_policies:
  assumes "policy_for path body = Inr (Some g)"
  shows "gov_path g = before (CHR ''?'') (str_or_empty path) \<and> gov_path g \<in> fst ` set POLICIES"
proof -
  obtain row where "map_of POLICIES (before (CHR ''?'') (str_or_empty path)) = Some row"
    and g: "gov_path g = before (CHR ''?'') (str_or_empty path)"
    using assms by (auto simp: policy_for_def Let_def res_simps split: if_splits)
  then have "(gov_path g, row) \<in> set POLICIES" by (simp add: map_of_SomeD)
  then have "gov_path g \<in> fst ` set POLICIES" by (metis fst_conv image_eqI)
  with g show ?thesis by (rule conjI)
qed

lemma policies_require_write:
  "list_all (\<lambda>p. required_capability (PStr ''POST'') (PStr (fst p)) \<in> set WRITE_CAPABILITIES \<and> fst p \<noteq> []
     \<and> before (CHR ''?'') (fst p) = fst p) POLICIES"
  by code_simp



end
