(* ===== verification/ApprovalsGate.thy ===== *)
theory ApprovalsGate
  imports ApprovalsProgress AccessControl
begin

section \<open>Two-person approvals: the requests of the panel\<close>

text \<open>
  The two places where \<^verbatim>\<open>admin/admin_panel.py\<close> uses the store: the route
  \<^verbatim>\<open>/api/security/approvals\<close>, which asks, approves, rejects and cancels, and the gate every
  governed mutation passes, which consumes.  The switches are a record, the authenticated
  identity, the request body and the readings of the clock are arguments; the audit entry and
  the reply written at the end are left out.
\<close>

record gate_config =
  gc_dual_control :: bool
  gc_rbac :: bool
  gc_policy :: pyval

text \<open>\<^verbatim>\<open>access_control.public_principal(self.auth_principal) or {}\<close>\<close>

definition acting :: "principal_row option \<Rightarrow> pyval" where
  "acting who = py_or (public_principal who) (PDict [])"

definition gate_policy :: "gate_config \<Rightarrow> string \<Rightarrow> pyval \<Rightarrow> governed option res" where
  "gate_policy cfg path body =
     bind_res (policy_for (PStr path) body) (\<lambda>found.
     case found of
       None \<Rightarrow> Inr None
     | Some policy \<Rightarrow> bind_res (policy_enabled (gc_policy cfg) (gov_risk policy)) (\<lambda>on. Inr (if on then Some policy else None)))"

subsection \<open>The approvals route\<close>

definition request_action ::
  "gate_config \<Rightarrow> approvals \<Rightarrow> rat \<Rightarrow> rat \<Rightarrow> string \<Rightarrow> principal_row option \<Rightarrow> (string \<times> pyval) list \<Rightarrow> public_request outcome" where
  "request_action cfg st now later nonce who body =
     (let path = strip (py_str (pget_default body ''targetPath'' (pget_default body ''target_path'' (PStr []))));
          target_body = pget_default body ''requestBody'' (pget body ''request_body'');
          capability = required_capability (PStr ''POST'') (PStr path)
      in case bind_res (gate_policy cfg path target_body) (\<lambda>found.
             case found of
               None \<Rightarrow> Inl (ValueError ''target is not enforced by the active dual-control policy'')
             | Some policy \<Rightarrow> bind_res (authorize who capability) (\<lambda>_. Inr policy)) of
           Inl e \<Rightarrow> (Inl e, st)
         | Inr policy \<Rightarrow>
             create_request st now later nonce (acting who) (PStr path) target_body (PStr capability) (gov_risk policy)
               (pget_default body ''summary'' (PStr (gov_label policy))) (pget_default body ''ttlSeconds'' (pget body ''ttl_seconds'')))"

text \<open>A decision reads the request first: its capability is asked of everyone but a canceller.\<close>

definition decide_action ::
  "approvals \<Rightarrow> rat \<Rightarrow> rat \<Rightarrow> rat \<Rightarrow> string \<Rightarrow> principal_row option \<Rightarrow> (string \<times> pyval) list \<Rightarrow> public_request outcome" where
  "decide_action st first now later action who body =
     (let i = pget_default body ''approvalId'' (pget body ''approval_id'') in
      case get_request st first i of
        (Inl e, st1) \<Rightarrow> (Inl e, st1)
      | (Inr prior, st1) \<Rightarrow>
          (case if action \<noteq> ''cancel'' then authorize who (pr_capability prior) else Inr who of
             Inl e \<Rightarrow> (Inl e, st1)
           | Inr _ \<Rightarrow>
               if action = ''approve'' then approve st1 now later i (acting who)
               else if action = ''reject'' then reject st1 now later i (acting who) (pget body ''reason'')
               else cancel st1 now later i (acting who)))"

definition approvals_action ::
  "gate_config \<Rightarrow> approvals \<Rightarrow> rat \<Rightarrow> rat \<Rightarrow> rat \<Rightarrow> string \<Rightarrow> principal_row option \<Rightarrow> (string \<times> pyval) list \<Rightarrow> public_request outcome" where
  "approvals_action cfg st first now later nonce who body =
     (if \<not> gc_dual_control cfg then
        (Inl (PermissionError ''dual control is disabled; set DUNE_ADMIN_DUAL_CONTROL_ENABLED=true''), st)
      else if \<not> gc_rbac cfg then
        (Inl (PermissionError ''dual control requires DUNE_ADMIN_RBAC_ENABLED=true and two named identities''), st)
      else let action = lower (strip (str_or_empty (pget body ''action''))) in
        if action = ''request'' then request_action cfg st now later nonce who body
        else if action \<in> {''approve'', ''reject'', ''cancel''} then decide_action st first now later action who body
        else (Inl (ValueError ''change approval action must be request, approve, reject, or cancel''), st))"

subsection \<open>The gate of governed mutations\<close>

text \<open>\<open>header\<close> is \<^verbatim>\<open>X-DASH-Approval-ID\<close>; \<open>None\<close> lets a mutation pass that needs no approval.\<close>

definition approval_header :: "string \<Rightarrow> (string \<times> pyval) list \<Rightarrow> string" where
  "approval_header header body =
     (if strip header \<noteq> [] then strip header
      else strip (py_str (pget_default body ''approvalId'' (pget_default body ''approval_id'' (PStr [])))))"

definition dual_control_gate ::
  "gate_config \<Rightarrow> approvals \<Rightarrow> rat \<Rightarrow> rat \<Rightarrow> principal_row option \<Rightarrow> string \<Rightarrow> string \<Rightarrow> (string \<times> pyval) list \<Rightarrow>
     public_request option outcome" where
  "dual_control_gate cfg st now later who path header body =
     (if \<not> (gc_dual_control cfg \<and> path \<in> fst ` set POLICIES) then (Inr None, st)
      else case gate_policy cfg path (PDict body) of
        Inl e \<Rightarrow> (Inl e, st)
      | Inr None \<Rightarrow> (Inr None, st)
      | Inr (Some policy) \<Rightarrow>
          if \<not> gc_rbac cfg then
            (Inl (PermissionError ''dual control requires DUNE_ADMIN_RBAC_ENABLED=true and two named identities''), st)
          else let i = approval_header header body in
            if i = [] then
              (Inl (PermissionError (''dual-control approval required for '' @ gov_risk policy @ '' mutation '' @ path @
                 ''; create and approve an exact request under Security, then send X-DASH-Approval-ID'')), st)
            else (case consume st now later (PStr i) (acting who) (PStr path) (PDict body)
                (PStr (required_capability (PStr ''POST'') (PStr path))) (PStr (gov_risk policy)) of
                  (Inl e, st1) \<Rightarrow> (Inl e, st1)
                | (Inr c, st1) \<Rightarrow> (Inr (Some c), st1)))"

subsection \<open>What the stages of a decision do\<close>

lemma get_request_total:
  assumes "approvals_inv st" and "r \<in> set (ap_requests st)" and "\<not> due t r"
    and "strip (str_or_empty i) = ar_id r" and "request_id_ok (ar_id r)"
  obtains st' where "get_request st t i = (public_request_of r, st')" "approvals_inv st'" "ap_key st' = ap_key st"
    "r \<in> set (ap_requests st')"
proof -
  obtain st' where e: "expire st t = Inr st'" "approvals_inv st'" "ap_key st' = ap_key st" "r \<in> set (ap_requests st')"
    using assms(2,3) by (rule_tac expire_total [OF assms(1), of t]) auto
  have "get_row st' i = Inr r" by (rule get_row_total [OF e(2,4) assms(4,5)])
  then have "get_request st t i = (public_request_of r, st')" using e(1) by (simp add: get_request_def get_tx_def)
  then show thesis using e by (intro that)
qed

lemma get_request_store:
  assumes "approvals_inv st" and "r \<in> set (ap_requests st)" and "\<not> due t r"
  shows "approvals_inv (snd (get_request st t i)) \<and> ap_key (snd (get_request st t i)) = ap_key st \<and>
    r \<in> set (ap_requests (snd (get_request st t i)))"
proof -
  obtain st' where e: "expire st t = Inr st'" "approvals_inv st'" "ap_key st' = ap_key st" "r \<in> set (ap_requests st')"
    using assms(2,3) by (rule_tac expire_total [OF assms(1), of t]) auto
  then show ?thesis using assms by (cases "get_row st' i") (simp_all add: get_request_def get_tx_def)
qed

lemma shown_capability: "public_request_of r = Inr p \<Longrightarrow> pr_capability p = ar_capability r"
  by (auto simp: public_request_of_def)

text \<open>The approved form of a request.\<close>

definition approved_by :: "string \<Rightarrow> actor \<Rightarrow> rat \<Rightarrow> request_row \<Rightarrow> request_row" where
  "approved_by key a now r = sealed key (r\<lparr>ar_state := ''approved'', ar_approver := Some (act_id a),
     ar_approver_name := Some (act_name a), ar_approved_at := Some now, ar_decided_at := Some now\<rparr>)"

lemma approved_by_simps [simp]:
  "ar_id (approved_by k a t r) = ar_id r" "ar_requester (approved_by k a t r) = ar_requester r"
  "ar_expires (approved_by k a t r) = ar_expires r" "ar_target (approved_by k a t r) = ar_target r"
  "ar_capability (approved_by k a t r) = ar_capability r" "ar_risk (approved_by k a t r) = ar_risk r"
  "ar_body_hmac (approved_by k a t r) = ar_body_hmac r" "ar_state (approved_by k a t r) = ''approved''"
  "ar_approver (approved_by k a t r) = Some (act_id a)"
  by (simp_all add: approved_by_def sealed_def)

lemma consumes:
  assumes "approvals_inv st" and "q \<in> set (ap_requests st)" and "ar_state q = ''approved''" and "now < ar_expires q"
    and "strip (str_or_empty i) = ar_id q" and "request_id_ok (ar_id q)"
    and "actor_of who = Inr a" and "act_id a = ar_requester q" and "body_hmac st body = Inr (ar_body_hmac q)"
  shows "\<exists>st' c. consume_tx st now i who (PStr (ar_target q)) body (PStr (ar_capability q)) (PStr (ar_risk q)) = Inr st' \<and>
    c \<in> set (ap_requests st') \<and> ar_id c = ar_id q \<and> ar_state c = ''consumed'' \<and> ar_approver c = ar_approver q \<and>
    ar_consumed_by c = Some (ar_requester q) \<and> ar_consumed_at c = Some now"
proof -
  define c where "c = sealed (ap_key st) (q\<lparr>ar_state := ''consumed'', ar_consumed_by := Some (ar_requester q),
    ar_consumed_at := Some now, ar_decided_at := Some now\<rparr>)"
  obtain st' where "consume_tx st now i who (PStr (ar_target q)) body (PStr (ar_capability q)) (PStr (ar_risk q)) = Inr st'"
    "c \<in> set (ap_requests st')"
    unfolding c_def by (rule consume_total [OF assms])
  moreover have "ar_id c = ar_id q" "ar_state c = ''consumed''" "ar_approver c = ar_approver q"
    "ar_consumed_by c = Some (ar_requester q)" "ar_consumed_at c = Some now"
    by (simp_all add: c_def sealed_def)
  ultimately show ?thesis by blast
qed

lemma decide_approves:
  assumes "approvals_inv st" and "r \<in> set (ap_requests st)" and "ar_state r = ''pending''" and "public_request_of r = Inr shown"
    and "strip (str_or_empty (pget_default body ''approvalId'' (pget body ''approval_id''))) = ar_id r" and "request_id_ok (ar_id r)"
    and "actor_of (acting who) = Inr a" and "act_id a \<noteq> ar_requester r" and "has_capability who (ar_capability r)"
    and "first < ar_expires r" and "now < ar_expires r" and "later < ar_expires r"
  shows "\<exists>st'. snd (decide_action st first now later ''approve'' who body) = st' \<and> approvals_inv st' \<and> ap_key st' = ap_key st \<and>
    approved_by (ap_key st) a now r \<in> set (ap_requests st')"
proof -
  let ?i = "pget_default body ''approvalId'' (pget body ''approval_id'')"
  have "\<not> due first r" using assms(10) by (simp add: due_def)
  then obtain st1 where g: "get_request st first ?i = (Inr shown, st1)" "approvals_inv st1" "ap_key st1 = ap_key st" "r \<in> set (ap_requests st1)"
    using get_request_total [OF assms(1,2) _ assms(5,6)] assms(4) by metis
  obtain st2 where a: "approve_tx st1 now ?i (acting who) = Inr st2" "approvals_inv st2" "ap_key st2 = ap_key st1"
    "approved_by (ap_key st1) a now r \<in> set (ap_requests st2)"
    unfolding approved_by_def by (rule approve_total [OF g(2,4) assms(3,11,5,6,7,8)])
  have "\<not> due later (approved_by (ap_key st1) a now r)" using assms(12) by (simp add: due_def)
  from get_request_store [OF a(2,4) this, of ?i] show ?thesis
    using g a(1,3) assms(9) shown_capability [OF assms(4)]
    by (simp add: decide_action_def Let_def authorize_def approve_def then_get_def)
qed

lemma decide_refuses:
  assumes "approvals_inv st" and "r \<in> set (ap_requests st)" and "public_request_of r = Inr shown"
    and "strip (str_or_empty (pget_default body ''approvalId'' (pget body ''approval_id''))) = ar_id r" and "request_id_ok (ar_id r)"
    and "\<not> has_capability who (ar_capability r)" and "first < ar_expires r"
  shows "\<exists>msg st'. decide_action st first now later ''approve'' who body = (Inl (PermissionError msg), st') \<and> r \<in> set (ap_requests st')"
proof -
  let ?i = "pget_default body ''approvalId'' (pget body ''approval_id'')"
  have "\<not> due first r" using assms(7) by (simp add: due_def)
  then obtain st1 where g: "get_request st first ?i = (Inr shown, st1)" "r \<in> set (ap_requests st1)"
    using get_request_total [OF assms(1,2) _ assms(4,5)] assms(3) by metis
  then show ?thesis
    using assms(6) shown_capability [OF assms(3)] by (simp add: decide_action_def Let_def authorize_def)
qed

subsection \<open>Properties\<close>

text \<open>
  C6. Progress, and who may give it: in every store the operations can reach, whatever else it
  holds, a pending request whose expiry lies ahead is approved through the panel by a named
  identity other than its requester that holds the capability of the target, and is then
  consumed by its requester with the body it was signed for, at any time before it expires;
  no other request, overdue or not, can block either step.  An identity without the
  capability is refused, and the request stays as it was.
\<close>

theorem live_request_can_finish:
  assumes "reach approvals_init approval_step st" and "r \<in> set (ap_requests st)" and "ar_state r = ''pending''"
    and "public_request_of r = Inr shown" and "request_id_ok (ar_id r)"
    and "lower (strip (str_or_empty (pget body ''action''))) = ''approve''"
    and "strip (str_or_empty (pget_default body ''approvalId'' (pget body ''approval_id''))) = ar_id r"
    and "gc_dual_control cfg" and "gc_rbac cfg"
    and "actor_of (acting reviewer) = Inr a" and "act_id a \<noteq> ar_requester r"
    and "actor_of requester = Inr b" and "act_id b = ar_requester r" and "strip (str_or_empty i) = ar_id r"
    and "body_hmac st content = Inr (ar_body_hmac r)"
    and "first < ar_expires r" and "now < ar_expires r" and "later < ar_expires r" and "used < ar_expires r"
  shows "if has_capability reviewer (ar_capability r)
    then \<exists>st1 st2. snd (approvals_action cfg st first now later nonce reviewer body) = st1 \<and>
      approved_by (ap_key st) a now r \<in> set (ap_requests st1) \<and>
      consume_tx st1 used i requester (PStr (ar_target r)) content (PStr (ar_capability r)) (PStr (ar_risk r)) = Inr st2 \<and>
      (\<exists>q\<in>set (ap_requests st2). ar_id q = ar_id r \<and> ar_state q = ''consumed'' \<and> ar_approver q = Some (act_id a) \<and>
         ar_consumed_by q = Some (ar_requester r) \<and> ar_consumed_at q = Some used)
    else \<exists>msg st'. approvals_action cfg st first now later nonce reviewer body = (Inl (PermissionError msg), st') \<and>
      r \<in> set (ap_requests st')"
proof -
  have inv: "approvals_inv st" using approvals_sim.reach_inv [OF assms(1)] .
  have act: "approvals_action cfg st first now later nonce reviewer body = decide_action st first now later ''approve'' reviewer body"
    using assms(6,8,9) by (simp add: approvals_action_def)
  show ?thesis
  proof (cases "has_capability reviewer (ar_capability r)")
    case False
    then show ?thesis using decide_refuses [OF inv assms(2,4,7,5) False assms(16)] by (simp add: act)
  next
    case True
    let ?q = "approved_by (ap_key st) a now r"
    obtain st1 where a: "snd (decide_action st first now later ''approve'' reviewer body) = st1" "approvals_inv st1"
      "ap_key st1 = ap_key st" "?q \<in> set (ap_requests st1)"
      using decide_approves [OF inv assms(2-4,7,5,10,11) True assms(16-18)] by blast
    have "body_hmac st1 content = Inr (ar_body_hmac ?q)" using assms(15) a(3) by (simp add: body_hmac_def approval_key_def)
    then obtain st2 c where "consume_tx st1 used i requester (PStr (ar_target r)) content (PStr (ar_capability r)) (PStr (ar_risk r)) = Inr st2"
      and c: "c \<in> set (ap_requests st2)" "ar_id c = ar_id r" "ar_state c = ''consumed''" "ar_approver c = Some (act_id a)"
        "ar_consumed_by c = Some (ar_requester r)" "ar_consumed_at c = Some used"
      using consumes [OF a(2,4), of used i requester b content] assms(5,12-14,19) by auto
    note tx = this(1)
    have "snd (approvals_action cfg st first now later nonce reviewer body) = st1" using a(1) by (simp add: act)
    then show ?thesis using a(4) True tx c by (simp only: if_True) blast
  qed
qed

text \<open>A live request of the demonstration store, a reviewer who may approve it and one who may not.\<close>

definition demo_reviewer :: "string list \<Rightarrow> principal_row option" where
  "demo_reviewer capabilities = Some \<lparr>pri_id = ''bob'', pri_name = ''bob'', pri_enabled = True, pri_role = ''operator'',
     pri_capabilities = capabilities, pri_auth_method = None\<rparr>"

definition demo_approval :: "(string \<times> pyval) list" where
  "demo_approval = [(''action'', PStr ''approve''), (''approvalId'', demo_request_id)]"

definition demo_gate :: gate_config where
  "demo_gate = \<lparr>gc_dual_control = True, gc_rbac = True, gc_policy = PStr ''critical''\<rparr>"

lemma demo_signed_shown: "\<exists>p. public_request_of demo_signed = Inr p"
proof -
  have "\<not> isl (utc_iso 0)" "\<not> isl (utc_iso 900)" by code_simp+
  then have times: "\<exists>s. utc_iso 0 = Inr s" "\<exists>s. utc_iso 900 = Inr s" by (auto simp: isl_def not_ex) (metis sum.exhaust)+
  have "ar_review_json demo_signed = ''{}''" "ar_approved_at demo_signed = None" "ar_consumed_at demo_signed = None"
    "ar_created demo_signed = 0" "ar_expires demo_signed = 900"
    by (simp_all add: demo_signed_def demo_row_def)
  then show ?thesis using times demo_create_parts(9) by (auto simp: public_request_of_def utc_iso_opt_def)
qed

theorem live_request_can_finish_witness:
  "(\<exists>st1 st2. snd (approvals_action demo_gate demo_asked 2 2 3 [] (demo_reviewer [''configuration.write'']) demo_approval) = st1 \<and>
      consume_tx st1 4 demo_request_id demo_alice (PStr ''/api/settings/env'') (PDict [])
        (PStr ''configuration.write'') (PStr ''critical'') = Inr st2 \<and>
      (\<exists>q\<in>set (ap_requests st2). ar_state q = ''consumed'' \<and> ar_approver q = Some ''bob'')) \<and>
   (\<exists>msg st'. approvals_action demo_gate demo_asked 2 2 3 [] (demo_reviewer [''read'']) demo_approval = (Inl (PermissionError msg), st'))"
proof -
  obtain e where st: "demo_asked = demo_approvals\<lparr>ap_requests := [demo_signed], ap_events := [e]\<rparr>" by (rule demo_asked_is)
  from arg_cong [OF st, of ap_requests] have r: "demo_signed \<in> set (ap_requests demo_asked)" by simp
  from arg_cong [OF st, of ap_key] have k: "ap_key demo_asked = replicate 32 (CHR ''k'')" by (simp add: demo_approvals_def)
  obtain p where p: "public_request_of demo_signed = Inr p" using demo_signed_shown by blast
  have i: "strip (str_or_empty demo_request_id) = ar_id demo_signed" "request_id_ok (ar_id demo_signed)"
    using demo_create_parts by (simp_all add: demo_request_id_def demo_fields)
  have b: "lower (strip (str_or_empty (pget demo_approval ''action''))) = ''approve''" by code_simp
  have j: "strip (str_or_empty (pget_default demo_approval ''approvalId'' (pget demo_approval ''approval_id''))) = ar_id demo_signed"
    using i(1) by (simp add: demo_approval_def pget_default_def)
  have g: "gc_dual_control demo_gate" "gc_rbac demo_gate" by (simp_all add: demo_gate_def)
  have a: "actor_of (acting (demo_reviewer cs)) = Inr \<lparr>act_id = ''bob'', act_name = ''bob''\<rparr>" for cs
  proof -
    have "strip ''bob'' = ''bob''" "\<not> has_control ''bob''" by code_simp+
    then show ?thesis
      by (simp add: acting_def public_principal_def demo_reviewer_def py_or_def actor_of_def pget_def Let_def)
  qed
  have body: "body_hmac demo_asked (PDict []) = Inr (ar_body_hmac demo_signed)" using demo_hmacs(3) [OF k] by (simp add: demo_fields)
  note use = live_request_can_finish [OF demo_reach(2) r demo_fields(2) p i(2) b j g a _ demo_create_parts(1) _ i(1) body]
  have "has_capability (demo_reviewer [''configuration.write'']) (ar_capability demo_signed)"
    "\<not> has_capability (demo_reviewer [''read'']) (ar_capability demo_signed)"
    by (simp_all add: has_capability_def demo_reviewer_def demo_fields)
  with use [of 2 2 3 4 "[''configuration.write'']"] use [of 2 2 3 4 "[''read'']"] show ?thesis
    by (simp add: demo_fields) blast
qed

end
