(* ===== verification/PyIso.thy ===== *)
theory PyIso
  imports PyTime
begin

section \<open>Reading ISO 8601 instants\<close>

text \<open>
  \<^verbatim>\<open>datetime.datetime.fromisoformat\<close> (Python 3.11 and later): a calendar date, in the extended
  or the basic form, optionally followed by one separator character and a time with an
  optional fraction and offset.  The result is the local instant in seconds and the offset,
  or \<open>None\<close> for text the function rejects.  ISO week dates, which no part of the program
  writes, are rejected here.  A text without an offset is read as UTC by every caller: those
  that do not say so run in containers whose zone is UTC.
\<close>

definition days_in_month :: "int \<Rightarrow> int \<Rightarrow> int" where
  "days_in_month y m =
     (if m = 2 then (if (y mod 4 = 0 \<and> y mod 100 \<noteq> 0) \<or> y mod 400 = 0 then 29 else 28)
      else if m \<in> {4, 6, 9, 11} then 30 else 31)"

definition digits_of :: "nat \<Rightarrow> string \<Rightarrow> int option" where
  "digits_of n s = (if length s = n \<and> list_all is_digit s then Some (int (digits_val s)) else None)"

definition date_of_parts :: "int option \<Rightarrow> int option \<Rightarrow> int option \<Rightarrow> int option" where
  "date_of_parts y0 m0 d0 =
     (case (y0, m0, d0) of
        (Some y, Some m, Some d) \<Rightarrow>
          if 1 \<le> y \<and> 1 \<le> m \<and> m \<le> 12 \<and> 1 \<le> d \<and> d \<le> days_in_month y m then Some (days_from_civil y m d) else None
      | _ \<Rightarrow> None)"

text \<open>The date at the front of a text, and what follows it.\<close>

definition iso_date_prefix :: "string \<Rightarrow> (int \<times> string) option" where
  "iso_date_prefix s =
     (if length s \<ge> 10 \<and> s ! 4 = CHR ''-'' \<and> s ! 7 = CHR ''-''
      then map_option (\<lambda>d. (d, drop 10 s))
        (date_of_parts (digits_of 4 (take 4 s)) (digits_of 2 (take 2 (drop 5 s))) (digits_of 2 (take 2 (drop 8 s))))
      else if length s \<ge> 8
      then map_option (\<lambda>d. (d, drop 8 s))
        (date_of_parts (digits_of 4 (take 4 s)) (digits_of 2 (take 2 (drop 4 s))) (digits_of 2 (take 2 (drop 6 s))))
      else None)"

text \<open>A fraction keeps six digits.\<close>

definition micros_of :: "string \<Rightarrow> int option" where
  "micros_of f = (if f = [] \<or> \<not> list_all is_digit f then None
     else Some (int (digits_val (take 6 (f @ ''000000'')))))"

definition clock_of_parts :: "int option \<Rightarrow> int option \<Rightarrow> int option \<Rightarrow> int option \<Rightarrow> rat option" where
  "clock_of_parts h0 m0 s0 u0 =
     (case (h0, m0, s0, u0) of
        (Some h, Some m, Some s, Some u) \<Rightarrow>
          if h \<le> 23 \<and> m \<le> 59 \<and> s \<le> 59
          then Some (of_int (3600 * h + 60 * m + s) + of_int u / 1000000) else None
      | _ \<Rightarrow> None)"

text \<open>\<open>HH\<close>, \<open>HH:MM\<close>, \<open>HH:MM:SS\<close>, with a fraction after the seconds, or the same without colons.\<close>

definition iso_clock_value :: "string \<Rightarrow> rat option" where
  "iso_clock_value s =
     (let hms = takeWhile (\<lambda>c. c \<noteq> CHR ''.'' \<and> c \<noteq> CHR '','') s;
          fr = drop (length hms) s;
          u = (if fr = [] then Some 0 else micros_of (tl fr));
          two = (\<lambda>k. digits_of 2 (take 2 (drop k hms)))
      in if length hms = 2 then (if fr = [] then clock_of_parts (two 0) (Some 0) (Some 0) u else None)
         else if length hms = 5 \<and> hms ! 2 = CHR '':'' then (if fr = [] then clock_of_parts (two 0) (two 3) (Some 0) u else None)
         else if length hms = 8 \<and> hms ! 2 = CHR '':'' \<and> hms ! 5 = CHR '':'' then clock_of_parts (two 0) (two 3) (two 6) u
         else if length hms = 4 then (if fr = [] then clock_of_parts (two 0) (two 2) (Some 0) u else None)
         else if length hms = 6 then clock_of_parts (two 0) (two 2) (two 4) u
         else None)"

definition is_zone_mark :: "char \<Rightarrow> bool" where
  "is_zone_mark c = (c \<in> {CHR ''Z'', CHR ''+'', CHR ''-''})"

definition iso_offset :: "string \<Rightarrow> rat option option" where
  "iso_offset z = (case z of
       [] \<Rightarrow> Some None
     | c # rest \<Rightarrow>
         if c = CHR ''Z'' then (if rest = [] then Some (Some 0) else None)
         else map_option (\<lambda>off. Some (if c = CHR ''-'' then - off else off)) (iso_clock_value rest))"

definition from_iso :: "string \<Rightarrow> (rat \<times> rat option) option" where
  "from_iso s =
     (case iso_date_prefix s of
        None \<Rightarrow> None
      | Some (day, rest) \<Rightarrow>
          (case rest of
             [] \<Rightarrow> Some (of_int (day * 86400), None)
           | _ # t \<Rightarrow>
               let clock = takeWhile (\<lambda>c. \<not> is_zone_mark c) t
               in (case (iso_clock_value clock, iso_offset (drop (length clock) t)) of
                     (Some c, Some z) \<Rightarrow> Some (of_int (day * 86400) + c, z)
                   | _ \<Rightarrow> None)))"

text \<open>\<^verbatim>\<open>timestamp()\<close> of the result.\<close>

definition instant_of :: "rat \<times> rat option \<Rightarrow> rat" where
  "instant_of p = (case p of (t, z) \<Rightarrow> t - (case z of None \<Rightarrow> 0 | Some off \<Rightarrow> off))"

text \<open>\<^verbatim>\<open>s.replace("Z", "+00:00")\<close>\<close>

definition replace_z :: "string \<Rightarrow> string" where
  "replace_z s = concat (map (\<lambda>c. if c = CHR ''Z'' then ''+00:00'' else [c]) s)"

text \<open>
  \<^verbatim>\<open>isoformat().replace("+00:00", "Z")\<close> of a float instant; \<^verbatim>\<open>fromtimestamp\<close> refuses what is not
  a time of the platform, then what is not in the years 1 to 9999.
\<close>

definition iso_utc :: "rat \<Rightarrow> string res" where
  "iso_utc t =
     (let s = py_round (t * 1000000) div 1000000 in
      require (\<bar>s\<bar> < 2 ^ 63) (OverflowError ''timestamp out of range for platform time_t'')
        (bind_res (check_datetime s) (\<lambda>_. Inr (iso_micros t ''Z''))))"

lemma iso_utc_1000: "iso_utc 1000 = Inr ''1970-01-01T00:16:40Z''"
  by code_simp

text \<open>\<^verbatim>\<open>str(exc)\<close>\<close>

fun exc_text :: "pyerr \<Rightarrow> string" where
  "exc_text (ValueError m) = m"
| "exc_text (TypeError m) = m"
| "exc_text (PermissionError m) = m"
| "exc_text (RuntimeError m) = m"
| "exc_text (KeyError m) = repr_str m"
| "exc_text (AttributeError m) = m"
| "exc_text (OSError m) = m"
| "exc_text (IntegrityError m) = m"
| "exc_text (OverflowError m) = m"
| "exc_text Unmodelled = []"

end
