(* ===== verification/OperationsCalendar.thy ===== *)
theory OperationsCalendar
  imports Sha256 Json PyIso "HOL-Library.Product_Lexorder"
begin

section \<open>The operations calendar: windows and collisions\<close>

text \<open>
  \<^verbatim>\<open>admin/operations_calendar.py\<close>: the normalisation of calendar windows, the analysis that
  finds colliding windows and uncovered disruptive work, and the metrics.  The clock is an
  argument.
\<close>

definition CALENDAR_SCHEMA :: string where
  "CALENDAR_SCHEMA = ''dash-operations-calendar/v1''"

definition IMPACTS :: "string list" where
  "IMPACTS = [''communication'', ''planning'', ''preparatory'', ''recovery'', ''disruptive'', ''exclusion'']"

definition SEVERITIES :: "string list" where
  "SEVERITIES = [''critical'', ''warning'']"

definition window_epoch :: "pyval \<Rightarrow> rat res" where
  "window_epoch v =
     bind_res (case v of
         PBool _ \<Rightarrow> Inl (ValueError ''calendar time cannot be boolean'')
       | PInt _ \<Rightarrow> py_float v
       | PFloat _ \<Rightarrow> py_float v
       | _ \<Rightarrow>
           let t = strip (str_or_empty v);
               u = (if ends_with t ''Z'' then take (length t - 1) t @ ''+00:00'' else t)
           in (case from_iso u of
                 None \<Rightarrow> Inl (ValueError (''Invalid isoformat string: '' @ repr_str u))
               | Some p \<Rightarrow> Inr (instant_of p)))
     (\<lambda>x. require (\<not> x \<le> 0) (ValueError ''calendar time is invalid'') (Inr x))"

definition bounded_text :: "pyval \<Rightarrow> nat \<Rightarrow> string \<Rightarrow> string res" where
  "bounded_text v maximum label =
     (let t = strip (str_or_empty v) in
      require (\<not> (t = [] \<or> length t > maximum \<or> has_control t)) (ValueError (label @ '' is invalid'')) (Inr t))"

record window =
  win_id :: string
  win_source :: string
  win_title :: string
  win_impact :: string
  win_starts :: rat
  win_starts_iso :: string
  win_ends :: rat
  win_ends_iso :: string
  win_duration :: int
  win_target :: string
  win_recurring :: bool
  win_metadata :: "(string \<times> pyval) list"

definition window_metadata :: "pyval \<Rightarrow> (string \<times> pyval) list option" where
  "window_metadata v = (if truthy v then as_dict v else Some [])"

definition normalize_window :: "pyval \<Rightarrow> window res" where
  "normalize_window raw0 =
     (case as_dict raw0 of
        None \<Rightarrow> Inl (ValueError ''calendar window must be an object'')
      | Some raw \<Rightarrow>
          bind_res (window_epoch (pget_default raw ''startsAt'' (pget raw ''start''))) (\<lambda>start.
          bind_res (window_epoch (pget_default raw ''endsAt'' (pget raw ''end''))) (\<lambda>finish.
          require (\<not> (finish \<le> start \<or> finish - start > 31 * 86400)) (ValueError ''calendar window duration is invalid'')
         (let impact = str_or_empty (pget raw ''impact'') in
          require (impact \<in> set IMPACTS) (ValueError ''calendar window impact is invalid'')
         (case window_metadata (pget raw ''metadata'') of
            None \<Rightarrow> Inl (ValueError ''calendar window metadata must be an object'')
          | Some metadata \<Rightarrow>
              require (\<not> length (canonical (PDict metadata)) > 8192) (ValueError ''calendar window metadata is too large'')
             (bind_res (bounded_text (pget raw ''id'') 180 ''calendar window id'') (\<lambda>i.
              bind_res (bounded_text (pget raw ''source'') 80 ''calendar window source'') (\<lambda>source.
              bind_res (bounded_text (pget raw ''title'') 180 ''calendar window title'') (\<lambda>title.
              bind_res (iso_utc start) (\<lambda>start_iso.
              bind_res (iso_utc finish) (\<lambda>finish_iso.
              Inr \<lparr>win_id = i, win_source = source, win_title = title, win_impact = impact, win_starts = start,
                   win_starts_iso = start_iso, win_ends = finish, win_ends_iso = finish_iso,
                   win_duration = py_round (finish - start), win_target = take 120 (str_or_empty (pget raw ''target'')),
                   win_recurring = truthy (pget raw ''recurring''), win_metadata = metadata\<rparr>)))))))))))"

subsection \<open>Collisions\<close>

definition overlap_seconds :: "window \<Rightarrow> window \<Rightarrow> rat" where
  "overlap_seconds left right =
     max 0 (min (win_ends left) (win_ends right) - max (win_starts left) (win_starts right))"

definition conflict_severity :: "window \<Rightarrow> window \<Rightarrow> string option" where
  "conflict_severity left right =
     (let impacts = {win_impact left, win_impact right} in
      if overlap_seconds left right \<le> 0 \<or> ''exclusion'' \<in> impacts then None
      else if impacts = {''disruptive''} \<or> impacts = {''disruptive'', ''recovery''} then Some ''critical''
      else if impacts = {''recovery''} then Some ''warning''
      else if ''disruptive'' \<in> impacts \<and> ''preparatory'' \<in> impacts then Some ''warning''
      else None)"

record conflict =
  con_id :: string
  con_severity :: string
  con_left :: string
  con_right :: string
  con_starts :: rat
  con_starts_iso :: string
  con_overlap :: int
  con_reason :: string

definition conflict_reason :: "window \<Rightarrow> window \<Rightarrow> string" where
  "conflict_reason left right =
     (if {win_impact left, win_impact right} = {''disruptive'', ''recovery''}
        then ''a disruptive operation overlaps recovery work''
      else if win_impact left = win_impact right \<and> win_impact right = ''disruptive'' then ''two disruptive operations overlap''
      else if win_impact left = win_impact right \<and> win_impact right = ''recovery'' then ''two recovery operations overlap''
      else ''preparatory work overlaps a disruptive operation'')"

definition conflict_of :: "window \<Rightarrow> window \<Rightarrow> string \<Rightarrow> conflict res" where
  "conflict_of left right severity =
     (let starts = max (win_starts left) (win_starts right) in
      bind_res (iso_utc starts) (\<lambda>starts_iso.
      Inr \<lparr>con_id = ''calendar-conflict-'' @ take 24 (sha256_hex (utf8 (win_id left @ [chr 0] @ win_id right))),
           con_severity = severity, con_left = win_id left, con_right = win_id right, con_starts = starts,
           con_starts_iso = starts_iso, con_overlap = py_round (overlap_seconds left right),
           con_reason = conflict_reason left right\<rparr>))"

text \<open>The pairs the double loop reports; it leaves the inner loop at the first later start.\<close>

definition pairs_from :: "window \<Rightarrow> window list \<Rightarrow> (window \<times> window \<times> string) list" where
  "pairs_from left rest =
     concat (map (\<lambda>right. case conflict_severity left right of
          None \<Rightarrow> []
        | Some s \<Rightarrow> if s \<in> set SEVERITIES then [(left, right, s)] else [])
       (takeWhile (\<lambda>right. \<not> win_starts right \<ge> win_ends left) rest))"

fun conflict_pairs :: "window list \<Rightarrow> (window \<times> window \<times> string) list" where
  "conflict_pairs [] = []"
| "conflict_pairs (left # rest) = pairs_from left rest @ conflict_pairs rest"

subsection \<open>The analysis\<close>

datatype calendar_error = SourceError string string | WindowError nat string

definition source_error :: "pyval \<Rightarrow> calendar_error" where
  "source_error raw =
     (case as_dict raw of
        Some d \<Rightarrow> SourceError
          (take 80 (if truthy (pget d ''source'') then py_str (pget d ''source'') else ''unknown''))
          (take 500 (if truthy (pget d ''error'') then py_str (pget d ''error'') else ''calendar source failed''))
      | None \<Rightarrow> SourceError ''unknown'' (take 500 (if truthy raw then py_str raw else ''calendar source failed'')))"

text \<open>The windows accepted, the errors and the identifiers seen so far.\<close>

record scan =
  sc_windows :: "window list"
  sc_errors :: "calendar_error list"
  sc_seen :: "string list"

definition accept_window :: "scan \<Rightarrow> pyval \<Rightarrow> window res" where
  "accept_window s raw =
     bind_res (normalize_window raw) (\<lambda>row.
     require (win_id row \<notin> set (sc_seen s)) (ValueError ''calendar window id is duplicated'') (Inr row))"

definition scan_window :: "rat \<Rightarrow> rat \<Rightarrow> scan \<Rightarrow> nat \<times> pyval \<Rightarrow> scan res" where
  "scan_window now horizon_end s p =
     (case accept_window s (snd p) of
        Inr row \<Rightarrow>
          Inr (s\<lparr>sc_seen := win_id row # sc_seen s,
                 sc_windows := (if win_ends row > now \<and> win_starts row < horizon_end then sc_windows s @ [row] else sc_windows s)\<rparr>)
      | Inl (ValueError m) \<Rightarrow> Inr (s\<lparr>sc_errors := sc_errors s @ [WindowError (fst p) m]\<rparr>)
      | Inl (TypeError m) \<Rightarrow> Inr (s\<lparr>sc_errors := sc_errors s @ [WindowError (fst p) m]\<rparr>)
      | Inl e \<Rightarrow> Inl e)"

record coverage_finding =
  cov_id :: string
  cov_window :: string
  cov_starts :: rat
  cov_starts_iso :: string

definition is_exclusion :: "window \<Rightarrow> bool" where
  "is_exclusion w = (win_impact w = ''exclusion'' \<and> truthy (pget (win_metadata w) ''maintenanceExclusion''))"

definition covered_by :: "window list \<Rightarrow> window \<Rightarrow> bool" where
  "covered_by exclusions w = list_ex (\<lambda>x. win_starts x \<le> win_starts w \<and> win_ends x \<ge> win_ends w) exclusions"

definition needs_cover :: "window \<Rightarrow> bool" where
  "needs_cover w = (win_impact w = ''disruptive'' \<and> truthy (pget_default (win_metadata w) ''execute'' (PBool True)))"

definition coverage_findings :: "window list \<Rightarrow> coverage_finding list" where
  "coverage_findings rows =
     (let exclusions = filter is_exclusion rows in
      map (\<lambda>w. \<lparr>cov_id = ''calendar-coverage-'' @ take 24 (sha256_hex (utf8 (win_id w))), cov_window = win_id w,
             cov_starts = win_starts w, cov_starts_iso = win_starts_iso w\<rparr>)
        (filter (\<lambda>w. needs_cover w \<and> \<not> covered_by exclusions w) rows))"

definition window_json :: "window \<Rightarrow> pyval" where
  "window_json w = PDict
     [(''id'', PStr (win_id w)), (''source'', PStr (win_source w)), (''title'', PStr (win_title w)), (''impact'', PStr (win_impact w)),
      (''startsAt'', PFloat (win_starts w)), (''startsAtIso'', PStr (win_starts_iso w)), (''endsAt'', PFloat (win_ends w)),
      (''endsAtIso'', PStr (win_ends_iso w)), (''durationSeconds'', PInt (win_duration w)), (''target'', PStr (win_target w)),
      (''recurring'', PBool (win_recurring w)), (''metadata'', PDict (win_metadata w))]"

definition conflict_json :: "conflict \<Rightarrow> pyval" where
  "conflict_json c = PDict
     [(''id'', PStr (con_id c)), (''severity'', PStr (con_severity c)), (''leftId'', PStr (con_left c)), (''rightId'', PStr (con_right c)),
      (''startsAt'', PFloat (con_starts c)), (''startsAtIso'', PStr (con_starts_iso c)), (''overlapSeconds'', PInt (con_overlap c)),
      (''reason'', PStr (con_reason c))]"

definition coverage_reason :: string where
  "coverage_reason = ''executing disruptive maintenance is not fully covered by a planned SLO maintenance exclusion''"

definition coverage_json :: "coverage_finding \<Rightarrow> pyval" where
  "coverage_json f = PDict
     [(''id'', PStr (cov_id f)), (''severity'', PStr ''warning''), (''windowId'', PStr (cov_window f)), (''startsAt'', PFloat (cov_starts f)),
      (''startsAtIso'', PStr (cov_starts_iso f)), (''reason'', PStr coverage_reason)]"

fun error_json :: "calendar_error \<Rightarrow> pyval" where
  "error_json (SourceError s e) = PDict [(''source'', PStr s), (''error'', PStr e)]"
| "error_json (WindowError i e) = PDict [(''index'', PInt (int i)), (''error'', PStr e)]"

record calendar =
  cal_generated :: string
  cal_horizon :: int
  cal_horizon_end :: rat
  cal_horizon_end_iso :: string
  cal_windows :: "window list"
  cal_current :: "window list"
  cal_next :: "window option"
  cal_conflicts :: "conflict list"
  cal_coverage :: "coverage_finding list"
  cal_errors :: "calendar_error list"
  cal_fingerprint :: string
  cal_ok :: bool

definition clamp_horizon :: "int \<Rightarrow> int" where
  "clamp_horizon h = max 3600 (min h (31 * 86400))"

definition calendar_fingerprint ::
  "window list \<Rightarrow> conflict list \<Rightarrow> coverage_finding list \<Rightarrow> calendar_error list \<Rightarrow> string" where
  "calendar_fingerprint windows conflicts findings errors =
     sha256_hex (canonical (PDict [(''windows'', PList (map window_json windows)),
       (''conflicts'', PList (map conflict_json conflicts)), (''coverageFindings'', PList (map coverage_json findings)),
       (''errors'', PList (map error_json errors))]))"

definition report_pair :: "window \<times> window \<times> string \<Rightarrow> conflict res" where
  "report_pair p = (case p of (left, right, severity) \<Rightarrow> conflict_of left right severity)"

definition sorted_windows :: "window list \<Rightarrow> window list" where
  "sorted_windows rows = sort_key (\<lambda>w. (win_starts w, win_ends w, win_id w)) rows"

definition analyze :: "pyval list \<Rightarrow> rat \<Rightarrow> int \<Rightarrow> pyval list \<Rightarrow> calendar res" where
  "analyze windows now horizon0 source_errors =
     (let horizon = clamp_horizon horizon0;
          horizon_end = now + of_int horizon in
      bind_res (fold_res (scan_window now horizon_end)
         \<lparr>sc_windows = [], sc_errors = map source_error source_errors, sc_seen = []\<rparr> (List.enumerate 0 windows)) (\<lambda>s.
      let normalized = sorted_windows (sc_windows s);
          errors = sc_errors s in
      bind_res (map_res report_pair (conflict_pairs normalized)) (\<lambda>conflicts.
      let findings = coverage_findings normalized in
      bind_res (iso_utc now) (\<lambda>generated.
      bind_res (iso_utc horizon_end) (\<lambda>horizon_end_iso.
      Inr \<lparr>cal_generated = generated, cal_horizon = horizon, cal_horizon_end = horizon_end,
           cal_horizon_end_iso = horizon_end_iso, cal_windows = normalized,
           cal_current = filter (\<lambda>w. win_starts w \<le> now \<and> now < win_ends w) normalized,
           cal_next = List.find (\<lambda>w. win_starts w \<ge> now) normalized,
           cal_conflicts = conflicts, cal_coverage = findings, cal_errors = errors,
           cal_fingerprint = calendar_fingerprint normalized conflicts findings errors,
           cal_ok = (errors = [] \<and> \<not> list_ex (\<lambda>c. con_severity c = ''critical'') conflicts)\<rparr>)))))"

definition severity_count :: "string \<Rightarrow> calendar \<Rightarrow> nat" where
  "severity_count s c = length (filter (\<lambda>x. con_severity x = s) (cal_conflicts c))"

definition calendar_prometheus :: "calendar \<Rightarrow> rat \<Rightarrow> string" where
  "calendar_prometheus c now =
     (let starts = (case cal_next c of None \<Rightarrow> 0 | Some w \<Rightarrow> win_starts w);
          line = (\<lambda>name v. name @ '' '' @ v @ [chr 10])
      in line ''dash_operations_calendar_collector_up'' (if cal_errors c = [] then ''1'' else ''0'')
       @ line ''dash_operations_calendar_windows'' (nat_digits (length (cal_windows c)))
       @ line ''dash_operations_calendar_current_windows'' (nat_digits (length (cal_current c)))
       @ line ''dash_operations_calendar_critical_conflicts'' (nat_digits (severity_count ''critical'' c))
       @ line ''dash_operations_calendar_warning_conflicts'' (nat_digits (severity_count ''warning'' c))
       @ line ''dash_operations_calendar_uncovered_disruptive_windows'' (nat_digits (length (cal_coverage c)))
       @ line ''dash_operations_calendar_next_window_timestamp_seconds'' (float_repr starts)
       @ line ''dash_operations_calendar_next_window_seconds''
           (float_repr (case cal_next c of None \<Rightarrow> 0 | Some w \<Rightarrow> max 0 (starts - now))))"

subsection \<open>Properties\<close>

text \<open>The reference: every pair, with the windows in their order.\<close>

fun all_pairs :: "window list \<Rightarrow> (window \<times> window) list" where
  "all_pairs [] = []"
| "all_pairs (left # rest) = map (Pair left) rest @ all_pairs rest"

definition colliding :: "window \<times> window \<Rightarrow> (window \<times> window \<times> string) list" where
  "colliding p = (case conflict_severity (fst p) (snd p) of None \<Rightarrow> [] | Some s \<Rightarrow> [(fst p, snd p, s)])"

lemma severity_known: "conflict_severity left right = Some s \<Longrightarrow> s \<in> set SEVERITIES"
  by (auto simp: conflict_severity_def Let_def SEVERITIES_def split: if_splits)

lemma no_overlap_no_conflict: "win_ends left \<le> win_starts right \<Longrightarrow> conflict_severity left right = None"
  by (auto simp: conflict_severity_def overlap_seconds_def min_def max_def)

lemma pairs_from_all:
  assumes "sorted (map win_starts rest)"
  shows "pairs_from left rest = concat (map (\<lambda>right. colliding (left, right)) rest)"
  using assms
proof (induction rest)
  case Nil
  then show ?case by (simp add: pairs_from_def)
next
  case (Cons right rest)
  show ?case
  proof (cases "win_starts right \<ge> win_ends left")
    case True
    then have "\<forall>r\<in>set (right # rest). win_ends left \<le> win_starts r" using Cons.prems by auto
    then have "concat (map (\<lambda>right. colliding (left, right)) (right # rest)) = []"
      using no_overlap_no_conflict by (auto simp: colliding_def)
    then show ?thesis using True by (simp add: pairs_from_def)
  next
    case False
    then show ?thesis using Cons severity_known
      by (auto simp: pairs_from_def colliding_def split: option.splits)
  qed
qed

lemma sweep_all: "sorted (map win_starts rows) \<Longrightarrow> conflict_pairs rows = concat (map colliding (all_pairs rows))"
  by (induction rows) (simp_all add: pairs_from_all o_def)

lemma sorted_first_key:
  fixes f :: "'a \<Rightarrow> 'b::linorder" and g :: "'a \<Rightarrow> 'c::linorder"
  shows "sorted (map (\<lambda>x. (f x, g x)) xs) \<Longrightarrow> sorted (map f xs)"
  by (induction xs) (auto simp: less_eq_prod_simp)

text \<open>
  C21. The analysis misses no collision: the conflicts it reports, by a sweep that leaves
  the inner loop at the first window starting after the current one ends, are those of a
  comparison of every pair of its windows, in the same order.
\<close>

theorem calendar_sweep_complete:
  assumes "analyze windows now horizon source_errors = Inr c"
  shows "map_res report_pair
      (concat (map colliding (all_pairs (cal_windows c)))) = Inr (cal_conflicts c)"
proof -
  obtain s :: scan where c: "cal_windows c = sorted_windows (sc_windows s)"
    "map_res report_pair (conflict_pairs (cal_windows c)) = Inr (cal_conflicts c)"
    using assms by (auto simp: analyze_def Let_def)
  have "sorted (map (\<lambda>w. (win_starts w, win_ends w, win_id w)) (cal_windows c))"
    unfolding c(1) sorted_windows_def by (rule sorted_sort_key)
  then have "sorted (map win_starts (cal_windows c))" by (rule sorted_first_key)
  then show ?thesis using c(2) sweep_all by simp
qed

definition demo_window :: "string \<Rightarrow> string \<Rightarrow> int \<Rightarrow> int \<Rightarrow> pyval" where
  "demo_window i impact a b = PDict [(''id'', PStr i), (''source'', PStr ''plan''), (''title'', PStr i), (''impact'', PStr impact),
     (''startsAt'', PInt a), (''endsAt'', PInt b)]"

definition demo_windows :: "pyval list" where
  "demo_windows = [demo_window ''update'' ''disruptive'' 2000 4000, demo_window ''drill'' ''recovery'' 1500 2500]"

definition demo_update :: window where
  "demo_update = \<lparr>win_id = ''update'', win_source = ''plan'', win_title = ''update'', win_impact = ''disruptive'',
     win_starts = 2000, win_starts_iso = ''1970-01-01T00:33:20Z'', win_ends = 4000, win_ends_iso = ''1970-01-01T01:06:40Z'',
     win_duration = 2000, win_target = [], win_recurring = False, win_metadata = []\<rparr>"

definition demo_drill :: window where
  "demo_drill = \<lparr>win_id = ''drill'', win_source = ''plan'', win_title = ''drill'', win_impact = ''recovery'',
     win_starts = 1500, win_starts_iso = ''1970-01-01T00:25:00Z'', win_ends = 2500, win_ends_iso = ''1970-01-01T00:41:40Z'',
     win_duration = 1000, win_target = [], win_recurring = False, win_metadata = []\<rparr>"

lemma demo_texts:
  "bounded_text (PStr ''update'') 180 ''calendar window id'' = Inr ''update''"
  "bounded_text (PStr ''update'') 180 ''calendar window title'' = Inr ''update''"
  "bounded_text (PStr ''drill'') 180 ''calendar window id'' = Inr ''drill''"
  "bounded_text (PStr ''drill'') 180 ''calendar window title'' = Inr ''drill''"
  "bounded_text (PStr ''plan'') 80 ''calendar window source'' = Inr ''plan''"
  "iso_utc 1500 = Inr ''1970-01-01T00:25:00Z''" "iso_utc 2000 = Inr ''1970-01-01T00:33:20Z''"
  "iso_utc 2500 = Inr ''1970-01-01T00:41:40Z''" "iso_utc 4000 = Inr ''1970-01-01T01:06:40Z''"
  "py_round 2000 = 2000" "py_round 1000 = 1000"
  by code_simp+

lemma demo_epoch: "0 < n \<Longrightarrow> n < 10000 \<Longrightarrow> window_epoch (PInt n) = Inr (of_int n)"
  by (simp add: window_epoch_def float_max_excl_def)

lemma demo_normalize:
  "normalize_window (demo_window ''update'' ''disruptive'' 2000 4000) = Inr demo_update"
  "normalize_window (demo_window ''drill'' ''recovery'' 1500 2500) = Inr demo_drill"
  by (simp_all add: normalize_window_def demo_window_def pget_def pget_default_def demo_epoch demo_texts IMPACTS_def
      window_metadata_def canonical_def demo_update_def demo_drill_def Let_def)

lemma demo_scan:
  "fold_res (scan_window 1000 8200) \<lparr>sc_windows = [], sc_errors = [], sc_seen = []\<rparr> (List.enumerate 0 demo_windows) =
   Inr \<lparr>sc_windows = [demo_update, demo_drill], sc_errors = [], sc_seen = [''drill'', ''update'']\<rparr>"
  by (simp add: demo_windows_def scan_window_def accept_window_def demo_normalize) (simp add: demo_update_def demo_drill_def)

lemma demo_calendar_parts:
  "sorted_windows [demo_update, demo_drill] = [demo_drill, demo_update]"
  "conflict_pairs [demo_drill, demo_update] = [(demo_drill, demo_update, ''critical'')]"
  "iso_utc 2000 = Inr ''1970-01-01T00:33:20Z''" "max (win_starts demo_drill) (win_starts demo_update) = 2000"
  "iso_utc 1000 = Inr ''1970-01-01T00:16:40Z''" "iso_utc 8200 = Inr ''1970-01-01T02:16:40Z''" "clamp_horizon 7200 = 7200"
  by code_simp+

theorem calendar_sweep_complete_witness:
  "\<exists>c. analyze demo_windows 1000 7200 [] = Inr c \<and> length (cal_conflicts c) = 1 \<and>
    map_res report_pair
      (concat (map colliding (all_pairs (cal_windows c)))) = Inr (cal_conflicts c)"
proof -
  have h: "(1000 :: rat) + of_int (clamp_horizon 7200) = 8200" using demo_calendar_parts(7) by simp
  have "\<exists>c. analyze demo_windows 1000 7200 [] = Inr c \<and> length (cal_conflicts c) = 1"
    unfolding analyze_def Let_def list.map h demo_scan bind_res_simps
    using demo_calendar_parts by (simp add: report_pair_def conflict_of_def Let_def)
  then obtain c where c: "analyze demo_windows 1000 7200 [] = Inr c" "length (cal_conflicts c) = 1" by blast
  with calendar_sweep_complete [OF c(1)] show ?thesis by blast
qed

end
