(* ===== verification/EnvFile.thy ===== *)
theory EnvFile
  imports Utf8
begin

section \<open>Updating the dotenv file in place\<close>

text \<open>
  \<^verbatim>\<open>admin/env_file_store.py\<close>.  A file is its bytes and its identity; a path may also be
  missing or something other than a regular file.  Short writes are a parameter: \<open>accepts k\<close>
  is the most bytes the \<open>k\<close>-th \<^verbatim>\<open>pwrite\<close> takes.  What the code observes of the path between
  \<^verbatim>\<open>lstat\<close>, \<^verbatim>\<open>open\<close> and the lock is passed as arguments.  \<^verbatim>\<open>EnvFileError\<close> is a \<^verbatim>\<open>ValueError\<close>.
  A text with code points above 255 is \<open>Unmodelled\<close>.
\<close>

text \<open>\<^verbatim>\<open>[A-Za-z_][A-Za-z0-9_]*\<close>\<close>

definition env_letter :: "char \<Rightarrow> bool" where
  "env_letter c = ((65 \<le> code c \<and> code c \<le> 90) \<or> (97 \<le> code c \<and> code c \<le> 122) \<or> code c = 95)"

definition env_key_ok :: "string \<Rightarrow> bool" where
  "env_key_ok k = (case k of [] \<Rightarrow> False | c # s \<Rightarrow> env_letter c \<and> list_all (\<lambda>d. env_letter d \<or> is_digit d) s)"

subsection \<open>The bytes of the file\<close>

definition decode_text :: "string \<Rightarrow> string res" where
  "decode_text b =
     (case utf8_points b of
        None \<Rightarrow> Inl (ValueError ''env file must be valid UTF-8'')
      | Some ps \<Rightarrow> if list_all (\<lambda>p. p < 256) ps then Inr (map chr ps) else Inl Unmodelled)"

definition validate_payload :: "string \<Rightarrow> nat \<Rightarrow> unit res" where
  "validate_payload payload max_bytes =
     require (\<not> length payload > max_bytes)
       (ValueError (''env file exceeds the '' @ nat_digits max_bytes @ ''-byte limit''))
    (require (chr 0 \<notin> set payload) (ValueError ''env file must not contain NUL bytes'')
    (require (utf8_points payload \<noteq> None) (ValueError ''env file must be valid UTF-8'') (Inr ())))"

fun validate_updates_from :: "string list \<Rightarrow> (pyval \<times> pyval) list \<Rightarrow> (string \<times> string) list res" where
  "validate_updates_from seen [] = Inr []"
| "validate_updates_from seen ((raw_key, raw_value) # rest) =
     (let key = py_str raw_key; v = py_str raw_value in
      require (env_key_ok key) (ValueError (''invalid env key: '' @ repr_str key))
     (require (key \<notin> set seen) (ValueError (''duplicate requested env key: '' @ key))
     (require (\<not> list_ex (\<lambda>c. c \<in> {chr 0, chr 13, chr 10}) v)
        (ValueError (''env value for '' @ key @ '' contains a forbidden control character''))
     (bind_res (validate_updates_from (key # seen) rest) (\<lambda>r. Inr ((key, v) # r))))))"

definition validate_updates :: "(pyval \<times> pyval) list \<Rightarrow> (string \<times> string) list res" where
  "validate_updates updates =
     bind_res (validate_updates_from [] updates) (\<lambda>rendered.
     require (rendered \<noteq> []) (ValueError ''at least one env update is required'') (Inr rendered))"

subsection \<open>The file\<close>

record env_file =
  ef_bytes :: string
  ef_device :: int
  ef_inode :: int

datatype path_state = Missing | Special | Regular env_file

definition same_inode :: "env_file \<Rightarrow> env_file \<Rightarrow> bool" where
  "same_inode f g = (ef_device f = ef_device g \<and> ef_inode f = ef_inode g)"

text \<open>
  \<open>at_path\<close> is what \<^verbatim>\<open>lstat\<close> shows, \<open>opened\<close> what \<^verbatim>\<open>open\<close> and \<^verbatim>\<open>fstat\<close> show (\<open>None\<close> when opening
  fails), \<open>locked\<close> the file once the lock is held.
\<close>

definition locked_file :: "path_state \<Rightarrow> path_state option \<Rightarrow> env_file \<Rightarrow> nat \<Rightarrow> env_file res" where
  "locked_file at_path opened locked max_bytes =
     (let too_big = ValueError (''env file exceeds the '' @ nat_digits max_bytes @ ''-byte limit'') in
      case at_path of
        Missing \<Rightarrow> Inl (ValueError ''env file does not exist'')
      | Special \<Rightarrow> Inl (ValueError ''env file must be an existing regular file, not a symlink'')
      | Regular b \<Rightarrow>
          (case opened of
             None \<Rightarrow> Inl (ValueError ''cannot safely open env file'')
           | Some (Regular opn) \<Rightarrow>
               require (same_inode opn b) (ValueError ''env file changed while it was being opened'')
              (require (\<not> length (ef_bytes opn) > max_bytes) too_big
              (require (\<not> length (ef_bytes locked) > max_bytes) too_big (Inr locked)))
           | Some _ \<Rightarrow> Inl (ValueError ''env file changed while it was being opened'')))"

definition CHUNK :: nat where
  "CHUNK = 1024 * 1024"

text \<open>The loop of \<^verbatim>\<open>pread\<close>s: at most a chunk, less at the end of the file.\<close>

function read_chunks :: "string \<Rightarrow> nat \<Rightarrow> nat \<Rightarrow> string" where
  "read_chunks content wanted_len offset =
     (let chunk = take (min CHUNK (wanted_len - offset)) (drop offset content) in
      if \<not> offset < wanted_len \<or> chunk = [] then [] else chunk @ read_chunks content wanted_len (offset + length chunk))"
  by pat_completeness auto
termination
  by (relation "measure (\<lambda>(content, wanted_len, offset). wanted_len - offset)") (auto simp: Let_def CHUNK_def)

declare read_chunks.simps [simp del]

definition read_locked :: "env_file \<Rightarrow> nat \<Rightarrow> nat \<Rightarrow> string res" where
  "read_locked f wanted_len max_bytes =
     (let payload = read_chunks (ef_bytes f) wanted_len 0 in
      bind_res (validate_payload payload max_bytes) (\<lambda>_. Inr payload))"

text \<open>\<^verbatim>\<open>pwrite\<close>: overwrite at an offset within the file or at its end.\<close>

definition overwrite :: "string \<Rightarrow> nat \<Rightarrow> string \<Rightarrow> string" where
  "overwrite content offset d = take offset content @ d @ drop (offset + length d) content"

text \<open>The loop of \<^verbatim>\<open>pwrite\<close>s; the content so far, and whether the payload was written.\<close>

function write_chunks :: "(nat \<Rightarrow> nat) \<Rightarrow> nat \<Rightarrow> string \<Rightarrow> string \<Rightarrow> nat \<Rightarrow> bool \<times> string" where
  "write_chunks accepts k payload content offset =
     (if \<not> offset < length payload then (True, content)
      else let d = take (accepts k) (drop offset payload) in
        if length d \<le> 0 then (False, content)
        else write_chunks accepts (k + 1) payload (overwrite content offset d) (offset + length d))"
  by pat_completeness auto
termination
  by (relation "measure (\<lambda>(accepts, k, payload, content, offset). length payload - offset)") auto

declare write_chunks.simps [simp del]

definition write_locked :: "(nat \<Rightarrow> nat) \<Rightarrow> env_file \<Rightarrow> string \<Rightarrow> unit res \<times> env_file" where
  "write_locked accepts f payload =
     (case write_chunks accepts 0 payload (ef_bytes f) 0 of
        (False, content) \<Rightarrow> (Inl (OSError ''env file write made no progress''), f\<lparr>ef_bytes := content\<rparr>)
      | (True, content) \<Rightarrow>
          let g = f\<lparr>ef_bytes := take (length payload) content\<rparr>
          in (bind_res (read_locked g (length payload) (max (length payload) 1)) (\<lambda>verified.
               require (verified = payload) (OSError ''env file verification failed after write'') (Inr ())), g))"

record env_result =
  er_changed :: bool
  er_keys :: nat
  er_bytes :: nat
  er_device :: int
  er_inode :: int

text \<open>The part both operations share: write the payload if it differs from what is there.\<close>

definition commit :: "(nat \<Rightarrow> nat) \<Rightarrow> env_file \<Rightarrow> string \<Rightarrow> string \<Rightarrow> nat \<Rightarrow> env_result res \<times> env_file" where
  "commit accepts f current payload keys =
     (let (done, after) = (if current \<noteq> payload then write_locked accepts f payload else (Inr (), f)) in
      (bind_res done (\<lambda>_.
         require (same_inode after f) (OSError ''env file inode changed'')
           (Inr \<lparr>er_changed = (current \<noteq> payload), er_keys = keys, er_bytes = length payload,
                 er_device = ef_device after, er_inode = ef_inode after\<rparr>)), after))"

definition replace_contents ::
  "(nat \<Rightarrow> nat) \<Rightarrow> path_state \<Rightarrow> path_state option \<Rightarrow> env_file \<Rightarrow> string \<Rightarrow> nat \<Rightarrow> env_result res \<times> env_file" where
  "replace_contents accepts at_path opened locked payload max_bytes =
     (case require (\<not> max_bytes < 1) (ValueError ''max_bytes must be positive'')
         (bind_res (validate_payload payload max_bytes) (\<lambda>_.
          bind_res (locked_file at_path opened locked max_bytes) (\<lambda>f.
          bind_res (read_locked f (length (ef_bytes f)) max_bytes) (\<lambda>current. Inr (f, current))))) of
        Inl e \<Rightarrow> (Inl e, locked)
      | Inr (f, current) \<Rightarrow> commit accepts f current payload 0)"

subsection \<open>Updating keys\<close>

text \<open>\<^verbatim>\<open>str.splitlines\<close>: it breaks at more characters than the line feed.\<close>

definition line_break :: "char \<Rightarrow> bool" where
  "line_break c = (code c \<in> {10, 11, 12, 13, 28, 29, 30, 133})"

fun splitlines_from :: "string \<Rightarrow> string \<Rightarrow> string list" where
  "splitlines_from cur [] = (if cur = [] then [] else [rev cur])"
| "splitlines_from cur (c # s) =
     (if code c = 13 then
        (case s of
           d # s' \<Rightarrow> if code d = 10 then rev cur # splitlines_from [] s' else rev cur # splitlines_from [] s
         | [] \<Rightarrow> [rev cur])
      else if line_break c then rev cur # splitlines_from [] s
      else splitlines_from (c # cur) s)"

definition splitlines :: "string \<Rightarrow> string list" where
  "splitlines s = splitlines_from [] s"

text \<open>The key a line assigns; comments, blank lines and lines without \<^verbatim>\<open>=\<close> assign none.\<close>

definition line_key :: "string \<Rightarrow> string option" where
  "line_key line =
     (let stripped = lstrip line in
      if stripped = [] \<or> starts_with stripped ''#'' \<or> CHR ''='' \<notin> set line then None
      else Some (strip (before (CHR ''='') line)))"

definition assignment :: "string \<Rightarrow> string \<Rightarrow> string" where
  "assignment k v = k @ ''='' @ v"

text \<open>The loop over the lines: \<open>seen\<close> are the keys already rendered.\<close>

fun render_lines :: "(string \<rightharpoonup> string) \<Rightarrow> string list \<Rightarrow> string list \<Rightarrow> string list \<times> string list" where
  "render_lines wanted seen [] = ([], seen)"
| "render_lines wanted seen (line # rest) =
     (case line_key line of
        None \<Rightarrow> (let (out, s) = render_lines wanted seen rest in (line # out, s))
      | Some candidate \<Rightarrow>
          (case wanted candidate of
             None \<Rightarrow> (let (out, s) = render_lines wanted seen rest in (line # out, s))
           | Some v \<Rightarrow>
               if candidate \<in> set seen then render_lines wanted seen rest
               else (let (out, s) = render_lines wanted (candidate # seen) rest in (assignment candidate v # out, s))))"

definition render_env :: "(string \<times> string) list \<Rightarrow> string \<Rightarrow> string list" where
  "render_env requested original =
     (let (out, seen) = render_lines (map_of requested) [] (splitlines original)
      in out @ map (\<lambda>(k, v). assignment k v) (filter (\<lambda>p. fst p \<notin> set seen) requested))"

definition update_values ::
  "(nat \<Rightarrow> nat) \<Rightarrow> path_state \<Rightarrow> path_state option \<Rightarrow> env_file \<Rightarrow> (pyval \<times> pyval) list \<Rightarrow> nat \<Rightarrow> env_result res \<times> env_file" where
  "update_values accepts at_path opened locked updates max_bytes =
     (case bind_res (validate_updates updates) (\<lambda>requested.
           bind_res (locked_file at_path opened locked max_bytes) (\<lambda>f.
           bind_res (read_locked f (length (ef_bytes f)) max_bytes) (\<lambda>original.
           bind_res (decode_text original) (\<lambda>t.
           let payload = utf8 (join [chr 10] (render_env requested t) @ [chr 10]) in
           bind_res (validate_payload payload max_bytes) (\<lambda>_. Inr (f, original, payload, length requested)))))) of
        Inl e \<Rightarrow> (Inl e, locked)
      | Inr (f, original, payload, n) \<Rightarrow> commit accepts f original payload n)"

subsection \<open>Reading the file\<close>

text \<open>
  \<^verbatim>\<open>read_env\<close> of \<^verbatim>\<open>admin/admin_panel.py\<close>, on the text of the file or \<open>None\<close> when it does not
  exist.  A later line overrides an earlier one.
\<close>

definition strip_quotes :: "string \<Rightarrow> string" where
  "strip_quotes s = (let q = (\<lambda>c. c \<in> {chr 34, chr 39}) in rev (dropWhile q (rev (dropWhile q s))))"

definition read_env_line :: "(string \<rightharpoonup> string) \<Rightarrow> string \<Rightarrow> (string \<rightharpoonup> string)" where
  "read_env_line values line =
     (if line = [] \<or> starts_with (lstrip line) ''#'' \<or> CHR ''='' \<notin> set line then values
      else let key = before (CHR ''='') line; v = drop (length key + 1) line
        in values(strip key \<mapsto> strip_quotes (strip v)))"

definition read_env :: "string option \<Rightarrow> (string \<rightharpoonup> string)" where
  "read_env file = (case file of None \<Rightarrow> Map.empty | Some t \<Rightarrow> foldl read_env_line Map.empty (splitlines t))"

subsection \<open>Reads and writes\<close>

lemma read_chunks_all: "read_chunks content wanted_len offset = drop offset (take wanted_len content)"
proof (induction content wanted_len offset rule: read_chunks.induct)
  case (1 content wanted_len offset)
  let ?chunk = "take (min CHUNK (wanted_len - offset)) (drop offset content)"
  show ?case
  proof (cases "\<not> offset < wanted_len \<or> ?chunk = []")
    case True
    then have "drop offset (take wanted_len content) = []"
      by (auto simp: CHUNK_def min_def split: if_splits)
    then show ?thesis using True by (subst read_chunks.simps) (auto simp: Let_def)
  next
    case False
    then have "read_chunks content wanted_len (offset + length ?chunk) = drop (offset + length ?chunk) (take wanted_len content)"
      using 1 by (simp add: Let_def)
    moreover have "?chunk @ drop (offset + length ?chunk) (take wanted_len content) = drop offset (take wanted_len content)"
    proof -
      have "?chunk = take (length ?chunk) (drop offset (take wanted_len content))"
        by (simp add: drop_take min_def)
      then show ?thesis by (metis add.commute append_take_drop_id drop_drop)
    qed
    ultimately show ?thesis using False unfolding read_chunks.simps [of content wanted_len offset]
      by (simp only: Let_def if_False)
  qed
qed

lemma write_chunks_ok:
  assumes "write_chunks accepts k payload content offset = (True, content')"
    and "take offset content = take offset payload" and "offset \<le> length payload" and "offset \<le> length content"
  shows "take (length payload) content' = payload"
  using assms
proof (induction accepts k payload content offset rule: write_chunks.induct)
  case (1 accepts k payload content offset)
  let ?d = "take (accepts k) (drop offset payload)"
  show ?case
  proof (cases "offset < length payload")
    case False
    then show ?thesis using "1.prems" unfolding write_chunks.simps [of accepts k payload content offset] by simp
  next
    case True
    have ne: "?d \<noteq> []" and rest: "write_chunks accepts (k + 1) payload (overwrite content offset ?d) (offset + length ?d) = (True, content')"
      using "1.prems"(1) True unfolding write_chunks.simps [of accepts k payload content offset]
      by (simp_all add: Let_def split: if_splits)
    have "take (offset + length ?d) (overwrite content offset ?d) = take offset payload @ ?d"
    proof -
      have "length (take offset content @ ?d) = offset + length ?d" using "1.prems"(4) by simp
      then have "take (offset + length ?d) ((take offset content @ ?d) @ drop (offset + length ?d) content) = take offset content @ ?d"
        by (metis append_eq_conv_conj)
      then show ?thesis using "1.prems"(2) by (simp only: overwrite_def append_assoc)
    qed
    moreover have "take offset payload @ ?d = take (offset + length ?d) payload"
      by (simp add: take_add min_def)
    ultimately have p: "take (offset + length ?d) (overwrite content offset ?d) = take (offset + length ?d) payload" by simp
    have "\<not> \<not> offset < length payload" "\<not> length ?d \<le> 0" using True ne by simp_all
    moreover have "offset + length ?d \<le> length payload" by (use True in simp)
    moreover have "offset + length ?d \<le> length (overwrite content offset ?d)" using "1.prems"(4) by (simp add: overwrite_def)
    ultimately show ?thesis using "1.IH" [OF _ refl _ rest p] by blast
  qed
qed

lemma write_chunks_ends:
  assumes "offset \<le> length payload" and "\<forall>j. k \<le> j \<longrightarrow> j < k + (length payload - offset) \<longrightarrow> 0 < accepts j"
  shows "fst (write_chunks accepts k payload content offset)"
  using assms
proof (induction accepts k payload content offset rule: write_chunks.induct)
  case (1 accepts k payload content offset)
  let ?d = "take (accepts k) (drop offset payload)"
  show ?case
  proof (cases "offset < length payload")
    case False
    then show ?thesis by (subst write_chunks.simps) simp
  next
    case True
    then have ne: "0 < length ?d" using "1.prems"(2) [rule_format, of k] by simp
    have le: "offset + length ?d \<le> length payload" using True by simp
    have "\<forall>j. k + 1 \<le> j \<longrightarrow> j < k + 1 + (length payload - (offset + length ?d)) \<longrightarrow> 0 < accepts j"
    proof (intro allI impI)
      fix j assume "k + 1 \<le> j" and "j < k + 1 + (length payload - (offset + length ?d))"
      then have "k \<le> j" "j < k + (length payload - offset)" using ne le by linarith+
      then show "0 < accepts j" using "1.prems"(2) by blast
    qed
    then show ?thesis using "1.IH" [OF _ refl _ le] True ne by (subst write_chunks.simps) (simp add: Let_def)
  qed
qed

lemma write_locked_ok:
  assumes "write_locked accepts f payload = (Inr (), g)"
  shows "g = f\<lparr>ef_bytes := payload\<rparr>"
proof -
  obtain ok content where w: "write_chunks accepts 0 payload (ef_bytes f) 0 = (ok, content)" by fastforce
  with assms have ok: "ok" by (cases ok) (auto simp: write_locked_def)
  with w have "take (length payload) content = payload"
    using write_chunks_ok [of accepts 0 payload "ef_bytes f" 0 content] by simp
  then show ?thesis using assms w ok by (auto simp: write_locked_def Let_def)
qed

lemma commit_ok:
  assumes "commit accepts f current payload n = (Inr r, g)" and "current = ef_bytes f"
  shows "g = f\<lparr>ef_bytes := payload\<rparr>"
  using assms write_locked_ok by (auto simp: commit_def Let_def split: if_splits prod.splits)

end
