(* ===== verification/EnvFileProps.thy ===== *)
theory EnvFileProps
  imports EnvFile
begin

section \<open>Updating the dotenv file: properties\<close>

subsection \<open>Lines\<close>

lemma decode_utf8: "decode_text (utf8 s) = Inr s"
  by (simp add: decode_text_def utf8_points_utf8 list_all_iff code_less o_def)

lemma splitlines_from_no_break:
  "l \<in> set (splitlines_from cur s) \<Longrightarrow> list_all (\<lambda>c. \<not> line_break c) cur \<Longrightarrow> list_all (\<lambda>c. \<not> line_break c) l"
proof (induction cur s rule: splitlines_from.induct)
  case (1 cur)
  then show ?case by (simp split: if_splits)
next
  case (2 cur c s)
  consider (crlf) d s' where "code c = 13" "s = d # s'" "code d = 10"
    | (cr) d s' where "code c = 13" "s = d # s'" "code d \<noteq> 10" | (last) "code c = 13" "s = []"
    | (break) "code c \<noteq> 13" "line_break c" | (other) "code c \<noteq> 13" "\<not> line_break c"
    by (cases s) auto
  then show ?case
  proof cases
    case crlf
    then have "l = rev cur \<or> l \<in> set (splitlines_from [] s')" using "2.prems"(1) by simp
    then show ?thesis using "2.IH"(1) [OF crlf] "2.prems"(2) by auto
  next
    case cr
    then have "l = rev cur \<or> l \<in> set (splitlines_from [] s)" using "2.prems"(1) by simp
    then show ?thesis using "2.IH"(2) [OF cr] "2.prems"(2) by auto
  next
    case last
    then show ?thesis using "2.prems" by simp
  next
    case break
    then have "l = rev cur \<or> l \<in> set (splitlines_from [] s)" using "2.prems"(1) by simp
    then show ?thesis using "2.IH"(3) [OF break] "2.prems"(2) by auto
  next
    case other
    then have "l \<in> set (splitlines_from (c # cur) s)" using "2.prems"(1) by simp
    then show ?thesis using "2.IH"(4) [OF other] "2.prems"(2) other(2) by auto
  qed
qed

lemma splitlines_no_line_break: "l \<in> set (splitlines s) \<Longrightarrow> list_all (\<lambda>c. \<not> line_break c) l"
  using splitlines_from_no_break [of l "[]" s] by (simp add: splitlines_def)

lemma splitlines_from_line:
  "list_all (\<lambda>c. \<not> line_break c) l \<Longrightarrow> splitlines_from cur (l @ chr 10 # rest) = (rev cur @ l) # splitlines_from [] rest"
proof (induction l arbitrary: cur)
  case Nil
  then show ?case by (simp add: line_break_def)
next
  case (Cons c l)
  then have "code c \<noteq> 13" "\<not> line_break c" by (auto simp: line_break_def)
  then show ?case using Cons by simp
qed

lemma splitlines_join:
  "ls \<noteq> [] \<Longrightarrow> list_all (list_all (\<lambda>c. \<not> line_break c)) ls \<Longrightarrow> splitlines (join [chr 10] ls @ [chr 10]) = ls"
proof (induction ls)
  case (Cons l ls)
  show ?case
  proof (cases ls)
    case Nil
    then show ?thesis using Cons.prems splitlines_from_line [of l "[]" "[]"] by (simp add: splitlines_def)
  next
    case (Cons m ms)
    then have "join [chr 10] (l # ls) @ [chr 10] = l @ chr 10 # (join [chr 10] ls @ [chr 10])" by simp
    then show ?thesis using Cons.IH Cons.prems splitlines_from_line [of l "[]"] Cons by (simp add: splitlines_def)
  qed
qed simp

subsection \<open>Assignments\<close>

definition line_value :: "string \<Rightarrow> string" where
  "line_value line = drop (length (before (CHR ''='') line) + 1) line"

definition shown :: "string \<Rightarrow> string" where
  "shown v = strip_quotes (strip v)"

text \<open>The reader finds the keys that the writer finds.\<close>

lemma read_env_line_key:
  "read_env_line m l = (case line_key l of None \<Rightarrow> m | Some k \<Rightarrow> m(k \<mapsto> shown (line_value l)))"
proof -
  have "lstrip l \<noteq> []" if "CHR ''='' \<in> set l"
  proof
    assume "lstrip l = []"
    then have "is_space (CHR ''='')" using that by (simp add: lstrip_def)
    moreover have "\<not> is_space (CHR ''='')" by code_simp
    ultimately show False by simp
  qed
  then show ?thesis by (auto simp: read_env_line_def line_key_def line_value_def shown_def Let_def lstrip_def)
qed

definition env_of :: "string list \<Rightarrow> (string \<rightharpoonup> string)" where
  "env_of ls = foldl read_env_line Map.empty ls"

lemma env_fold: "foldl read_env_line m ls = m ++ env_of ls"
proof (induction ls arbitrary: m)
  case (Cons l ls)
  have "read_env_line m l = m ++ read_env_line Map.empty l" by (simp add: read_env_line_key split: option.split)
  moreover have "foldl read_env_line m (l # ls) = read_env_line m l ++ env_of ls" using Cons [of "read_env_line m l"] by simp
  moreover have "env_of (l # ls) = read_env_line Map.empty l ++ env_of ls"
    using Cons [of "read_env_line Map.empty l"] by (simp add: env_of_def)
  ultimately show ?case by (simp only: map_add_assoc)
qed (simp add: env_of_def)

lemma env_of_simps [simp]:
  "env_of [] k = None"
  "env_of (l # ls) k = (case env_of ls k of Some v \<Rightarrow> Some v
     | None \<Rightarrow> if line_key l = Some k then Some (shown (line_value l)) else None)"
  "env_of (ls @ ms) k = (case env_of ms k of Some v \<Rightarrow> Some v | None \<Rightarrow> env_of ls k)"
proof -
  show "env_of [] k = None" by (simp add: env_of_def)
  have "env_of (l # ls) = read_env_line Map.empty l ++ env_of ls" by (simp add: env_of_def env_fold [of "read_env_line Map.empty l", unfolded env_of_def])
  then show "env_of (l # ls) k = (case env_of ls k of Some v \<Rightarrow> Some v
     | None \<Rightarrow> if line_key l = Some k then Some (shown (line_value l)) else None)"
    by (auto simp: map_add_def read_env_line_key split: option.splits)
  have "env_of (ls @ ms) = env_of ls ++ env_of ms" using env_fold [of "env_of ls" ms] by (simp add: env_of_def)
  then show "env_of (ls @ ms) k = (case env_of ms k of Some v \<Rightarrow> Some v | None \<Rightarrow> env_of ls k)"
    by (simp add: map_add_def)
qed

definition keys_of :: "string list \<Rightarrow> string set" where
  "keys_of ls = {k. \<exists>l\<in>set ls. line_key l = Some k}"

lemma keys_of_simps [simp]:
  "keys_of [] = {}" "k \<in> keys_of (l # ls) \<longleftrightarrow> line_key l = Some k \<or> k \<in> keys_of ls"
  by (auto simp: keys_of_def)

lemma env_key_codes:
  assumes "env_key_ok k" and "c \<in> set k"
  shows "(48 \<le> code c \<and> code c \<le> 57) \<or> (65 \<le> code c \<and> code c \<le> 90) \<or> (97 \<le> code c \<and> code c \<le> 122) \<or> code c = 95"
proof -
  have "env_letter c \<or> is_digit c"
    using assms by (auto simp: env_key_ok_def list_all_iff split: list.splits)
  then show ?thesis by (auto simp: env_letter_def is_digit_def)
qed

lemma env_key_chars:
  assumes "env_key_ok k" and "c \<in> set k"
  shows "\<not> is_space c" and "c \<noteq> CHR ''=''" and "c \<noteq> CHR ''#''" and "c \<noteq> chr 10"
proof -
  note codes = env_key_codes [OF assms]
  show "\<not> is_space c" using codes unfolding is_space_def Let_def by (elim disjE) auto
  show "c \<noteq> CHR ''=''" by (rule notI) (use codes in simp)
  show "c \<noteq> CHR ''#''" by (rule notI) (use codes in simp)
  show "c \<noteq> chr 10" by (rule notI) (use codes in simp)
qed

lemma assignment_key:
  assumes "env_key_ok k"
  shows "line_key (assignment k v) = Some k" and "line_value (assignment k v) = v"
proof -
  obtain c s where k: "k = c # s" using assms by (cases k) (auto simp: env_key_ok_def)
  have d: "dropWhile is_space t = t" if "\<forall>c\<in>set t. \<not> is_space c" for t using that by (cases t) auto
  have b: "before (CHR ''='') (assignment k v) = k"
    using env_key_chars(2) [OF assms] by (auto simp: before_def assignment_def takeWhile_append)
  have "strip k = k"
    using env_key_chars(1) [OF assms] d [of k] d [of "rev k"] by (simp add: strip_def lstrip_def rstrip_def)
  moreover have "lstrip (assignment k v) = assignment k v"
    using env_key_chars(1) [OF assms, of c] k by (simp add: lstrip_def assignment_def)
  moreover have "c \<noteq> CHR ''#''" using env_key_chars(3) [OF assms] k by simp
  ultimately show "line_key (assignment k v) = Some k" using b k by (simp add: line_key_def assignment_def)
  show "line_value (assignment k v) = v" using b by (simp add: line_value_def assignment_def)
qed

lemma render_lines_value:
  assumes ok: "\<And>k v. wanted k = Some v \<Longrightarrow> env_key_ok k"
  shows "render_lines wanted seen ls = (out, s') \<Longrightarrow>
    (\<forall>k. env_of out k = (case wanted k of None \<Rightarrow> env_of ls k
       | Some v \<Rightarrow> if k \<in> set seen \<or> k \<notin> keys_of ls then None else Some (shown v))) \<and>
    set s' = set seen \<union> {k. wanted k \<noteq> None \<and> k \<in> keys_of ls}"
proof (induction ls arbitrary: seen out s')
  case Nil
  then show ?case by (auto split: option.splits)
next
  case (Cons line rest)
  show ?case
  proof (cases "\<exists>cand v. line_key line = Some cand \<and> wanted cand = Some v")
    case False
    then obtain o1 where "render_lines wanted seen rest = (o1, s')" "out = line # o1"
      using Cons.prems by (auto simp: Let_def split: option.splits prod.splits)
    then show ?thesis using Cons.IH [of seen o1 s'] False by (auto split: option.splits)
  next
    case True
    then obtain cand v where cand: "line_key line = Some cand" "wanted cand = Some v" by blast
    show ?thesis
    proof (cases "cand \<in> set seen")
      case True
      then have "render_lines wanted seen rest = (out, s')" using Cons.prems cand by simp
      then show ?thesis using Cons.IH [of seen out s'] True cand by (auto split: option.splits)
    next
      case False
      then obtain o1 where "render_lines wanted (cand # seen) rest = (o1, s')" "out = assignment cand v # o1"
        using Cons.prems cand by (auto simp: Let_def split: prod.splits)
      then show ?thesis using Cons.IH [of "cand # seen" o1 s'] False cand assignment_key [OF ok [OF cand(2)]]
        by (auto split: option.splits)
    qed
  qed
qed

subsection \<open>Properties\<close>

lemma validate_updates_keys:
  "validate_updates_from seen us = Inr rs \<Longrightarrow>
     distinct (map fst rs) \<and> (\<forall>p\<in>set rs. env_key_ok (fst p) \<and> fst p \<notin> set seen)"
proof (induction seen us arbitrary: rs rule: validate_updates_from.induct)
  case (1 seen)
  then show ?case by simp
next
  case (2 seen rk rv rest)
  let ?key = "py_str rk" and ?v = "py_str rv"
  obtain r where ok: "env_key_ok ?key" "?key \<notin> set seen" "\<not> list_ex (\<lambda>c. c \<in> {chr 0, chr 13, chr 10}) ?v"
    and r: "validate_updates_from (?key # seen) rest = Inr r" "rs = (?key, ?v) # r"
    using "2.prems" by (auto simp: Let_def)
  show ?case using "2.IH" [OF refl refl ok r(1)] ok r(2) by auto
qed

lemma env_of_requested:
  assumes "\<forall>p\<in>set rs. env_key_ok (fst p)" and "distinct (map fst rs)"
  shows "env_of (map (\<lambda>(k, v). assignment k v) rs) k = map_option shown (map_of rs k)"
  using assms
proof (induction rs)
  case (Cons p rs)
  have "map_of rs (fst p) = None" using Cons.prems(2) by (simp add: map_of_eq_None_iff)
  then show ?case using Cons by (cases p) (auto simp: assignment_key split: option.splits)
qed simp

lemma render_env_value:
  assumes "distinct (map fst rs)" and "\<forall>p\<in>set rs. env_key_ok (fst p)"
  shows "env_of (render_env rs t) k = (case map_of rs k of None \<Rightarrow> env_of (splitlines t) k | Some v \<Rightarrow> Some (shown v))"
proof -
  obtain out seen where r: "render_lines (map_of rs) [] (splitlines t) = (out, seen)" by fastforce
  have ok: "env_key_ok k'" if "map_of rs k' = Some v" for k' v
    using that assms(2) map_of_SomeD by fastforce
  note c = render_lines_value [of "map_of rs", OF ok r, simplified]
  let ?add = "filter (\<lambda>p. fst p \<notin> set seen) rs"
  have "map_of ?add k = (if k \<in> set seen then None else map_of rs k)"
    by (induction rs) auto
  moreover have "env_of (map (\<lambda>(k, v). assignment k v) ?add) k = map_option shown (map_of ?add k)"
    by (rule env_of_requested) (use assms in \<open>auto simp: distinct_map_filter\<close>)
  ultimately show ?thesis
    using c r by (auto simp: render_env_def split: option.splits)
qed

lemma render_lines_no_break:
  assumes "\<And>k v. wanted k = Some v \<Longrightarrow> list_all (\<lambda>c. \<not> line_break c) (assignment k v)"
  shows "render_lines wanted seen ls = (out, s') \<Longrightarrow> list_all (list_all (\<lambda>c. \<not> line_break c)) ls \<Longrightarrow>
    list_all (list_all (\<lambda>c. \<not> line_break c)) out"
proof (induction ls arbitrary: seen out s')
  case (Cons line rest)
  then show ?case using assms by (auto simp: Let_def split: option.splits prod.splits if_splits)
qed simp

lemma env_key_no_break: "env_key_ok k \<Longrightarrow> list_all (\<lambda>c. \<not> line_break c) k"
  using env_key_codes by (fastforce simp: list_all_iff line_break_def)

lemma render_env_no_break:
  assumes "\<forall>p\<in>set rs. env_key_ok (fst p) \<and> list_all (\<lambda>c. \<not> line_break c) (snd p)"
  shows "list_all (list_all (\<lambda>c. \<not> line_break c)) (render_env rs t)"
proof -
  have a: "list_all (\<lambda>c. \<not> line_break c) (assignment k v)" if "(k, v) \<in> set rs" for k v
    using that assms env_key_no_break [of k] by (fastforce simp: assignment_def line_break_def)
  obtain out seen where r: "render_lines (map_of rs) [] (splitlines t) = (out, seen)" by fastforce
  have "list_all (list_all (\<lambda>c. \<not> line_break c)) out"
  proof (rule render_lines_no_break [OF _ r])
    show "list_all (\<lambda>c. \<not> line_break c) (assignment k v)" if "map_of rs k = Some v" for k v
      using a [OF map_of_SomeD [OF that]] .
    show "list_all (list_all (\<lambda>c. \<not> line_break c)) (splitlines t)"
      unfolding list_all_iff [of _ "splitlines t"] using splitlines_no_line_break by blast
  qed
  then show ?thesis using a r by (auto simp: render_env_def list_all_iff)
qed

lemma locked_file_Inr: "locked_file p opn f m = Inr g \<Longrightarrow> g = f"
  by (auto simp: locked_file_def Let_def split: path_state.splits option.splits)

text \<open>
  C17. After a successful update the file reads, through the reader of the panel, as requested:
  every requested key has its requested value (without blanks and quotes at its ends, as the
  reader drops them), however often and wherever the file assigned it before, and every other
  key has exactly the value it had; the file keeps its identity.  The requested values must
  not contain the characters other than the line feed at which the reader breaks lines, which
  the validation lets through: \<open>env_value_can_assign_another_key\<close>.
\<close>

theorem env_update_sets_keys:
  assumes "update_values accepts p opn f updates max_bytes = (Inr r, g)" and "validate_updates updates = Inr requested"
    and "\<forall>u\<in>set requested. list_all (\<lambda>c. \<not> line_break c) (snd u)"
  shows "\<exists>t t'. decode_text (ef_bytes f) = Inr t \<and> decode_text (ef_bytes g) = Inr t' \<and>
    (\<forall>k. read_env (Some t') k = (case map_of requested k of None \<Rightarrow> read_env (Some t) k | Some v \<Rightarrow> Some (strip_quotes (strip v)))) \<and>
    same_inode g f"
proof -
  obtain f' original t where l: "locked_file p opn f max_bytes = Inr f'" and o: "read_locked f' (length (ef_bytes f')) max_bytes = Inr original"
    and t: "decode_text original = Inr t"
    and c: "commit accepts f' original (utf8 (join [chr 10] (render_env requested t) @ [chr 10])) (length requested) = (Inr r, g)"
    using assms(1,2) by (auto simp: update_values_def Let_def split: sum.splits prod.splits)
  have f': "f' = f" using locked_file_Inr [OF l] .
  then have orig: "original = ef_bytes f" using o by (auto simp: read_locked_def read_chunks_all Let_def)
  let ?ls = "render_env requested t"
  have g: "g = f\<lparr>ef_bytes := utf8 (join [chr 10] ?ls @ [chr 10])\<rparr>"
    using commit_ok [OF c] orig f' by simp
  have ok: "distinct (map fst requested) \<and> (\<forall>p\<in>set requested. env_key_ok (fst p) \<and> fst p \<notin> set [])"
    and ne: "requested \<noteq> []"
    using assms(2) validate_updates_keys [of "[]"] by (auto simp: validate_updates_def)
  have val: "env_of ?ls k = (case map_of requested k of None \<Rightarrow> env_of (splitlines t) k | Some v \<Rightarrow> Some (shown v))" for k
    by (rule render_env_value) (use ok in auto)
  have "?ls \<noteq> []"
  proof
    assume "?ls = []"
    moreover obtain k w rest where "requested = (k, w) # rest" using ne by (cases requested) auto
    ultimately show False using val [of k] by simp
  qed
  then have "splitlines (join [chr 10] ?ls @ [chr 10]) = ?ls"
    using render_env_no_break [of requested t] ok assms(3) by (intro splitlines_join) auto
  then have "read_env (Some (join [chr 10] ?ls @ [chr 10])) = env_of ?ls" "read_env (Some t) = env_of (splitlines t)"
    by (simp_all add: read_env_def env_of_def)
  moreover have "decode_text (ef_bytes g) = Inr (join [chr 10] ?ls @ [chr 10])" by (simp add: g decode_utf8)
  moreover have "same_inode g f" by (simp add: g same_inode_def)
  ultimately show ?thesis using t val orig unfolding shown_def by metis
qed

definition demo_env :: env_file where
  "demo_env = \<lparr>ef_bytes = ''B=2'' @ [chr 10] @ ''A=0'' @ [chr 10] @ ''A=5'' @ [chr 10], ef_device = 1, ef_inode = 7\<rparr>"

definition demo_update_env :: "env_file \<Rightarrow> (pyval \<times> pyval) list \<Rightarrow> env_result res \<times> env_file" where
  "demo_update_env f updates = update_values (\<lambda>k. 3) (Regular f) (Some (Regular f)) f updates 40"

lemma read_locked_self: "validate_payload (ef_bytes f) m = Inr () \<Longrightarrow> read_locked f (length (ef_bytes f)) m = Inr (ef_bytes f)"
  by (simp add: read_locked_def read_chunks_all Let_def)

lemma validate_payload_mono: "validate_payload b m = Inr () \<Longrightarrow> validate_payload b (max (length b) 1) = Inr ()"
  by (simp add: validate_payload_def)

text \<open>
  C33. The loop of \<^verbatim>\<open>pwrite\<close>s ends: when each of the first n calls for a payload of n bytes takes
  at least a byte, however the kernel splits them, no further call is made, and the write
  succeeds with the file holding exactly the payload, verified by the reading loop.
\<close>

theorem env_write_loop_ends:
  assumes "validate_payload payload (max (length payload) 1) = Inr ()" and "\<forall>j<length payload. 0 < accepts j"
  shows "write_locked accepts f payload = (Inr (), f\<lparr>ef_bytes := payload\<rparr>)"
proof -
  obtain ok content where w: "write_chunks accepts 0 payload (ef_bytes f) 0 = (ok, content)" by fastforce
  have "fst (write_chunks accepts 0 payload (ef_bytes f) 0)" by (rule write_chunks_ends) (use assms(2) in simp_all)
  then have ok: "ok" by (simp add: w)
  with w have t: "take (length payload) content = payload"
    using write_chunks_ok [of accepts 0 payload "ef_bytes f" 0 content] by simp
  show ?thesis using w ok t read_locked_self [of "f\<lparr>ef_bytes := payload\<rparr>"] assms(1)
    by (simp add: write_locked_def read_locked_def read_chunks_all Let_def)
qed

lemma env_write_loop_ends_witness:
  "write_locked (\<lambda>k. 1) \<lparr>ef_bytes = ''OLD=12345'', ef_device = 1, ef_inode = 2\<rparr> ''A=1'' =
    (Inr (), \<lparr>ef_bytes = ''A=1'', ef_device = 1, ef_inode = 2\<rparr>)"
proof -
  have "validate_payload ''A=1'' (max (length ''A=1'') 1) = Inr ()" by code_simp
  from env_write_loop_ends [OF this, of "\<lambda>k. 1"] show ?thesis by simp
qed

lemma demo_update_eval:
  assumes "validate_updates updates = Inr requested" and "validate_payload (ef_bytes f) 40 = Inr ()"
    and "decode_text (ef_bytes f) = Inr t"
    and "utf8 (join [chr 10] (render_env requested t) @ [chr 10]) = payload" and "validate_payload payload 40 = Inr ()"
    and "write_chunks (\<lambda>k. 3) 0 payload (ef_bytes f) 0 = (True, content)" and "take (length payload) content = payload"
    and "ef_bytes f \<noteq> payload"
  shows "demo_update_env f updates =
    (Inr \<lparr>er_changed = True, er_keys = length requested, er_bytes = length payload, er_device = ef_device f,
       er_inode = ef_inode f\<rparr>, f\<lparr>ef_bytes := payload\<rparr>)"
proof -
  have "\<not> length (ef_bytes f) > 40" using assms(2) by (simp add: validate_payload_def)
  then have l: "locked_file (Regular f) (Some (Regular f)) f 40 = Inr f"
    by (simp add: locked_file_def same_inode_def Let_def)
  have w: "write_locked (\<lambda>k. 3) f payload = (Inr (), f\<lparr>ef_bytes := payload\<rparr>)"
    using assms(6,7) read_locked_self [of "f\<lparr>ef_bytes := payload\<rparr>"] validate_payload_mono [OF assms(5)]
    by (simp add: write_locked_def Let_def)
  show ?thesis
    using assms(1,3,4,5,8) l w read_locked_self [OF assms(2)]
    by (simp add: demo_update_env_def update_values_def commit_def Let_def same_inode_def)
qed

lemma demo_env_updated:
  "demo_update_env demo_env [(PStr ''A'', PStr ''1'')] =
    (Inr \<lparr>er_changed = True, er_keys = length [(''A'', ''1'')], er_bytes = length (''B=2'' @ [chr 10] @ ''A=1'' @ [chr 10]),
       er_device = ef_device demo_env, er_inode = ef_inode demo_env\<rparr>,
     demo_env\<lparr>ef_bytes := ''B=2'' @ [chr 10] @ ''A=1'' @ [chr 10]\<rparr>)"
  by (rule demo_update_eval [where t = "ef_bytes demo_env" and content = "''B=2'' @ [chr 10] @ ''A=1'' @ [chr 10] @ ''A=5'' @ [chr 10]"]) code_simp+

theorem env_update_sets_keys_witness:
  "\<exists>r g t. demo_update_env demo_env [(PStr ''A'', PStr ''1'')] = (Inr r, g) \<and>
    decode_text (ef_bytes g) = Inr t \<and> read_env (Some t) ''A'' = Some ''1'' \<and> read_env (Some t) ''B'' = Some ''2''"
proof -
  obtain r g where u: "demo_update_env demo_env [(PStr ''A'', PStr ''1'')] = (Inr r, g)"
    by (rule that [OF demo_env_updated])
  have v: "validate_updates [(PStr ''A'', PStr ''1'')] = Inr [(''A'', ''1'')]" by code_simp
  have b: "\<forall>u\<in>set [(''A'', ''1'')]. list_all (\<lambda>c. \<not> line_break c) (snd u)" by code_simp
  obtain t t' where x: "decode_text (ef_bytes demo_env) = Inr t" "decode_text (ef_bytes g) = Inr t'"
    "read_env (Some t') k = (case map_of [(''A'', ''1'')] k of None \<Rightarrow> read_env (Some t) k | Some v \<Rightarrow> Some (strip_quotes (strip v)))" for k
    using env_update_sets_keys [OF u [unfolded demo_update_env_def] v b] by blast
  have "decode_text (ef_bytes demo_env) = Inr (ef_bytes demo_env)" by code_simp
  then have "t = ef_bytes demo_env" using x(1) by simp
  moreover have "strip_quotes (strip ''1'') = ''1''" "read_env (Some (ef_bytes demo_env)) ''B'' = Some ''2''" by code_simp+
  ultimately show ?thesis using u x(2,3) by auto
qed

definition demo_plain :: env_file where
  "demo_plain = \<lparr>ef_bytes = ''A=0'' @ [chr 10], ef_device = 1, ef_inode = 7\<rparr>"

lemma demo_hidden_update:
  "demo_update_env demo_plain [(PStr ''A'', PStr (''x'' @ [chr 11] @ ''B=1''))] =
    (Inr \<lparr>er_changed = True, er_keys = length [(''A'', ''x'' @ [chr 11] @ ''B=1'')],
       er_bytes = length (''A=x'' @ [chr 11] @ ''B=1'' @ [chr 10]),
       er_device = ef_device demo_plain, er_inode = ef_inode demo_plain\<rparr>,
     demo_plain\<lparr>ef_bytes := ''A=x'' @ [chr 11] @ ''B=1'' @ [chr 10]\<rparr>)"
  by (rule demo_update_eval [where t = "ef_bytes demo_plain" and content = "''A=x'' @ [chr 11] @ ''B=1'' @ [chr 10]"]) code_simp+

text \<open>
  The validation refuses the line feed, the carriage return and NUL in a value, but the reader
  also breaks lines at a vertical tab: an update of one key can assign another one.
\<close>

lemma env_value_can_assign_another_key:
  "read_env (Some (ef_bytes demo_plain)) ''B'' = None \<and>
   ef_bytes (snd (demo_update_env demo_plain [(PStr ''A'', PStr (''x'' @ [chr 11] @ ''B=1''))])) = ''A=x'' @ [chr 11] @ ''B=1'' @ [chr 10] \<and>
   read_env (Some (''A=x'' @ [chr 11] @ ''B=1'' @ [chr 10])) ''B'' = Some ''1''"
proof -
  have "read_env (Some (ef_bytes demo_plain)) ''B'' = None" "read_env (Some (''A=x'' @ [chr 11] @ ''B=1'' @ [chr 10])) ''B'' = Some ''1''"
    by code_simp+
  then show ?thesis unfolding demo_hidden_update by simp
qed

end
