(* ===== verification/AlertInbox.thy ===== *)
theory AlertInbox
  imports ChangePolicy PyIso "HOL-Library.Product_Lexorder"
begin

section \<open>The alert inbox: polled alerts, transitions and acknowledgements\<close>

text \<open>
  \<^verbatim>\<open>admin/alert_inbox.py\<close>: the normalisation of Prometheus alerts and the store that turns
  every poll into state changes of its alerts and a bounded history of transitions.  A poll or
  an acknowledgement that raises leaves the store unchanged, because its transaction is rolled
  back.  The clock is an argument of every operation.
\<close>

subsection \<open>Alerts\<close>

definition ALERT_SCHEMA :: string where
  "ALERT_SCHEMA = ''dash-alert-inbox/v1''"

definition ACTIVE_STATES :: "string list" where
  "ACTIVE_STATES = [''pending'', ''firing'']"

definition BRIEFING_FEEDBACK_PREFIX :: string where
  "BRIEFING_FEEDBACK_PREFIX = ''DashOperationsBriefing''"

definition MAX_LABELS :: nat where "MAX_LABELS = 64"
definition MAX_ANNOTATIONS :: nat where "MAX_ANNOTATIONS = 32"
definition MAX_KEY :: nat where "MAX_KEY = 128"
definition MAX_VALUE :: nat where "MAX_VALUE = 1000"

definition sensitive_key :: "string \<Rightarrow> bool" where
  "sensitive_key s =
     (let k = lower s in
      list_ex (contains k) [''password'', ''passwd'', ''secret'', ''token'', ''credential'', ''authorization'', ''cookie'']
      \<or> contains_private_key k)"

definition parse_iso :: "pyval \<Rightarrow> rat option" where
  "parse_iso value =
     (let t = strip (str_or_empty value) in
      if t = [] then None
      else case from_iso (replace_z t) of
          None \<Rightarrow> None
        | Some (time, zone) \<Rightarrow> (case zone of None \<Rightarrow> None | Some _ \<Rightarrow> Some (instant_of (time, zone))))"

definition bounded_item :: "string \<times> pyval \<Rightarrow> string \<times> string" where
  "bounded_item p =
     (let key = take MAX_KEY (fst p) in
      (key, if sensitive_key key then ''[redacted]'' else take MAX_VALUE (py_str (snd p))))"

definition bounded_mapping :: "pyval \<Rightarrow> nat \<Rightarrow> (string \<times> string) list" where
  "bounded_mapping value maximum =
     (case as_dict value of
        None \<Rightarrow> []
      | Some d \<Rightarrow> foldl (\<lambda>m p. pset m (fst p) (snd p)) [] (map bounded_item (take maximum (sort_key fst d))))"

definition text_dict :: "(string \<times> string) list \<Rightarrow> pyval" where
  "text_dict m = PDict (map (map_prod id PStr) m)"

definition label_fingerprint :: "(string \<times> string) list \<Rightarrow> string" where
  "label_fingerprint labels = sha256_hex (canonical_utf8 (text_dict labels))"

definition text_or :: "(string \<times> string) list \<Rightarrow> string \<Rightarrow> string \<Rightarrow> string" where
  "text_or m k d = (case map_of m k of None \<Rightarrow> d | Some v \<Rightarrow> if v = [] then d else v)"

record alert =
  al_fingerprint :: string
  al_name :: string
  al_severity :: string
  al_state :: string
  al_labels :: "(string \<times> string) list"
  al_annotations :: "(string \<times> string) list"
  al_summary :: string
  al_description :: string
  al_active_at :: "rat option"

definition label_too_long :: "string \<times> pyval \<Rightarrow> bool" where
  "label_too_long p = (length (fst p) > MAX_KEY \<or> length (py_str (snd p)) > MAX_VALUE)"

definition iso_utc_opt :: "rat option \<Rightarrow> string option res" where
  "iso_utc_opt t = (case t of None \<Rightarrow> Inr None | Some x \<Rightarrow> bind_res (iso_utc x) (\<lambda>s. Inr (Some s)))"

definition normalize_alert :: "pyval \<Rightarrow> alert res" where
  "normalize_alert raw0 =
     (case as_dict raw0 of
        None \<Rightarrow> Inl (ValueError ''Prometheus alert row must be an object'')
      | Some raw \<Rightarrow>
     (case as_dict (pget raw ''labels'') of
        None \<Rightarrow> Inl (ValueError ''Prometheus alert row has no labels'')
      | Some raw_labels \<Rightarrow>
          require (raw_labels \<noteq> []) (ValueError ''Prometheus alert row has no labels'')
         (require (\<not> length raw_labels > MAX_LABELS) (ValueError ''Prometheus alert row exceeds 64 labels'')
         (require (\<not> list_ex label_too_long raw_labels) (ValueError ''Prometheus alert label exceeds the identity length bound'')
         (let labels = bounded_mapping (PDict raw_labels) MAX_LABELS in
          require (length labels = length raw_labels) (ValueError ''Prometheus alert labels collide after normalization'')
         (let annotations = bounded_mapping (pget raw ''annotations'') MAX_ANNOTATIONS;
              state = lower (strip (str_or_empty (pget raw ''state''))) in
          require (state \<in> set ACTIVE_STATES)
            (ValueError (''unsupported Prometheus alert state: '' @ (if state = [] then ''missing'' else state)))
         (let active_at = parse_iso (pget raw ''activeAt'') in
          require (\<not> (truthy (pget raw ''activeAt'') \<and> active_at = None)) (ValueError ''Prometheus alert activeAt is invalid'')
         (let name = text_or labels ''alertname'' ''unnamed-alert'';
              severity = lower (case map_of labels ''severity'' of None \<Rightarrow> ''unknown'' | Some v \<Rightarrow> v) in
          bind_res (iso_utc_opt active_at) (\<lambda>_.
          Inr \<lparr>al_fingerprint = label_fingerprint labels, al_name = take 200 name, al_severity = take 64 severity,
               al_state = state, al_labels = labels, al_annotations = annotations,
               al_summary = take 1000 (text_or annotations ''summary'' (text_or annotations ''description'' name)),
               al_description = take 4000 (text_or annotations ''description'' []),
               al_active_at = active_at\<rparr>)))))))))"

subsection \<open>The store\<close>

record alert_row =
  aw_fingerprint :: string
  aw_name :: string
  aw_severity :: string
  aw_state :: string
  aw_labels_json :: string
  aw_annotations_json :: string
  aw_summary :: string
  aw_description :: string
  aw_active_at :: "rat option"
  aw_first_seen :: rat
  aw_last_seen :: rat
  aw_resolved_at :: "rat option"
  aw_generation :: int
  aw_occurrences :: int
  aw_acknowledged_at :: "rat option"
  aw_acknowledged_by :: "string option"
  aw_note :: "string option"

record transition_row =
  tn_id :: nat
  tn_fingerprint :: string
  tn_generation :: int
  tn_transition :: string
  tn_state :: string
  tn_occurred_at :: rat
  tn_name :: string
  tn_severity :: string
  tn_summary :: string
  tn_actor :: "string option"
  tn_note :: "string option"

text \<open>
  The tables, the counter of the autoincremented transition id, and the bounds the
  constructor keeps.
\<close>

record inbox =
  in_alerts :: "alert_row list"
  in_transitions :: "transition_row list"
  in_sequence :: nat
  in_metadata :: "(string \<times> string) list"
  in_retention_days :: int
  in_history_limit :: nat

definition new_inbox :: "int \<Rightarrow> int \<Rightarrow> inbox" where
  "new_inbox retention_days history_limit =
     \<lparr>in_alerts = [], in_transitions = [], in_sequence = 0, in_metadata = [],
      in_retention_days = max 1 (min retention_days 3650),
      in_history_limit = nat (max 100 (min history_limit 10000))\<rparr>"

definition set_metadata :: "(string \<times> string) list \<Rightarrow> inbox \<Rightarrow> inbox" where
  "set_metadata values st =
     st\<lparr>in_metadata := foldl (\<lambda>m p. pset m (fst p) (snd p)) (in_metadata st) values\<rparr>"

definition meta_text :: "inbox \<Rightarrow> string \<Rightarrow> string" where
  "meta_text st k = (case map_of (in_metadata st) k of None \<Rightarrow> [] | Some v \<Rightarrow> v)"

text \<open>\<^verbatim>\<open>int(metadata.get(k, "0") or 0)\<close> and the same for \<^verbatim>\<open>float\<close>.\<close>

definition meta_int :: "inbox \<Rightarrow> string \<Rightarrow> int res" where
  "meta_int st k = (let t = meta_text st k in if t = [] then Inr 0 else int_of_str t)"

definition meta_float :: "inbox \<Rightarrow> string \<Rightarrow> rat res" where
  "meta_float st k = (let t = meta_text st k in if t = [] then Inr 0 else float_of_str t)"

record public_transition =
  pt_row :: transition_row
  pt_occurred_at :: string

definition public_transition_of :: "transition_row \<Rightarrow> public_transition res" where
  "public_transition_of r = bind_res (iso_utc (tn_occurred_at r)) (\<lambda>s. Inr \<lparr>pt_row = r, pt_occurred_at = s\<rparr>)"

definition add_transition ::
  "inbox \<Rightarrow> string \<Rightarrow> int \<Rightarrow> string \<Rightarrow> string \<Rightarrow> string \<Rightarrow> string \<Rightarrow> string \<Rightarrow> rat \<Rightarrow> string option \<Rightarrow>
     string option \<Rightarrow> (public_transition \<times> inbox) res" where
  "add_transition st fp generation state name severity summary kind occurred_at who note =
     (let r = \<lparr>tn_id = in_sequence st + 1, tn_fingerprint = fp, tn_generation = generation, tn_transition = kind,
               tn_state = state, tn_occurred_at = occurred_at, tn_name = name, tn_severity = severity,
               tn_summary = summary, tn_actor = who, tn_note = note\<rparr> in
      bind_res (public_transition_of r) (\<lambda>p.
      Inr (p, st\<lparr>in_transitions := in_transitions st @ [r], in_sequence := in_sequence st + 1\<rparr>)))"

definition record_poll_error :: "inbox \<Rightarrow> string \<Rightarrow> rat \<Rightarrow> inbox res" where
  "record_poll_error st error now =
     bind_res (meta_int st ''consecutiveFailures'') (\<lambda>failures.
     Inr (set_metadata [(''lastPollAt'', float_repr now), (''lastError'', take 1000 error),
       (''lastErrorAt'', float_repr now), (''consecutiveFailures'', show_int (failures + 1))] st))"

subsection \<open>Polls\<close>

text \<open>What a poll makes of an alert it reports, given the row it finds.\<close>

definition polled_row :: "rat \<Rightarrow> alert \<Rightarrow> alert_row option \<Rightarrow> alert_row" where
  "polled_row now a prior =
     (let fresh = \<lparr>aw_fingerprint = al_fingerprint a, aw_name = al_name a, aw_severity = al_severity a,
            aw_state = al_state a, aw_labels_json = canonical (text_dict (al_labels a)),
            aw_annotations_json = canonical (text_dict (al_annotations a)), aw_summary = al_summary a,
            aw_description = al_description a, aw_active_at = al_active_at a, aw_first_seen = now,
            aw_last_seen = now, aw_resolved_at = None, aw_generation = 1, aw_occurrences = 1,
            aw_acknowledged_at = None, aw_acknowledged_by = None, aw_note = None\<rparr> in
      case prior of
        None \<Rightarrow> fresh
      | Some r \<Rightarrow>
          if aw_state r = ''resolved''
          then fresh\<lparr>aw_generation := aw_generation r + 1, aw_occurrences := aw_occurrences r + 1\<rparr>
          else fresh\<lparr>aw_generation := aw_generation r, aw_occurrences := aw_occurrences r,
                 aw_acknowledged_at := aw_acknowledged_at r, aw_acknowledged_by := aw_acknowledged_by r,
                 aw_note := aw_note r, aw_first_seen := aw_first_seen r\<rparr>)"

definition polled_transition :: "alert \<Rightarrow> alert_row option \<Rightarrow> string option" where
  "polled_transition a prior =
     (case prior of
        None \<Rightarrow> Some (al_state a)
      | Some r \<Rightarrow>
          if aw_state r = ''resolved'' then Some ''refiring''
          else if aw_state r \<noteq> al_state a then Some (al_state a) else None)"

definition alert_at :: "alert_row list \<Rightarrow> string \<Rightarrow> alert_row option" where
  "alert_at rows fp = row_where (\<lambda>r. aw_fingerprint r = fp) rows"

definition upsert_alert :: "alert_row \<Rightarrow> inbox \<Rightarrow> inbox" where
  "upsert_alert row st =
     st\<lparr>in_alerts := (case alert_at (in_alerts st) (aw_fingerprint row) of
          None \<Rightarrow> in_alerts st @ [row]
        | Some _ \<Rightarrow> update_where (\<lambda>r. aw_fingerprint r = aw_fingerprint row) (\<lambda>_. row) (in_alerts st))\<rparr>"

text \<open>One alert of the poll; \<open>existing\<close> is the table as the poll found it.\<close>

definition poll_alert ::
  "alert_row list \<Rightarrow> rat \<Rightarrow> inbox \<times> public_transition list \<Rightarrow> alert \<Rightarrow> (inbox \<times> public_transition list) res" where
  "poll_alert existing now s a =
     (let prior = alert_at existing (al_fingerprint a);
          row = polled_row now a prior;
          st = upsert_alert row (fst s) in
      case polled_transition a prior of
        None \<Rightarrow> Inr (st, snd s)
      | Some kind \<Rightarrow>
          bind_res (add_transition st (al_fingerprint a) (aw_generation row) (al_state a) (al_name a) (al_severity a)
              (al_summary a) kind now None None) (\<lambda>(p, st').
          Inr (st', snd s @ [p])))"

definition resolve_row :: "rat \<Rightarrow> alert_row \<Rightarrow> alert_row" where
  "resolve_row now r = r\<lparr>aw_state := ''resolved'', aw_resolved_at := Some now, aw_last_seen := now\<rparr>"

definition poll_absent ::
  "string list \<Rightarrow> rat \<Rightarrow> inbox \<times> public_transition list \<Rightarrow> alert_row \<Rightarrow> (inbox \<times> public_transition list) res" where
  "poll_absent incoming now s prior =
     (if aw_fingerprint prior \<in> set incoming \<or> aw_state prior = ''resolved'' then Inr s
      else bind_res (add_transition
              ((fst s)\<lparr>in_alerts := update_where (\<lambda>r. aw_fingerprint r = aw_fingerprint prior) (resolve_row now) (in_alerts (fst s))\<rparr>)
              (aw_fingerprint prior) (aw_generation prior) ''resolved'' (aw_name prior) (aw_severity prior)
              (aw_summary prior) ''resolved'' now None None) (\<lambda>(p, st').
           Inr (st', snd s @ [p])))"

definition expired_alert :: "rat \<Rightarrow> alert_row \<Rightarrow> bool" where
  "expired_alert cutoff r =
     (aw_state r = ''resolved'' \<and> (case aw_resolved_at r of None \<Rightarrow> False | Some t \<Rightarrow> t < cutoff))"

definition latest_transitions :: "nat \<Rightarrow> transition_row list \<Rightarrow> transition_row list" where
  "latest_transitions n rows = take n (rev (sort_key tn_id rows))"

definition retain :: "rat \<Rightarrow> inbox \<Rightarrow> inbox" where
  "retain now st =
     (let cutoff = now - of_int (in_retention_days st * 86400);
          recent = filter (\<lambda>t. \<not> tn_occurred_at t < cutoff) (in_transitions st);
          kept = map tn_id (latest_transitions (in_history_limit st) recent) in
      st\<lparr>in_alerts := filter (\<lambda>r. \<not> expired_alert cutoff r) (in_alerts st),
         in_transitions := filter (\<lambda>t. tn_id t \<in> set kept) recent\<rparr>)"

definition poll_alerts :: "pyval \<Rightarrow> alert list res" where
  "poll_alerts response0 =
     (case as_dict response0 of
        None \<Rightarrow> Inl (ValueError ''Prometheus alerts response is not successful'')
      | Some response \<Rightarrow>
          require (pget response ''status'' = PStr ''success'') (ValueError ''Prometheus alerts response is not successful'')
         (case as_dict (pget response ''data'') of
            None \<Rightarrow> Inl (ValueError ''Prometheus alerts response is missing data.alerts'')
          | Some d \<Rightarrow>
         (case as_list (pget d ''alerts'') of
            None \<Rightarrow> Inl (ValueError ''Prometheus alerts response is missing data.alerts'')
          | Some rows \<Rightarrow>
              require (\<not> length rows > 5000) (ValueError ''Prometheus alerts response exceeds 5000 rows'')
             (bind_res (map_res normalize_alert rows) (\<lambda>alerts.
              require (distinct (map al_fingerprint alerts))
                (ValueError ''Prometheus alerts response contains duplicate bounded label identities'')
                (Inr alerts))))))"

record sync_result =
  sr_transitions :: "public_transition list"
  sr_observed :: nat

definition apply_poll :: "inbox \<Rightarrow> rat \<Rightarrow> alert list \<Rightarrow> (inbox \<times> public_transition list) res" where
  "apply_poll st now alerts =
     bind_res (fold_res (poll_alert (in_alerts st) now) (st, []) alerts) (\<lambda>s.
     fold_res (poll_absent (map al_fingerprint alerts) now) s (in_alerts st))"

definition sync :: "inbox \<Rightarrow> rat \<Rightarrow> pyval \<Rightarrow> (sync_result \<times> inbox) res" where
  "sync st now response =
     bind_res (poll_alerts response) (\<lambda>alerts.
     bind_res (apply_poll st now alerts) (\<lambda>(st1, transitions).
     bind_res (meta_int st1 ''pollsTotal'') (\<lambda>polls.
     bind_res (meta_int st1 ''transitionsTotal'') (\<lambda>total.
     Inr (\<lparr>sr_transitions = transitions, sr_observed = length alerts\<rparr>,
       retain now (set_metadata [(''lastPollAt'', float_repr now), (''lastSuccessAt'', float_repr now), (''lastError'', []),
         (''consecutiveFailures'', ''0''), (''pollsTotal'', show_int (polls + 1)),
         (''transitionsTotal'', show_int (total + int (length transitions)))] st1))))))"

subsection \<open>Acknowledgements\<close>

record public_alert =
  pa_row :: alert_row
  pa_labels :: pyval
  pa_annotations :: pyval
  pa_active_at :: "string option"
  pa_first_seen :: string
  pa_last_seen :: string
  pa_resolved_at :: "string option"
  pa_acknowledged :: bool
  pa_acknowledged_at :: "string option"

definition public_alert_of :: "alert_row \<Rightarrow> public_alert res" where
  "public_alert_of r =
     bind_res (json_loads (aw_labels_json r)) (\<lambda>labels.
     bind_res (json_loads (aw_annotations_json r)) (\<lambda>annotations.
     bind_res (iso_utc_opt (aw_active_at r)) (\<lambda>active_at.
     bind_res (iso_utc (aw_first_seen r)) (\<lambda>first_seen.
     bind_res (iso_utc (aw_last_seen r)) (\<lambda>last_seen.
     bind_res (iso_utc_opt (aw_resolved_at r)) (\<lambda>resolved_at.
     bind_res (iso_utc_opt (aw_acknowledged_at r)) (\<lambda>acknowledged_at.
     Inr \<lparr>pa_row = r, pa_labels = labels, pa_annotations = annotations, pa_active_at = active_at,
          pa_first_seen = first_seen, pa_last_seen = last_seen, pa_resolved_at = resolved_at,
          pa_acknowledged = (aw_acknowledged_at r \<noteq> None), pa_acknowledged_at = acknowledged_at\<rparr>)))))))"

record ack_result =
  ak_idempotent :: bool
  ak_alert :: public_alert
  ak_transition :: "public_transition option"

definition acknowledged_row :: "rat \<Rightarrow> string \<Rightarrow> string \<Rightarrow> alert_row \<Rightarrow> alert_row" where
  "acknowledged_row now who note r =
     r\<lparr>aw_acknowledged_at := Some now, aw_acknowledged_by := Some who, aw_note := Some note\<rparr>"

definition alert_fingerprint_of :: "pyval \<Rightarrow> string res" where
  "alert_fingerprint_of v =
     (let fp = lower (strip (str_or_empty v)) in
      require (length fp = 64 \<and> list_all is_lower_hex fp)
        (ValueError ''alert fingerprint must be 64 lowercase hex characters'') (Inr fp))"

text \<open>
  The transaction: an alert acknowledged before is returned as it is (the view of the row is
  made inside the transaction), any other gets the acknowledgement and a transition.
\<close>

definition acknowledge_tx ::
  "inbox \<Rightarrow> rat \<Rightarrow> string \<Rightarrow> string \<Rightarrow> string \<Rightarrow> (ack_result + alert_row \<times> public_transition \<times> inbox) res" where
  "acknowledge_tx st now fp who note =
     (case alert_at (in_alerts st) fp of
        None \<Rightarrow> Inl (KeyError ''alert fingerprint was not found'')
      | Some a \<Rightarrow>
          require (aw_state a \<in> set ACTIVE_STATES) (ValueError ''resolved alerts cannot be acknowledged'')
         (if aw_acknowledged_at a \<noteq> None
          then bind_res (public_alert_of a) (\<lambda>p.
               Inr (Inl \<lparr>ak_idempotent = True, ak_alert = p, ak_transition = None\<rparr>))
          else
            let row = acknowledged_row now who note a;
                st1 = st\<lparr>in_alerts := update_where (\<lambda>r. aw_fingerprint r = fp) (acknowledged_row now who note) (in_alerts st)\<rparr> in
            bind_res (add_transition st1 fp (aw_generation a) (aw_state a) (aw_name a) (aw_severity a) (aw_summary a)
               ''acknowledged'' now (Some who) (Some note)) (\<lambda>(t, st2).
            bind_res (meta_int st2 ''transitionsTotal'') (\<lambda>n.
            Inr (Inr (row, t, set_metadata [(''transitionsTotal'', show_int (n + 1))] st2))))))"

definition acknowledge :: "inbox \<Rightarrow> rat \<Rightarrow> pyval \<Rightarrow> pyval \<Rightarrow> pyval \<Rightarrow> ack_result res \<times> inbox" where
  "acknowledge st now fp0 who0 note0 =
     (let who = take 128 (if truthy who0 then py_str who0 else ''unknown'');
          note = take 1000 (str_or_empty note0) in
      case bind_res (alert_fingerprint_of fp0) (\<lambda>fp. acknowledge_tx st now fp who note) of
        Inl e \<Rightarrow> (Inl e, st)
      | Inr (Inl r) \<Rightarrow> (Inr r, st)
      | Inr (Inr (row, t, st1)) \<Rightarrow>
          (bind_res (public_alert_of row) (\<lambda>p.
             Inr \<lparr>ak_idempotent = False, ak_alert = p, ak_transition = Some t\<rparr>), st1))"

subsection \<open>Status and metrics\<close>

definition live_alert :: "alert_row \<Rightarrow> bool" where
  "live_alert r = (aw_state r \<noteq> ''resolved'')"

definition feedback_alert :: "alert_row \<Rightarrow> bool" where
  "feedback_alert r = starts_with (aw_name r) BRIEFING_FEEDBACK_PREFIX"

definition count_where :: "('r \<Rightarrow> bool) \<Rightarrow> 'r list \<Rightarrow> nat" where
  "count_where p rows = length (filter p rows)"

definition severity_rank :: "alert_row \<Rightarrow> nat" where
  "severity_rank r = (if aw_severity r = ''critical'' then 0 else if aw_severity r = ''warning'' then 1 else 2)"

record alert_counts =
  nt_active :: nat
  nt_firing :: nat
  nt_pending :: nat
  nt_unacknowledged :: nat
  nt_critical :: nat
  nt_warning :: nat
  nt_history :: nat

record briefing_counts =
  bc_active :: nat
  bc_unacknowledged :: nat
  bc_critical :: nat
  bc_warning :: nat
  bc_feedback_excluded :: nat

record alert_collector =
  cl_last_poll :: "string option"
  cl_last_success :: "string option"
  cl_last_error_at :: "string option"
  cl_last_error :: "string option"
  cl_failures :: int
  cl_polls :: int
  cl_transitions :: int
  cl_age :: "rat option"

record inbox_status =
  is_ok :: bool
  is_summary :: alert_counts
  is_briefing :: briefing_counts
  is_alerts :: "public_alert list"
  is_history :: "public_transition list"
  is_collector :: alert_collector

definition inbox_counts :: "inbox \<Rightarrow> alert_counts" where
  "inbox_counts st =
     (let rows = in_alerts st in
      \<lparr>nt_active = count_where live_alert rows, nt_firing = count_where (\<lambda>r. aw_state r = ''firing'') rows,
       nt_pending = count_where (\<lambda>r. aw_state r = ''pending'') rows,
       nt_unacknowledged = count_where (\<lambda>r. live_alert r \<and> aw_acknowledged_at r = None) rows,
       nt_critical = count_where (\<lambda>r. live_alert r \<and> aw_severity r = ''critical'') rows,
       nt_warning = count_where (\<lambda>r. live_alert r \<and> aw_severity r = ''warning'') rows,
       nt_history = length (in_transitions st)\<rparr>)"

definition inbox_briefing :: "inbox \<Rightarrow> briefing_counts" where
  "inbox_briefing st =
     (let rows = filter live_alert (in_alerts st); own = filter (\<lambda>r. \<not> feedback_alert r) rows in
      \<lparr>bc_active = length own, bc_unacknowledged = count_where (\<lambda>r. aw_acknowledged_at r = None) own,
       bc_critical = count_where (\<lambda>r. aw_severity r = ''critical'') own,
       bc_warning = count_where (\<lambda>r. aw_severity r = ''warning'') own,
       bc_feedback_excluded = count_where feedback_alert rows\<rparr>)"

definition nonzero :: "rat \<Rightarrow> rat option" where
  "nonzero x = (if x = 0 then None else Some x)"

definition inbox_collector :: "inbox \<Rightarrow> rat \<Rightarrow> rat \<Rightarrow> rat \<Rightarrow> alert_collector res" where
  "inbox_collector st now last_poll last_success =
     bind_res (iso_utc_opt (nonzero last_poll)) (\<lambda>poll.
     bind_res (iso_utc_opt (nonzero last_success)) (\<lambda>success.
     bind_res (if meta_text st ''lastErrorAt'' = [] then Inr None
       else bind_res (meta_float st ''lastErrorAt'') (\<lambda>t. iso_utc_opt (Some t))) (\<lambda>error_at.
     bind_res (meta_int st ''consecutiveFailures'') (\<lambda>failures.
     bind_res (meta_int st ''pollsTotal'') (\<lambda>polls.
     bind_res (meta_int st ''transitionsTotal'') (\<lambda>transitions.
     Inr \<lparr>cl_last_poll = poll, cl_last_success = success, cl_last_error_at = error_at,
          cl_last_error = (if meta_text st ''lastError'' = [] then None else Some (meta_text st ''lastError'')),
          cl_failures = failures, cl_polls = polls, cl_transitions = transitions,
          cl_age = (if last_success = 0 then None else Some (max 0 (now - last_success)))\<rparr>))))))"

definition inbox_status_of :: "inbox \<Rightarrow> int \<Rightarrow> rat \<Rightarrow> inbox_status res" where
  "inbox_status_of st limit0 now =
     (let limit = nat (max 1 (min limit0 1000)) in
      bind_res (map_res public_alert_of
        (take limit (sort_key (\<lambda>r. (severity_rank r, aw_first_seen r)) (filter live_alert (in_alerts st))))) (\<lambda>active.
      bind_res (map_res public_transition_of (latest_transitions limit (in_transitions st))) (\<lambda>history.
      bind_res (meta_float st ''lastSuccessAt'') (\<lambda>last_success.
      bind_res (meta_float st ''lastPollAt'') (\<lambda>last_poll.
      bind_res (inbox_collector st now last_poll last_success) (\<lambda>collector.
      Inr \<lparr>is_ok = (last_success \<noteq> 0 \<and> meta_text st ''lastError'' = []), is_summary = inbox_counts st,
           is_briefing = inbox_briefing st, is_alerts = active, is_history = history, is_collector = collector\<rparr>))))))"

definition inbox_prometheus :: "inbox \<Rightarrow> bool \<Rightarrow> bool \<Rightarrow> rat \<Rightarrow> rat \<Rightarrow> string res" where
  "inbox_prometheus st enabled worker_running stale_after now =
     bind_res (inbox_status_of st 1 now) (\<lambda>status.
     let c = is_collector status; n = is_summary status;
         age = (case cl_age c of None \<Rightarrow> 0 | Some a \<Rightarrow> a);
         collector_up = (is_ok status \<and> cl_age c \<noteq> None \<and> age \<le> stale_after);
         shown_age = (if age = 0 then ''0'' else float_repr age);
         success_at = (case cl_last_success c of None \<Rightarrow> None | Some t \<Rightarrow> parse_iso (PStr t));
         shown_success = (case success_at of None \<Rightarrow> ''0'' | Some t \<Rightarrow> if t = 0 then ''0'' else float_repr t);
         bit = (\<lambda>b. if b then ''1'' else ''0'');
         line = (\<lambda>(k, v). ''dash_alert_inbox_'' @ k @ '' '' @ v @ [chr 10]) in
     Inr (concat (map line
       [(''enabled'', bit enabled), (''collector_up'', bit collector_up), (''worker_running'', bit worker_running),
        (''active'', nat_digits (nt_active n)), (''firing'', nat_digits (nt_firing n)),
        (''pending'', nat_digits (nt_pending n)), (''unacknowledged'', nat_digits (nt_unacknowledged n)),
        (''critical'', nat_digits (nt_critical n)), (''warning'', nat_digits (nt_warning n)),
        (''consecutive_failures'', show_int (cl_failures c)), (''transitions_total'', show_int (cl_transitions c)),
        (''last_success_timestamp_seconds'', shown_success), (''age_seconds'', shown_age)])))"

end
