(* ===== verification/AlertInboxProps.thy ===== *)
theory AlertInboxProps
  imports AlertInbox
begin

section \<open>The alert inbox: what a poll does to every alert\<close>

text \<open>
  The store as a step relation, its invariant, and the reference description of a poll: what
  becomes of the row of each fingerprint and which transitions are reported.
\<close>

subsection \<open>Lookups by fingerprint\<close>

lemma alert_at_simps:
  "alert_at [] fp = None"
  "alert_at (r # rows) fp = (if aw_fingerprint r = fp then Some r else alert_at rows fp)"
  "alert_at (rows @ rows') fp = (case alert_at rows fp of None \<Rightarrow> alert_at rows' fp | Some r \<Rightarrow> Some r)"
  by (simp_all add: alert_at_def table_simps cong: option.case_cong)

lemma alert_at_key: "alert_at rows fp = Some r \<Longrightarrow> r \<in> set rows \<and> aw_fingerprint r = fp"
  by (auto simp: alert_at_def dest: row_where_Some)

lemma alert_at_None: "alert_at rows fp = None \<longleftrightarrow> fp \<notin> aw_fingerprint ` set rows"
  by (auto simp: alert_at_def table_simps)

lemma alert_at_member: "distinct (map aw_fingerprint rows) \<Longrightarrow> r \<in> set rows \<Longrightarrow> alert_at rows (aw_fingerprint r) = Some r"
  by (simp add: alert_at_def row_where_unique)

lemma alert_at_update:
  assumes "\<And>r. aw_fingerprint (f r) = aw_fingerprint r"
  shows "alert_at (update_where (\<lambda>r. aw_fingerprint r = k) f rows) fp =
    (if fp = k then map_option f (alert_at rows fp) else alert_at rows fp)"
  by (induction rows) (auto simp: alert_at_simps table_simps assms)

lemma alert_at_replace:
  assumes "aw_fingerprint row = k"
  shows "alert_at (update_where (\<lambda>r. aw_fingerprint r = k) (\<lambda>_. row) rows) fp =
    (if fp = k then map_option (\<lambda>_. row) (alert_at rows fp) else alert_at rows fp)"
  by (induction rows) (auto simp: alert_at_simps table_simps assms)

lemma alert_at_filter:
  "distinct (map aw_fingerprint rows) \<Longrightarrow>
     alert_at (filter p rows) fp = (case alert_at rows fp of None \<Rightarrow> None | Some r \<Rightarrow> if p r then Some r else None)"
proof (induction rows)
  case Nil
  then show ?case by (simp add: alert_at_simps)
next
  case (Cons r rows)
  have n: "alert_at rows (aw_fingerprint r) = None" using Cons.prems by (simp add: alert_at_None)
  then show ?case using Cons by (cases "aw_fingerprint r = fp") (auto simp: alert_at_simps split: option.splits)
qed

lemma alert_at_upsert:
  "alert_at (in_alerts (upsert_alert row st)) fp =
     (if fp = aw_fingerprint row then Some row else alert_at (in_alerts st) fp)"
  by (simp add: upsert_alert_def alert_at_simps alert_at_replace split: option.split)

lemma upsert_keys:
  "distinct (map aw_fingerprint (in_alerts st)) \<Longrightarrow> distinct (map aw_fingerprint (in_alerts (upsert_alert row st)))"
  by (auto simp: upsert_alert_def alert_at_None map_update_where_same split: option.split)

subsection \<open>What a poll leaves alone\<close>

text \<open>The tables and counters that only the end of a poll touches.\<close>

definition same_settings :: "inbox \<Rightarrow> inbox \<Rightarrow> bool" where
  "same_settings st st' \<longleftrightarrow> in_retention_days st' = in_retention_days st \<and>
     in_history_limit st' = in_history_limit st \<and> in_metadata st' = in_metadata st"

lemma same_settings_simps [simp]: "same_settings st st"
  "same_settings st (upsert_alert row st') = same_settings st st'"
  "same_settings st (st'\<lparr>in_alerts := rows\<rparr>) = same_settings st st'"
  by (simp_all add: same_settings_def upsert_alert_def)

lemma same_settings_trans: "same_settings st st' \<Longrightarrow> same_settings st' st'' \<Longrightarrow> same_settings st st''"
  by (simp add: same_settings_def)

definition change_of :: "public_transition \<Rightarrow> string \<times> string" where
  "change_of p = (tn_fingerprint (pt_row p), tn_transition (pt_row p))"

lemma add_transition_cases:
  assumes "add_transition st fp generation state name severity summary kind now who note = Inr (p, st')"
  shows "in_alerts st' = in_alerts st \<and> same_settings st st' \<and> change_of p = (fp, kind) \<and>
    in_transitions st' = in_transitions st @ [pt_row p] \<and> in_sequence st' = in_sequence st + 1 \<and>
    tn_id (pt_row p) = in_sequence st + 1"
  using assms by (auto simp: add_transition_def Let_def public_transition_of_def same_settings_def change_of_def)

subsection \<open>The reference\<close>

definition alert_with :: "alert list \<Rightarrow> string \<Rightarrow> alert option" where
  "alert_with alerts fp = row_where (\<lambda>a. al_fingerprint a = fp) alerts"

lemma alert_with_simps:
  "alert_with [] fp = None"
  "alert_with (a # alerts) fp = (if al_fingerprint a = fp then Some a else alert_with alerts fp)"
  by (simp_all add: alert_with_def table_simps)

lemma alert_with_None: "alert_with alerts fp = None \<longleftrightarrow> fp \<notin> al_fingerprint ` set alerts"
  by (induction alerts) (auto simp: alert_with_simps)

text \<open>
  What becomes of the row of a fingerprint: reported alerts are written over it; an active
  alert that is not reported is resolved now; a resolved one stays until its retention ends.
\<close>

definition alert_after :: "rat \<Rightarrow> int \<Rightarrow> alert option \<Rightarrow> alert_row option \<Rightarrow> alert_row option" where
  "alert_after now retention reported prior =
     (case reported of
        Some a \<Rightarrow> Some (polled_row now a prior)
      | None \<Rightarrow>
         (case prior of
            None \<Rightarrow> None
          | Some r \<Rightarrow>
              if aw_state r \<noteq> ''resolved'' then Some (resolve_row now r)
              else if expired_alert (now - of_int (retention * 86400)) r then None else Some r))"

text \<open>
  The same, field by field: a reported alert has the reported state and is not resolved; a new
  one starts generation 1; one that fires again starts the next generation, unacknowledged;
  one that stayed active keeps its generation, its first sighting and its acknowledgement.
\<close>

definition tracked_alert :: "rat \<Rightarrow> alert \<Rightarrow> alert_row option \<Rightarrow> alert_row \<Rightarrow> bool" where
  "tracked_alert now a prior q =
     (aw_fingerprint q = al_fingerprint a \<and> aw_state q = al_state a \<and> aw_last_seen q = now \<and> aw_resolved_at q = None \<and>
      (case prior of
         None \<Rightarrow> aw_generation q = 1 \<and> aw_first_seen q = now \<and> aw_acknowledged_at q = None \<and> aw_note q = None
       | Some r \<Rightarrow>
           if aw_state r = ''resolved''
           then aw_generation q = aw_generation r + 1 \<and> aw_first_seen q = now \<and> aw_acknowledged_at q = None \<and>
             aw_acknowledged_by q = None \<and> aw_note q = None
           else aw_generation q = aw_generation r \<and> aw_first_seen q = aw_first_seen r \<and>
             aw_acknowledged_at q = aw_acknowledged_at r \<and> aw_acknowledged_by q = aw_acknowledged_by r \<and> aw_note q = aw_note r))"

definition tracked :: "rat \<Rightarrow> int \<Rightarrow> alert option \<Rightarrow> alert_row option \<Rightarrow> alert_row option \<Rightarrow> bool" where
  "tracked now retention reported prior q =
     (case reported of
        Some a \<Rightarrow> (\<exists>x. q = Some x \<and> tracked_alert now a prior x)
      | None \<Rightarrow>
         (case prior of
            None \<Rightarrow> q = None
          | Some r \<Rightarrow>
              if aw_state r \<noteq> ''resolved''
              then q = Some (r\<lparr>aw_state := ''resolved'', aw_resolved_at := Some now, aw_last_seen := now\<rparr>)
              else if (\<exists>t. aw_resolved_at r = Some t \<and> t < now - of_int (retention * 86400)) then q = None else q = Some r))"

lemma tracked_alert_after: "tracked now retention reported prior (alert_after now retention reported prior)"
  by (auto simp: tracked_def alert_after_def tracked_alert_def polled_row_def resolve_row_def expired_alert_def Let_def
      split: option.split)

definition change_of_alert :: "alert_row list \<Rightarrow> alert \<Rightarrow> (string \<times> string) list" where
  "change_of_alert rows a =
     (case alert_at rows (al_fingerprint a) of
        None \<Rightarrow> [(al_fingerprint a, al_state a)]
      | Some r \<Rightarrow>
          if aw_state r = ''resolved'' then [(al_fingerprint a, ''refiring'')]
          else if aw_state r = al_state a then [] else [(al_fingerprint a, al_state a)])"

lemma change_of_transition:
  "change_of_alert rows a =
     (case polled_transition a (alert_at rows (al_fingerprint a)) of None \<Rightarrow> [] | Some kind \<Rightarrow> [(al_fingerprint a, kind)])"
  by (simp add: change_of_alert_def polled_transition_def split: option.split)

definition is_absent :: "string list \<Rightarrow> alert_row \<Rightarrow> bool" where
  "is_absent incoming r = (aw_fingerprint r \<notin> set incoming \<and> aw_state r \<noteq> ''resolved'')"

definition poll_changes :: "alert list \<Rightarrow> alert_row list \<Rightarrow> (string \<times> string) list" where
  "poll_changes alerts rows =
     concat (map (change_of_alert rows) alerts)
     @ map (\<lambda>r. (aw_fingerprint r, ''resolved'')) (filter (is_absent (map al_fingerprint alerts)) rows)"

subsection \<open>One poll\<close>

lemma polled_row_key [simp]: "aw_fingerprint (polled_row now a prior) = al_fingerprint a"
  by (simp add: polled_row_def Let_def split: option.split)

lemma resolve_row_key [simp]: "aw_fingerprint (resolve_row now r) = aw_fingerprint r"
  by (simp add: resolve_row_def)

lemma poll_alert_effect:
  assumes "poll_alert rows now (st, ts) a = Inr (st', ts')"
  shows "\<exists>st1. in_alerts st' = in_alerts (upsert_alert (polled_row now a (alert_at rows (al_fingerprint a))) st) \<and>
    same_settings st st' \<and> map change_of ts' = map change_of ts @ change_of_alert rows a"
proof (cases "polled_transition a (alert_at rows (al_fingerprint a))")
  case None
  then show ?thesis using assms by (auto simp: poll_alert_def Let_def change_of_transition)
next
  case (Some kind)
  obtain p where p: "ts' = ts @ [p]" and a: "add_transition (upsert_alert (polled_row now a (alert_at rows (al_fingerprint a))) st)
      (al_fingerprint a) (aw_generation (polled_row now a (alert_at rows (al_fingerprint a)))) (al_state a) (al_name a)
      (al_severity a) (al_summary a) kind now None None = Inr (p, st')"
    using assms Some by (auto simp: poll_alert_def Let_def)
  show ?thesis
    using add_transition_cases [OF a] p Some by (auto simp: change_of_transition same_settings_def upsert_alert_def)
qed

lemma poll_alerts_fold:
  assumes "fold_res (poll_alert rows now) (st, ts) alerts = Inr (st', ts')"
    and "distinct (map al_fingerprint alerts)" and "distinct (map aw_fingerprint (in_alerts st))"
  shows "(\<forall>fp. alert_at (in_alerts st') fp = (case alert_with alerts fp of
              Some a \<Rightarrow> Some (polled_row now a (alert_at rows fp)) | None \<Rightarrow> alert_at (in_alerts st) fp)) \<and>
    distinct (map aw_fingerprint (in_alerts st')) \<and> same_settings st st' \<and>
    map change_of ts' = map change_of ts @ concat (map (change_of_alert rows) alerts)"
  using assms
proof (induction alerts arbitrary: st ts)
  case Nil
  then show ?case by (simp add: alert_with_simps)
next
  case (Cons a alerts)
  obtain st1 ts1 where one: "poll_alert rows now (st, ts) a = Inr (st1, ts1)"
    and rest: "fold_res (poll_alert rows now) (st1, ts1) alerts = Inr (st', ts')"
    using Cons.prems(1) by auto
  have e: "in_alerts st1 = in_alerts (upsert_alert (polled_row now a (alert_at rows (al_fingerprint a))) st)"
    "same_settings st st1" "map change_of ts1 = map change_of ts @ change_of_alert rows a"
    using poll_alert_effect [OF one] by auto
  have d: "distinct (map aw_fingerprint (in_alerts st1))" unfolding e(1) using Cons.prems(3) by (rule upsert_keys)
  have n: "alert_with alerts (al_fingerprint a) = None"
    using Cons.prems(2) by (simp add: alert_with_None)
  note ih = Cons.IH [OF rest _ d]
  have look: "alert_at (in_alerts st') fp = (case alert_with alerts fp of
       Some b \<Rightarrow> Some (polled_row now b (alert_at rows fp)) | None \<Rightarrow> alert_at (in_alerts st1) fp)" for fp
    using ih Cons.prems(2) by simp
  have "alert_at (in_alerts st') fp = (case alert_with (a # alerts) fp of
       Some b \<Rightarrow> Some (polled_row now b (alert_at rows fp)) | None \<Rightarrow> alert_at (in_alerts st) fp)" for fp
    unfolding look e(1) using n
    by (auto simp: alert_with_simps alert_at_upsert split: option.split)
  then show ?case using ih Cons.prems(2) e same_settings_trans by auto
qed

lemma poll_absent_effect:
  assumes "poll_absent incoming now (st, ts) r = Inr (st', ts')"
  shows "in_alerts st' = (if is_absent incoming r
        then update_where (\<lambda>q. aw_fingerprint q = aw_fingerprint r) (resolve_row now) (in_alerts st) else in_alerts st) \<and>
    same_settings st st' \<and>
    map change_of ts' = map change_of ts @ (if is_absent incoming r then [(aw_fingerprint r, ''resolved'')] else [])"
  using assms by (auto simp: poll_absent_def is_absent_def same_settings_def split: if_splits dest!: add_transition_cases)

lemma poll_absent_fold:
  assumes "fold_res (poll_absent incoming now) (st, ts) rows = Inr (st', ts')"
    and "distinct (map aw_fingerprint rows)" and "distinct (map aw_fingerprint (in_alerts st))"
  shows "(\<forall>fp. alert_at (in_alerts st') fp = (case alert_at (filter (is_absent incoming) rows) fp of
              Some _ \<Rightarrow> map_option (resolve_row now) (alert_at (in_alerts st) fp) | None \<Rightarrow> alert_at (in_alerts st) fp)) \<and>
    distinct (map aw_fingerprint (in_alerts st')) \<and> same_settings st st' \<and>
    map change_of ts' = map change_of ts @ map (\<lambda>r. (aw_fingerprint r, ''resolved'')) (filter (is_absent incoming) rows)"
  using assms
proof (induction rows arbitrary: st ts)
  case Nil
  then show ?case by (simp add: alert_at_simps)
next
  case (Cons r rows)
  obtain st1 ts1 where one: "poll_absent incoming now (st, ts) r = Inr (st1, ts1)"
    and rest: "fold_res (poll_absent incoming now) (st1, ts1) rows = Inr (st', ts')"
    using Cons.prems(1) by auto
  note e = poll_absent_effect [OF one]
  have d: "distinct (map aw_fingerprint (in_alerts st1))"
    using e Cons.prems(3) by (simp add: map_update_where_same)
  have n: "alert_at (filter (is_absent incoming) rows) (aw_fingerprint r) = None"
    using Cons.prems(2) by (auto simp: alert_at_None)
  note ih = Cons.IH [OF rest _ d]
  have look: "alert_at (in_alerts st') fp = (case alert_at (filter (is_absent incoming) rows) fp of
       Some _ \<Rightarrow> map_option (resolve_row now) (alert_at (in_alerts st1) fp) | None \<Rightarrow> alert_at (in_alerts st1) fp)" for fp
    using ih Cons.prems(2) by simp
  have "alert_at (in_alerts st') fp = (case alert_at (filter (is_absent incoming) (r # rows)) fp of
       Some _ \<Rightarrow> map_option (resolve_row now) (alert_at (in_alerts st) fp) | None \<Rightarrow> alert_at (in_alerts st) fp)" for fp
    unfolding look using e n by (auto simp: alert_at_simps alert_at_update split: option.split)
  then show ?case using ih Cons.prems(2) e same_settings_trans by auto
qed

subsection \<open>Runs\<close>

inductive inbox_step :: "inbox \<Rightarrow> inbox \<Rightarrow> bool" where
  poll_step: "sync st now response = Inr (r, st') \<Longrightarrow> inbox_step st st'"
| poll_error_step: "record_poll_error st error now = Inr st' \<Longrightarrow> inbox_step st st'"
| acknowledge_step: "inbox_step st (snd (acknowledge st now fp who note))"

inductive_cases inbox_stepE: "inbox_step st st'"

definition is_new_inbox :: "inbox \<Rightarrow> bool" where
  "is_new_inbox st = (\<exists>days limit. st = new_inbox days limit)"

text \<open>
  The invariant: one row per fingerprint, in one of the three states, resolved exactly when
  it has a time of resolution; as many occurrences as generations; an acknowledgement has its
  time, its author and its note together; the retention is at least a day.
\<close>

definition alert_row_ok :: "alert_row \<Rightarrow> bool" where
  "alert_row_ok r \<longleftrightarrow> aw_state r \<in> {''pending'', ''firing'', ''resolved''} \<and>
     (aw_resolved_at r \<noteq> None \<longleftrightarrow> aw_state r = ''resolved'') \<and>
     aw_generation r = aw_occurrences r \<and> aw_generation r \<ge> 1 \<and>
     (aw_acknowledged_at r = None \<longleftrightarrow> aw_acknowledged_by r = None) \<and>
     (aw_acknowledged_at r = None \<longleftrightarrow> aw_note r = None)"

definition inbox_inv :: "inbox \<Rightarrow> bool" where
  "inbox_inv st \<longleftrightarrow> distinct (map aw_fingerprint (in_alerts st)) \<and> (\<forall>r\<in>set (in_alerts st). alert_row_ok r) \<and>
     in_retention_days st \<ge> 1"

lemma sync_stages:
  assumes "sync st now response = Inr (res, st')"
  obtains alerts st0 st1 ts0 ts where "poll_alerts response = Inr alerts"
    "fold_res (poll_alert (in_alerts st) now) (st, []) alerts = Inr (st0, ts0)"
    "fold_res (poll_absent (map al_fingerprint alerts) now) (st0, ts0) (in_alerts st) = Inr (st1, ts)"
    "sr_transitions res = ts" "sr_observed res = length alerts"
    "in_alerts st' = in_alerts (retain now st1)" "in_retention_days st' = in_retention_days st1"
    "in_history_limit st' = in_history_limit st1"
proof -
  obtain alerts s ts st1 where p: "poll_alerts response = Inr alerts" and f: "apply_poll st now alerts = Inr (st1, ts)"
    and r: "sr_transitions res = ts" "sr_observed res = length alerts"
    and e: "in_alerts st' = in_alerts (retain now st1)" "in_retention_days st' = in_retention_days st1"
      "in_history_limit st' = in_history_limit st1"
    using assms unfolding sync_def by (auto simp: res_simps retain_def set_metadata_def Let_def)
  obtain st0 ts0 where "fold_res (poll_alert (in_alerts st) now) (st, []) alerts = Inr (st0, ts0)"
    "fold_res (poll_absent (map al_fingerprint alerts) now) (st0, ts0) (in_alerts st) = Inr (st1, ts)"
    using f by (auto simp: apply_poll_def)
  then show thesis using that p r e by blast
qed

lemma poll_alerts_valid:
  assumes "poll_alerts response = Inr alerts"
  shows "distinct (map al_fingerprint alerts) \<and> (\<forall>a\<in>set alerts. al_state a \<in> {''pending'', ''firing''})"
proof -
  obtain rows where rows: "map_res normalize_alert rows = Inr alerts" and d: "distinct (map al_fingerprint alerts)"
    using assms by (auto simp: poll_alerts_def res_simps)
  have "al_state a \<in> {''pending'', ''firing''}" if "normalize_alert raw = Inr a" for raw a
    using that by (auto simp: normalize_alert_def ACTIVE_STATES_def Let_def res_simps)
  then show ?thesis using d map_res_set [OF rows] by blast
qed

lemma polled_row_ok:
  assumes "al_state a \<in> {''pending'', ''firing''}" and "\<And>r. prior = Some r \<Longrightarrow> alert_row_ok r"
  shows "alert_row_ok (polled_row now a prior)"
  using assms by (auto simp: polled_row_def alert_row_ok_def Let_def split: option.split)

lemma alert_with_mem: "alert_with alerts fp = Some a \<Longrightarrow> a \<in> set alerts \<and> al_fingerprint a = fp"
  by (auto simp: alert_with_def dest: row_where_Some)

lemma sync_effect:
  assumes s: "sync st now response = Inr (res, st')" and inv: "inbox_inv st"
  obtains alerts where "poll_alerts response = Inr alerts" "sr_observed res = length alerts"
    "\<And>fp. alert_at (in_alerts st') fp =
        alert_after now (in_retention_days st) (alert_with alerts fp) (alert_at (in_alerts st) fp)"
    "map change_of (sr_transitions res) = poll_changes alerts (in_alerts st)"
    "distinct (map aw_fingerprint (in_alerts st'))" "in_retention_days st' = in_retention_days st"
proof -
  obtain alerts st0 st1 ts0 ts where p: "poll_alerts response = Inr alerts"
    and f0: "fold_res (poll_alert (in_alerts st) now) (st, []) alerts = Inr (st0, ts0)"
    and f1: "fold_res (poll_absent (map al_fingerprint alerts) now) (st0, ts0) (in_alerts st) = Inr (st1, ts)"
    and r: "sr_transitions res = ts" "sr_observed res = length alerts"
    and e: "in_alerts st' = in_alerts (retain now st1)" "in_retention_days st' = in_retention_days st1"
    using s by (rule sync_stages)
  have d: "distinct (map aw_fingerprint (in_alerts st))" using inv by (simp add: inbox_inv_def)
  have da: "distinct (map al_fingerprint alerts)" using poll_alerts_valid [OF p] by simp
  note e0 = poll_alerts_fold [OF f0 da d]
  have d0: "distinct (map aw_fingerprint (in_alerts st0))" using e0 by simp
  note e1 = poll_absent_fold [OF f1 d d0]
  have settings: "in_retention_days st1 = in_retention_days st" using e0 e1 by (simp add: same_settings_def)
  have absent: "alert_at (filter (is_absent (map al_fingerprint alerts)) (in_alerts st)) fp =
      (case alert_at (in_alerts st) fp of None \<Rightarrow> None
       | Some r \<Rightarrow> if alert_with alerts fp = None \<and> aw_state r \<noteq> ''resolved'' then Some r else None)" for fp
    unfolding alert_at_filter [OF d]
    by (auto simp: is_absent_def alert_with_None dest: alert_at_key split: option.split)
  have kept: "alert_at (in_alerts st') fp = (case alert_at (in_alerts st1) fp of None \<Rightarrow> None
      | Some r \<Rightarrow> if expired_alert (now - of_int (in_retention_days st * 86400)) r then None else Some r)" for fp
    using alert_at_filter [of "in_alerts st1" "\<lambda>r. \<not> expired_alert (now - of_int (in_retention_days st * 86400)) r"] e1
    by (simp add: e(1) retain_def Let_def settings split: option.split)
  have l0: "alert_at (in_alerts st0) fp = (case alert_with alerts fp of
      Some a \<Rightarrow> Some (polled_row now a (alert_at (in_alerts st) fp)) | None \<Rightarrow> alert_at (in_alerts st) fp)" for fp
    using e0 by blast
  have l1: "alert_at (in_alerts st1) fp = (case alert_at (filter (is_absent (map al_fingerprint alerts)) (in_alerts st)) fp of
      Some _ \<Rightarrow> map_option (resolve_row now) (alert_at (in_alerts st0) fp) | None \<Rightarrow> alert_at (in_alerts st0) fp)" for fp
    using e1 by blast
  have look: "alert_at (in_alerts st') fp =
      alert_after now (in_retention_days st) (alert_with alerts fp) (alert_at (in_alerts st) fp)" for fp
  proof (cases "alert_with alerts fp")
    case (Some a)
    have "al_state a \<noteq> ''resolved''" using poll_alerts_valid [OF p] alert_with_mem [OF Some] by auto
    then have "\<not> expired_alert c (polled_row now a prior)" for c prior
      by (simp add: expired_alert_def polled_row_def Let_def split: option.split)
    then show ?thesis unfolding kept l1 absent l0
      by (cases "alert_at (in_alerts st) fp") (simp_all add: alert_after_def Some)
  next
    case None
    have "\<not> now < now - of_int (in_retention_days st * 86400)" using inv by (simp add: inbox_inv_def)
    then have "\<not> expired_alert (now - of_int (in_retention_days st * 86400)) (resolve_row now r)" for r
      by (simp add: expired_alert_def resolve_row_def)
    then show ?thesis unfolding kept l1 absent l0
      by (cases "alert_at (in_alerts st) fp") (simp_all add: alert_after_def None)
  qed
  have "map change_of ts = poll_changes alerts (in_alerts st)" using e0 e1 by (simp add: poll_changes_def)
  moreover have "distinct (map aw_fingerprint (in_alerts st'))"
    using e1 by (simp add: e(1) retain_def Let_def distinct_map_filter)
  ultimately show thesis using that p r look e(2) settings by simp
qed

lemma alert_after_ok:
  assumes "alert_after now days reported prior = Some r"
    and "\<And>a. reported = Some a \<Longrightarrow> al_state a \<in> {''pending'', ''firing''}" and "\<And>q. prior = Some q \<Longrightarrow> alert_row_ok q"
  shows "alert_row_ok r"
proof (cases reported)
  case (Some a)
  then show ?thesis using assms polled_row_ok [of a prior now] by (simp add: alert_after_def)
next
  case None
  have "alert_row_ok (resolve_row now q)" if "alert_row_ok q" for q
    using that by (auto simp: alert_row_ok_def resolve_row_def)
  then show ?thesis using assms None by (auto simp: alert_after_def split: option.splits if_splits)
qed

lemma sync_inv:
  assumes "sync st now response = Inr (res, st')" and "inbox_inv st"
  shows "inbox_inv st'"
  using assms
proof (rule sync_effect)
  fix alerts
  assume p: "poll_alerts response = Inr alerts" and d: "distinct (map aw_fingerprint (in_alerts st'))"
    and l: "\<And>fp. alert_at (in_alerts st') fp =
        alert_after now (in_retention_days st) (alert_with alerts fp) (alert_at (in_alerts st) fp)"
    and days: "in_retention_days st' = in_retention_days st"
  have "alert_row_ok r" if "r \<in> set (in_alerts st')" for r
  proof (rule alert_after_ok)
    show "alert_after now (in_retention_days st) (alert_with alerts (aw_fingerprint r))
        (alert_at (in_alerts st) (aw_fingerprint r)) = Some r"
      using alert_at_member [OF d that] l by simp
    show "al_state a \<in> {''pending'', ''firing''}" if "alert_with alerts (aw_fingerprint r) = Some a" for a
      using poll_alerts_valid [OF p] alert_with_mem [OF that] by blast
    show "alert_row_ok q" if "alert_at (in_alerts st) (aw_fingerprint r) = Some q" for q
      using assms(2) alert_at_key [OF that] by (simp add: inbox_inv_def)
  qed
  then show ?thesis using d days assms(2) by (simp add: inbox_inv_def)
qed

lemma inv_update_row:
  assumes "inbox_inv st" and "\<And>r. aw_fingerprint (f r) = aw_fingerprint r" and "\<And>r. alert_row_ok r \<Longrightarrow> alert_row_ok (f r)"
    and "in_alerts st' = update_where p f (in_alerts st)" and "in_retention_days st' = in_retention_days st"
  shows "inbox_inv st'"
  using assms by (auto simp: inbox_inv_def map_update_where_same dest!: set_update_where)

lemma acknowledge_effect:
  assumes "acknowledge_tx st now fp who note = Inr (Inr (row, t, st'))"
  shows "in_alerts st' = update_where (\<lambda>r. aw_fingerprint r = fp) (acknowledged_row now who note) (in_alerts st) \<and>
    in_retention_days st' = in_retention_days st"
  using assms
  by (auto simp: acknowledge_tx_def Let_def res_simps set_metadata_def same_settings_def split: if_splits
      dest!: add_transition_cases)

lemma acknowledge_tx_inv:
  assumes "acknowledge_tx st now fp who note = Inr (Inr (row, t, st'))" and "inbox_inv st"
  shows "inbox_inv st'"
  using assms(2)
proof (rule inv_update_row)
  show "in_alerts st' = update_where (\<lambda>r. aw_fingerprint r = fp) (acknowledged_row now who note) (in_alerts st)"
    "in_retention_days st' = in_retention_days st"
    using acknowledge_effect [OF assms(1)] by simp_all
qed (simp_all add: acknowledged_row_def alert_row_ok_def)

lemma acknowledge_inv: "inbox_inv st \<Longrightarrow> inbox_inv (snd (acknowledge st now fp who note))"
  unfolding acknowledge_def Let_def by (auto split: sum.split prod.split intro: acknowledge_tx_inv)

interpretation inbox_runs: invariant_system is_new_inbox inbox_step inbox_inv
proof
  show "inbox_inv st" if "is_new_inbox st" for st
    using that by (auto simp: is_new_inbox_def new_inbox_def inbox_inv_def)
next
  show "inbox_inv st'" if i: "inbox_inv st" and s: "inbox_step st st'" for st st'
    using s
  proof (rule inbox_stepE)
    show ?thesis if "record_poll_error st error now = Inr st'" for error now
      using that i by (auto simp: record_poll_error_def set_metadata_def inbox_inv_def)
  qed (use i in \<open>auto intro: sync_inv acknowledge_inv\<close>)
qed

subsection \<open>A poll of one alert\<close>

definition demo_labels :: "(string \<times> string) list" where
  "demo_labels = [(''alertname'', ''DiskFull''), (''severity'', ''Critical'')]"

definition demo_alert :: alert where
  "demo_alert = \<lparr>al_fingerprint = label_fingerprint demo_labels, al_name = ''DiskFull'', al_severity = ''critical'',
     al_state = ''firing'', al_labels = demo_labels, al_annotations = [], al_summary = ''DiskFull'',
     al_description = [], al_active_at = None\<rparr>"

definition demo_poll :: pyval where
  "demo_poll = PDict [(''status'', PStr ''success''), (''data'', PDict [(''alerts'', PList [PDict
     [(''labels'', text_dict demo_labels), (''state'', PStr '' Firing'')]])])]"

lemma demo_alert_normalized:
  "normalize_alert (PDict [(''labels'', text_dict demo_labels), (''state'', PStr '' Firing'')]) = Inr demo_alert"
proof -
  have parts: "bounded_mapping (PDict (map (map_prod id PStr) demo_labels)) MAX_LABELS = demo_labels"
    "bounded_mapping PNone MAX_ANNOTATIONS = []" "lower (strip '' Firing'') = ''firing''"
    "list_ex label_too_long (map (map_prod id PStr) demo_labels) = False" "parse_iso PNone = None"
    "lower ''Critical'' = ''critical''" "map (map_prod id PStr) demo_labels \<noteq> []"
    "\<not> MAX_LABELS < length (map (map_prod id PStr) demo_labels)" "''firing'' \<in> set ACTIVE_STATES"
    by code_simp+
  have names: "take 200 (text_or demo_labels ''alertname'' ''unnamed-alert'') = ''DiskFull''"
    "text_or demo_labels ''alertname'' ''unnamed-alert'' = ''DiskFull''" "map_of demo_labels ''severity'' = Some ''Critical''"
    by code_simp+
  show ?thesis
    using parts names
    by (simp add: normalize_alert_def text_dict_def pget_def Let_def iso_utc_opt_def demo_alert_def text_or_def)
qed

lemma demo_poll_read: "poll_alerts demo_poll = Inr [demo_alert]"
  using demo_alert_normalized by (simp add: poll_alerts_def demo_poll_def pget_def)

lemma demo_poll_accepted: "\<exists>res st'. sync (new_inbox 90 2000) 1000 demo_poll = Inr (res, st')"
proof -
  show ?thesis
    unfolding sync_def demo_poll_read
    by (simp add: apply_poll_def poll_alert_def polled_transition_def alert_at_simps new_inbox_def Let_def iso_utc_1000
        add_transition_def public_transition_of_def meta_int_def meta_text_def upsert_alert_def)
qed

subsection \<open>Properties\<close>

text \<open>
  C18. In every state the inbox reaches, an accepted poll gives each alert it reports the
  reported state, keeps the generation and the acknowledgement of an alert that stayed
  active, starts a new generation without acknowledgement for one that fires again, resolves
  exactly the active alerts it does not report, drops resolved ones only after their
  retention, and reports one transition for every such change and no other.
\<close>

theorem poll_tracks_alerts:
  assumes "reach is_new_inbox inbox_step st" and "sync st now response = Inr (res, st')"
  shows "\<exists>alerts. poll_alerts response = Inr alerts \<and> sr_observed res = length alerts \<and>
    (\<forall>fp. tracked now (in_retention_days st) (alert_with alerts fp) (alert_at (in_alerts st) fp) (alert_at (in_alerts st') fp)) \<and>
    map change_of (sr_transitions res) = poll_changes alerts (in_alerts st) \<and>
    (\<forall>r\<in>set (in_alerts st'). alert_row_ok r)"
proof -
  have inv: "inbox_inv st" using assms(1) by (rule inbox_runs.reach_inv)
  have "inbox_inv st'" using assms(2) inv by (rule sync_inv)
  then have "\<forall>r\<in>set (in_alerts st'). alert_row_ok r" by (simp add: inbox_inv_def)
  then show ?thesis using sync_effect [OF assms(2) inv] tracked_alert_after by metis
qed

lemma poll_tracks_alerts_witness:
  "\<exists>res st'. sync (new_inbox 90 2000) 1000 demo_poll = Inr (res, st') \<and>
     (\<exists>r. alert_at (in_alerts st') (label_fingerprint demo_labels) = Some r \<and> aw_state r = ''firing'' \<and> aw_generation r = 1) \<and>
     map change_of (sr_transitions res) = [(label_fingerprint demo_labels, ''firing'')]"
proof -
  obtain res st' where s: "sync (new_inbox 90 2000) 1000 demo_poll = Inr (res, st')" using demo_poll_accepted by blast
  have "reach is_new_inbox inbox_step (new_inbox 90 2000)"
    by (rule reach.reach_init) (auto simp: is_new_inbox_def)
  from poll_tracks_alerts [OF this s] have
    "tracked 1000 90 (Some demo_alert) None (alert_at (in_alerts st') (label_fingerprint demo_labels))"
    "map change_of (sr_transitions res) = [(label_fingerprint demo_labels, ''firing'')]"
    by (auto simp: demo_poll_read new_inbox_def alert_at_simps alert_with_simps demo_alert_def
        poll_changes_def change_of_transition polled_transition_def dest!: spec [of _ "label_fingerprint demo_labels"])
  then show ?thesis using s by (auto simp: tracked_def tracked_alert_def demo_alert_def)
qed

end
