(* ===== verification/AuditLedger.thy ===== *)
theory AuditLedger
  imports HashChain JsonText Utf8 PyIso
begin

section \<open>The audit ledger: authenticated evidence of admin events\<close>

text \<open>
  \<^verbatim>\<open>admin/audit_ledger.py\<close>: events are appended to a chain of keyed hashes whose head is
  also kept in an authenticated anchor file, so that removing the last events is noticed.
  What the code observes of its files (links, permissions, triggers, the signature of the
  artifacts, whether the anchor could be replaced) and the clocks are arguments; the contents
  of the key file, the anchor file and the table are the state.
\<close>

definition AUDIT_SCHEMA_VERSION :: int where "AUDIT_SCHEMA_VERSION = 1"
definition MAX_EVENT_BYTES :: nat where "MAX_EVENT_BYTES = 64 * 1024"
definition VERIFY_CACHE_SECONDS :: rat where "VERIFY_CACHE_SECONDS = 60"

definition tagged_hex :: "string \<Rightarrow> string \<Rightarrow> bool" where
  "tagged_hex tag s = (starts_with s tag \<and> length s = length tag + 32 \<and> list_all is_lower_hex (drop (length tag) s))"

definition event_id_ok :: "string \<Rightarrow> bool" where
  "event_id_ok s = tagged_hex ''audit-'' s"

definition audit_request_ok :: "string \<Rightarrow> bool" where
  "audit_request_ok s = tagged_hex ''request-'' s"

definition parse_time :: "string \<Rightarrow> rat option" where
  "parse_time s = map_option instant_of (from_iso (replace_z s))"

subsection \<open>State and observations\<close>

record audit_event =
  au_sequence :: nat
  au_event_id :: string
  au_occurred_at :: string
  au_action :: string
  au_ok :: bool
  au_request_id :: "string option"
  au_event_json :: string
  au_event_sha256 :: string
  au_previous :: string
  au_hmac :: string

record integrity =
  ig_events :: nat
  ig_head_sequence :: nat
  ig_head :: string
  ig_anchor_updated :: pyval

text \<open>The remembered verification: its result, the signature it was made under and its time.\<close>

record audit_store =
  ld_key :: "string option"
  ld_anchor :: "string option"
  ld_events :: "audit_event list"
  ld_schema :: "string option"
  ld_failures :: nat
  ld_cache :: "(integrity \<times> string \<times> rat) option"

record artifact =
  af_name :: string
  af_symlink :: bool
  af_regular :: bool
  af_mode :: nat

record audit_files =
  fi_database :: artifact
  fi_key :: artifact
  fi_anchor :: artifact
  fi_directory_mode :: nat
  fi_triggers :: "string list"
  fi_signature :: "string res"

subsection \<open>The remembered verification\<close>

definition remember_verification :: "audit_files \<Rightarrow> rat \<Rightarrow> integrity \<Rightarrow> audit_store \<Rightarrow> audit_store res" where
  "remember_verification fs tick ig st =
     bind_res (fi_signature fs) (\<lambda>s. Inr (st\<lparr>ld_cache := Some (ig, s, tick)\<rparr>))"

definition cached_verification :: "audit_files \<Rightarrow> rat \<Rightarrow> audit_store \<Rightarrow> integrity option" where
  "cached_verification fs tick st =
     (case ld_cache st of
        None \<Rightarrow> None
      | Some (ig, s, made) \<Rightarrow>
          if tick - made > VERIFY_CACHE_SECONDS then None
          else (case fi_signature fs of Inl _ \<Rightarrow> None | Inr s' \<Rightarrow> if s' \<noteq> s then None else Some ig))"

definition forget_verification :: "audit_store \<Rightarrow> audit_store" where
  "forget_verification st = st\<lparr>ld_cache := None\<rparr>"

subsection \<open>Keys and digests\<close>

definition connect_audit :: "audit_files \<Rightarrow> 'a res \<Rightarrow> 'a res" where
  "connect_audit fs m =
     require (\<not> af_symlink (fi_database fs)) (RuntimeError ''audit ledger database must not be a symbolic link'') m"

definition audit_key :: "audit_files \<Rightarrow> audit_store \<Rightarrow> string res" where
  "audit_key fs st =
     require (\<not> af_symlink (fi_key fs)) (RuntimeError ''audit ledger HMAC key must not be a symbolic link'')
      (case ld_key st of
         None \<Rightarrow> Inl (OSError ''No such file or directory'')
       | Some key \<Rightarrow>
           require (length key = 32) (RuntimeError ''audit ledger HMAC key must contain exactly 32 bytes'') (Inr key))"

definition audit_event_payload :: "int \<Rightarrow> string \<Rightarrow> string \<Rightarrow> (string \<times> pyval) list" where
  "audit_event_payload sequence sha previous =
     [(''schemaVersion'', PInt AUDIT_SCHEMA_VERSION), (''sequence'', PInt sequence),
      (''eventSha256'', PStr sha), (''previousHmacSha256'', PStr previous)]"

definition audit_event_hmac :: "string \<Rightarrow> int \<Rightarrow> string \<Rightarrow> string \<Rightarrow> string" where
  "audit_event_hmac key sequence sha previous =
     hmac_hex key (canonical_utf8 (PDict (audit_event_payload sequence sha previous)))"

definition anchor_payload :: "int \<Rightarrow> pyval \<Rightarrow> pyval \<Rightarrow> (string \<times> pyval) list" where
  "anchor_payload sequence head_hmac updated_at =
     [(''schemaVersion'', PInt AUDIT_SCHEMA_VERSION), (''sequence'', PInt sequence),
      (''headHmacSha256'', head_hmac), (''updatedAt'', updated_at)]"

definition anchor_hmac :: "string \<Rightarrow> int \<Rightarrow> pyval \<Rightarrow> pyval \<Rightarrow> string" where
  "anchor_hmac key sequence head_hmac updated_at =
     hmac_hex key (canonical_utf8 (PDict (anchor_payload sequence head_hmac updated_at)))"

subsection \<open>The anchor file\<close>

definition anchor_document :: "string \<Rightarrow> int \<Rightarrow> string \<Rightarrow> string \<Rightarrow> (string \<times> pyval) list" where
  "anchor_document key sequence head_hmac updated_at =
     anchor_payload sequence (PStr head_hmac) (PStr updated_at)
     @ [(''anchorHmacSha256'', PStr (anchor_hmac key sequence (PStr head_hmac) (PStr updated_at)))]"

text \<open>\<open>io\<close> is the outcome of writing the temporary file and putting it in place.\<close>

definition write_anchor ::
  "audit_files \<Rightarrow> rat \<Rightarrow> unit res \<Rightarrow> nat \<Rightarrow> string \<Rightarrow> audit_store \<Rightarrow> audit_store res" where
  "write_anchor fs now io sequence head_hmac st =
     bind_res (iso_utc now) (\<lambda>updated_at.
     bind_res (audit_key fs st) (\<lambda>key.
     bind_res io (\<lambda>_.
     Inr (st\<lparr>ld_anchor := Some (canonical (PDict (anchor_document key (int sequence) head_hmac updated_at)) @ [chr 10])\<rparr>))))"

record anchor =
  an_sequence :: int
  an_head :: pyval
  an_updated :: pyval

definition ANCHOR_FIELDS :: "string list" where
  "ANCHOR_FIELDS = [''schemaVersion'', ''sequence'', ''headHmacSha256'', ''updatedAt'', ''anchorHmacSha256'']"

definition anchor_fields :: "string \<Rightarrow> (string \<times> pyval) list res" where
  "anchor_fields t =
     (case json_loads t of
        Inl e \<Rightarrow> Inl (if e = json_error then RuntimeError ''audit ledger head anchor is unreadable'' else e)
      | Inr v \<Rightarrow>
         (case as_dict v of
            None \<Rightarrow> Inl (RuntimeError ''audit ledger head anchor has an invalid shape'')
          | Some d \<Rightarrow>
              require (set (map fst d) = set ANCHOR_FIELDS)
                (RuntimeError ''audit ledger head anchor has an invalid shape'') (Inr d)))"

definition read_anchor :: "audit_files \<Rightarrow> audit_store \<Rightarrow> anchor res" where
  "read_anchor fs st =
     require (\<not> af_symlink (fi_anchor fs)) (RuntimeError ''audit ledger head anchor must not be a symbolic link'')
      (case ld_anchor st of
         None \<Rightarrow> Inl (RuntimeError ''audit ledger head anchor is unreadable'')
       | Some t \<Rightarrow>
           bind_res (anchor_fields t) (\<lambda>d.
           bind_res (py_int (pget d ''schemaVersion'')) (\<lambda>version.
           require (version = AUDIT_SCHEMA_VERSION) (RuntimeError ''audit ledger head anchor has invalid metadata'')
          (bind_res (py_int (pget d ''sequence'')) (\<lambda>sequence.
           require (\<not> sequence < 0) (RuntimeError ''audit ledger head anchor has invalid metadata'')
          (let head_text = py_str (pget d ''headHmacSha256'') in
           require (length head_text = 64 \<and> list_all is_lower_hex head_text)
             (RuntimeError ''audit ledger head anchor has an invalid head HMAC'')
          (bind_res (audit_key fs st) (\<lambda>key.
           bind_res (compare_digest (anchor_hmac key sequence (pget d ''headHmacSha256'') (pget d ''updatedAt''))
             (py_str (pget d ''anchorHmacSha256''))) (\<lambda>same.
           require same (RuntimeError ''audit ledger head anchor HMAC verification failed'')
          (Inr \<lparr>an_sequence = sequence, an_head = pget d ''headHmacSha256'', an_updated = pget d ''updatedAt''\<rparr>))))))))))"

subsection \<open>Events\<close>

record normal_event =
  ne_event :: "(string \<times> pyval) list"
  ne_text :: string
  ne_id :: string
  ne_occurred_at :: string
  ne_action :: string
  ne_ok :: bool
  ne_request_id :: "string option"

definition event_request_id :: "pyval \<Rightarrow> string option res" where
  "event_request_id v =
     (if v = PNone then Inr None
      else require (audit_request_ok (py_str v)) (ValueError ''audit event request_id must be request-<32 lowercase hex>'')
        (Inr (Some (py_str v))))"

text \<open>
  \<open>ne_text\<close> is the encoded event as a text; the code keeps its bytes, the size bound is on
  the bytes.
\<close>

definition normalize_event :: "pyval \<Rightarrow> normal_event res" where
  "normalize_event event =
     (if as_dict event = None then Inl (ValueError ''audit event must be a JSON object'') else
      let t = dumps False event in
      case json_loads t of
        Inl e \<Rightarrow> Inl (case e of ValueError _ \<Rightarrow> ValueError ''audit event must contain only JSON-compatible values'' | _ \<Rightarrow> e)
      | Inr v \<Rightarrow>
          require (2 \<le> length (utf8 t) \<and> length (utf8 t) \<le> MAX_EVENT_BYTES)
            (ValueError ''audit event must be at most 65536 bytes'')
         (case as_dict v of
            None \<Rightarrow> Inl (AttributeError ''get'')
          | Some d \<Rightarrow>
              let event_id = str_or_empty (pget d ''eventId''); occurred_at = str_or_empty (pget d ''ts'');
                  action = strip (str_or_empty (pget d ''action'')) in
              require (event_id_ok event_id) (ValueError ''audit event requires an audit-<32 lowercase hex> eventId'')
             (require (parse_time occurred_at \<noteq> None) (ValueError ''audit event requires an ISO-8601 ts'')
             (require (\<not> (action = [] \<or> length action > 128)) (ValueError ''audit event action must contain 1-128 characters'')
             (case pget d ''ok'' of
                PBool ok \<Rightarrow>
                  bind_res (event_request_id (pget d ''request_id'')) (\<lambda>request_id.
                  Inr \<lparr>ne_event = d, ne_text = t, ne_id = event_id, ne_occurred_at = occurred_at, ne_action = action,
                       ne_ok = ok, ne_request_id = request_id\<rparr>)
              | _ \<Rightarrow> Inl (ValueError ''audit event ok must be boolean''))))))"

definition by_sequence :: "audit_event list \<Rightarrow> audit_event list" where
  "by_sequence rows = sort_key au_sequence rows"

definition head_sequence :: "audit_event list \<Rightarrow> nat" where
  "head_sequence rows = (if rows = [] then 0 else au_sequence (last (by_sequence rows)))"

definition head_hmac :: "audit_event list \<Rightarrow> string" where
  "head_hmac rows = (if rows = [] then ZERO_HASH else au_hmac (last (by_sequence rows)))"

text \<open>\<^verbatim>\<open>hmac.compare_digest\<close> of a document field and a text\<close>

definition compare_field :: "pyval \<Rightarrow> string \<Rightarrow> bool res" where
  "compare_field v s =
     (case v of PStr t \<Rightarrow> compare_digest t s
      | _ \<Rightarrow> Inl (TypeError ''unsupported operand types(s) or combination of types''))"

definition head_matches :: "anchor \<Rightarrow> nat \<Rightarrow> string \<Rightarrow> bool res" where
  "head_matches a sequence h =
     (if an_sequence a \<noteq> int sequence then Inr False else compare_field (an_head a) h)"

definition assert_head :: "audit_files \<Rightarrow> audit_store \<Rightarrow> (nat \<times> string) res" where
  "assert_head fs st =
     (let sequence = head_sequence (ld_events st); h = head_hmac (ld_events st) in
      bind_res (read_anchor fs st) (\<lambda>a.
      bind_res (head_matches a sequence h) (\<lambda>same.
      require same (RuntimeError ''audit ledger database head does not match its authenticated anchor'')
        (Inr (sequence, h)))))"

subsection \<open>Verification\<close>

definition check_artifact :: "artifact \<Rightarrow> 'a res \<Rightarrow> 'a res" where
  "check_artifact f m =
     require (\<not> af_symlink f) (RuntimeError (''audit ledger artifact must not be a symbolic link: '' @ af_name f))
    (require (af_regular f) (RuntimeError (''audit ledger artifact is missing or not a regular file: '' @ af_name f))
    (require (af_mode f = 384) (RuntimeError (''audit ledger artifact permissions must be 0600: '' @ af_name f)) m))"

definition REQUIRED_TRIGGERS :: "string list" where
  "REQUIRED_TRIGGERS = [''audit_events_no_update'', ''audit_events_no_delete'']"

definition request_field :: "string option \<Rightarrow> pyval" where
  "request_field r = (case r of None \<Rightarrow> PNone | Some s \<Rightarrow> PStr s)"

definition indexed_fields_match :: "(string \<times> pyval) list \<Rightarrow> audit_event \<Rightarrow> bool" where
  "indexed_fields_match d r \<longleftrightarrow>
     pget d ''eventId'' = PStr (au_event_id r) \<and> pget d ''ts'' = PStr (au_occurred_at r) \<and>
     pget d ''action'' = PStr (au_action r) \<and> truthy (pget d ''ok'') = au_ok r \<and>
     pget d ''request_id'' = request_field (au_request_id r)"

definition event_fields :: "audit_event \<Rightarrow> pyval res" where
  "event_fields r =
     (case json_loads (au_event_json r) of
        Inl e \<Rightarrow> Inl (if e = json_error
          then RuntimeError (''audit ledger event '' @ nat_digits (au_sequence r) @ '' contains invalid JSON'') else e)
      | Inr v \<Rightarrow> Inr v)"

definition event_error :: "audit_event \<Rightarrow> string \<Rightarrow> pyerr" where
  "event_error r what = RuntimeError (''audit ledger event '' @ nat_digits (au_sequence r) @ '' '' @ what)"

text \<open>One pass of the loop: the next expected sequence number and the hash to link to.\<close>

definition check_event :: "string \<Rightarrow> nat \<times> string \<Rightarrow> audit_event \<Rightarrow> (nat \<times> string) res" where
  "check_event key s r =
     (case s of (expected, previous) \<Rightarrow>
      require (au_sequence r = expected) (RuntimeError (''audit ledger sequence gap at '' @ nat_digits expected))
     (bind_res (event_fields r) (\<lambda>v.
      let sha = sha256_hex (canonical_utf8 v) in
      bind_res (compare_digest sha (au_event_sha256 r)) (\<lambda>same.
      require same (event_error r ''payload digest verification failed'')
     (case as_dict v of
        None \<Rightarrow> Inl (AttributeError ''get'')
      | Some d \<Rightarrow>
          require (indexed_fields_match d r) (event_error r ''indexed fields do not match its payload'')
         (bind_res (compare_digest previous (au_previous r)) (\<lambda>linked.
          require linked (event_error r ''previous HMAC verification failed'')
         (bind_res (compare_digest (audit_event_hmac key (int (au_sequence r)) sha previous) (au_hmac r)) (\<lambda>signed.
          require signed (event_error r ''HMAC verification failed'')
            (Inr (expected + 1, au_hmac r)))))))))))"

definition verify_connection :: "audit_files \<Rightarrow> audit_store \<Rightarrow> integrity res" where
  "verify_connection fs st =
     check_artifact (fi_database fs) (check_artifact (fi_key fs) (check_artifact (fi_anchor fs)
    (require (fi_directory_mode fs mod 64 = 0) (RuntimeError ''audit ledger directory must not grant group/world permissions'')
    (bind_res (audit_key fs st) (\<lambda>key.
     require (set REQUIRED_TRIGGERS \<subseteq> set (fi_triggers fs)) (RuntimeError ''audit ledger append-only triggers are missing'')
    (bind_res (fold_res (check_event key) (1, ZERO_HASH) (by_sequence (ld_events st))) (\<lambda>s.
     bind_res (read_anchor fs st) (\<lambda>a.
     bind_res (head_matches a (length (ld_events st)) (snd s)) (\<lambda>same.
     require same (RuntimeError ''audit ledger tail deletion or head mismatch detected'')
       (Inr \<lparr>ig_events = length (ld_events st), ig_head_sequence = length (ld_events st), ig_head = snd s,
             ig_anchor_updated = an_updated a\<rparr>))))))))))"

definition verify_audit :: "audit_files \<Rightarrow> audit_files \<Rightarrow> rat \<Rightarrow> rat \<Rightarrow> bool \<Rightarrow> audit_store \<Rightarrow> (integrity \<times> audit_store) res" where
  "verify_audit fs after tick tick_after force st =
     (case (if force then None else cached_verification fs tick st) of
        Some ig \<Rightarrow> Inr (ig, st)
      | None \<Rightarrow>
          bind_res (connect_audit fs (verify_connection fs st)) (\<lambda>ig.
          bind_res (remember_verification after tick_after ig st) (\<lambda>st1. Inr (ig, st1))))"

subsection \<open>Appending\<close>

record append_result =
  pr_idempotent :: bool
  pr_sequence :: nat
  pr_hmac :: string
  pr_sha256 :: "string option"

definition row_of_event :: "string \<Rightarrow> nat \<Rightarrow> string \<Rightarrow> normal_event \<Rightarrow> audit_event" where
  "row_of_event key sequence previous ev =
     (let sha = sha256_hex (utf8 (ne_text ev)) in
      \<lparr>au_sequence = sequence, au_event_id = ne_id ev, au_occurred_at = ne_occurred_at ev, au_action = ne_action ev,
       au_ok = ne_ok ev, au_request_id = ne_request_id ev, au_event_json = ne_text ev, au_event_sha256 = sha,
       au_previous = previous, au_hmac = audit_event_hmac key (int sequence) sha previous\<rparr>)"

text \<open>What happens before the commit: a known event is answered, a new one gets its row.\<close>

definition admit_event ::
  "audit_files \<Rightarrow> audit_store \<Rightarrow> integrity option \<Rightarrow> bool \<Rightarrow> normal_event \<Rightarrow>
     (integrity option \<times> (append_result + audit_event)) res" where
  "admit_event fs st cached verify_chain ev =
     connect_audit fs
      (bind_res (if \<not> verify_chain then Inr None
          else case cached of Some ig \<Rightarrow> Inr (Some ig)
          | None \<Rightarrow> bind_res (verify_connection fs st) (\<lambda>ig. Inr (Some ig))) (\<lambda>verified.
       bind_res (assert_head fs st) (\<lambda>(sequence, previous).
       case row_where (\<lambda>r. au_event_id r = ne_id ev) (ld_events st) of
         Some r \<Rightarrow>
           bind_res (compare_digest (au_event_sha256 r) (sha256_hex (utf8 (ne_text ev)))) (\<lambda>same.
           require same (RuntimeError ''audit event ID collision has a different payload'')
             (Inr (verified, Inl \<lparr>pr_idempotent = True, pr_sequence = au_sequence r, pr_hmac = au_hmac r, pr_sha256 = None\<rparr>)))
       | None \<Rightarrow>
           bind_res (audit_key fs st) (\<lambda>key.
           Inr (verified, Inr (row_of_event key (sequence + 1) previous ev))))))"

text \<open>The end of a successful append: the remembered verification grows by the new event.\<close>

definition renew_verification ::
  "audit_files \<Rightarrow> audit_files \<Rightarrow> rat \<Rightarrow> integrity option \<Rightarrow> nat \<Rightarrow> string \<Rightarrow> audit_store \<Rightarrow> audit_store res" where
  "renew_verification fs after tick_after chain sequence hmac st =
     (case chain of
        None \<Rightarrow> Inr (forget_verification st)
      | Some _ \<Rightarrow>
          bind_res (read_anchor fs st) (\<lambda>a.
          remember_verification after tick_after
            \<lparr>ig_events = sequence, ig_head_sequence = sequence, ig_head = hmac, ig_anchor_updated = an_updated a\<rparr> st))"

definition append_failed :: "audit_store \<Rightarrow> audit_store" where
  "append_failed st = (forget_verification st)\<lparr>ld_failures := ld_failures st + 1\<rparr>"

definition audit_append ::
  "audit_files \<Rightarrow> audit_files \<Rightarrow> rat \<Rightarrow> rat \<Rightarrow> rat \<Rightarrow> unit res \<Rightarrow> audit_store \<Rightarrow> pyval \<Rightarrow> bool \<Rightarrow>
     append_result res \<times> audit_store" where
  "audit_append fs after tick tick_after now io st event verify_chain =
     (case normalize_event event of
        Inl e \<Rightarrow> (Inl e, st)
      | Inr ev \<Rightarrow>
          let cached = cached_verification fs tick st in
          case admit_event fs st cached verify_chain ev of
            Inl e \<Rightarrow> (Inl e, append_failed st)
          | Inr (verified, Inl r) \<Rightarrow> (Inr r, st)
          | Inr (verified, Inr row) \<Rightarrow>
              let st1 = st\<lparr>ld_events := ld_events st @ [row]\<rparr>;
                  chain = (case verified of Some ig \<Rightarrow> Some ig | None \<Rightarrow> cached) in
              case write_anchor fs now io (au_sequence row) (au_hmac row) st1 of
                Inl e \<Rightarrow> (Inl e, append_failed st1)
              | Inr st2 \<Rightarrow>
                  case renew_verification fs after tick_after chain (au_sequence row) (au_hmac row) st2 of
                    Inl e \<Rightarrow> (Inl e, append_failed st2)
                  | Inr st3 \<Rightarrow>
                      (Inr \<lparr>pr_idempotent = False, pr_sequence = au_sequence row, pr_hmac = au_hmac row,
                            pr_sha256 = Some (au_event_sha256 row)\<rparr>, st3))"

subsection \<open>Reading\<close>

definition listed_event :: "audit_event \<Rightarrow> (string \<times> pyval) list res" where
  "listed_event r =
     bind_res (json_loads (au_event_json r)) (\<lambda>v.
     case as_dict v of
       None \<Rightarrow> Inl (AttributeError ''update'')
     | Some d \<Rightarrow> Inr (pset (pset d ''ledgerSequence'' (PInt (int (au_sequence r)))) ''ledgerHmacSha256'' (PStr (au_hmac r))))"

definition list_events :: "audit_files \<Rightarrow> audit_store \<Rightarrow> int \<Rightarrow> (string \<times> pyval) list list res" where
  "list_events fs st limit0 =
     (let limit = nat (max 1 (min limit0 1000)) in
      connect_audit fs (map_res listed_event (rev (take limit (rev (by_sequence (ld_events st)))))))"

definition ADMITTED :: string where "ADMITTED = ''privileged-request-admitted''"
definition COMPLETED :: string where "COMPLETED = ''privileged-request-completed''"
definition RECONCILED :: string where "RECONCILED = ''privileged-request-reconciled''"

record tracked_request =
  tq_id :: string
  tq_admitted_at :: "string option"
  tq_completed_at :: "string option"
  tq_resolution :: "string option"
  tq_path :: pyval
  tq_capability :: pyval
  tq_principal :: pyval
  tq_admission_event :: pyval

definition request_events :: "audit_event list \<Rightarrow> audit_event list" where
  "request_events rows =
     filter (\<lambda>r. au_request_id r \<noteq> None \<and> au_action r \<in> {ADMITTED, COMPLETED, RECONCILED}) (by_sequence rows)"

definition resolution_of :: "audit_event \<Rightarrow> string" where
  "resolution_of r = (if au_action r = RECONCILED then ''reconciled'' else ''completed'')"

definition admission_fields :: "audit_event \<Rightarrow> (string \<times> pyval) list res" where
  "admission_fields r =
     bind_res (json_loads (au_event_json r)) (\<lambda>v.
     case as_dict v of None \<Rightarrow> Inl (AttributeError ''get'') | Some d \<Rightarrow> Inr d)"

definition new_request :: "string \<Rightarrow> tracked_request" where
  "new_request i = \<lparr>tq_id = i, tq_admitted_at = None, tq_completed_at = None, tq_resolution = None, tq_path = PNone,
     tq_capability = PNone, tq_principal = PNone, tq_admission_event = PNone\<rparr>"

definition track_event :: "tracked_request \<Rightarrow> audit_event \<Rightarrow> tracked_request res" where
  "track_event q r =
     (if au_action r = ADMITTED
      then bind_res (admission_fields r) (\<lambda>d.
           Inr (q\<lparr>tq_admitted_at := Some (au_occurred_at r), tq_path := pget d ''path'', tq_capability := pget d ''capability'',
                  tq_principal := pget d ''principal_id'', tq_admission_event := pget d ''eventId''\<rparr>))
      else Inr (q\<lparr>tq_completed_at := Some (au_occurred_at r), tq_resolution := Some (resolution_of r)\<rparr>))"

definition track_request ::
  "(string \<times> tracked_request) list \<Rightarrow> audit_event \<Rightarrow> (string \<times> tracked_request) list res" where
  "track_request m r =
     (case au_request_id r of
        None \<Rightarrow> Inr m
      | Some i \<Rightarrow>
          bind_res (track_event (case map_of m i of None \<Rightarrow> new_request i | Some q \<Rightarrow> q) r) (\<lambda>q. Inr (pset m i q)))"

definition given :: "string option \<Rightarrow> bool" where
  "given t = (case t of None \<Rightarrow> False | Some s \<Rightarrow> s \<noteq> [])"

definition is_open :: "tracked_request \<Rightarrow> bool" where
  "is_open q = (given (tq_admitted_at q) \<and> \<not> given (tq_completed_at q))"

definition admitted_time :: "tracked_request \<Rightarrow> rat option" where
  "admitted_time q = (case tq_admitted_at q of None \<Rightarrow> None | Some s \<Rightarrow> parse_time s)"

definition age_at :: "rat \<Rightarrow> rat \<Rightarrow> int" where
  "age_at now t = max 0 (trunc (now - t))"

definition open_age :: "rat \<Rightarrow> tracked_request \<Rightarrow> int" where
  "open_age now q = (case admitted_time q of None \<Rightarrow> 0 | Some t \<Rightarrow> age_at now t)"

record request_summary =
  rs_admitted :: nat
  rs_completed :: nat
  rs_reconciled :: nat
  rs_open :: nat
  rs_oldest_open_age :: int
  rs_open_requests :: "(tracked_request \<times> int) list"

definition request_status :: "audit_files \<Rightarrow> audit_store \<Rightarrow> rat \<Rightarrow> request_summary res" where
  "request_status fs st now =
     connect_audit fs (bind_res (fold_res track_request [] (request_events (ld_events st))) (\<lambda>m.
      let qs = map snd m; opened = filter is_open qs; times = List.map_filter admitted_time opened in
      Inr \<lparr>rs_admitted = length (filter (\<lambda>q. given (tq_admitted_at q)) qs),
           rs_completed = length (filter (\<lambda>q. given (tq_completed_at q)) qs),
           rs_reconciled = length (filter (\<lambda>q. tq_resolution q = Some ''reconciled'') qs),
           rs_open = length opened,
           rs_oldest_open_age = (case times of [] \<Rightarrow> 0 | t # ts \<Rightarrow> age_at now (foldl min t ts)),
           rs_open_requests = map (\<lambda>q. (q, open_age now q))
             (take 100 (sort_key (\<lambda>q. case tq_admitted_at q of None \<Rightarrow> [] | Some s \<Rightarrow> s) opened))\<rparr>))"

record request_state =
  rt_id :: string
  rt_open :: bool
  rt_admitted_at :: string
  rt_path :: pyval
  rt_capability :: pyval
  rt_principal :: pyval
  rt_admission_event :: pyval
  rt_completed :: "(string \<times> string) option"

definition request_state_of :: "string \<Rightarrow> audit_event list \<Rightarrow> request_state res" where
  "request_state_of i rows =
     (let rs = filter (\<lambda>r. au_request_id r = Some i) (request_events rows) in
      case row_where (\<lambda>r. au_action r = ADMITTED) rs of
        None \<Rightarrow> Inl (ValueError ''privileged request admission does not exist'')
      | Some a \<Rightarrow>
          bind_res (admission_fields a) (\<lambda>d.
          let terminal = row_where (\<lambda>r. au_action r \<noteq> ADMITTED) (rev rs) in
          Inr \<lparr>rt_id = i, rt_open = (terminal = None), rt_admitted_at = au_occurred_at a, rt_path = pget d ''path'',
               rt_capability = pget d ''capability'', rt_principal = pget d ''principal_id'',
               rt_admission_event = pget d ''eventId'',
               rt_completed = map_option (\<lambda>r. (au_occurred_at r, resolution_of r)) terminal\<rparr>))"

definition request_state ::
  "audit_files \<Rightarrow> audit_files \<Rightarrow> rat \<Rightarrow> rat \<Rightarrow> audit_store \<Rightarrow> pyval \<Rightarrow> request_state res \<times> audit_store" where
  "request_state fs after tick tick_after st request_id0 =
     (let i = strip (str_or_empty request_id0) in
      if \<not> audit_request_ok i then (Inl (ValueError ''request ID must be request-<32 lowercase hex>''), st)
      else case verify_audit fs after tick tick_after False st of
          Inl e \<Rightarrow> (Inl e, st)
        | Inr (_, st1) \<Rightarrow> (connect_audit fs (request_state_of i (ld_events st1)), st1))"

record audit_status =
  ux_ok :: bool
  ux_integrity :: "integrity option"
  ux_requests :: request_summary
  ux_failures :: nat
  ux_error :: "string option"

definition no_requests :: request_summary where
  "no_requests = \<lparr>rs_admitted = 0, rs_completed = 0, rs_reconciled = 0, rs_open = 0, rs_oldest_open_age = 0,
     rs_open_requests = []\<rparr>"

fun caught :: "pyerr \<Rightarrow> bool" where
  "caught (OSError _) = True"
| "caught (IntegrityError _) = True"
| "caught (ValueError _) = True"
| "caught _ = False"

definition audit_status_of ::
  "audit_files \<Rightarrow> audit_files \<Rightarrow> rat \<Rightarrow> rat \<Rightarrow> rat \<Rightarrow> audit_store \<Rightarrow> audit_status res \<times> audit_store" where
  "audit_status_of fs after tick tick_after now st =
     (let (checked, st1) = (case verify_audit fs after tick tick_after False st of
          Inl e \<Rightarrow> (Inl e, st) | Inr (ig, st') \<Rightarrow> (Inr ig, st'));
          status = (\<lambda>rs. \<lparr>ux_ok = (case checked of Inl _ \<Rightarrow> False | Inr _ \<Rightarrow> True),
             ux_integrity = (case checked of Inl _ \<Rightarrow> None | Inr ig \<Rightarrow> Some ig), ux_requests = rs,
             ux_failures = ld_failures st1,
             ux_error = (case checked of Inl e \<Rightarrow> Some (take 1000 (exc_text e)) | Inr _ \<Rightarrow> None)\<rparr>) in
      (case request_status fs st1 now of
         Inr rs \<Rightarrow> Inr (status rs)
       | Inl e \<Rightarrow> if caught e then Inr (status no_requests) else Inl e, st1))"

definition audit_prometheus ::
  "audit_files \<Rightarrow> audit_files \<Rightarrow> rat \<Rightarrow> rat \<Rightarrow> rat \<Rightarrow> bool \<Rightarrow> audit_store \<Rightarrow> string res \<times> audit_store" where
  "audit_prometheus fs after tick tick_after now enabled st =
     (case audit_status_of fs after tick tick_after now st of
        (Inl e, st1) \<Rightarrow> (Inl e, st1)
      | (Inr s, st1) \<Rightarrow>
          (let bit = (\<lambda>b. if b then ''1'' else ''0'');
               events = (case ux_integrity s of None \<Rightarrow> 0 | Some ig \<Rightarrow> ig_events ig);
               head_at = (case ux_integrity s of None \<Rightarrow> 0 | Some ig \<Rightarrow> ig_head_sequence ig);
               rs = ux_requests s;
               line = (\<lambda>(k, v). ''dash_admin_audit_'' @ k @ '' '' @ v @ [chr 10]) in
           (Inr (concat (map line
             [(''ledger_enabled'', bit enabled), (''ledger_valid'', bit (ux_ok s)), (''ledger_events'', nat_digits events),
              (''ledger_head_sequence'', nat_digits head_at), (''ledger_append_failures_total'', nat_digits (ux_failures s)),
              (''privileged_requests_admitted_total'', nat_digits (rs_admitted rs)),
              (''privileged_requests_completed_total'', nat_digits (rs_completed rs)),
              (''privileged_requests_reconciled_total'', nat_digits (rs_reconciled rs)),
              (''privileged_requests_open'', nat_digits (rs_open rs)),
              (''privileged_request_oldest_open_age_seconds'', show_int (rs_oldest_open_age rs))])), st1)))"

subsection \<open>Opening a ledger\<close>

text \<open>
  \<open>fresh_key\<close> are the random bytes of a new key, \<open>io\<close> the outcome of writing a new anchor.
\<close>

definition open_key :: "string \<Rightarrow> audit_store \<Rightarrow> audit_store" where
  "open_key fresh_key st = (case ld_key st of None \<Rightarrow> st\<lparr>ld_key := Some fresh_key\<rparr> | Some _ \<Rightarrow> st)"

definition open_schema :: "audit_store \<Rightarrow> audit_store res" where
  "open_schema st =
     (case ld_schema st of
        None \<Rightarrow> Inr (st\<lparr>ld_schema := Some (show_int AUDIT_SCHEMA_VERSION)\<rparr>)
      | Some v \<Rightarrow>
          bind_res (int_of_str v) (\<lambda>n.
          require (n = AUDIT_SCHEMA_VERSION) (RuntimeError (''unsupported audit ledger schema version '' @ v)) (Inr st)))"

definition open_anchor :: "audit_files \<Rightarrow> rat \<Rightarrow> unit res \<Rightarrow> audit_store \<Rightarrow> audit_store res" where
  "open_anchor fs now io st =
     (if ld_anchor st \<noteq> None then Inr st
      else require (ld_events st = []) (RuntimeError ''audit ledger head anchor is missing for a non-empty ledger'')
        (write_anchor fs now io 0 ZERO_HASH st))"

definition audit_initialize ::
  "audit_files \<Rightarrow> audit_files \<Rightarrow> rat \<Rightarrow> rat \<Rightarrow> rat \<Rightarrow> string \<Rightarrow> unit res \<Rightarrow> audit_store \<Rightarrow> audit_status res \<times> audit_store" where
  "audit_initialize fs after tick tick_after now fresh_key io st =
     (if af_symlink (fi_database fs) \<or> af_symlink (fi_key fs) \<or> af_symlink (fi_anchor fs)
      then (Inl (RuntimeError ''audit ledger artifacts must not be symbolic links''), st)
      else
        let st1 = open_key fresh_key st in
        case bind_res (audit_key fs st1) (\<lambda>_. open_schema st1) of
          Inl e \<Rightarrow> (Inl e, st1)
        | Inr st2 \<Rightarrow>
            (case open_anchor fs now io st2 of
               Inl e \<Rightarrow> (Inl e, st2)
             | Inr st3 \<Rightarrow>
                 (case read_anchor fs st3 of
                    Inl e \<Rightarrow> (Inl e, st3)
                  | Inr _ \<Rightarrow> audit_status_of fs after tick tick_after now st3)))"

end
