(* ===== verification/AuditProps.thy ===== *)
theory AuditProps
  imports AuditLedger
begin

section \<open>The audit ledger: what verification guarantees\<close>

text \<open>
  The events as a hash chain with the keyed hash, what a successful pass of \<^verbatim>\<open>verify\<close> says of
  every event, the round trip of the anchor file, and the properties built on them.
\<close>

subsection \<open>Texts over hexadecimal digests\<close>

definition hex_text :: "string \<Rightarrow> bool" where
  "hex_text s \<longleftrightarrow> list_all is_lower_hex s"

lemma hex_text_simps [simp]: "hex_text (hmac_hex k m)" "hex_text (sha256_hex m)" "hex_text ZERO_HASH"
  unfolding hex_text_def list_all_iff
  by (simp_all add: hmac_hex_lower sha256_hex_lower) (simp add: ZERO_HASH_def is_lower_hex_def is_digit_def)

lemma hex_text_ascii: "hex_text s \<Longrightarrow> ascii s"
  by (simp add: hex_text_def list_all_iff lower_hex_ascii)

lemma escape_hex:
  assumes "is_lower_hex c"
  shows "escape_char a c = [c]"
proof -
  have "c \<noteq> quote" "c \<noteq> backslash" using assms by (auto simp: is_lower_hex_def is_digit_def)
  then show ?thesis using assms by (auto simp: escape_char_def is_lower_hex_def is_digit_def Let_def)
qed

lemma json_string_hex: "hex_text s \<Longrightarrow> json_string a s = json_string b s"
  by (auto simp: json_string_def hex_text_def list_all_iff escape_hex cong: map_cong)

text \<open>The two encodings agree on objects whose keys and values they agree on.\<close>

lemma dumps_dict_agree:
  assumes "\<And>k v. (k, v) \<in> set kvs \<Longrightarrow> json_string a k = json_string b k \<and> dumps a v = dumps b v"
  shows "dumps a (PDict kvs) = dumps b (PDict kvs)"
proof -
  have m: "map (map_prod id (dumps a)) kvs = map (map_prod id (dumps b)) kvs"
    using assms by (auto simp: map_prod_def)
  have s: "map (\<lambda>p. json_string a (fst p) @ '':'' @ snd p) (sort_key fst (map (map_prod id (dumps b)) kvs)) =
      map (\<lambda>p. json_string b (fst p) @ '':'' @ snd p) (sort_key fst (map (map_prod id (dumps b)) kvs))"
    using assms by (auto intro!: map_cong)
  show ?thesis unfolding dumps.simps m s ..
qed

definition audit_text :: "audit_event \<Rightarrow> string" where
  "audit_text r = canonical_utf8 (PDict (audit_event_payload (int (au_sequence r)) (au_event_sha256 r) (au_previous r)))"

definition audit_well :: "audit_event \<Rightarrow> bool" where
  "audit_well r \<longleftrightarrow> hex_text (au_event_sha256 r) \<and> hex_text (au_previous r)"

lemma audit_payload_agree:
  assumes "hex_text sha" and "hex_text previous"
  shows "dumps False (PDict (audit_event_payload n sha previous)) = canonical (PDict (audit_event_payload n sha previous))"
proof -
  have keys: "json_string False k = json_string True k"
    if "k \<in> {''schemaVersion'', ''sequence'', ''eventSha256'', ''previousHmacSha256''}" for k
  proof -
    have "list_all (\<lambda>k. json_string False k = json_string True k)
        [''schemaVersion'', ''sequence'', ''eventSha256'', ''previousHmacSha256'']" by code_simp
    then show ?thesis using that by auto
  qed
  show ?thesis unfolding canonical_def
    by (rule dumps_dict_agree) (use assms json_string_hex keys in \<open>auto simp: audit_event_payload_def\<close>)
qed

lemma audit_text_inject:
  assumes "audit_well r" and "audit_well q" and "audit_text r = audit_text q"
  shows "au_event_sha256 r = au_event_sha256 q \<and> au_previous r = au_previous q"
proof -
  have c: "canonical (PDict (audit_event_payload (int (au_sequence r)) (au_event_sha256 r) (au_previous r))) =
      canonical (PDict (audit_event_payload (int (au_sequence q)) (au_event_sha256 q) (au_previous q)))"
    using assms by (simp add: audit_text_def audit_well_def canonical_utf8_def audit_payload_agree del: dumps.simps)
  note f = canonical_field_texts [OF c [unfolded audit_event_payload_def]]
  show ?thesis using f [of "''eventSha256''"] f [of "''previousHmacSha256''"] by simp
qed

interpretation audit_chain: hash_chain au_previous au_hmac audit_text "hmac_hex key" ZERO_HASH audit_well
  for key
  by unfold_locales (use audit_text_inject in blast)

subsection \<open>What a verification says\<close>

text \<open>The encoded payload a row stores.\<close>

definition recorded :: "audit_event \<Rightarrow> string" where
  "recorded r = (case json_loads (au_event_json r) of Inl _ \<Rightarrow> [] | Inr v \<Rightarrow> canonical_utf8 v)"

definition recorded_fields :: "audit_event \<Rightarrow> bool" where
  "recorded_fields r \<longleftrightarrow> (\<exists>d. json_loads (au_event_json r) = Inr (PDict d) \<and> indexed_fields_match d r)"

definition sound_event :: "audit_event \<Rightarrow> bool" where
  "sound_event r \<longleftrightarrow> au_event_sha256 r = sha256_hex (recorded r) \<and> recorded_fields r"

lemma check_event_iff:
  assumes "hex_text previous"
  shows "check_event key (n, previous) r = Inr s \<longleftrightarrow>
    au_sequence r = n \<and> sound_event r \<and> au_previous r = previous \<and> au_hmac r = hmac_hex key (audit_text r) \<and>
    s = (n + 1, au_hmac r)"
proof (cases "json_loads (au_event_json r)")
  case (Inl e)
  then show ?thesis by (simp add: check_event_def event_fields_def sound_event_def recorded_fields_def)
next
  case (Inr v)
  have p: "ascii previous" using assms by (rule hex_text_ascii)
  have h: "au_event_sha256 r = sha256_hex m \<Longrightarrow> au_previous r = previous \<Longrightarrow>
      audit_event_hmac key (int (au_sequence r)) (sha256_hex m) previous = hmac_hex key (audit_text r)" for m
    by (simp add: audit_event_hmac_def audit_text_def)
  show ?thesis using Inr p h
    by (cases v) (auto simp: check_event_def event_fields_def sound_event_def recorded_fields_def recorded_def Let_def
        audit_event_hmac_def audit_text_def)
qed

lemma check_events_iff:
  assumes "hex_text z"
  shows "fold_res (check_event key) (n, z) rows = Inr s \<longleftrightarrow>
    map au_sequence rows = [n..<n + length rows] \<and> (\<forall>r\<in>set rows. sound_event r) \<and>
    linked au_previous au_hmac (\<lambda>r. hmac_hex key (audit_text r)) z rows \<and>
    s = (n + length rows, chain_head au_hmac z rows)"
  using assms
proof (induction rows arbitrary: n z)
  case Nil
  then show ?case by auto
next
  case (Cons r rows)
  have up: "[n..<n + length (r # rows)] = n # [Suc n..<Suc n + length rows]" by (subst upt_conv_Cons) simp_all
  show ?case
  proof (cases "au_hmac r = hmac_hex key (audit_text r)")
    case True
    then have "hex_text (au_hmac r)" by simp
    then show ?thesis using Cons.IH [of "au_hmac r" "Suc n"] check_event_iff [OF Cons.prems, of key n r]
      unfolding up by auto
  next
    case False
    then show ?thesis using check_event_iff [OF Cons.prems, of key n r] by auto
  qed
qed

lemma linked_well:
  assumes "linked au_previous au_hmac (\<lambda>r. hmac_hex key (audit_text r)) z rows" and "hex_text z"
    and "\<forall>r\<in>set rows. sound_event r"
  shows "\<forall>r\<in>set rows. audit_well r"
  using assms by (induction rows arbitrary: z) (auto simp: audit_well_def sound_event_def)

text \<open>The ledger is sound: its events are a complete intact chain and each row tells its payload.\<close>

definition sound_ledger :: "string \<Rightarrow> audit_event list \<Rightarrow> bool" where
  "sound_ledger key rows \<longleftrightarrow>
     map au_sequence (by_sequence rows) = [1..<1 + length rows] \<and> (\<forall>r\<in>set rows. sound_event r) \<and>
     linked au_previous au_hmac (\<lambda>r. hmac_hex key (audit_text r)) ZERO_HASH (by_sequence rows)"

lemma by_sequence_simps [simp]: "length (by_sequence rows) = length rows" "set (by_sequence rows) = set rows"
  by (simp_all add: by_sequence_def)

definition good_files :: "audit_files \<Rightarrow> bool" where
  "good_files fs \<longleftrightarrow> (\<forall>f\<in>{fi_database fs, fi_key fs, fi_anchor fs}. \<not> af_symlink f \<and> af_regular f \<and> af_mode f = 384) \<and>
     fi_directory_mode fs mod 64 = 0 \<and> set REQUIRED_TRIGGERS \<subseteq> set (fi_triggers fs)"

lemma head_matches_iff:
  "head_matches a n h = Inr True \<longleftrightarrow> an_sequence a = int n \<and> an_head a = PStr h \<and> ascii h"
  by (cases "an_head a") (auto simp: head_matches_def compare_field_def)

lemma verify_connection_iff:
  "verify_connection fs st = Inr ig \<longleftrightarrow>
     good_files fs \<and> (\<exists>key a. ld_key st = Some key \<and> length key = 32 \<and> sound_ledger key (ld_events st) \<and>
       read_anchor fs st = Inr a \<and> an_sequence a = int (length (ld_events st)) \<and>
       an_head a = PStr (chain_head au_hmac ZERO_HASH (by_sequence (ld_events st))) \<and>
       ascii (chain_head au_hmac ZERO_HASH (by_sequence (ld_events st))) \<and>
       ig = \<lparr>ig_events = length (ld_events st), ig_head_sequence = length (ld_events st),
             ig_head = chain_head au_hmac ZERO_HASH (by_sequence (ld_events st)), ig_anchor_updated = an_updated a\<rparr>)"
proof -
  have k: "audit_key fs st = Inr key \<longleftrightarrow> \<not> af_symlink (fi_key fs) \<and> ld_key st = Some key \<and> length key = 32" for key
    by (auto simp: audit_key_def res_simps)
  have m: "(\<exists>same. head_matches a n h = Inr same \<and> same \<and> P) \<longleftrightarrow>
      an_sequence a = int n \<and> an_head a = PStr h \<and> ascii h \<and> P" for a n h P
    using head_matches_iff by metis
  show ?thesis
    unfolding verify_connection_def check_artifact_def require_Inr_iff bind_res_Inr_iff k m check_events_iff [OF hex_text_simps(3)]
    by (auto simp: good_files_def sound_ledger_def)
qed

subsection \<open>The anchor that was written is read back\<close>

lemma read_written_anchor:
  assumes "ld_key st = Some key" and "length key = 32" and "\<not> af_symlink (fi_key fs)" and "\<not> af_symlink (fi_anchor fs)"
    and "hex_text h" and "length h = 64" and "n < 2 ^ 63"
    and "ld_anchor st = Some (canonical (PDict (anchor_document key (int n) h at_time)) @ [chr 10])"
  shows "read_anchor fs st = Inr \<lparr>an_sequence = int n, an_head = PStr h, an_updated = PStr at_time\<rparr>"
proof -
  let ?doc = "anchor_document key (int n) h at_time"
  have short: "short_int (int n)" "short_int AUDIT_SCHEMA_VERSION"
    using assms(7) by (auto intro: short_int_small simp: AUDIT_SCHEMA_VERSION_def)
  then have plain: "json_plain (PDict ?doc)" by (simp add: anchor_document_def anchor_payload_def)
  have loaded: "json_loads (canonical (PDict ?doc) @ [chr 10]) = Inr (PDict (sort_key fst (map (map_prod id json_norm) ?doc)))"
    using json_loads_line [OF plain, of "[chr 10]" True] by (simp add: canonical_def)
  have d: "distinct (map fst ?doc)" using plain by simp
  note get = pget_json_norm [OF d]
  have fields: "set (map fst (sort_key fst (map (map_prod id json_norm) ?doc))) = set ANCHOR_FIELDS"
    by (auto simp: anchor_document_def anchor_payload_def ANCHOR_FIELDS_def)
  have gets: "pget ?doc ''schemaVersion'' = PInt AUDIT_SCHEMA_VERSION" "pget ?doc ''sequence'' = PInt (int n)"
    "pget ?doc ''headHmacSha256'' = PStr h" "pget ?doc ''updatedAt'' = PStr at_time"
    "pget ?doc ''anchorHmacSha256'' = PStr (anchor_hmac key (int n) (PStr h) (PStr at_time))"
    by (simp_all add: anchor_document_def anchor_payload_def pget_def)
  have asc: "ascii (anchor_hmac k i a b)" for k i a b by (simp add: anchor_hmac_def)
  have fld: "anchor_fields (canonical (PDict ?doc) @ [chr 10]) = Inr (sort_key fst (map (map_prod id json_norm) ?doc))"
    unfolding anchor_fields_def loaded using fields by simp
  have key: "audit_key fs st = Inr key" using assms by (simp add: audit_key_def)
  show ?thesis
    unfolding read_anchor_def assms(8) option.case fld bind_res_simps get gets key
    using assms by (auto simp: asc hex_text_def intro: exI [of _ True])
qed

subsection \<open>What a successful append has done\<close>

lemma append_new_stages:
  assumes "audit_append fs after tick tick_after now io st event verify_chain = (Inr r, st')" and "\<not> pr_idempotent r"
  obtains ev key at_time where "normalize_event event = Inr ev" "audit_key fs st = Inr key"
    "assert_head fs st = Inr (head_sequence (ld_events st), head_hmac (ld_events st))"
    "ld_events st' = ld_events st @ [row_of_event key (head_sequence (ld_events st) + 1) (head_hmac (ld_events st)) ev]"
    "ld_key st' = ld_key st" "pr_hmac r = au_hmac (row_of_event key (head_sequence (ld_events st) + 1) (head_hmac (ld_events st)) ev)"
    "ld_anchor st' = Some (canonical (PDict (anchor_document key (int (head_sequence (ld_events st) + 1)) (pr_hmac r) at_time)) @ [chr 10])"
proof -
  obtain ev where ev: "normalize_event event = Inr ev"
    using assms(1) by (cases "normalize_event event") (auto simp: audit_append_def)
  obtain verified x where ad: "admit_event fs st (cached_verification fs tick st) verify_chain ev = Inr (verified, x)"
    using assms(1) ev by (cases "admit_event fs st (cached_verification fs tick st) verify_chain ev") (auto simp: audit_append_def)
  have "x \<noteq> Inl q" for q
  proof
    assume x: "x = Inl q"
    then have "r = q" using assms(1) ev ad by (simp add: audit_append_def)
    then show False using ad x assms(2) by (auto simp: admit_event_def connect_audit_def res_simps)
  qed
  then obtain row where x: "x = Inr row" by (cases x) auto
  obtain key where k: "audit_key fs st = Inr key" and h: "assert_head fs st = Inr (head_sequence (ld_events st), head_hmac (ld_events st))"
    and row: "row = row_of_event key (head_sequence (ld_events st) + 1) (head_hmac (ld_events st)) ev"
    using ad x by (auto simp: admit_event_def connect_audit_def assert_head_def Let_def res_simps)
  let ?st1 = "st\<lparr>ld_events := ld_events st @ [row]\<rparr>"
  obtain st2 where w: "write_anchor fs now io (au_sequence row) (au_hmac row) ?st1 = Inr st2"
    using assms(1) ev ad x by (cases "write_anchor fs now io (au_sequence row) (au_hmac row) ?st1") (auto simp: audit_append_def Let_def)
  obtain chain where n: "renew_verification fs after tick_after chain (au_sequence row) (au_hmac row) st2 = Inr st'"
    and r: "pr_hmac r = au_hmac row"
    using assms(1) ev ad x w by (auto simp: audit_append_def Let_def split: sum.splits)
  have same: "ld_events st' = ld_events st2" "ld_key st' = ld_key st2" "ld_anchor st' = ld_anchor st2"
    using n by (auto simp: renew_verification_def forget_verification_def remember_verification_def res_simps)
  have k1: "audit_key fs ?st1 = Inr key" using k by (simp add: audit_key_def)
  obtain at_time where a: "st2 = ?st1\<lparr>ld_anchor := Some (canonical (PDict (anchor_document key (int (au_sequence row)) (au_hmac row) at_time)) @ [chr 10])\<rparr>"
    using w k1 by (auto simp: write_anchor_def)
  have "au_sequence row = head_sequence (ld_events st) + 1" by (simp add: row row_of_event_def Let_def)
  then show thesis
    using that [OF ev k h, of at_time] same a r row by simp
qed

subsection \<open>A sound ledger grows by sound events\<close>

lemma linked_head_hex:
  "linked au_previous au_hmac (\<lambda>r. hmac_hex key (audit_text r)) z rows \<Longrightarrow> hex_text z \<Longrightarrow>
     hex_text (chain_head au_hmac z rows)"
  by (induction rows arbitrary: z) auto

lemma sound_head:
  assumes "sound_ledger key rows"
  shows "head_sequence rows = length rows" and "head_hmac rows = chain_head au_hmac ZERO_HASH (by_sequence rows)"
    and "\<forall>r\<in>set rows. au_sequence r \<le> length rows" and "hex_text (head_hmac rows)"
proof -
  have q: "map au_sequence (by_sequence rows) = [1..<1 + length rows]" using assms by (simp add: sound_ledger_def)
  have e: "by_sequence rows = [] \<longleftrightarrow> rows = []" by (metis by_sequence_simps(1) length_0_conv)
  show "head_sequence rows = length rows"
  proof (cases "rows = []")
    case False
    then have "au_sequence (last (by_sequence rows)) = last [1..<1 + length rows]" by (metis e last_map q)
    also have "\<dots> = length rows" using False by (cases rows) simp_all
    finally show ?thesis using False by (simp add: head_sequence_def)
  qed (simp add: head_sequence_def)
  show h: "head_hmac rows = chain_head au_hmac ZERO_HASH (by_sequence rows)"
    using e by (simp add: head_hmac_def chain_head_def)
  have "set (map au_sequence (by_sequence rows)) = set [1..<1 + length rows]" by (simp only: q)
  then have "au_sequence r \<in> set [1..<1 + length rows]" if "r \<in> set rows" for r using that by (metis by_sequence_simps(2) image_eqI set_map)
  then show "\<forall>r\<in>set rows. au_sequence r \<le> length rows" by fastforce
  show "hex_text (head_hmac rows)" unfolding h using assms by (intro linked_head_hex) (auto simp: sound_ledger_def)
qed

lemma by_sequence_snoc:
  assumes "\<forall>r\<in>set rows. au_sequence r \<le> au_sequence x"
  shows "by_sequence (rows @ [x]) = by_sequence rows @ [x]"
proof -
  have ins: "insort_key au_sequence r (ys @ [x]) = insort_key au_sequence r ys @ [x]"
    if "au_sequence r \<le> au_sequence x" for r ys
    using that by (induction ys) auto
  show ?thesis using assms unfolding by_sequence_def by (induction rows) (simp_all add: ins)
qed

lemma sound_snoc:
  assumes "sound_ledger key rows" and "au_sequence x = length rows + 1" and "sound_event x"
    and "au_previous x = head_hmac rows" and "au_hmac x = hmac_hex key (audit_text x)"
  shows "sound_ledger key (rows @ [x])" and "chain_head au_hmac ZERO_HASH (by_sequence (rows @ [x])) = au_hmac x"
proof -
  have b: "by_sequence (rows @ [x]) = by_sequence rows @ [x]"
    using sound_head(3) [OF assms(1)] assms(2) by (intro by_sequence_snoc) auto
  show "sound_ledger key (rows @ [x])" unfolding sound_ledger_def b
    using assms sound_head(2) [OF assms(1)] by (simp add: sound_ledger_def linked_snoc)
  show "chain_head au_hmac ZERO_HASH (by_sequence (rows @ [x])) = au_hmac x" by (simp add: b)
qed

text \<open>
  An event whose id, time and action are texts, the action without surrounding blanks; its
  request id is a text or absent.
\<close>

definition typed_event :: "(string \<times> pyval) list \<Rightarrow> bool" where
  "typed_event d \<longleftrightarrow> pget d ''eventId'' = PStr (py_str (pget d ''eventId'')) \<and> pget d ''ts'' = PStr (py_str (pget d ''ts'')) \<and>
     pget d ''action'' = PStr (strip (py_str (pget d ''action''))) \<and>
     pget d ''request_id'' \<in> {PNone, PStr (py_str (pget d ''request_id''))}"

lemma normalize_event_cases:
  assumes "normalize_event (PDict d) = Inr ev"
  obtains "json_loads (ne_text ev) = Inr (PDict (ne_event ev))" "ne_text ev = dumps False (PDict d)"
    "ne_id ev = str_or_empty (pget (ne_event ev) ''eventId'')" "ne_occurred_at ev = str_or_empty (pget (ne_event ev) ''ts'')"
    "ne_action ev = strip (str_or_empty (pget (ne_event ev) ''action''))" "pget (ne_event ev) ''ok'' = PBool (ne_ok ev)"
    "event_request_id (pget (ne_event ev) ''request_id'') = Inr (ne_request_id ev)"
proof -
  obtain v where v: "json_loads (dumps False (PDict d)) = Inr v"
    using assms by (cases "json_loads (dumps False (PDict d))") (simp_all add: normalize_event_def Let_def del: dumps.simps)
  obtain e where e: "v = PDict e"
    using assms v by (cases v) (simp_all add: normalize_event_def Let_def del: dumps.simps)
  obtain ok where ok: "pget e ''ok'' = PBool ok"
    using assms v e by (cases "pget e ''ok''") (simp_all add: normalize_event_def Let_def del: dumps.simps)
  show thesis
    using assms v e ok that by (auto simp: normalize_event_def Let_def simp del: dumps.simps)
qed

lemma row_of_event_simps [simp]:
  "au_sequence (row_of_event key n prev ev) = n" "au_previous (row_of_event key n prev ev) = prev"
  "au_hmac (row_of_event key n prev ev) = hmac_hex key (audit_text (row_of_event key n prev ev))"
  by (simp_all add: row_of_event_def Let_def audit_text_def audit_event_hmac_def)

lemma typed_event_sound:
  assumes "normalize_event (PDict d) = Inr ev" and plain: "json_plain (PDict d)" and "typed_event d"
  shows "sound_event (row_of_event key n prev ev)"
  using assms(1)
proof (rule normalize_event_cases)
  assume l: "json_loads (ne_text ev) = Inr (PDict (ne_event ev))" and t: "ne_text ev = dumps False (PDict d)"
    and f: "ne_id ev = str_or_empty (pget (ne_event ev) ''eventId'')" "ne_occurred_at ev = str_or_empty (pget (ne_event ev) ''ts'')"
      "ne_action ev = strip (str_or_empty (pget (ne_event ev) ''action''))" "pget (ne_event ev) ''ok'' = PBool (ne_ok ev)"
      "event_request_id (pget (ne_event ev) ''request_id'') = Inr (ne_request_id ev)"
  have "json_loads (dumps False (PDict d)) = Inr (json_norm (PDict d))"
    using json_loads_line [OF plain, of "[]" False] by simp
  then have n: "PDict (ne_event ev) = json_norm (PDict d)" using l t by simp
  have di: "distinct (map fst d)" using plain by simp
  have g: "pget (ne_event ev) k = json_norm (pget d k)" for k
    using n pget_json_norm [OF di] by simp
  obtain i t' a where typed: "pget d ''eventId'' = PStr i" "pget d ''ts'' = PStr t'" "pget d ''action'' = PStr a" "strip a = a"
    using assms(3) unfolding typed_event_def by (metis py_str_simps(1) pyval.inject(4))
  have "canonical_utf8 (PDict (ne_event ev)) = utf8 (ne_text ev)"
    unfolding n canonical_utf8_def dumps_json_norm t ..
  moreover have "request_field (ne_request_id ev) = pget (ne_event ev) ''request_id''"
  proof (cases "pget d ''request_id'' = PNone")
    case True
    then show ?thesis using f(5) g by (simp add: event_request_id_def request_field_def)
  next
    case False
    then obtain q where "pget d ''request_id'' = PStr q" using assms(3) by (auto simp: typed_event_def)
    then have "ne_request_id ev = Some q" using f(5) g by (auto simp: event_request_id_def)
    then show ?thesis using g \<open>pget d ''request_id'' = PStr q\<close> by (simp add: request_field_def)
  qed
  ultimately show ?thesis
    using l f typed unfolding g
    by (auto simp: sound_event_def recorded_def recorded_fields_def indexed_fields_match_def row_of_event_def Let_def g)
qed

lemma read_anchor_fixed:
  assumes "read_anchor fs st = Inr a" and "read_anchor fs' st' = Inr a'" and "ld_key st' = ld_key st" and "ld_anchor st' = ld_anchor st"
  shows "a' = a"
proof -
  have "audit_key fs' st' = audit_key fs st" if "audit_key fs st = Inr k" "audit_key fs' st' = Inr k'" for k k'
    using that assms(3) by (auto simp: audit_key_def res_simps)
  then show ?thesis using assms by (auto simp: read_anchor_def Let_def res_simps)
qed

lemma append_new_verifies:
  assumes "verify_connection fs st = Inr ig" and "json_plain (PDict d)" and "typed_event d"
    and "length (ld_events st) < 2 ^ 62"
    and "audit_append fs after tick tick_after now io st (PDict d) verify_chain = (Inr r, st')" and "\<not> pr_idempotent r"
  shows "\<exists>ig'. verify_connection fs st' = Inr ig' \<and> ig_events ig' = ig_events ig + 1 \<and> ig_head ig' = pr_hmac r"
  using assms(5,6)
proof (rule append_new_stages)
  fix ev key at_time
  let ?row = "row_of_event key (head_sequence (ld_events st) + 1) (head_hmac (ld_events st)) ev"
  assume ev: "normalize_event (PDict d) = Inr ev" and key: "audit_key fs st = Inr key"
    and rows: "ld_events st' = ld_events st @ [?row]" and key': "ld_key st' = ld_key st" and h: "pr_hmac r = au_hmac ?row"
    and anchor: "ld_anchor st' =
      Some (canonical (PDict (anchor_document key (int (head_sequence (ld_events st) + 1)) (pr_hmac r) at_time)) @ [chr 10])"
  obtain k where v: "good_files fs" "ld_key st = Some k" "length k = 32" "sound_ledger k (ld_events st)"
    "ig_events ig = length (ld_events st)"
    using assms(1) unfolding verify_connection_iff by auto
  have "k = key" using key v(2) by (auto simp: audit_key_def)
  then have sound: "sound_ledger key (ld_events st)" using v(4) by simp
  note seq = sound_head(1) [OF sound]
  have grown: "sound_ledger key (ld_events st @ [?row])" and
    head: "chain_head au_hmac ZERO_HASH (by_sequence (ld_events st @ [?row])) = au_hmac ?row"
    by (rule sound_snoc [OF sound]; simp add: seq typed_event_sound [OF ev assms(2,3)])+
  have read: "read_anchor fs st' = Inr \<lparr>an_sequence = int (head_sequence (ld_events st) + 1), an_head = PStr (pr_hmac r), an_updated = PStr at_time\<rparr>"
    by (rule read_written_anchor [OF _ _ _ _ _ _ _ anchor])
      (use v \<open>k = key\<close> key' h assms(4) seq in \<open>auto simp: good_files_def\<close>)
  show ?thesis unfolding verify_connection_iff
    using v \<open>k = key\<close> key' read rows grown head h seq by (simp add: hex_text_ascii del: row_of_event_simps(3)) (simp)
qed

subsection \<open>A ledger of one event\<close>

definition demo_audit_key :: string where
  "demo_audit_key = replicate 32 (CHR ''k'')"

definition demo_ledger :: audit_store where
  "demo_ledger = \<lparr>ld_key = Some demo_audit_key,
     ld_anchor = Some (canonical (PDict (anchor_document demo_audit_key 0 ZERO_HASH ''t'')) @ [chr 10]),
     ld_events = [], ld_schema = Some ''1'', ld_failures = 0, ld_cache = None\<rparr>"

definition demo_artifact :: "string \<Rightarrow> artifact" where
  "demo_artifact n = \<lparr>af_name = n, af_symlink = False, af_regular = True, af_mode = 384\<rparr>"

definition demo_files :: audit_files where
  "demo_files = \<lparr>fi_database = demo_artifact ''a.sqlite3'', fi_key = demo_artifact ''a.hmac.key'',
     fi_anchor = demo_artifact ''a.anchor.json'', fi_directory_mode = 448, fi_triggers = REQUIRED_TRIGGERS,
     fi_signature = Inr ''s''\<rparr>"

definition demo_audit_event :: "string \<Rightarrow> (string \<times> pyval) list" where
  "demo_audit_event action = [(''eventId'', PStr (''audit-'' @ replicate 32 (CHR ''0''))),
     (''ts'', PStr ''2026-01-01T00:00:00Z''), (''action'', PStr action), (''ok'', PBool True)]"

lemma demo_files_good: "good_files demo_files"
  by (simp add: good_files_def demo_files_def demo_artifact_def)

lemma demo_ledger_read:
  "read_anchor demo_files demo_ledger = Inr \<lparr>an_sequence = 0, an_head = PStr ZERO_HASH, an_updated = PStr ''t''\<rparr>"
  using read_written_anchor [of demo_ledger demo_audit_key demo_files ZERO_HASH 0 "''t''"]
  by (simp add: demo_ledger_def demo_audit_key_def demo_files_def demo_artifact_def) (simp add: ZERO_HASH_def)

lemma demo_ledger_verifies: "\<exists>ig. verify_connection demo_files demo_ledger = Inr ig"
  unfolding verify_connection_iff demo_ledger_read
  by (simp add: demo_files_good) (simp add: demo_ledger_def demo_audit_key_def sound_ledger_def by_sequence_def)

lemma demo_event_normal:
  assumes "action \<in> {''login'', '' login''}"
  shows "\<exists>ev. normalize_event (PDict (demo_audit_event action)) = Inr ev \<and>
    pget (ne_event ev) ''action'' = PStr action \<and> ne_action ev = ''login''"
proof -
  have plain: "json_plain (PDict (demo_audit_event action))" by (simp add: demo_audit_event_def)
  have l: "json_loads (dumps False (PDict (demo_audit_event action))) = Inr (json_norm (PDict (demo_audit_event action)))"
    using json_loads_line [OF plain, of "[]" False] by simp
  define d where "d = sort_key fst (map (map_prod id json_norm) (demo_audit_event action))"
  have n: "json_norm (PDict (demo_audit_event action)) = PDict d" by (simp add: d_def)
  have g: "pget d k = json_norm (pget (demo_audit_event action) k)" for k
    unfolding d_def by (rule pget_json_norm) (simp add: demo_audit_event_def)
  have c: "event_id_ok (''audit-'' @ replicate 32 (CHR ''0''))" "parse_time ''2026-01-01T00:00:00Z'' \<noteq> None"
    "strip ''login'' = ''login''" "strip '' login'' = ''login''"
    by code_simp+
  have str: "length (dumps False (PStr t)) \<le> 6 * 38 + 2" if "length t \<le> 38" for t
    using length_json_string [of False t] that by simp
  have sizes: "\<forall>p\<in>set (demo_audit_event action). length (fst p) \<le> 38 \<and> length (dumps False (snd p)) \<le> 6 * 38 + 2"
    using assms by (auto simp: demo_audit_event_def simp del: dumps.simps(5) intro!: str [simplified])
  have len: "2 \<le> length (utf8 (dumps False (PDict (demo_audit_event action))))"
    "length (utf8 (dumps False (PDict (demo_audit_event action)))) \<le> MAX_EVENT_BYTES"
    using dict_text_size(2,3) [OF sizes] by (simp_all add: demo_audit_event_def MAX_EVENT_BYTES_def del: dumps.simps)
  have gets: "pget (demo_audit_event action) ''eventId'' = PStr (''audit-'' @ replicate 32 (CHR ''0''))"
    "pget (demo_audit_event action) ''ts'' = PStr ''2026-01-01T00:00:00Z''" "pget (demo_audit_event action) ''action'' = PStr action"
    "pget (demo_audit_event action) ''ok'' = PBool True" "pget (demo_audit_event action) ''request_id'' = PNone"
    by (simp_all add: demo_audit_event_def pget_def)
  have a: "strip action = ''login''" using assms c by auto
  show ?thesis
    unfolding normalize_event_def Let_def l n
    using len c(1,2) a by (simp add: g gets event_request_id_def del: dumps.simps)
qed

definition demo_append :: "string \<Rightarrow> append_result res \<times> audit_store" where
  "demo_append action = audit_append demo_files demo_files 0 0 1000 (Inr ()) demo_ledger (PDict (demo_audit_event action)) True"

lemma demo_append_ok:
  assumes "action \<in> {''login'', '' login''}"
  shows "\<exists>r st'. demo_append action = (Inr r, st') \<and> \<not> pr_idempotent r \<and> length (ld_events st') = 1 \<and> ld_key st' = ld_key demo_ledger"
proof -
  obtain ev where ev: "normalize_event (PDict (demo_audit_event action)) = Inr ev" using demo_event_normal [OF assms] by blast
  obtain ig where ig: "verify_connection demo_files demo_ledger = Inr ig" using demo_ledger_verifies by blast
  have key: "audit_key demo_files (demo_ledger\<lparr>ld_events := es\<rparr>) = Inr demo_audit_key" for es
    by (simp add: audit_key_def demo_files_def demo_artifact_def demo_ledger_def demo_audit_key_def)
  have key0: "audit_key demo_files demo_ledger = Inr demo_audit_key"
    by (simp add: audit_key_def demo_files_def demo_artifact_def demo_ledger_def demo_audit_key_def)
  have head: "assert_head demo_files demo_ledger = Inr (0, ZERO_HASH)"
    unfolding assert_head_def demo_ledger_read
    by (simp add: head_sequence_def head_hmac_def demo_ledger_def head_matches_def compare_field_def Let_def compare_digest_def)
  have ad: "admit_event demo_files demo_ledger None True ev =
      Inr (Some ig, Inr (row_of_event demo_audit_key 1 ZERO_HASH ev))"
    by (simp add: admit_event_def connect_audit_def ig head key0 demo_files_def [THEN arg_cong [where f = fi_database]] demo_artifact_def
        demo_ledger_def [THEN arg_cong [where f = ld_events]] table_simps)
  have cached: "cached_verification demo_files 0 demo_ledger = None"
    by (simp add: cached_verification_def demo_ledger_def)
  let ?row = "row_of_event demo_audit_key 1 ZERO_HASH ev"
  let ?st2 = "demo_ledger\<lparr>ld_events := [?row], ld_anchor := Some (canonical (PDict (anchor_document demo_audit_key 1 (au_hmac ?row) ''1970-01-01T00:16:40Z'')) @ [chr 10])\<rparr>"
  have e0: "ld_events demo_ledger = []" by (simp add: demo_ledger_def)
  have w: "write_anchor demo_files 1000 (Inr ()) 1 (au_hmac ?row) (demo_ledger\<lparr>ld_events := [?row]\<rparr>) = Inr ?st2"
    using key [of "[?row]"] by (simp add: write_anchor_def iso_utc_1000)
  have read: "read_anchor demo_files ?st2 = Inr \<lparr>an_sequence = 1, an_head = PStr (au_hmac ?row), an_updated = PStr ''1970-01-01T00:16:40Z''\<rparr>"
    using read_written_anchor [of ?st2 demo_audit_key demo_files "au_hmac ?row" 1 "''1970-01-01T00:16:40Z''"]
    by (simp add: demo_ledger_def demo_audit_key_def demo_files_def demo_artifact_def)
  show ?thesis
    unfolding demo_append_def audit_append_def ev sum.case cached ad Let_def prod.case e0
    using w read by (simp add: renew_verification_def remember_verification_def demo_files_def [THEN arg_cong [where f = fi_signature]])
qed

lemma demo_append_verifies:
  "\<exists>r st' ig'. demo_append ''login'' = (Inr r, st') \<and> \<not> pr_idempotent r \<and> verify_connection demo_files st' = Inr ig' \<and>
     length (ld_events st') = 1 \<and> ld_key st' = ld_key demo_ledger"
proof -
  obtain r st' where a: "demo_append ''login'' = (Inr r, st')" and n: "\<not> pr_idempotent r" and st: "length (ld_events st') = 1"
    "ld_key st' = ld_key demo_ledger"
    using demo_append_ok [of "''login''"] by blast
  obtain ig where v: "verify_connection demo_files demo_ledger = Inr ig" using demo_ledger_verifies by blast
  have typed: "typed_event (demo_audit_event ''login'')" by code_simp
  show ?thesis
    using append_new_verifies [OF v _ typed _ a [unfolded demo_append_def] n] a n st
    by (auto simp: demo_ledger_def demo_audit_event_def)
qed

subsection \<open>Properties\<close>

text \<open>
  C7. Appending keeps the ledger verifiable.  When the chain verifies and holds fewer than
  2 to the 62nd events, and an event is accepted as new whose id, time and action are texts, the
  action without blanks at its ends, whose request id is a text or absent, and whose values
  are ones the JSON reader gives back, then the ledger verifies again, with one event more and
  the new event's keyed hash at its head, so that the anchor authenticates the last event.
  (Without the condition on the action the statement is false: \<open>padded_action_breaks_ledger\<close>.)
\<close>

theorem audit_append_keeps_valid:
  assumes "verify_connection fs st = Inr ig" and "json_plain (PDict d)" and "typed_event d"
    and "length (ld_events st) < 2 ^ 62"
    and "audit_append fs after tick tick_after now io st (PDict d) verify_chain = (Inr r, st')" and "\<not> pr_idempotent r"
  shows "\<exists>ig'. verify_connection fs st' = Inr ig' \<and> ig_events ig' = ig_events ig + 1 \<and> ig_head ig' = pr_hmac r"
  using assms by (rule append_new_verifies)

lemma audit_append_keeps_valid_witness:
  "\<exists>r st' ig'. demo_append ''login'' = (Inr r, st') \<and> verify_connection demo_files st' = Inr ig' \<and> ig_head ig' = pr_hmac r"
proof -
  obtain r st' where a: "demo_append ''login'' = (Inr r, st')" and n: "\<not> pr_idempotent r"
    using demo_append_ok [of "''login''"] by blast
  obtain ig where v: "verify_connection demo_files demo_ledger = Inr ig" using demo_ledger_verifies by blast
  have plain: "json_plain (PDict (demo_audit_event ''login''))" by (simp add: demo_audit_event_def)
  have typed: "typed_event (demo_audit_event ''login'')" by code_simp
  have len: "length (ld_events demo_ledger) < 2 ^ 62" by (simp add: demo_ledger_def)
  show ?thesis
    using audit_append_keeps_valid [OF v plain typed len a [unfolded demo_append_def] n] a by auto
qed

lemma map_pair_eq:
  "map f xs = map f ys \<Longrightarrow> map g xs = map g ys \<Longrightarrow> map (\<lambda>x. (f x, g x)) xs = map (\<lambda>x. (f x, g x)) ys"
proof (rule nth_equalityI)
  assume f: "map f xs = map f ys" and g: "map g xs = map g ys"
  from f have len: "length xs = length ys" by (rule map_eq_imp_length_eq)
  then show "length (map (\<lambda>x. (f x, g x)) xs) = length (map (\<lambda>x. (f x, g x)) ys)" by simp
  fix i assume "i < length (map (\<lambda>x. (f x, g x)) xs)"
  then show "map (\<lambda>x. (f x, g x)) xs ! i = map (\<lambda>x. (f x, g x)) ys ! i"
    using arg_cong [OF f, of "\<lambda>l. l ! i"] arg_cong [OF g, of "\<lambda>l. l ! i"] len by simp
qed

text \<open>
  C8. The anchor commits to the whole ledger, its tail included: two ledgers that verify under
  the same key and the same anchor file hold, in the order of their sequence numbers, the same
  events: the same numbers, the same recorded payloads, the same digests and the same links,
  unless two different texts they hash collide.  Putting an older anchor back together with
  the database it belongs to is outside this statement.
\<close>

theorem audit_ledger_tamper_evident:
  assumes "verify_connection fs st = Inr ig" and "verify_connection fs' st' = Inr ig'"
    and "ld_key st' = ld_key st" and "ld_anchor st' = ld_anchor st" and "ld_key st = Some key"
    and "\<And>r q. r \<in> set (ld_events st) \<Longrightarrow> q \<in> set (ld_events st') \<Longrightarrow>
      \<not> collision (hmac_hex key) (audit_text r) (audit_text q) \<and> \<not> collision sha256_hex (recorded r) (recorded q)"
  shows "map (\<lambda>r. (au_sequence r, (au_event_sha256 r, recorded r), au_previous r, au_hmac r)) (by_sequence (ld_events st)) =
    map (\<lambda>r. (au_sequence r, (au_event_sha256 r, recorded r), au_previous r, au_hmac r)) (by_sequence (ld_events st'))"
proof -
  let ?b = "by_sequence (ld_events st)" and ?b' = "by_sequence (ld_events st')"
  obtain a a' where v: "sound_ledger key (ld_events st)" "read_anchor fs st = Inr a" "an_sequence a = int (length (ld_events st))"
      "an_head a = PStr (chain_head au_hmac ZERO_HASH ?b)"
    and v': "sound_ledger key (ld_events st')" "read_anchor fs' st' = Inr a'" "an_sequence a' = int (length (ld_events st'))"
      "an_head a' = PStr (chain_head au_hmac ZERO_HASH ?b')"
    using assms(1,2,3,5) unfolding verify_connection_iff by auto
  have "a' = a" using v(2) v'(2) assms(3,4) by (rule read_anchor_fixed)
  then have len: "length ?b = length ?b'" and heads: "chain_head au_hmac ZERO_HASH ?b = chain_head au_hmac ZERO_HASH ?b'"
    using v v' by simp_all
  have links: "audit_chain.intact key ?b" "audit_chain.intact key ?b'"
    using v(1) v'(1) by (simp_all add: audit_chain.intact_def sound_ledger_def)
  have well: "\<forall>r\<in>set ?b. audit_well r" "\<forall>r\<in>set ?b'. audit_well r"
    using linked_well [of key ZERO_HASH ?b] linked_well [of key ZERO_HASH ?b'] v(1) v'(1)
    by (simp_all add: sound_ledger_def)
  have same: "(au_event_sha256 r, recorded r) = (au_event_sha256 q, recorded q)"
    if "r \<in> set ?b" "q \<in> set ?b'" "audit_text r = audit_text q" for r q
  proof -
    have sha: "au_event_sha256 r = au_event_sha256 q" using audit_text_inject that well by blast
    then have "sha256_hex (recorded r) = sha256_hex (recorded q)"
      using v(1) v'(1) that by (simp add: sound_ledger_def sound_event_def)
    then show ?thesis using assms(6) that sha by (auto simp: collision_def)
  qed
  have "map (\<lambda>r. ((au_event_sha256 r, recorded r), au_previous r, au_hmac r)) ?b =
      map (\<lambda>r. ((au_event_sha256 r, recorded r), au_previous r, au_hmac r)) ?b'"
    using audit_chain.same_head_same_rows [OF len links heads well same] assms(6) by auto
  moreover have "map au_sequence ?b = map au_sequence ?b'" using v(1) v'(1) len by (simp add: sound_ledger_def)
  ultimately show ?thesis by (rule map_pair_eq [rotated])
qed

text \<open>The same event stored with another layout of its JSON text.\<close>

definition relaid :: "string \<Rightarrow> audit_store \<Rightarrow> audit_store" where
  "relaid t st = st\<lparr>ld_events := map (\<lambda>r. r\<lparr>au_event_json := t\<rparr>) (ld_events st)\<rparr>"

lemma relaid_verifies:
  assumes "verify_connection fs st = Inr ig" and "ld_events st = [x]" and "json_loads t = json_loads (au_event_json x)"
  shows "verify_connection fs (relaid t st) = Inr ig"
proof -
  have r: "recorded (x\<lparr>au_event_json := t\<rparr>) = recorded x" "recorded_fields (x\<lparr>au_event_json := t\<rparr>) = recorded_fields x"
    using assms(3) by (simp_all add: recorded_def recorded_fields_def indexed_fields_match_def)
  have k: "audit_key fs (relaid t st) = audit_key fs st" by (simp add: relaid_def audit_key_def)
  have a: "read_anchor fs (relaid t st) = read_anchor fs st" "ld_key (relaid t st) = ld_key st"
    unfolding read_anchor_def k by (simp_all add: relaid_def)
  have e: "ld_events (relaid t st) = [x\<lparr>au_event_json := t\<rparr>]" by (simp add: relaid_def assms(2))
  show ?thesis
    using assms(1) unfolding verify_connection_iff a e assms(2)
    by (simp add: sound_ledger_def sound_event_def r by_sequence_def audit_text_def)
qed

lemma demo_append_relaid:
  assumes "demo_append ''login'' = (Inr r, st')" and "\<not> pr_idempotent r"
  obtains x t where "ld_events st' = [x]" "t = au_event_json x @ [chr 10]" "json_loads t = json_loads (au_event_json x)"
proof -
  have plain: "json_plain (PDict (demo_audit_event ''login''))" by (simp add: demo_audit_event_def)
  from assms show thesis
    unfolding demo_append_def
  proof (rule append_new_stages)
    fix ev key
    assume n: "normalize_event (PDict (demo_audit_event ''login'')) = Inr ev"
      and e: "ld_events st' = ld_events demo_ledger @ [row_of_event key (head_sequence (ld_events demo_ledger) + 1) (head_hmac (ld_events demo_ledger)) ev]"
    have t: "ne_text ev = dumps False (PDict (demo_audit_event ''login''))" using n by (rule normalize_event_cases)
    let ?x = "row_of_event key (head_sequence (ld_events demo_ledger) + 1) (head_hmac (ld_events demo_ledger)) ev"
    have "au_event_json ?x = dumps False (PDict (demo_audit_event ''login''))" by (simp only: row_of_event_def Let_def audit_event.simps t)
    then have "json_loads (au_event_json ?x @ [chr 10]) = json_loads (au_event_json ?x)"
      using json_loads_line [OF plain, of "[chr 10]" False] json_loads_line [OF plain, of "[]" False]
      by (simp del: dumps.simps)
    then show thesis using that e by (simp add: demo_ledger_def)
  qed
qed

lemma audit_ledger_tamper_evident_witness:
  "\<exists>r st' t. demo_append ''login'' = (Inr r, st') \<and> ld_events (relaid t st') \<noteq> ld_events st' \<and>
     map recorded (by_sequence (ld_events st')) = map recorded (by_sequence (ld_events (relaid t st'))) \<and>
     (\<forall>ig. verify_connection demo_files (st'\<lparr>ld_events := []\<rparr>) \<noteq> Inr ig)"
proof -
  obtain r st' ig where a: "demo_append ''login'' = (Inr r, st')" and n: "\<not> pr_idempotent r"
    and v: "verify_connection demo_files st' = Inr ig" and key: "ld_key st' = Some demo_audit_key"
    using demo_append_verifies by (auto simp: demo_ledger_def)
  obtain x t where x: "ld_events st' = [x]" "t = au_event_json x @ [chr 10]" "json_loads t = json_loads (au_event_json x)"
    using a n by (rule demo_append_relaid)
  have e: "ld_events (relaid t st') = [x\<lparr>au_event_json := t\<rparr>]" by (simp add: relaid_def x(1))
  have same: "audit_text (x\<lparr>au_event_json := t\<rparr>) = audit_text x" "recorded (x\<lparr>au_event_json := t\<rparr>) = recorded x"
    by (simp_all add: audit_text_def recorded_def x(3))
  have keys: "ld_key (relaid t st') = ld_key st'" "ld_anchor (relaid t st') = ld_anchor st'" by (simp_all add: relaid_def)
  have "x\<lparr>au_event_json := t\<rparr> \<noteq> x"
  proof
    assume "x\<lparr>au_event_json := t\<rparr> = x"
    from arg_cong [OF this, of au_event_json] show False using x(2) by simp
  qed
  then have differ: "ld_events (relaid t st') \<noteq> ld_events st'" by (simp add: e x(1))
  have "map recorded (by_sequence (ld_events st')) = map recorded (by_sequence (ld_events (relaid t st')))"
    using audit_ledger_tamper_evident [OF v relaid_verifies [OF v x(1,3)] keys key]
    by (simp add: e x(1) by_sequence_def same collision_def)
  moreover have "verify_connection demo_files (st'\<lparr>ld_events := []\<rparr>) \<noteq> Inr ig'" for ig'
    using audit_ledger_tamper_evident [OF v, of demo_files "st'\<lparr>ld_events := []\<rparr>" ig' demo_audit_key] key
    by (auto simp: x(1) by_sequence_def)
  ultimately show ?thesis using a differ by blast
qed

text \<open>
  An action is stored without its surrounding blanks while the payload keeps them, and
  the verification compares the two: an event whose action is not already stripped is
  accepted, and from then on no verification of the ledger succeeds.
\<close>

theorem padded_action_breaks_ledger:
  assumes "normalize_event (PDict d) = Inr ev" and "pget (ne_event ev) ''action'' \<noteq> PStr (ne_action ev)"
    and "audit_append fs after tick tick_after now io st (PDict d) verify_chain = (Inr r, st')" and "\<not> pr_idempotent r"
  shows "verify_connection fs' st' \<noteq> Inr ig"
proof
  assume "verify_connection fs' st' = Inr ig"
  then obtain key where sound: "\<forall>r\<in>set (ld_events st'). sound_event r"
    unfolding verify_connection_iff sound_ledger_def by blast
  from assms(3,4) show False
  proof (rule append_new_stages)
    fix ev' key
    let ?row = "row_of_event key (head_sequence (ld_events st) + 1) (head_hmac (ld_events st)) ev'"
    assume "normalize_event (PDict d) = Inr ev'" and "ld_events st' = ld_events st @ [?row]"
    then have "sound_event ?row" and e: "ev' = ev" using sound assms(1) by auto
    moreover have "au_event_json ?row = ne_text ev'" "au_action ?row = ne_action ev'" by (simp_all add: row_of_event_def Let_def)
    ultimately obtain f where "json_loads (ne_text ev) = Inr (PDict f)" "pget f ''action'' = PStr (ne_action ev)"
      by (auto simp: sound_event_def recorded_fields_def indexed_fields_match_def)
    moreover have "json_loads (ne_text ev) = Inr (PDict (ne_event ev))" using assms(1) by (rule normalize_event_cases)
    ultimately show False using assms(2) by simp
  qed
qed

lemma padded_action_breaks_ledger_witness:
  "\<exists>r st'. demo_append '' login'' = (Inr r, st') \<and> (\<forall>ig. verify_connection demo_files st' \<noteq> Inr ig)"
proof -
  obtain r st' where a: "demo_append '' login'' = (Inr r, st')" and n: "\<not> pr_idempotent r"
    using demo_append_ok [of "'' login''"] by blast
  obtain ev where "normalize_event (PDict (demo_audit_event '' login'')) = Inr ev"
    "pget (ne_event ev) ''action'' = PStr '' login''" "ne_action ev = ''login''"
    using demo_event_normal [of "'' login''"] by blast
  then show ?thesis using padded_action_breaks_ledger [OF _ _ a [unfolded demo_append_def] n] a by auto
qed

end
