(* ===== verification/CanaryAutopilot.thy ===== *)
theory CanaryAutopilot
  imports Json Utf8 PyIso
begin

section \<open>The canary autopilot: scheduling state and backoff\<close>

text \<open>
  \<^verbatim>\<open>admin/canary_autopilot.py\<close>: the state document kept in a file, its validation, the record
  of an attempt with its exponential backoff, and the decision which canaries are due.  The
  state is the file's text; validation reads the document into a record that holds exactly its
  fields, \<open>state_json\<close> is the document again.  Clocks are arguments.
\<close>

definition CANARY_SCHEMA :: string where
  "CANARY_SCHEMA = ''dune-canary-autopilot-state/v1''"

definition TARGETS :: "string list" where
  "TARGETS = [''community'', ''creator-modding'', ''public-ip-repair'']"

text \<open>
  The time a field of the document holds.  Only texts are times: \<^verbatim>\<open>str\<close> of any other JSON value
  is not an ISO time with a zone.
\<close>

definition ends_in_z :: "string \<Rightarrow> string" where
  "ends_in_z t = (if ends_with t ''Z'' then take (length t - 1) t @ ''+00:00'' else t)"

definition canary_epoch :: "pyval \<Rightarrow> rat option res" where
  "canary_epoch v =
     (if v = PNone \<or> v = PStr [] then Inr None
      else case v of
          PStr t \<Rightarrow>
            (case from_iso (ends_in_z t) of
               None \<Rightarrow> Inl (ValueError (''Invalid isoformat string: '' @ repr_str (ends_in_z t)))
             | Some (time, None) \<Rightarrow> Inl (ValueError ''canary autopilot timestamp lacks a timezone'')
             | Some (time, Some zone) \<Rightarrow> Inr (Some (instant_of (time, Some zone))))
        | _ \<Rightarrow> Inl (ValueError (''Invalid isoformat string: '' @ repr_str (py_str v))))"

subsection \<open>The state document\<close>

record canary_target =
  ct_attempts :: int
  ct_failures :: int
  ct_consecutive :: int
  ct_last_attempt :: pyval
  ct_last_success :: pyval
  ct_next_attempt :: pyval
  ct_last_receipt :: "string option"
  ct_last_error :: "string option"

record canary_run =
  cr_target :: string
  cr_trigger :: string
  cr_started :: pyval
  cr_completed :: pyval
  cr_ready :: bool
  cr_receipt :: "string option"
  cr_error :: "string option"

record canary_state =
  cs_updated :: pyval
  cs_last_poll :: pyval
  cs_last_error :: "string option"
  cs_attempts :: int
  cs_failures :: int
  cs_targets :: "(string \<times> canary_target) list"
  cs_history :: "canary_run list"

definition target_state :: canary_target where
  "target_state = \<lparr>ct_attempts = 0, ct_failures = 0, ct_consecutive = 0, ct_last_attempt = PNone, ct_last_success = PNone,
     ct_next_attempt = PNone, ct_last_receipt = None, ct_last_error = None\<rparr>"

definition fresh_state :: "rat \<Rightarrow> canary_state res" where
  "fresh_state now =
     bind_res (iso_utc now) (\<lambda>t.
     Inr \<lparr>cs_updated = PStr t, cs_last_poll = PNone, cs_last_error = None, cs_attempts = 0, cs_failures = 0,
          cs_targets = map (\<lambda>n. (n, target_state)) TARGETS, cs_history = []\<rparr>)"

definition opt_text :: "string option \<Rightarrow> pyval" where
  "opt_text t = (case t of None \<Rightarrow> PNone | Some s \<Rightarrow> PStr s)"

definition target_json :: "canary_target \<Rightarrow> pyval" where
  "target_json r = PDict
     [(''attempts'', PInt (ct_attempts r)), (''failures'', PInt (ct_failures r)),
      (''consecutiveFailures'', PInt (ct_consecutive r)), (''lastAttemptAt'', ct_last_attempt r),
      (''lastSuccessAt'', ct_last_success r), (''nextAttemptAt'', ct_next_attempt r),
      (''lastReceiptId'', opt_text (ct_last_receipt r)), (''lastError'', opt_text (ct_last_error r))]"

definition run_json :: "canary_run \<Rightarrow> pyval" where
  "run_json r = PDict
     [(''target'', PStr (cr_target r)), (''trigger'', PStr (cr_trigger r)), (''startedAt'', cr_started r),
      (''completedAt'', cr_completed r), (''ready'', PBool (cr_ready r)), (''receiptId'', opt_text (cr_receipt r)),
      (''error'', opt_text (cr_error r))]"

definition state_json :: "canary_state \<Rightarrow> pyval" where
  "state_json s = PDict
     [(''schemaVersion'', PStr CANARY_SCHEMA), (''updatedAt'', cs_updated s), (''lastPollAt'', cs_last_poll s),
      (''lastError'', opt_text (cs_last_error s)), (''attemptsTotal'', PInt (cs_attempts s)),
      (''failuresTotal'', PInt (cs_failures s)), (''targets'', PDict (map (map_prod id target_json) (cs_targets s))),
      (''history'', PList (map run_json (cs_history s)))]"

subsection \<open>Validation\<close>

definition STATE_FIELDS :: "string list" where
  "STATE_FIELDS = [''schemaVersion'', ''updatedAt'', ''lastPollAt'', ''lastError'', ''attemptsTotal'', ''failuresTotal'',
     ''targets'', ''history'']"

definition TARGET_FIELDS :: "string list" where
  "TARGET_FIELDS = [''attempts'', ''failures'', ''consecutiveFailures'', ''lastAttemptAt'', ''lastSuccessAt'',
     ''nextAttemptAt'', ''lastReceiptId'', ''lastError'']"

definition RUN_FIELDS :: "string list" where
  "RUN_FIELDS = [''target'', ''trigger'', ''startedAt'', ''completedAt'', ''ready'', ''receiptId'', ''error'']"

definition fields_are :: "string list \<Rightarrow> pyval \<Rightarrow> (string \<times> pyval) list option" where
  "fields_are ks v =
     (case as_dict v of None \<Rightarrow> None | Some d \<Rightarrow> if set (map fst d) = set ks then Some d else None)"

definition counter_field :: "string \<Rightarrow> pyval \<Rightarrow> int res" where
  "counter_field msg v =
     (case v of PInt n \<Rightarrow> require (0 \<le> n \<and> n \<le> 10 ^ 12) (ValueError msg) (Inr n) | _ \<Rightarrow> Inl (ValueError msg))"

definition text_field :: "string \<Rightarrow> pyval \<Rightarrow> string option res" where
  "text_field msg v = (case v of PNone \<Rightarrow> Inr None | PStr s \<Rightarrow> Inr (Some s) | _ \<Rightarrow> Inl (ValueError msg))"

definition time_field :: "pyval \<Rightarrow> pyval res" where
  "time_field v = bind_res (canary_epoch v) (\<lambda>_. Inr v)"

definition read_target :: "(string \<times> pyval) list \<Rightarrow> string \<Rightarrow> (string \<times> canary_target) res" where
  "read_target targets name =
     (case fields_are TARGET_FIELDS (pget targets name) of
        None \<Rightarrow> Inl (ValueError ''canary autopilot target state fields are invalid'')
      | Some d \<Rightarrow>
          let counter = (\<lambda>k. counter_field ''canary autopilot target counter is invalid'' (pget d k));
              detail = (\<lambda>k. text_field ''canary autopilot target detail is invalid'' (pget d k)) in
          bind_res (counter ''attempts'') (\<lambda>attempts.
          bind_res (counter ''failures'') (\<lambda>failures.
          bind_res (counter ''consecutiveFailures'') (\<lambda>consecutive.
          bind_res (time_field (pget d ''lastAttemptAt'')) (\<lambda>last_attempt.
          bind_res (time_field (pget d ''lastSuccessAt'')) (\<lambda>last_success.
          bind_res (time_field (pget d ''nextAttemptAt'')) (\<lambda>next_attempt.
          bind_res (detail ''lastReceiptId'') (\<lambda>receipt.
          bind_res (detail ''lastError'') (\<lambda>error.
          Inr (name, \<lparr>ct_attempts = attempts, ct_failures = failures, ct_consecutive = consecutive,
               ct_last_attempt = last_attempt, ct_last_success = last_success, ct_next_attempt = next_attempt,
               ct_last_receipt = receipt, ct_last_error = error\<rparr>))))))))))"

definition read_run :: "pyval \<Rightarrow> canary_run res" where
  "read_run v =
     (case fields_are RUN_FIELDS v of
        None \<Rightarrow> Inl (ValueError ''canary autopilot history row is invalid'')
      | Some d \<Rightarrow>
         (case (pget d ''target'', pget d ''trigger'') of
            (PStr name, PStr trigger) \<Rightarrow>
              require (name \<in> set TARGETS \<and> trigger \<in> {''automatic'', ''manual''})
                (ValueError ''canary autopilot history row is invalid'')
             (bind_res (time_field (pget d ''startedAt'')) (\<lambda>started.
              bind_res (time_field (pget d ''completedAt'')) (\<lambda>completed.
              case pget d ''ready'' of
                PBool ready \<Rightarrow>
                  bind_res (text_field ''canary autopilot history detail is invalid'' (pget d ''receiptId'')) (\<lambda>receipt.
                  bind_res (text_field ''canary autopilot history detail is invalid'' (pget d ''error'')) (\<lambda>error.
                  Inr \<lparr>cr_target = name, cr_trigger = trigger, cr_started = started, cr_completed = completed,
                       cr_ready = ready, cr_receipt = receipt, cr_error = error\<rparr>))
              | _ \<Rightarrow> Inl (ValueError ''canary autopilot history verdict is invalid''))))
          | _ \<Rightarrow> Inl (ValueError ''canary autopilot history row is invalid'')))"

definition validate_state :: "pyval \<Rightarrow> canary_state res" where
  "validate_state v =
     (case fields_are STATE_FIELDS v of
        None \<Rightarrow> Inl (ValueError ''canary autopilot state fields are invalid'')
      | Some d \<Rightarrow>
          require (pget d ''schemaVersion'' = PStr CANARY_SCHEMA) (ValueError ''canary autopilot state fields are invalid'')
         (bind_res (time_field (pget d ''updatedAt'')) (\<lambda>updated.
          bind_res (time_field (pget d ''lastPollAt'')) (\<lambda>last_poll.
          bind_res (text_field ''canary autopilot last error is invalid'' (pget d ''lastError'')) (\<lambda>last_error.
          bind_res (counter_field ''canary autopilot counter is invalid'' (pget d ''attemptsTotal'')) (\<lambda>attempts.
          bind_res (counter_field ''canary autopilot counter is invalid'' (pget d ''failuresTotal'')) (\<lambda>failures.
          case fields_are TARGETS (pget d ''targets'') of
            None \<Rightarrow> Inl (ValueError ''canary autopilot targets are invalid'')
          | Some ts \<Rightarrow>
              bind_res (map_res (read_target ts) TARGETS) (\<lambda>targets.
              case as_list (pget d ''history'') of
                None \<Rightarrow> Inl (ValueError ''canary autopilot history is invalid'')
              | Some rows \<Rightarrow>
                  require (\<not> length rows > 5000) (ValueError ''canary autopilot history is invalid'')
                 (bind_res (map_res read_run rows) (\<lambda>history.
                  Inr \<lparr>cs_updated = updated, cs_last_poll = last_poll, cs_last_error = last_error, cs_attempts = attempts,
                       cs_failures = failures, cs_targets = targets, cs_history = history\<rparr>))))))))))"

subsection \<open>The file\<close>

text \<open>
  \<open>st_file\<close> is the text of the state file, \<open>st_linked\<close> tells whether the file or its directory is
  a symbolic link, \<open>st_regular\<close> whether the path is a regular file.
\<close>

record canary_store =
  st_file :: "string option"
  st_linked :: bool
  st_regular :: bool
  st_retention :: nat

definition new_canary_store :: "int \<Rightarrow> string option \<Rightarrow> canary_store" where
  "new_canary_store retention t =
     \<lparr>st_file = t, st_linked = False, st_regular = True, st_retention = nat (max 10 (min retention 5000))\<rparr>"

definition save_state :: "canary_store \<Rightarrow> canary_state \<Rightarrow> canary_store res" where
  "save_state st s =
     bind_res (validate_state (state_json s)) (\<lambda>_.
     require (\<not> st_linked st) (ValueError ''canary autopilot state path cannot be a symlink'')
       (Inr (st\<lparr>st_file := Some (canonical (state_json s) @ [chr 10])\<rparr>)))"

definition canary_initialize :: "canary_store \<Rightarrow> rat \<Rightarrow> canary_store res" where
  "canary_initialize st now =
     require (\<not> st_linked st) (ValueError ''canary autopilot state path cannot be a symlink'')
      (if st_file st = None then bind_res (fresh_state now) (save_state st)
       else require (st_regular st) (ValueError ''canary autopilot state must be a regular file'') (Inr st))"

definition load_state :: "canary_store \<Rightarrow> rat \<Rightarrow> (canary_state \<times> canary_store) res" where
  "load_state st now =
     bind_res (canary_initialize st now) (\<lambda>st1.
     case st_file st1 of
       None \<Rightarrow> Inl (ValueError ''canary autopilot state cannot be decoded'')
     | Some t \<Rightarrow>
         require (1 \<le> length (utf8 t) \<and> length (utf8 t) \<le> 4 * 1024 * 1024) (ValueError ''canary autopilot state size is invalid'')
        (case json_loads t of
           Inl e \<Rightarrow> Inl (if e = json_error then ValueError ''canary autopilot state cannot be decoded'' else e)
         | Inr v \<Rightarrow> bind_res (validate_state v) (\<lambda>s. Inr (s, st1))))"

definition canary_poll :: "canary_store \<Rightarrow> rat \<Rightarrow> (canary_state \<times> canary_store) res" where
  "canary_poll st now =
     bind_res (load_state st now) (\<lambda>(s, st1).
     bind_res (iso_utc now) (\<lambda>t.
     let s' = s\<lparr>cs_last_poll := PStr t, cs_updated := PStr t, cs_last_error := None\<rparr> in
     bind_res (save_state st1 s') (\<lambda>st2. Inr (s', st2))))"

subsection \<open>Recording an attempt\<close>

definition backoff_delay :: "int \<Rightarrow> int \<Rightarrow> int \<Rightarrow> int" where
  "backoff_delay base limit consecutive = min limit (base * 2 ^ nat (min (consecutive - 1) 20))"

record attempt =
  at_target :: string
  at_trigger :: string
  at_started :: rat
  at_completed :: rat
  at_ready :: bool
  at_receipt :: pyval
  at_error :: pyval

definition failed_target :: "attempt \<Rightarrow> int \<Rightarrow> int \<Rightarrow> canary_target \<Rightarrow> canary_target res" where
  "failed_target a base limit r =
     (let delay = backoff_delay base limit (ct_consecutive r + 1) in
      bind_res (iso_utc (at_completed a + of_int (max 1 delay))) (\<lambda>t.
      Inr (r\<lparr>ct_failures := ct_failures r + 1, ct_consecutive := ct_consecutive r + 1, ct_next_attempt := PStr t,
             ct_last_error := Some (take 1000 (if truthy (at_error a) then py_str (at_error a)
               else ''canary did not produce a ready receipt''))\<rparr>)))"

definition attempted_target :: "attempt \<Rightarrow> int \<Rightarrow> int \<Rightarrow> canary_target \<Rightarrow> canary_target res" where
  "attempted_target a base limit r =
     bind_res (iso_utc (at_completed a)) (\<lambda>t.
     let r1 = r\<lparr>ct_attempts := ct_attempts r + 1, ct_last_attempt := PStr t,
                ct_last_receipt := (if truthy (at_receipt a) then Some (take 200 (py_str (at_receipt a))) else None)\<rparr> in
     if at_ready a
     then Inr (r1\<lparr>ct_consecutive := 0, ct_last_success := PStr t, ct_next_attempt := PNone, ct_last_error := None\<rparr>)
     else failed_target a base limit r1)"

definition attempt_run :: "attempt \<Rightarrow> canary_target \<Rightarrow> canary_run res" where
  "attempt_run a r =
     bind_res (iso_utc (at_started a)) (\<lambda>started.
     bind_res (iso_utc (at_completed a)) (\<lambda>completed.
     Inr \<lparr>cr_target = at_target a, cr_trigger = at_trigger a, cr_started = PStr started, cr_completed = PStr completed,
          cr_ready = at_ready a, cr_receipt = ct_last_receipt r, cr_error = ct_last_error r\<rparr>))"

definition record_attempt ::
  "canary_store \<Rightarrow> rat \<Rightarrow> attempt \<Rightarrow> int \<Rightarrow> int \<Rightarrow> (canary_state \<times> canary_store) res" where
  "record_attempt st now a base limit =
     require (at_target a \<in> set TARGETS \<and> at_trigger a \<in> {''automatic'', ''manual''})
       (ValueError ''canary autopilot result identity is invalid'')
      (bind_res (load_state st now) (\<lambda>(s, st1).
       case map_of (cs_targets s) (at_target a) of
         None \<Rightarrow> Inl (KeyError (at_target a))
       | Some r \<Rightarrow>
           bind_res (attempted_target a base limit r) (\<lambda>r'.
           bind_res (attempt_run a r') (\<lambda>run.
           bind_res (iso_utc (at_completed a)) (\<lambda>updated.
           let s' = s\<lparr>cs_targets := pset (cs_targets s) (at_target a) r', cs_attempts := cs_attempts s + 1,
                     cs_failures := (if at_ready a then cs_failures s else cs_failures s + 1),
                     cs_history := take (st_retention st1) (run # cs_history s), cs_updated := PStr updated\<rparr> in
           bind_res (save_state st1 s') (\<lambda>st2. Inr (s', st2)))))))"

subsection \<open>Which canaries are due\<close>

text \<open>\<^verbatim>\<open>(value or {}).get(k)\<close>\<close>

definition get_in :: "pyval \<Rightarrow> string \<Rightarrow> pyval res" where
  "get_in v k =
     (if \<not> truthy v then Inr PNone
      else case as_dict v of None \<Rightarrow> Inl (AttributeError ''get'') | Some d \<Rightarrow> Inr (pget d k))"

definition int_or_zero :: "pyval \<Rightarrow> int res" where
  "int_or_zero v = (if truthy v then py_int v else Inr 0)"

record canary_report =
  rp_id :: string
  rp_enabled :: bool
  rp_current_ready :: bool
  rp_due :: bool
  rp_runnable :: bool
  rp_reason :: string
  rp_age :: "rat option"
  rp_remaining :: "rat option"
  rp_refresh_before :: int
  rp_backoff :: bool
  rp_attempts :: int
  rp_failures :: int
  rp_consecutive :: int
  rp_retry :: pyval

definition due_reason ::
  "pyval \<Rightarrow> (string \<times> pyval) list \<Rightarrow> (string \<times> pyval) list \<Rightarrow> pyval \<Rightarrow> rat option \<Rightarrow> int \<Rightarrow> string" where
  "due_reason evidence_ok latest verification latest_ready remaining refresh =
     (if latest = [] then ''missing''
      else if \<not> truthy evidence_ok \<or> \<not> truthy (pget verification ''ok'') then ''evidence-invalid''
      else if \<not> truthy (pget_default verification ''ready'' latest_ready) then ''failed''
      else if pget verification ''policyCurrent'' = PBool False \<or> pget verification ''inputsCurrent'' = PBool False
        then ''input-drift''
      else if \<not> truthy (pget verification ''ageCurrent'') then ''expired''
      else if (case remaining of None \<Rightarrow> False | Some x \<Rightarrow> x \<le> of_int refresh) then ''expiring''
      else ''current'')"

definition dict_or_empty :: "pyval \<Rightarrow> (string \<times> pyval) list res" where
  "dict_or_empty v =
     (if \<not> truthy v then Inr []
      else case as_dict v of None \<Rightarrow> Inl (AttributeError ''get'') | Some d \<Rightarrow> Inr d)"

definition target_status ::
  "string \<Rightarrow> bool \<Rightarrow> pyval \<Rightarrow> pyval \<Rightarrow> int \<Rightarrow> rat \<Rightarrow> canary_report res" where
  "target_status name enabled evidence retry refresh_before now =
     bind_res (get_in evidence ''latest'') (\<lambda>latest0.
     bind_res (dict_or_empty latest0) (\<lambda>latest.
     bind_res (get_in evidence ''maxAgeSeconds'') (\<lambda>max_age0.
     bind_res (if truthy max_age0 then py_int max_age0 else Inr (7 * 86400)) (\<lambda>max_age1.
     bind_res (dict_or_empty (pget latest ''verification'')) (\<lambda>verification.
     bind_res (if truthy (pget verification ''ok'')
       then bind_res (py_float (py_or (pget verification ''ageSeconds'') (PInt 0))) (\<lambda>a. Inr (Some a)) else Inr None) (\<lambda>age.
     bind_res (get_in evidence ''currentReady'') (\<lambda>current.
     bind_res (get_in evidence ''ok'') (\<lambda>evidence_ok.
     bind_res (get_in retry ''nextAttemptAt'') (\<lambda>next0.
     bind_res (canary_epoch next0) (\<lambda>next_attempt.
     bind_res (get_in retry ''attempts'') (\<lambda>attempts0. bind_res (int_or_zero attempts0) (\<lambda>attempts.
     bind_res (get_in retry ''failures'') (\<lambda>failures0. bind_res (int_or_zero failures0) (\<lambda>failures.
     bind_res (get_in retry ''consecutiveFailures'') (\<lambda>consecutive0. bind_res (int_or_zero consecutive0) (\<lambda>consecutive.
     let max_age = max 300 max_age1;
         remaining = map_option (\<lambda>a. max 0 (of_int max_age - a)) age;
         refresh = min max_age (max 60 refresh_before);
         reason = (if enabled then due_reason evidence_ok latest verification (pget latest ''ready'') remaining refresh
           else ''disabled'');
         due = (enabled \<and> reason \<noteq> ''current'');
         backoff = (due \<and> (case next_attempt of None \<Rightarrow> False | Some t \<Rightarrow> now < t)) in
     Inr \<lparr>rp_id = name, rp_enabled = enabled, rp_current_ready = truthy current, rp_due = due,
          rp_runnable = (due \<and> \<not> backoff), rp_reason = reason, rp_age = age, rp_remaining = remaining,
          rp_refresh_before = refresh, rp_backoff = backoff, rp_attempts = attempts, rp_failures = failures,
          rp_consecutive = consecutive, rp_retry = retry\<rparr>))))))))))))))))"

record canary_public =
  cp_enabled :: bool
  cp_running :: bool
  cp_state :: canary_state
  cp_refresh_before :: int
  cp_targets :: "canary_report list"

definition retry_of :: "canary_state \<Rightarrow> string \<Rightarrow> pyval" where
  "retry_of s name = (case map_of (cs_targets s) name of None \<Rightarrow> PDict [] | Some r \<Rightarrow> target_json r)"

definition public_status ::
  "canary_state \<Rightarrow> (string \<times> pyval) list \<Rightarrow> (string \<times> bool) list \<Rightarrow> bool \<Rightarrow> bool \<Rightarrow> int \<Rightarrow> rat \<Rightarrow> canary_public res" where
  "public_status s evidence enabled_by enabled running refresh_before now =
     bind_res (map_res (\<lambda>name. target_status name (map_of enabled_by name = Some True)
         (py_or (pget evidence name) (PDict [])) (retry_of s name) refresh_before now) TARGETS) (\<lambda>targets.
     Inr \<lparr>cp_enabled = enabled, cp_running = running, cp_state = s, cp_refresh_before = refresh_before, cp_targets = targets\<rparr>)"

definition count_reports :: "(canary_report \<Rightarrow> bool) \<Rightarrow> canary_public \<Rightarrow> nat" where
  "count_reports p c = length (filter (\<lambda>r. rp_enabled r \<and> p r) (cp_targets c))"

definition run_times :: "canary_run list \<Rightarrow> rat list res" where
  "run_times rows = map_res (\<lambda>r. bind_res (canary_epoch (cr_completed r)) (\<lambda>t. Inr (case t of None \<Rightarrow> 0 | Some x \<Rightarrow> x))) rows"

definition shown_time :: "rat \<Rightarrow> string" where
  "shown_time t = (if t = 0 then ''0'' else float_repr t)"

definition canary_prometheus :: "canary_public \<Rightarrow> string res" where
  "canary_prometheus c =
     (let s = cp_state c in
      bind_res (run_times (take 1 (cs_history s))) (\<lambda>latest.
      bind_res (run_times (filter cr_ready (cs_history s))) (\<lambda>successes.
      let bit = (\<lambda>b. if b then ''1'' else ''0'');
          last_attempt = (case latest of [] \<Rightarrow> 0 | t # _ \<Rightarrow> t);
          last_success = (case successes of [] \<Rightarrow> 0 | t # ts \<Rightarrow> foldl max t ts) in
      Inr (join [chr 10] (map (\<lambda>(k, v). ''dash_canary_autopilot_'' @ k @ '' '' @ v)
        [(''enabled'', bit (cp_enabled c)), (''collector_up'', ''1''), (''worker_running'', bit (cp_running c)),
         (''targets'', nat_digits (count_reports (\<lambda>_. True) c)), (''current'', nat_digits (count_reports rp_current_ready c)),
         (''due'', nat_digits (count_reports rp_due c)), (''backoff'', nat_digits (count_reports (\<lambda>r. rp_due r \<and> rp_backoff r) c)),
         (''attempts_total'', show_int (cs_attempts s)), (''failures_total'', show_int (cs_failures s)),
         (''last_attempt_timestamp_seconds'', shown_time last_attempt),
         (''last_success_timestamp_seconds'', shown_time last_success)]) @ [chr 10]))))"

end
