(* ===== verification/CanaryProps.thy ===== *)
theory CanaryProps
  imports CanaryAutopilot JsonText
begin

section \<open>The canary autopilot: the file round trip and the backoff\<close>

subsection \<open>Reading the saved document back\<close>

definition plain_time :: "pyval \<Rightarrow> bool" where
  "plain_time v \<longleftrightarrow> v = PNone \<or> (\<exists>t. v = PStr t)"

lemma time_field_Inr: "time_field v = Inr w \<longleftrightarrow> w = v \<and> (\<exists>x. canary_epoch v = Inr x)"
  by (auto simp: time_field_def)

lemma canary_epoch_plain: "canary_epoch v = Inr x \<Longrightarrow> plain_time v"
  by (cases v) (auto simp: canary_epoch_def plain_time_def split: if_splits)

lemma plain_time_norm: "plain_time v \<Longrightarrow> json_norm v = v \<and> json_plain v"
  by (auto simp: plain_time_def)

lemma time_field_plain: "time_field v = Inr w \<Longrightarrow> json_norm v = v \<and> json_plain v"
  using canary_epoch_plain plain_time_norm by (auto simp: time_field_Inr)

lemma opt_text_simps [simp]:
  "json_norm (opt_text t) = opt_text t" "json_plain (opt_text t)" "text_field msg (opt_text t) = Inr t"
  by (cases t; simp add: opt_text_def text_field_def)+

lemma counter_field_PInt: "counter_field msg (PInt n) = Inr m \<longleftrightarrow> m = n \<and> 0 \<le> n \<and> n \<le> 10 ^ 12"
  by (auto simp: counter_field_def)

lemma counter_short: "0 \<le> n \<Longrightarrow> n \<le> 10 ^ 12 \<Longrightarrow> short_int n"
  by (rule short_int_small) simp

lemma fields_are_norm:
  assumes "distinct (map fst d)"
  shows "fields_are ks (json_norm (PDict d)) =
    map_option (\<lambda>_. sort_key fst (map (map_prod id json_norm) d)) (fields_are ks (PDict d))"
proof -
  have "set (map fst (sort_key fst (map (map_prod id json_norm) d))) = set (map fst d)" by force
  then show ?thesis by (simp add: fields_are_def del: set_map)
qed

lemma target_json_fields:
  assumes "target_json r = PDict d"
  shows "fields_are TARGET_FIELDS (PDict d) = Some d" and "distinct (map fst d)"
    and "pget d ''attempts'' = PInt (ct_attempts r)" and "pget d ''failures'' = PInt (ct_failures r)"
    and "pget d ''consecutiveFailures'' = PInt (ct_consecutive r)" and "pget d ''lastAttemptAt'' = ct_last_attempt r"
    and "pget d ''lastSuccessAt'' = ct_last_success r" and "pget d ''nextAttemptAt'' = ct_next_attempt r"
    and "pget d ''lastReceiptId'' = opt_text (ct_last_receipt r)" and "pget d ''lastError'' = opt_text (ct_last_error r)"
  using assms by (auto simp: target_json_def fields_are_def TARGET_FIELDS_def pget_def)

lemma read_target_json:
  assumes "read_target ts name = Inr p" and "pget ts name = target_json r"
  shows "p = (name, r)" and "json_plain (target_json r)"
    and "pget ts' name = json_norm (target_json r) \<Longrightarrow> read_target ts' name = Inr (name, r)"
proof -
  obtain d where d: "target_json r = PDict d" by (simp add: target_json_def)
  note f = target_json_fields [OF d]
  have v: "time_field (ct_last_attempt r) = Inr (ct_last_attempt r)" "time_field (ct_last_success r) = Inr (ct_last_success r)"
    "time_field (ct_next_attempt r) = Inr (ct_next_attempt r)" "p = (name, r)"
    "0 \<le> ct_attempts r" "ct_attempts r \<le> 10 ^ 12" "0 \<le> ct_failures r" "ct_failures r \<le> 10 ^ 12"
    "0 \<le> ct_consecutive r" "ct_consecutive r \<le> 10 ^ 12"
    using assms unfolding read_target_def assms(2) d f(1) Let_def
    by (auto simp: f counter_field_PInt time_field_Inr)
  show "p = (name, r)" by (rule v(4))
  note t = time_field_plain [OF v(1)] time_field_plain [OF v(2)] time_field_plain [OF v(3)]
  show "json_plain (target_json r)" using t v counter_short by (auto simp: target_json_def)
  show "read_target ts' name = Inr (name, r)" if "pget ts' name = json_norm (target_json r)"
    unfolding read_target_def that d fields_are_norm [OF f(2)] f(1) option.map option.case Let_def pget_json_norm [OF f(2)]
    using v t by (simp add: f counter_field_PInt)
qed

lemma read_run_json:
  assumes "read_run (run_json r) = Inr q"
  shows "q = r" and "json_plain (run_json r)" and "read_run (json_norm (run_json r)) = Inr r"
proof -
  obtain d where d: "run_json r = PDict d" by (simp add: run_json_def)
  have f: "fields_are RUN_FIELDS (PDict d) = Some d" "distinct (map fst d)" "pget d ''target'' = PStr (cr_target r)"
    "pget d ''trigger'' = PStr (cr_trigger r)" "pget d ''startedAt'' = cr_started r" "pget d ''completedAt'' = cr_completed r"
    "pget d ''ready'' = PBool (cr_ready r)" "pget d ''receiptId'' = opt_text (cr_receipt r)" "pget d ''error'' = opt_text (cr_error r)"
    using d by (auto simp: run_json_def fields_are_def RUN_FIELDS_def pget_def)
  have v: "time_field (cr_started r) = Inr (cr_started r)" "time_field (cr_completed r) = Inr (cr_completed r)" "q = r"
    "cr_target r \<in> set TARGETS" "cr_trigger r \<in> {''automatic'', ''manual''}"
    using assms unfolding read_run_def d f(1) by (auto simp: f time_field_Inr)
  show "q = r" by (rule v(3))
  note t = time_field_plain [OF v(1)] time_field_plain [OF v(2)]
  show "json_plain (run_json r)" using t by (auto simp: run_json_def)
  show "read_run (json_norm (run_json r)) = Inr r"
    unfolding read_run_def d fields_are_norm [OF f(2)] f(1) option.map option.case pget_json_norm [OF f(2)]
    using v t by (simp add: f)
qed

lemma read_runs_json:
  assumes "map_res read_run (map run_json rs) = Inr qs"
  shows "qs = rs" and "\<forall>r\<in>set rs. json_plain (run_json r)" and "map_res read_run (map (json_norm \<circ> run_json) rs) = Inr rs"
  using assms by (induction rs arbitrary: qs) (auto dest: read_run_json)

lemma read_targets_json:
  assumes "map_res (read_target ts) (map fst rs) = Inr qs" and "\<And>n r. (n, r) \<in> set rs \<Longrightarrow> pget ts n = target_json r"
  shows "qs = rs" and "\<forall>r\<in>set rs. json_plain (target_json (snd r))"
    and "(\<And>n r. (n, r) \<in> set rs \<Longrightarrow> pget ts' n = json_norm (target_json r)) \<Longrightarrow> map_res (read_target ts') (map fst rs) = Inr rs"
proof -
  have "qs = rs \<and> (\<forall>r\<in>set rs. json_plain (target_json (snd r))) \<and>
      ((\<forall>n r. (n, r) \<in> set rs \<longrightarrow> pget ts' n = json_norm (target_json r)) \<longrightarrow> map_res (read_target ts') (map fst rs) = Inr rs)"
    using assms
  proof (induction rs arbitrary: qs)
    case (Cons p rs)
    obtain n r where p: "p = (n, r)" by fastforce
    obtain q where q: "read_target ts n = Inr q" using Cons.prems(1) p by auto
    have "pget ts n = target_json r" using Cons.prems(2) p by simp
    then show ?case using Cons p q read_target_json [OF q] by auto
  qed simp
  then show "qs = rs" and "\<forall>r\<in>set rs. json_plain (target_json (snd r))"
    and "(\<And>n r. (n, r) \<in> set rs \<Longrightarrow> pget ts' n = json_norm (target_json r)) \<Longrightarrow> map_res (read_target ts') (map fst rs) = Inr rs"
    by auto
qed

lemma pset_keys_present: "k \<in> set (map fst d) \<Longrightarrow> map fst (pset d k v) = map fst d"
  by (induction d k v rule: pset.induct) auto

lemma map_res_all2: "map_res f xs = Inr ys \<Longrightarrow> list_all2 (\<lambda>x y. f x = Inr y) xs ys"
  by (induction xs arbitrary: ys) auto

lemma validated_targets: "validate_state v = Inr s \<Longrightarrow> map fst (cs_targets s) = TARGETS"
proof -
  assume "validate_state v = Inr s"
  then obtain ts where "map_res (read_target ts) TARGETS = Inr (cs_targets s)"
    by (auto simp: validate_state_def res_simps)
  then have m: "list_all2 (\<lambda>n p. read_target ts n = Inr p) TARGETS (cs_targets s)"
    using map_res_all2 by blast
  have "fst p = n" if "read_target ts n = Inr p" for n p
    using that by (auto simp: read_target_def Let_def res_simps)
  with m have "list_all2 (\<lambda>n p. fst p = n) TARGETS (cs_targets s)" by (rule list_all2_mono)
  then show ?thesis by (induction rule: list_all2_induct) simp_all
qed

lemma saved_state:
  assumes "validate_state (state_json s) = Inr s'" and order: "map fst (cs_targets s) = TARGETS"
  shows "s' = s" and "json_plain (state_json s)" and "validate_state (json_norm (state_json s)) = Inr s"
proof -
  obtain d where d: "state_json s = PDict d" by (simp add: state_json_def)
  let ?ts = "map (map_prod id target_json) (cs_targets s)"
  have f: "fields_are STATE_FIELDS (PDict d) = Some d" "distinct (map fst d)" "pget d ''schemaVersion'' = PStr CANARY_SCHEMA"
    "pget d ''updatedAt'' = cs_updated s" "pget d ''lastPollAt'' = cs_last_poll s" "pget d ''lastError'' = opt_text (cs_last_error s)"
    "pget d ''attemptsTotal'' = PInt (cs_attempts s)" "pget d ''failuresTotal'' = PInt (cs_failures s)"
    "pget d ''targets'' = PDict ?ts" "pget d ''history'' = PList (map run_json (cs_history s))"
    using d by (auto simp: state_json_def fields_are_def STATE_FIELDS_def pget_def)
  have keys: "map fst ?ts = TARGETS" using order by (simp add: o_def)
  then have t: "fields_are TARGETS (PDict ?ts) = Some ?ts" by (simp add: fields_are_def flip: set_map)
  have dt: "distinct (map fst ?ts)" unfolding keys by (simp add: TARGETS_def)
  have dk: "distinct (map fst (cs_targets s))" unfolding order by (simp add: TARGETS_def)
  have look: "pget ?ts n = target_json r" if "(n, r) \<in> set (cs_targets s)" for n r
    using that dk by (simp add: pget_def map_of_map_prod)
  obtain targets history where v: "time_field (cs_updated s) = Inr (cs_updated s)" "time_field (cs_last_poll s) = Inr (cs_last_poll s)"
    "0 \<le> cs_attempts s" "cs_attempts s \<le> 10 ^ 12" "0 \<le> cs_failures s" "cs_failures s \<le> 10 ^ 12"
    and mt: "map_res (read_target ?ts) (map fst (cs_targets s)) = Inr targets"
    and mh: "map_res read_run (map run_json (cs_history s)) = Inr history" "length (cs_history s) \<le> 5000"
    and s': "s' = s\<lparr>cs_targets := targets, cs_history := history\<rparr>"
    using assms(1) unfolding validate_state_def d f(1) option.case order
    by (auto simp: f t counter_field_PInt time_field_Inr)
  have rt: "targets = cs_targets s" "\<forall>r\<in>set (cs_targets s). json_plain (target_json (snd r))"
    using read_targets_json(1,2) [OF mt] look by blast+
  have rt3: "map_res (read_target ts') (map fst (cs_targets s)) = Inr (cs_targets s)"
    if "\<And>n r. (n, r) \<in> set (cs_targets s) \<Longrightarrow> pget ts' n = json_norm (target_json r)" for ts'
    using read_targets_json(3) [OF mt] look that by blast
  note rh = read_runs_json [OF mh(1)]
  show "s' = s" using s' rt(1) rh(1) by simp
  note p = time_field_plain [OF v(1)] time_field_plain [OF v(2)]
  show plain: "json_plain (state_json s)"
    using p rt(2) rh(2) v counter_short dt by (auto simp: state_json_def)
  let ?ts' = "sort_key fst (map (map_prod id json_norm) ?ts)"
  have look': "pget ?ts' n = json_norm (target_json r)" if "(n, r) \<in> set (cs_targets s)" for n r
    unfolding pget_json_norm [OF dt] look [OF that] ..
  have t': "fields_are TARGETS (json_norm (PDict ?ts)) = Some ?ts'"
    unfolding fields_are_norm [OF dt] t by simp
  show "validate_state (json_norm (state_json s)) = Inr s"
    unfolding validate_state_def d fields_are_norm [OF f(2)] f(1) option.map option.case pget_json_norm [OF f(2)] f(3-10)
    using v p t' rt3 [OF look'] rh(3) mh(2) order
    by (simp add: counter_field_PInt o_def)
qed

lemma loaded_targets:
  assumes "load_state st now = Inr (s, st1)"
  shows "map fst (cs_targets s) = TARGETS"
proof -
  obtain t x where "(case json_loads t of
      Inl e \<Rightarrow> Inl (if e = json_error then ValueError ''canary autopilot state cannot be decoded'' else e)
    | Inr v \<Rightarrow> bind_res (validate_state v) (\<lambda>s. Inr (s, x))) = Inr (s, st1)"
    using assms unfolding load_state_def by (auto simp: res_simps)
  then obtain v where "validate_state v = Inr s" by (cases "json_loads t") auto
  then show ?thesis by (rule validated_targets)
qed

lemma load_saved:
  assumes "save_state st s = Inr st'" and "map fst (cs_targets s) = TARGETS" and "st_regular st"
  shows "load_state st' now =
    (if length (utf8 (canonical (state_json s) @ [chr 10])) \<le> 4 * 1024 * 1024 then Inr (s, st')
     else Inl (ValueError ''canary autopilot state size is invalid''))"
proof -
  obtain s' where v: "validate_state (state_json s) = Inr s'" and st': "\<not> st_linked st"
    "st' = st\<lparr>st_file := Some (canonical (state_json s) @ [chr 10])\<rparr>"
    using assms(1) by (auto simp: save_state_def)
  note saved = saved_state [OF v assms(2)]
  have "json_loads (canonical (state_json s) @ [chr 10]) = Inr (json_norm (state_json s))"
    using json_loads_line [OF saved(2), of "[chr 10]" True] by (simp add: canonical_def)
  moreover have "1 \<le> length (utf8 (canonical (state_json s) @ [chr 10]))"
    using length_utf8(1) [of "canonical (state_json s) @ [chr 10]"] by simp
  ultimately show ?thesis using st' assms(3) saved(3)
    by (simp add: load_state_def canary_initialize_def)
qed

subsection \<open>A failed attempt\<close>

definition demo_canary :: canary_state where
  "demo_canary = \<lparr>cs_updated = PStr ''1970-01-01T00:16:40Z'', cs_last_poll = PNone, cs_last_error = None, cs_attempts = 0,
     cs_failures = 0, cs_targets = map (\<lambda>n. (n, target_state)) TARGETS, cs_history = []\<rparr>"

definition demo_canary_store :: canary_store where
  "demo_canary_store = new_canary_store 200 (Some (canonical (state_json demo_canary) @ [chr 10]))"

definition demo_attempt :: attempt where
  "demo_attempt = \<lparr>at_target = ''community'', at_trigger = ''manual'', at_started = 1000, at_completed = 1000,
     at_ready = False, at_receipt = PNone, at_error = PStr ''down''\<rparr>"

definition demo_failed_target :: canary_target where
  "demo_failed_target = \<lparr>ct_attempts = 1, ct_failures = 1, ct_consecutive = 1,
     ct_last_attempt = PStr ''1970-01-01T00:16:40Z'', ct_last_success = PNone, ct_next_attempt = PStr ''1970-01-01T00:31:40Z'',
     ct_last_receipt = None, ct_last_error = Some ''down''\<rparr>"

definition demo_canary_failed :: canary_state where
  "demo_canary_failed = demo_canary\<lparr>cs_targets := pset (cs_targets demo_canary) ''community'' demo_failed_target,
     cs_attempts := 1, cs_failures := 1, cs_history := [\<lparr>cr_target = ''community'', cr_trigger = ''manual'',
       cr_started = PStr ''1970-01-01T00:16:40Z'', cr_completed = PStr ''1970-01-01T00:16:40Z'', cr_ready = False,
       cr_receipt = None, cr_error = Some ''down''\<rparr>]\<rparr>"

lemma demo_canary_times:
  "time_field (PStr ''1970-01-01T00:16:40Z'') = Inr (PStr ''1970-01-01T00:16:40Z'')"
  "time_field (PStr ''1970-01-01T00:31:40Z'') = Inr (PStr ''1970-01-01T00:31:40Z'')" "time_field PNone = Inr PNone"
  by code_simp+

lemmas document_simps = fields_are_def pget_def counter_field_def text_field_def opt_text_def Let_def read_target_def read_run_def

lemma demo_canary_valid: "validate_state (state_json demo_canary) = Inr demo_canary"
  by (simp add: validate_state_def state_json_def demo_canary_def target_state_def target_json_def TARGETS_def STATE_FIELDS_def
      TARGET_FIELDS_def demo_canary_times document_simps insert_commute)

lemma demo_failed_valid: "validate_state (state_json demo_canary_failed) = Inr demo_canary_failed"
  by (simp add: validate_state_def state_json_def demo_canary_failed_def demo_canary_def target_state_def target_json_def
      demo_failed_target_def TARGETS_def STATE_FIELDS_def TARGET_FIELDS_def RUN_FIELDS_def run_json_def demo_canary_times
      document_simps insert_commute)

lemma demo_canary_size: "length (utf8 (canonical (state_json demo_canary) @ [chr 10])) \<le> 4 * 1024 * 1024"
proof -
  have str: "length (dumps True (PStr t)) \<le> 122" if "length t \<le> 20" for t
    using length_json_string [of True t] that by simp
  have num: "length (dumps True (PInt 0)) \<le> 122" "length (dumps True PNone) \<le> 122" by code_simp+
  obtain d where d: "target_json target_state = PDict d" and "length d = 8"
    and "\<forall>p\<in>set d. length (fst p) \<le> 20 \<and> length (dumps True (snd p)) \<le> 6 * 20 + 2"
    using num by (auto simp: target_json_def target_state_def opt_text_def simp del: dumps.simps)
  then have one: "length (dumps True (target_json target_state)) \<le> 1970" using dict_text_size(1) [of d 20 True] by simp
  have "\<forall>p\<in>set (map (map_prod id target_json) (cs_targets demo_canary)).
      length (fst p) \<le> 328 \<and> length (dumps True (snd p)) \<le> 6 * 328 + 2"
    using one by (auto simp: demo_canary_def TARGETS_def)
  then have three: "length (dumps True (PDict (map (map_prod id target_json) (cs_targets demo_canary)))) \<le> 11828"
    using dict_text_size(1) [of "map (map_prod id target_json) (cs_targets demo_canary)" 328 True]
    by (simp add: demo_canary_def TARGETS_def del: dumps.simps)
  obtain e where e: "state_json demo_canary = PDict e" and "length e = 8"
    and "\<forall>p\<in>set e. length (fst p) \<le> 1971 \<and> length (dumps True (snd p)) \<le> 6 * 1971 + 2"
  proof -
    have s: "length (dumps True (PStr ''1970-01-01T00:16:40Z'')) \<le> 122" "length (dumps True (PList [])) \<le> 122"
      using str by simp_all
    have c: "length (dumps True (PStr CANARY_SCHEMA)) \<le> 6 * 1971 + 2"
      using length_json_string [of True CANARY_SCHEMA] by (simp add: CANARY_SCHEMA_def)
    show thesis
      using that [of "[(''schemaVersion'', PStr CANARY_SCHEMA), (''updatedAt'', cs_updated demo_canary), (''lastPollAt'', PNone),
        (''lastError'', PNone), (''attemptsTotal'', PInt 0), (''failuresTotal'', PInt 0),
        (''targets'', PDict (map (map_prod id target_json) (cs_targets demo_canary))), (''history'', PList [])]"] s c num three
      by (simp add: state_json_def demo_canary_def opt_text_def del: dumps.simps)
  qed
  then have "length (canonical (state_json demo_canary)) \<le> 189266"
    using dict_text_size(1) [of e 1971 True] by (simp add: canonical_def del: dumps.simps)
  then show ?thesis
    using length_utf8(2) [of "canonical (state_json demo_canary) @ [chr 10]"] by simp
qed

lemma demo_canary_loads: "load_state demo_canary_store 0 = Inr (demo_canary, demo_canary_store)"
proof -
  have "save_state (new_canary_store 200 None) demo_canary = Inr demo_canary_store"
    by (simp add: save_state_def demo_canary_valid new_canary_store_def demo_canary_store_def)
  from load_saved [OF this, of 0] demo_canary_size show ?thesis
    by (simp add: demo_canary_def new_canary_store_def o_def)
qed

lemma demo_attempt_recorded:
  "\<exists>st'. record_attempt demo_canary_store 0 demo_attempt 900 86400 = Inr (demo_canary_failed, st')"
proof -
  have t: "iso_utc 1900 = Inr ''1970-01-01T00:31:40Z''" by code_simp
  have "map_of (cs_targets demo_canary) ''community'' = Some target_state" by (simp add: demo_canary_def TARGETS_def)
  moreover have "attempted_target demo_attempt 900 86400 target_state = Inr demo_failed_target"
    by (simp add: attempted_target_def failed_target_def demo_attempt_def iso_utc_1000 t backoff_delay_def target_state_def
        demo_failed_target_def Let_def)
  moreover have "attempt_run demo_attempt demo_failed_target = Inr (hd (cs_history demo_canary_failed))"
    by (simp add: attempt_run_def demo_attempt_def iso_utc_1000 demo_canary_failed_def demo_failed_target_def)
  moreover have "demo_canary\<lparr>cs_targets := pset (cs_targets demo_canary) ''community'' demo_failed_target, cs_attempts := 1,
      cs_failures := 1, cs_history := take (st_retention demo_canary_store) [hd (cs_history demo_canary_failed)],
      cs_updated := PStr ''1970-01-01T00:16:40Z''\<rparr> = demo_canary_failed"
    by (simp add: demo_canary_failed_def demo_canary_def demo_canary_store_def new_canary_store_def)
  moreover have "at_target demo_attempt = ''community''" "at_trigger demo_attempt = ''manual''" "at_completed demo_attempt = 1000"
    "\<not> at_ready demo_attempt" "''community'' \<in> set TARGETS" "cs_attempts demo_canary = 0" "cs_failures demo_canary = 0"
    "cs_history demo_canary = []" "\<not> st_linked demo_canary_store"
    by (simp_all add: demo_attempt_def TARGETS_def demo_canary_def demo_canary_store_def new_canary_store_def)
  ultimately show ?thesis
    by (simp add: record_attempt_def demo_canary_loads Let_def save_state_def iso_utc_1000 demo_failed_valid)
qed

lemma failed_target_effect:
  assumes "failed_target a base limit r = Inr r'"
  shows "ct_consecutive r' = ct_consecutive r + 1 \<and>
    (\<exists>t. ct_next_attempt r' = PStr t \<and>
       iso_utc (at_completed a + of_int (max 1 (backoff_delay base limit (ct_consecutive r + 1)))) = Inr t)"
  using assms by (auto simp: failed_target_def Let_def)

subsection \<open>Properties\<close>

definition run_of :: "attempt \<Rightarrow> canary_run \<Rightarrow> bool" where
  "run_of a run = (cr_target run = at_target a \<and> cr_trigger run = at_trigger a \<and> cr_ready run = at_ready a \<and>
     (\<exists>t. iso_utc (at_started a) = Inr t \<and> cr_started run = PStr t) \<and> (\<exists>t. iso_utc (at_completed a) = Inr t \<and> cr_completed run = PStr t))"

text \<open>
  C19. Recording an attempt changes its target only: a success clears the failures and the
  next attempt; the k-th failure in a row postpones the next attempt by the base delay doubled
  k - 1 times (at most twenty), at least a second and at most the limit.  The attempt and a
  failure are counted, the history is the new run followed by the earlier ones, cut to the
  retention, and the written file reads back as exactly this state, unless it has outgrown
  the size the reader accepts.
\<close>

theorem canary_attempt_recorded:
  assumes "record_attempt st now a base limit = Inr (s', st')"
  shows "\<exists>s st1 r r'. load_state st now = Inr (s, st1) \<and> map_of (cs_targets s) (at_target a) = Some r \<and>
    map_of (cs_targets s') = (map_of (cs_targets s))(at_target a \<mapsto> r') \<and> ct_attempts r' = ct_attempts r + 1 \<and>
    (if at_ready a then ct_consecutive r' = 0 \<and> ct_next_attempt r' = PNone
     else ct_consecutive r' = ct_consecutive r + 1 \<and>
       (\<exists>d t. d = max 1 (min limit (base * 2 ^ nat (min (ct_consecutive r) 20))) \<and> 1 \<le> d \<and> d \<le> max 1 limit \<and>
          iso_utc (at_completed a + of_int d) = Inr t \<and> ct_next_attempt r' = PStr t)) \<and>
    cs_attempts s' = cs_attempts s + 1 \<and> cs_failures s' = cs_failures s + (if at_ready a then 0 else 1) \<and>
    (\<exists>run. run_of a run \<and> cs_history s' = take (st_retention st1) (run # cs_history s)) \<and>
    (st_regular st1 \<longrightarrow> load_state st' later =
       (if length (utf8 (canonical (state_json s') @ [chr 10])) \<le> 4 * 1024 * 1024 then Inr (s', st')
        else Inl (ValueError ''canary autopilot state size is invalid'')))"
proof -
  obtain s st1 r r' run updated where l: "load_state st now = Inr (s, st1)" and r: "map_of (cs_targets s) (at_target a) = Some r"
    and r': "attempted_target a base limit r = Inr r'" and run: "attempt_run a r' = Inr run"
    and s': "s' = s\<lparr>cs_targets := pset (cs_targets s) (at_target a) r', cs_attempts := cs_attempts s + 1,
        cs_failures := (if at_ready a then cs_failures s else cs_failures s + 1),
        cs_history := take (st_retention st1) (run # cs_history s), cs_updated := PStr updated\<rparr>"
    and sv: "save_state st1 s' = Inr st'" and ta: "at_target a \<in> set TARGETS"
    using assms by (auto simp: record_attempt_def Let_def res_simps)
  have order: "map fst (cs_targets s) = TARGETS"
    using l by (rule loaded_targets)
  have keys: "map fst (cs_targets s') = TARGETS"
    using pset_keys_present [of "at_target a" "cs_targets s" r'] order ta s' by simp
  have f1: "map_of (cs_targets s') = (map_of (cs_targets s))(at_target a \<mapsto> r')" by (simp add: s' map_of_pset)
  have f2: "ct_attempts r' = ct_attempts r + 1"
    using r' by (auto simp: attempted_target_def failed_target_def Let_def split: if_splits)
  have f3: "if at_ready a then ct_consecutive r' = 0 \<and> ct_next_attempt r' = PNone
     else ct_consecutive r' = ct_consecutive r + 1 \<and>
       (\<exists>d t. d = max 1 (min limit (base * 2 ^ nat (min (ct_consecutive r) 20))) \<and> 1 \<le> d \<and> d \<le> max 1 limit \<and>
          iso_utc (at_completed a + of_int d) = Inr t \<and> ct_next_attempt r' = PStr t)"
  proof (cases "at_ready a")
    case True
    then show ?thesis using r' by (auto simp: attempted_target_def)
  next
    case False
    then obtain t where "failed_target a base limit (r\<lparr>ct_attempts := ct_attempts r + 1, ct_last_attempt := PStr t,
        ct_last_receipt := (if truthy (at_receipt a) then Some (take 200 (py_str (at_receipt a))) else None)\<rparr>) = Inr r'"
      using r' by (auto simp: attempted_target_def)
    note e = failed_target_effect [OF this]
    then obtain t where "ct_consecutive r' = ct_consecutive r + 1" "ct_next_attempt r' = PStr t"
      "iso_utc (at_completed a + of_int (max 1 (backoff_delay base limit (ct_consecutive r + 1)))) = Inr t"
      using e by auto
    moreover have "backoff_delay base limit (ct_consecutive r + 1) = min limit (base * 2 ^ nat (min (ct_consecutive r) 20))"
      by (simp add: backoff_delay_def min_def)
    moreover have "max 1 (min limit x) \<le> max 1 limit" "1 \<le> max 1 (min limit x)" for x by simp_all
    ultimately show ?thesis using False by (simp only: if_False) blast
  qed
  have "run_of a run" using run by (auto simp: attempt_run_def run_of_def)
  then have f4: "\<exists>run. run_of a run \<and> cs_history s' = take (st_retention st1) (run # cs_history s)" by (auto simp: s')
  have f5: "cs_attempts s' = cs_attempts s + 1" "cs_failures s' = cs_failures s + (if at_ready a then 0 else 1)" by (simp_all add: s')
  show ?thesis
    by (intro exI [of _ s] exI [of _ st1] exI [of _ r] exI [of _ r'] conjI impI)
      (fact l r f1 f2 f3 f4 f5 | erule load_saved [OF sv keys])+
qed

lemma canary_attempt_recorded_witness:
  "\<exists>st' t. record_attempt demo_canary_store 0 demo_attempt 900 86400 = Inr (demo_canary_failed, st') \<and>
     iso_utc (1000 + of_int 900) = Inr t \<and>
     map_option ct_next_attempt (map_of (cs_targets demo_canary_failed) ''community'') = Some (PStr t)"
proof -
  obtain st' where s: "record_attempt demo_canary_store 0 demo_attempt 900 86400 = Inr (demo_canary_failed, st')"
    using demo_attempt_recorded by blast
  from canary_attempt_recorded [OF s, of 0] obtain r r' where
    "map_of (cs_targets demo_canary) ''community'' = Some r"
    "map_of (cs_targets demo_canary_failed) = (map_of (cs_targets demo_canary))(''community'' \<mapsto> r')"
    "\<exists>t. iso_utc (1000 + of_int (max 1 (min 86400 (900 * 2 ^ nat (min (ct_consecutive r) 20))))) = Inr t \<and> ct_next_attempt r' = PStr t"
    by (auto simp: demo_canary_loads demo_attempt_def)
  moreover have "map_of (cs_targets demo_canary) ''community'' = Some target_state" by (simp add: demo_canary_def TARGETS_def)
  ultimately show ?thesis using s by (auto simp: target_state_def)
qed

end
