(* ===== verification/Moderation.thy ===== *)
theory Moderation
  imports Json PyIso
begin

section \<open>Moderation: cases, bans, the allowlist and presence\<close>

text \<open>
  \<^verbatim>\<open>admin/moderation.py\<close>: cases with their append-only events, bans, the allowlist, the
  sessions of the players online and the samples of the heatmap.  Times are the ISO texts the
  code compares; \<open>clock k\<close> is what the \<open>k\<close>-th call of \<^verbatim>\<open>utcnow()\<close> in an operation reads, and
  \<open>uuid\<close> the identifier it draws.  An operation that raises leaves the store unchanged.
  The redaction of security events, which is all regular expressions, is not modelled, nor
  are the operations that store redacted text.
\<close>

definition CASE_STATUSES :: "string list" where
  "CASE_STATUSES = [''open'', ''investigating'', ''actioned'', ''closed'', ''appealed'']"

definition CASE_SEVERITIES :: "string list" where
  "CASE_SEVERITIES = [''info'', ''low'', ''medium'', ''high'', ''critical'']"

definition IDENTITY_TYPES :: "string list" where
  "IDENTITY_TYPES = [''account'', ''funcom'', ''platform'']"

definition utcnow :: "rat \<Rightarrow> string" where
  "utcnow t = iso_micros t ''+00:00''"

definition clean_text :: "string \<Rightarrow> nat \<Rightarrow> string" where
  "clean_text s limit = take limit (strip s)"

definition clean :: "pyval \<Rightarrow> nat \<Rightarrow> string" where
  "clean v limit = clean_text (str_or_empty v) limit"

definition int_in :: "pyval \<Rightarrow> string \<Rightarrow> int \<Rightarrow> int option \<Rightarrow> int res" where
  "int_in v label lowest highest =
     (case py_int v of
        Inl e \<Rightarrow> Inl (case e of TypeError _ \<Rightarrow> ValueError (label @ '' must be an integer'')
          | ValueError _ \<Rightarrow> ValueError (label @ '' must be an integer'') | _ \<Rightarrow> e)
      | Inr n \<Rightarrow>
          require (\<not> n < lowest) (ValueError (label @ '' must be at least '' @ show_int lowest))
         (case highest of
            None \<Rightarrow> Inr n
          | Some h \<Rightarrow> require (\<not> n > h) (ValueError (label @ '' must be at most '' @ show_int h)) (Inr n)))"

definition json_text :: "pyval \<Rightarrow> string" where
  "json_text v = canonical (if v = PNone then PDict [] else v)"

definition decode_json :: "string \<Rightarrow> pyval res" where
  "decode_json t =
     (case json_loads (if t = [] then ''{}'' else t) of
        Inr v \<Rightarrow> Inr v
      | Inl e \<Rightarrow> if e = json_error then Inr (PDict []) else Inl e)"

subsection \<open>Tables\<close>

record case_row =
  mc_id :: string
  mc_account :: "int option"
  mc_character :: string
  mc_funcom :: string
  mc_platform :: string
  mc_category :: string
  mc_severity :: string
  mc_status :: string
  mc_summary :: string
  mc_opened_by :: string
  mc_assigned :: string
  mc_created :: string
  mc_updated :: string
  mc_closed :: "string option"
  mc_metadata :: string

record case_event =
  me_id :: nat
  me_case :: string
  me_type :: string
  me_actor :: string
  me_detail :: string
  me_created :: string
  me_metadata :: string

record ban_row =
  mb_id :: string
  mb_case :: string
  mb_account :: "int option"
  mb_funcom :: string
  mb_platform :: string
  mb_reason :: string
  mb_starts :: string
  mb_expires :: "string option"
  mb_active :: bool
  mb_created_by :: string
  mb_created :: string
  mb_revoked_by :: "string option"
  mb_revoked_at :: "string option"
  mb_revoke_reason :: "string option"

record allow_row =
  ma_type :: string
  ma_value :: string
  ma_label :: string
  ma_added_by :: string
  ma_created :: string
  ma_expires :: "string option"

record session_row =
  ms_id :: string
  ms_account :: int
  ms_character :: string
  ms_funcom :: string
  ms_platform :: string
  ms_started :: string
  ms_last_seen :: string
  ms_ended :: "string option"
  ms_map :: string
  ms_partition :: string
  ms_samples :: int

record cell_row =
  mh_day :: string
  mh_hour :: int
  mh_map :: string
  mh_x :: int
  mh_y :: int
  mh_samples :: int
  mh_first :: string
  mh_last :: string

record moderation =
  mo_cases :: "case_row list"
  mo_events :: "case_event list"
  mo_event_sequence :: nat
  mo_bans :: "ban_row list"
  mo_allow :: "allow_row list"
  mo_settings :: "(string \<times> string) list"
  mo_sessions :: "session_row list"
  mo_cells :: "cell_row list"

definition case_at :: "moderation \<Rightarrow> string \<Rightarrow> case_row option" where
  "case_at st i = row_where (\<lambda>r. mc_id r = i) (mo_cases st)"

subsection \<open>Cases\<close>

definition add_case_event ::
  "moderation \<Rightarrow> string \<Rightarrow> string \<Rightarrow> string \<Rightarrow> string \<Rightarrow> string \<Rightarrow> pyval \<Rightarrow> moderation res" where
  "add_case_event st now case_id kind who detail metadata =
     require (case_at st case_id \<noteq> None) (IntegrityError ''FOREIGN KEY constraint failed'')
      (let by = clean_text who 128 in
       Inr (st\<lparr>mo_events := mo_events st @ [\<lparr>me_id = mo_event_sequence st + 1, me_case = case_id, me_type = clean_text kind 80,
              me_actor = (if by = [] then ''system'' else by), me_detail = clean_text detail 4000, me_created = now,
              me_metadata = json_text metadata\<rparr>],
            mo_event_sequence := mo_event_sequence st + 1\<rparr>))"

record case_view =
  cv_case :: case_row
  cv_metadata :: pyval
  cv_events :: "(case_event \<times> pyval) list"
  cv_bans :: "ban_row list"

definition case_of :: "moderation \<Rightarrow> string \<Rightarrow> case_view res" where
  "case_of st case_id =
     (case case_at st (clean_text case_id 64) of
        None \<Rightarrow> Inl (ValueError ''moderation case not found'')
      | Some c \<Rightarrow>
          bind_res (decode_json (mc_metadata c)) (\<lambda>metadata.
          bind_res (map_res (\<lambda>e. bind_res (decode_json (me_metadata e)) (\<lambda>m. Inr (e, m)))
            (take 500 (rev (sort_key me_id (filter (\<lambda>e. me_case e = mc_id c) (mo_events st)))))) (\<lambda>events.
          Inr \<lparr>cv_case = c, cv_metadata = metadata, cv_events = events,
               cv_bans = rev (sort_key mb_created (filter (\<lambda>b. mb_case b = mc_id c) (mo_bans st)))\<rparr>)))"

definition account_field :: "pyval \<Rightarrow> int option res" where
  "account_field v =
     (if v = PNone \<or> v = PStr [] then Inr None
      else bind_res (int_in v ''account id'' 1 None) (\<lambda>n. Inr (Some n)))"

definition stored_account :: "int option \<Rightarrow> 'a res \<Rightarrow> 'a res" where
  "stored_account a m = (case a of None \<Rightarrow> m | Some n \<Rightarrow> sqlite_int n m)"

definition operator_name :: "string \<Rightarrow> string" where
  "operator_name who = (let by = clean_text who 128 in if by = [] then ''operator'' else by)"

definition new_case :: "(string \<times> pyval) list \<Rightarrow> string \<Rightarrow> string \<Rightarrow> string \<Rightarrow> case_row res" where
  "new_case body who now uuid =
     (let severity = lower (clean (py_or (pget body ''severity'') (PStr ''medium'')) 16);
          summary = clean (pget body ''summary'') 500 in
      require (severity \<in> set CASE_SEVERITIES) (ValueError ''invalid case severity'')
     (require (summary \<noteq> []) (ValueError ''case summary is required'')
     (bind_res (account_field (pget_default body ''accountId'' (pget body ''account_id''))) (\<lambda>account.
      Inr \<lparr>mc_id = uuid, mc_account = account, mc_character = clean (pget body ''characterName'') 200,
           mc_funcom = clean (pget body ''funcomId'') 200, mc_platform = clean (pget body ''platformId'') 200,
           mc_category = clean (py_or (pget body ''category'') (PStr ''conduct'')) 80, mc_severity = severity,
           mc_status = ''open'', mc_summary = summary, mc_opened_by = operator_name who,
           mc_assigned = clean (pget body ''assignedTo'') 128, mc_created = now, mc_updated = now, mc_closed = None,
           mc_metadata = json_text (pget body ''metadata'')\<rparr>))))"

definition view_after :: "moderation res \<Rightarrow> moderation \<Rightarrow> string \<Rightarrow> case_view res \<times> moderation" where
  "view_after m st case_id = (case m of Inl e \<Rightarrow> (Inl e, st) | Inr st1 \<Rightarrow> (case_of st1 case_id, st1))"

definition create_case ::
  "moderation \<Rightarrow> (nat \<Rightarrow> rat) \<Rightarrow> string \<Rightarrow> (string \<times> pyval) list \<Rightarrow> string \<Rightarrow> case_view res \<times> moderation" where
  "create_case st clock uuid body who =
     view_after
      (bind_res (new_case body who (utcnow (clock 0)) uuid) (\<lambda>c.
       stored_account (mc_account c)
      (require (case_at st uuid = None) (IntegrityError ''UNIQUE constraint failed: cases.id'')
      (add_case_event (st\<lparr>mo_cases := mo_cases st @ [c]\<rparr>) (utcnow (clock 1)) uuid ''opened'' who (mc_summary c)
         (pget body ''metadata''))))) st uuid"

definition update_case_row :: "string \<Rightarrow> (case_row \<Rightarrow> case_row) \<Rightarrow> moderation \<Rightarrow> moderation" where
  "update_case_row i f st = st\<lparr>mo_cases := update_where (\<lambda>r. mc_id r = i) f (mo_cases st)\<rparr>"

definition closing_time :: "string \<Rightarrow> case_row \<Rightarrow> string \<Rightarrow> string option" where
  "closing_time status c now =
     (if status = ''closed'' \<and> mc_status c \<noteq> ''closed'' then Some now
      else if status \<noteq> ''closed'' then None else mc_closed c)"

text \<open>The row is looked up by the cleaned id, but updated and logged by the id as given.\<close>

definition update_case ::
  "moderation \<Rightarrow> (nat \<Rightarrow> rat) \<Rightarrow> string \<Rightarrow> (string \<times> pyval) list \<Rightarrow> string \<Rightarrow> case_view res \<times> moderation" where
  "update_case st clock case_id body who =
     view_after
      (let status0 = lower (clean (pget body ''status'') 20) in
       require (status0 = [] \<or> status0 \<in> set CASE_STATUSES) (ValueError ''invalid case status'')
      (case case_at st (clean_text case_id 64) of
         None \<Rightarrow> Inl (ValueError ''moderation case not found'')
       | Some c \<Rightarrow>
           let status = (if status0 = [] then mc_status c else status0);
               assigned = (case map_of body ''assignedTo'' of None \<Rightarrow> mc_assigned c | Some v \<Rightarrow> clean v 128);
               summary = (case map_of body ''summary'' of None \<Rightarrow> mc_summary c | Some v \<Rightarrow> clean v 500);
               closed = closing_time status c (utcnow (clock 0));
               note = clean (pget body ''note'') 4000;
               st1 = update_case_row case_id (\<lambda>r. r\<lparr>mc_status := status, mc_assigned := assigned, mc_summary := summary,
                 mc_updated := utcnow (clock 1), mc_closed := closed\<rparr>) st in
           add_case_event st1 (utcnow (clock 2)) case_id ''updated'' who
             (if note = [] then ''status='' @ status else note)
             (PDict [(''status'', PStr status), (''assignedTo'', PStr assigned)]))) st case_id"

definition add_note ::
  "moderation \<Rightarrow> (nat \<Rightarrow> rat) \<Rightarrow> string \<Rightarrow> pyval \<Rightarrow> string \<Rightarrow> pyval \<Rightarrow> case_view res \<times> moderation" where
  "add_note st clock case_id note0 who metadata =
     view_after
      (let note = clean note0 4000 in
       require (note \<noteq> []) (ValueError ''case note is required'')
      (require (case_at st case_id \<noteq> None) (ValueError ''moderation case not found'')
      (bind_res (add_case_event st (utcnow (clock 0)) case_id ''note'' who note metadata) (\<lambda>st1.
       Inr (update_case_row case_id (\<lambda>r. r\<lparr>mc_updated := utcnow (clock 1)\<rparr>) st1))))) st case_id"

subsection \<open>Bans\<close>

definition ban_current :: "string \<Rightarrow> ban_row \<Rightarrow> bool" where
  "ban_current now b = (mb_active b \<and> (case mb_expires b of None \<Rightarrow> True | Some t \<Rightarrow> t > now))"

definition ban_matches :: "int option \<Rightarrow> string \<Rightarrow> string \<Rightarrow> ban_row \<Rightarrow> bool" where
  "ban_matches account funcom platform b =
     ((account \<noteq> None \<and> mb_account b = account) \<or> (funcom \<noteq> [] \<and> mb_funcom b = funcom) \<or>
      (platform \<noteq> [] \<and> mb_platform b = platform))"

definition newest_ban :: "ban_row list \<Rightarrow> ban_row option" where
  "newest_ban rows =
     foldl (\<lambda>best b. case best of None \<Rightarrow> Some b | Some x \<Rightarrow> if mb_created b > mb_created x then Some b else best) None rows"

definition active_ban :: "moderation \<Rightarrow> int option \<Rightarrow> string \<Rightarrow> string \<Rightarrow> string \<Rightarrow> ban_row option" where
  "active_ban st account funcom platform now =
     newest_ban (filter (\<lambda>b. ban_current now b \<and> ban_matches account funcom platform b) (mo_bans st))"

definition no_duration :: "pyval \<Rightarrow> bool" where
  "no_duration v = (v \<in> {PNone, PStr [], PInt 0, PBool False, PFloat 0, PStr ''0''})"

definition ban_expiry :: "pyval \<Rightarrow> rat \<Rightarrow> string option res" where
  "ban_expiry duration now =
     (if no_duration duration then Inr None
      else bind_res (int_in duration ''duration hours'' 1 (Some (24 * 3650))) (\<lambda>hours.
        let t = now + of_int (hours * 3600) in
        require (datetime_range (py_round (t * 1000000) div 1000000)) (OverflowError ''date value out of range'')
          (Inr (Some (utcnow t)))))"

definition ban_of :: "case_view \<Rightarrow> (nat \<Rightarrow> rat) \<Rightarrow> string \<Rightarrow> string \<Rightarrow> (string \<times> pyval) list \<Rightarrow> string \<Rightarrow> ban_row res" where
  "ban_of c clock uuid case_id body who =
     (let row = cv_case c;
          funcom = clean (pget_default body ''funcomId'' (PStr (mc_funcom row))) 200;
          platform = clean (pget_default body ''platformId'' (PStr (mc_platform row))) 200 in
      bind_res (account_field (pget_default body ''accountId'' (case mc_account row of None \<Rightarrow> PNone | Some n \<Rightarrow> PInt n))) (\<lambda>account.
      require (account \<noteq> None \<or> funcom \<noteq> [] \<or> platform \<noteq> [])
        (ValueError ''ban requires an account, Funcom, or platform identity'')
     (bind_res (ban_expiry (pget body ''durationHours'') (clock 0)) (\<lambda>expires.
      Inr \<lparr>mb_id = uuid, mb_case = case_id, mb_account = account, mb_funcom = funcom, mb_platform = platform,
           mb_reason = clean (py_or (pget body ''reason'') (PStr (mc_summary row))) 1000, mb_starts = utcnow (clock 1),
           mb_expires = expires, mb_active = True, mb_created_by = operator_name who, mb_created = utcnow (clock 1),
           mb_revoked_by = None, mb_revoked_at = None, mb_revoke_reason = None\<rparr>))))"

definition ban_tx ::
  "moderation \<Rightarrow> (nat \<Rightarrow> rat) \<Rightarrow> string \<Rightarrow> string \<Rightarrow> (string \<times> pyval) list \<Rightarrow> string \<Rightarrow> (ban_row \<times> moderation) res" where
  "ban_tx st clock uuid case_id body who =
     bind_res (case_of st case_id) (\<lambda>c.
     bind_res (ban_of c clock uuid case_id body who) (\<lambda>b.
     stored_account (mb_account b)
    (require (case_at st case_id \<noteq> None) (IntegrityError ''FOREIGN KEY constraint failed'')
    (require (\<forall>x\<in>set (mo_bans st). mb_id x \<noteq> uuid) (IntegrityError ''UNIQUE constraint failed: bans.id'')
    (bind_res (add_case_event
        (update_case_row case_id (\<lambda>r. r\<lparr>mc_status := ''actioned'', mc_updated := mb_created b\<rparr>)
          (st\<lparr>mo_bans := mo_bans st @ [b]\<rparr>))
        (utcnow (clock 2)) case_id ''ban-created'' who (mb_reason b)
        (PDict [(''banId'', PStr uuid), (''expiresAt'', case mb_expires b of None \<Rightarrow> PNone | Some t \<Rightarrow> PStr t)])) (\<lambda>st1.
     Inr (b, st1)))))))"

definition ban ::
  "moderation \<Rightarrow> (nat \<Rightarrow> rat) \<Rightarrow> string \<Rightarrow> string \<Rightarrow> (string \<times> pyval) list \<Rightarrow> string \<Rightarrow>
     (ban_row option \<times> case_view) res \<times> moderation" where
  "ban st clock uuid case_id body who =
     (case ban_tx st clock uuid case_id body who of
        Inl e \<Rightarrow> (Inl e, st)
      | Inr (b, st1) \<Rightarrow>
          (bind_res (case_of st1 case_id) (\<lambda>c.
             Inr (active_ban st1 (mb_account b) (mb_funcom b) (mb_platform b) (utcnow (clock 3)), c)), st1))"

definition revoke_row :: "string \<Rightarrow> string \<Rightarrow> string \<Rightarrow> ban_row \<Rightarrow> ban_row" where
  "revoke_row who now reason b =
     b\<lparr>mb_active := False, mb_revoked_by := Some who, mb_revoked_at := Some now, mb_revoke_reason := Some reason\<rparr>"

text \<open>\<^verbatim>\<open>unban\<close>: the result tells whether the ban was inactive before.\<close>

definition unban :: "moderation \<Rightarrow> (nat \<Rightarrow> rat) \<Rightarrow> string \<Rightarrow> string \<Rightarrow> pyval \<Rightarrow> (bool \<times> moderation) res" where
  "unban st clock ban_id who reason0 =
     (let reason1 = clean reason0 1000; reason = (if reason1 = [] then ''revoked by operator'' else reason1) in
      case row_where (\<lambda>b. mb_id b = clean_text ban_id 64) (mo_bans st) of
        None \<Rightarrow> Inl (ValueError ''ban not found'')
      | Some b \<Rightarrow>
          if \<not> mb_active b then Inr (True, st)
          else
            bind_res (add_case_event
                (st\<lparr>mo_bans := update_where (\<lambda>x. mb_id x = ban_id)
                   (revoke_row (operator_name who) (utcnow (clock 0)) reason) (mo_bans st)\<rparr>)
                (utcnow (clock 1)) (mb_case b) ''ban-revoked'' who reason (PDict [(''banId'', PStr ban_id)])) (\<lambda>st1.
            Inr (False, update_case_row (mb_case b) (\<lambda>r. r\<lparr>mc_updated := utcnow (clock 2)\<rparr>) st1)))"

definition ban_expired :: "string \<Rightarrow> ban_row \<Rightarrow> bool" where
  "ban_expired now b = (mb_active b \<and> (case mb_expires b of None \<Rightarrow> False | Some t \<Rightarrow> t \<le> now))"

definition expire_ban :: "(nat \<Rightarrow> rat) \<Rightarrow> nat \<times> moderation \<Rightarrow> ban_row \<Rightarrow> (nat \<times> moderation) res" where
  "expire_ban clock s b =
     bind_res (add_case_event
        ((snd s)\<lparr>mo_bans := update_where (\<lambda>x. mb_id x = mb_id b)
           (revoke_row ''system'' (utcnow (clock 0)) ''expired'') (mo_bans (snd s))\<rparr>)
        (utcnow (clock (fst s))) (mb_case b) ''ban-expired'' ''system'' ''temporary ban expired''
        (PDict [(''banId'', PStr (mb_id b))])) (\<lambda>st1.
     Inr (fst s + 1, st1))"

definition expire_bans :: "moderation \<Rightarrow> (nat \<Rightarrow> rat) \<Rightarrow> (nat \<times> moderation) res" where
  "expire_bans st clock =
     (let rows = filter (ban_expired (utcnow (clock 0))) (mo_bans st) in
      bind_res (fold_res (expire_ban clock) (1, st) rows) (\<lambda>s. Inr (length rows, snd s)))"

subsection \<open>The allowlist\<close>

definition set_allowlist ::
  "moderation \<Rightarrow> rat \<Rightarrow> string \<Rightarrow> string \<Rightarrow> pyval \<Rightarrow> string \<Rightarrow> bool \<Rightarrow> string option \<Rightarrow> (bool \<times> moderation) res" where
  "set_allowlist st now type0 value0 label who remove expires =
     (let kind = lower (clean_text type0 16); v = clean_text value0 200;
          this = (\<lambda>r. ma_type r = kind \<and> ma_value r = v);
          old = row_where this (mo_allow st);
          end_at = (if expires = Some [] then None else expires) in
      require (kind \<in> set IDENTITY_TYPES \<and> v \<noteq> []) (ValueError ''allowlist identity type/value is invalid'')
      (if remove then Inr (old \<noteq> None, st\<lparr>mo_allow := filter (\<lambda>r. \<not> this r) (mo_allow st)\<rparr>)
       else Inr (True, st\<lparr>mo_allow := (case old of
           None \<Rightarrow> mo_allow st @ [\<lparr>ma_type = kind, ma_value = v, ma_label = clean label 200, ma_added_by = operator_name who,
             ma_created = utcnow now, ma_expires = end_at\<rparr>]
         | Some _ \<Rightarrow> update_where this (\<lambda>r. r\<lparr>ma_label := clean label 200, ma_added_by := operator_name who,
             ma_expires := end_at\<rparr>) (mo_allow st))\<rparr>)))"

definition set_allowlist_enforcement :: "moderation \<Rightarrow> bool \<Rightarrow> moderation" where
  "set_allowlist_enforcement st enabled =
     st\<lparr>mo_settings := pset (mo_settings st) ''allowlist_enforcement'' (if enabled then ''true'' else ''false'')\<rparr>"

definition identities :: "int option \<Rightarrow> string \<Rightarrow> string \<Rightarrow> (string \<times> string) list" where
  "identities account funcom platform =
     (case account of None \<Rightarrow> [] | Some n \<Rightarrow> [(''account'', show_int n)])
     @ (if funcom = [] then [] else [(''funcom'', funcom)]) @ (if platform = [] then [] else [(''platform'', platform)])"

definition allows :: "string \<Rightarrow> allow_row list \<Rightarrow> string \<times> string \<Rightarrow> bool" where
  "allows now rows p =
     list_ex (\<lambda>r. (ma_type r, ma_value r) = p \<and> (case ma_expires r of None \<Rightarrow> True | Some t \<Rightarrow> t > now)) rows"

definition allowlisted :: "moderation \<Rightarrow> int option \<Rightarrow> string \<Rightarrow> string \<Rightarrow> string \<Rightarrow> bool" where
  "allowlisted st account funcom platform now = list_ex (allows now (mo_allow st)) (identities account funcom platform)"

definition allowlist_enforcement_enabled :: "moderation \<Rightarrow> bool" where
  "allowlist_enforcement_enabled st =
     (case map_of (mo_settings st) ''allowlist_enforcement'' of None \<Rightarrow> False | Some v \<Rightarrow> lower v = ''true'')"

subsection \<open>Presence\<close>

text \<open>The account of a player row, \<^verbatim>\<open>int(player["account_id"])\<close>.\<close>

definition player_account :: "(string \<times> pyval) list \<Rightarrow> int res" where
  "player_account p = bind_res (pindex p ''account_id'') py_int"

definition open_session :: "int \<Rightarrow> session_row \<Rightarrow> bool" where
  "open_session a r = (ms_ended r = None \<and> ms_account r = a)"

definition end_absent :: "int set \<Rightarrow> string \<Rightarrow> session_row \<Rightarrow> session_row" where
  "end_absent online at_time r =
     (if ms_ended r = None \<and> ms_account r \<notin> online then r\<lparr>ms_ended := Some at_time, ms_last_seen := at_time\<rparr> else r)"

definition player_map :: "(string \<times> pyval) list \<Rightarrow> string" where
  "player_map p =
     clean (py_or (pget p ''map'') (py_or (pget p ''actor_map'') (py_or (pget p ''farm_map'') (PStr ''unknown'')))) 120"

definition seen_row :: "(string \<times> pyval) list \<Rightarrow> string \<Rightarrow> session_row \<Rightarrow> session_row" where
  "seen_row p at_time r =
     r\<lparr>ms_character := clean (pget p ''character_name'') 200, ms_funcom := clean (pget p ''funcom_id'') 200,
       ms_platform := clean (pget p ''platform_id'') 200, ms_last_seen := at_time, ms_map := player_map p,
       ms_partition := clean (pget p ''partition_id'') 200, ms_samples := ms_samples r + 1\<rparr>"

definition new_session :: "string \<Rightarrow> int \<Rightarrow> string \<Rightarrow> session_row" where
  "new_session uuid account at_time =
     \<lparr>ms_id = uuid, ms_account = account, ms_character = [], ms_funcom = [], ms_platform = [], ms_started = at_time,
      ms_last_seen = at_time, ms_ended = None, ms_map = [], ms_partition = [], ms_samples = 0\<rparr>"

definition seen_session :: "session_row list \<Rightarrow> string \<Rightarrow> string \<Rightarrow> int \<Rightarrow> (string \<times> pyval) list \<Rightarrow> session_row list res" where
  "seen_session rows uuid at_time account p =
     (case row_where (open_session account) rows of
        Some r \<Rightarrow> Inr (update_where (\<lambda>x. ms_id x = ms_id r) (seen_row p at_time) rows)
      | None \<Rightarrow>
          sqlite_int account
         (require (\<forall>x\<in>set rows. ms_id x \<noteq> uuid) (IntegrityError ''UNIQUE constraint failed: presence_sessions.id'')
           (Inr (rows @ [seen_row p at_time (new_session uuid account at_time)]))))"

text \<open>
  A coordinate that is missing, not a number or not finite skips the sample (an infinity or a
  NaN is \<open>Unmodelled\<close> as a value); an integer too large for a float raises.
\<close>

definition coordinate_of :: "pyval \<Rightarrow> rat option res" where
  "coordinate_of v =
     (case py_float v of
        Inr x \<Rightarrow> Inr (Some x)
      | Inl (OverflowError m) \<Rightarrow> Inl (OverflowError m)
      | Inl _ \<Rightarrow> Inr None)"

definition add_sample :: "cell_row list \<Rightarrow> string \<Rightarrow> int \<Rightarrow> string \<Rightarrow> int \<Rightarrow> int \<Rightarrow> string \<Rightarrow> cell_row list" where
  "add_sample cells day hour map_name x y at_time =
     (let this = (\<lambda>r. mh_day r = day \<and> mh_hour r = hour \<and> mh_map r = map_name \<and> mh_x r = x \<and> mh_y r = y) in
      case row_where this cells of
        None \<Rightarrow> cells @ [\<lparr>mh_day = day, mh_hour = hour, mh_map = map_name, mh_x = x, mh_y = y, mh_samples = 1,
          mh_first = at_time, mh_last = at_time\<rparr>]
      | Some _ \<Rightarrow> update_where this (\<lambda>r. r\<lparr>mh_samples := mh_samples r + 1, mh_last := at_time\<rparr>) cells)"

definition sample_cells ::
  "cell_row list \<Rightarrow> int \<Rightarrow> string \<Rightarrow> int \<Rightarrow> string \<Rightarrow> (string \<times> pyval) list \<Rightarrow> cell_row list res" where
  "sample_cells cells cell_size day hour at_time p =
     bind_res (coordinate_of (pget p ''x'')) (\<lambda>x0.
     case x0 of None \<Rightarrow> Inr cells | Some x \<Rightarrow>
     bind_res (coordinate_of (pget p ''y'')) (\<lambda>y0.
     case y0 of None \<Rightarrow> Inr cells | Some y \<Rightarrow>
       let cx = \<lfloor>x / of_int cell_size\<rfloor>; cy = \<lfloor>y / of_int cell_size\<rfloor> in
       sqlite_int cx (sqlite_int cy (Inr (add_sample cells day hour (player_map p) cx cy at_time)))))"

definition see_player ::
  "(nat \<Rightarrow> string) \<Rightarrow> int \<Rightarrow> string \<Rightarrow> int \<Rightarrow> string \<Rightarrow> moderation \<Rightarrow> nat \<times> (string \<times> pyval) list \<Rightarrow> moderation res" where
  "see_player uuid cell_size day hour at_time st q =
     bind_res (player_account (snd q)) (\<lambda>account.
     bind_res (seen_session (mo_sessions st) (uuid (fst q)) at_time account (snd q)) (\<lambda>rows.
     bind_res (sample_cells (mo_cells st) cell_size day hour at_time (snd q)) (\<lambda>cells.
     Inr (st\<lparr>mo_sessions := rows, mo_cells := cells\<rparr>))))"

definition record_presence ::
  "moderation \<Rightarrow> (nat \<Rightarrow> string) \<Rightarrow> (string \<times> pyval) list list \<Rightarrow> pyval \<Rightarrow> string \<Rightarrow> moderation res" where
  "record_presence st uuid players cell_size0 at_time =
     (case from_iso (replace_z at_time) of
        None \<Rightarrow> Inl (ValueError (''Invalid isoformat string: '' @ repr_str (replace_z at_time)))
      | Some (t, zone) \<Rightarrow>
          let day = iso_date (day_of \<lfloor>t\<rfloor>); hour = \<lfloor>t\<rfloor> mod 86400 div 3600 in
          bind_res (int_in cell_size0 ''heatmap cell size'' 1000 (Some 1000000)) (\<lambda>cell_size.
          bind_res (map_res player_account players) (\<lambda>online.
          fold_res (see_player uuid cell_size day hour at_time)
            (st\<lparr>mo_sessions := map (end_absent (set online) at_time) (mo_sessions st)\<rparr>) (List.enumerate 0 players))))"

end
