(* ===== verification/ModerationProps.thy ===== *)
theory ModerationProps
  imports Moderation HashChain
begin

section \<open>Moderation: presence follows the players online; a padded ban id\<close>

subsection \<open>Open sessions\<close>

definition open_accounts :: "session_row list \<Rightarrow> int list" where
  "open_accounts rows = map ms_account (filter (\<lambda>r. ms_ended r = None) rows)"

lemma open_accounts_simps [simp]:
  "open_accounts [] = []"
  "open_accounts (r # rows) = (if ms_ended r = None then [ms_account r] else []) @ open_accounts rows"
  "open_accounts (rows @ rows') = open_accounts rows @ open_accounts rows'"
  by (simp_all add: open_accounts_def)

lemma open_session_iff: "(\<exists>r\<in>set rows. open_session a r) \<longleftrightarrow> a \<in> set (open_accounts rows)"
  by (induction rows) (auto simp: open_session_def)

lemma seen_row_keys [simp]:
  "ms_id (seen_row p t r) = ms_id r" "ms_account (seen_row p t r) = ms_account r" "ms_ended (seen_row p t r) = ms_ended r"
  by (simp_all add: seen_row_def)

lemma open_accounts_seen: "open_accounts (update_where q (seen_row p t) rows) = open_accounts rows"
  by (induction rows) (auto simp: table_simps)

lemma open_accounts_end: "open_accounts (map (end_absent online t) rows) = filter (\<lambda>a. a \<in> online) (open_accounts rows)"
  by (induction rows) (auto simp: end_absent_def)

lemma end_absent_id [simp]: "ms_id (end_absent online t r) = ms_id r"
  by (simp add: end_absent_def)

text \<open>No two sessions share an id, and an account has at most one open session.\<close>

definition presence_ok :: "session_row list \<Rightarrow> bool" where
  "presence_ok rows \<longleftrightarrow> distinct (map ms_id rows) \<and> distinct (open_accounts rows)"

lemma seen_session_effect:
  assumes "seen_session rows i t a p = Inr rows'" and "presence_ok rows"
  shows "presence_ok rows' \<and> set (open_accounts rows') = insert a (set (open_accounts rows))"
proof (cases "row_where (open_session a) rows")
  case None
  then have "a \<notin> set (open_accounts rows)" using open_session_iff [of rows a] by (simp add: table_simps)
  moreover have "rows' = rows @ [seen_row p t (new_session i a t)]" "\<forall>x\<in>set rows. ms_id x \<noteq> i"
    using assms(1) None by (auto simp: seen_session_def)
  ultimately show ?thesis using assms(2) by (auto simp: presence_ok_def new_session_def)
next
  case (Some r)
  then have "a \<in> set (open_accounts rows)" using row_where_Some open_session_iff by metis
  moreover have "rows' = update_where (\<lambda>x. ms_id x = ms_id r) (seen_row p t) rows"
    using assms(1) Some by (simp add: seen_session_def)
  ultimately show ?thesis using assms(2) by (auto simp: presence_ok_def open_accounts_seen map_update_where_same)
qed

lemma see_players_effect:
  assumes "fold_res (see_player uuid cell day hour t) st (List.enumerate n players) = Inr st'"
    and "map_res player_account players = Inr online" and "presence_ok (mo_sessions st)"
  shows "presence_ok (mo_sessions st') \<and> set (open_accounts (mo_sessions st')) = set online \<union> set (open_accounts (mo_sessions st))"
  using assms
proof (induction players arbitrary: n st online)
  case Nil
  then show ?case by simp
next
  case (Cons p players)
  obtain a as where a: "player_account p = Inr a" and as: "map_res player_account players = Inr as" and o: "online = a # as"
    using Cons.prems(2) by auto
  obtain st1 where one: "see_player uuid cell day hour t st (n, p) = Inr st1"
    and rest: "fold_res (see_player uuid cell day hour t) st1 (List.enumerate (Suc n) players) = Inr st'"
    using Cons.prems(1) by auto
  obtain rows where rows: "seen_session (mo_sessions st) (uuid n) t a p = Inr rows" "mo_sessions st1 = rows"
    using one a by (auto simp: see_player_def)
  note e = seen_session_effect [OF rows(1) Cons.prems(3)]
  have "presence_ok (mo_sessions st1)" using e rows(2) by simp
  from Cons.IH [OF rest as this] show ?case using e rows(2) o by auto
qed

lemma record_presence_effect:
  assumes "record_presence st uuid players cell t = Inr st'" and "presence_ok (mo_sessions st)"
  obtains online where "map_res player_account players = Inr online" "presence_ok (mo_sessions st')"
    "set (open_accounts (mo_sessions st')) = set online"
proof -
  obtain online cs day hour where o: "map_res player_account players = Inr online" and
    f: "fold_res (see_player uuid cs day hour t)
      (st\<lparr>mo_sessions := map (end_absent (set online) t) (mo_sessions st)\<rparr>) (List.enumerate 0 players) = Inr st'"
    using assms(1) by (auto simp: record_presence_def Let_def res_simps)
  have "presence_ok (map (end_absent (set online) t) (mo_sessions st))"
    using assms(2) by (simp add: presence_ok_def open_accounts_end o_def)
  then have "presence_ok (mo_sessions st') \<and>
      set (open_accounts (mo_sessions st')) = set online \<union> set (open_accounts (map (end_absent (set online) t) (mo_sessions st)))"
    using see_players_effect [OF f o] by simp
  then show thesis using that o by (auto simp: open_accounts_end)
qed

inductive presence_step :: "moderation \<Rightarrow> moderation \<Rightarrow> bool" where
  presence_recorded: "record_presence st uuid players cell t = Inr st' \<Longrightarrow> presence_step st st'"

inductive_cases presence_stepE: "presence_step st st'"

definition no_presence :: "moderation \<Rightarrow> bool" where
  "no_presence st = (mo_sessions st = [])"

definition presence_inv :: "moderation \<Rightarrow> bool" where
  "presence_inv st = presence_ok (mo_sessions st)"

interpretation presence_runs: invariant_system no_presence presence_step presence_inv
proof
  show "presence_inv st" if "no_presence st" for st
    using that by (simp add: no_presence_def presence_inv_def presence_ok_def)
next
  show "presence_inv st'" if "presence_inv st" "presence_step st st'" for st st'
    using that by (auto elim!: presence_stepE elim: record_presence_effect simp: presence_inv_def)
qed

subsection \<open>Small stores\<close>

definition empty_moderation :: moderation where
  "empty_moderation = \<lparr>mo_cases = [], mo_events = [], mo_event_sequence = 0, mo_bans = [], mo_allow = [], mo_settings = [],
     mo_sessions = [], mo_cells = []\<rparr>"

definition demo_players :: "(string \<times> pyval) list list" where
  "demo_players = [[(''account_id'', PInt 7)], [(''account_id'', PInt 9)]]"

definition demo_ids :: "nat \<Rightarrow> string" where
  "demo_ids k = nat_digits k"

lemma demo_presence: "\<exists>st'. record_presence empty_moderation demo_ids demo_players (PInt 25000) ''2026-01-01T10:30:00Z'' = Inr st'"
proof -
  have i: "from_iso (replace_z ''2026-01-01T10:30:00Z'') = Some (1767263400, Some 0)" by code_simp
  have c: "coordinate_of PNone = Inr None" by (simp add: coordinate_of_def)
  have a: "player_account [(''account_id'', PInt n)] = Inr n" for n by (simp add: player_account_def pindex_def)
  show ?thesis
    by (simp add: record_presence_def i demo_players_def int_in_def a Let_def see_player_def seen_session_def table_simps
        empty_moderation_def sqlite_int_def sample_cells_def pget_def c demo_ids_def open_session_def new_session_def seen_row_def
        del: nat_digits.simps)
qed

definition demo_case_row :: case_row where
  "demo_case_row = \<lparr>mc_id = ''c1'', mc_account = Some 7, mc_character = [], mc_funcom = [], mc_platform = [],
     mc_category = ''conduct'', mc_severity = ''high'', mc_status = ''actioned'', mc_summary = ''x'', mc_opened_by = ''op'',
     mc_assigned = [], mc_created = ''t'', mc_updated = ''t'', mc_closed = None, mc_metadata = ''{}''\<rparr>"

definition demo_ban :: ban_row where
  "demo_ban = \<lparr>mb_id = ''b1'', mb_case = ''c1'', mb_account = Some 7, mb_funcom = [], mb_platform = [], mb_reason = ''x'',
     mb_starts = ''t'', mb_expires = None, mb_active = True, mb_created_by = ''op'', mb_created = ''t'', mb_revoked_by = None,
     mb_revoked_at = None, mb_revoke_reason = None\<rparr>"

definition demo_banned :: moderation where
  "demo_banned = empty_moderation\<lparr>mo_cases := [demo_case_row], mo_bans := [demo_ban]\<rparr>"

subsection \<open>Properties\<close>

text \<open>
  C20. After every recording, in any history of recordings, the accounts with an open session
  are exactly the accounts of the players reported online, each with one open session: who is
  missing from the report has been ended, who is new has been started, nobody is counted twice.
\<close>

theorem presence_tracks_online:
  assumes "reach no_presence presence_step st" and "record_presence st uuid players cell t = Inr st'"
  shows "\<exists>online. map_res player_account players = Inr online \<and>
    set (open_accounts (mo_sessions st')) = set online \<and> distinct (open_accounts (mo_sessions st')) \<and>
    distinct (map ms_id (mo_sessions st'))"
proof -
  have "presence_ok (mo_sessions st)" using presence_runs.reach_inv [OF assms(1)] by (simp add: presence_inv_def)
  with assms(2) show ?thesis by (rule record_presence_effect) (simp add: presence_ok_def)
qed

lemma presence_tracks_online_witness:
  "\<exists>st'. record_presence empty_moderation demo_ids demo_players (PInt 25000) ''2026-01-01T10:30:00Z'' = Inr st' \<and>
     set (open_accounts (mo_sessions st')) = {7, 9}"
proof -
  obtain st' where s: "record_presence empty_moderation demo_ids demo_players (PInt 25000) ''2026-01-01T10:30:00Z'' = Inr st'"
    using demo_presence by blast
  have "reach no_presence presence_step empty_moderation"
    by (rule reach.reach_init) (simp add: no_presence_def empty_moderation_def)
  from presence_tracks_online [OF this s] have "set (open_accounts (mo_sessions st')) = {7, 9}"
    by (auto simp: demo_players_def player_account_def pindex_def)
  then show ?thesis using s by blast
qed

text \<open>
  Revoking a ban looks the ban up by the cleaned id but deactivates it by the id as given:
  for an id with surrounding blanks the call succeeds, reports a ban that was active, logs that
  it was revoked, and leaves every ban as it was, so the player stays banned.
\<close>

theorem unban_padded_id_keeps_ban:
  assumes "row_where (\<lambda>b. mb_id b = clean_text ban_id 64) (mo_bans st) = Some b" and "mb_active b"
    and "\<forall>x\<in>set (mo_bans st). mb_id x \<noteq> ban_id" and "case_at st (mb_case b) \<noteq> None"
  shows "\<exists>st' e. unban st clock ban_id who reason = Inr (False, st') \<and> mo_bans st' = mo_bans st \<and>
    mo_events st' = mo_events st @ [e] \<and> me_type e = ''ban-revoked'' \<and>
    active_ban st' account funcom platform now = active_ban st account funcom platform now"
proof -
  have same: "update_where (\<lambda>x. mb_id x = ban_id) f (mo_bans st) = mo_bans st" for f
    using assms(3) by (simp add: update_where_def map_idI)
  have kind: "clean_text ''ban-revoked'' 80 = ''ban-revoked''" by code_simp
  show ?thesis
    using assms(1,2,4) kind
    by (simp add: unban_def Let_def same add_case_event_def case_at_def update_case_row_def active_ban_def)
qed

lemma unban_padded_id_keeps_ban_witness:
  "\<exists>st'. unban demo_banned (\<lambda>_. 0) '' b1'' ''op'' (PStr ''appeal'') = Inr (False, st') \<and>
     active_ban st' (Some 7) [] [] ''u'' = Some demo_ban"
proof -
  have c: "clean_text '' b1'' 64 = ''b1''" by code_simp
  have "row_where (\<lambda>b. mb_id b = clean_text '' b1'' 64) (mo_bans demo_banned) = Some demo_ban"
    by (simp add: c demo_banned_def demo_ban_def table_simps)
  moreover have "case_at demo_banned (mb_case demo_ban) \<noteq> None" "\<forall>x\<in>set (mo_bans demo_banned). mb_id x \<noteq> '' b1''"
    by (simp_all add: case_at_def demo_banned_def demo_ban_def demo_case_row_def table_simps)
  moreover have "active_ban demo_banned (Some 7) [] [] ''u'' = Some demo_ban"
    by (simp add: active_ban_def newest_ban_def demo_banned_def demo_ban_def ban_current_def ban_matches_def)
  ultimately show ?thesis
    using unban_padded_id_keeps_ban [of "'' b1''" demo_banned demo_ban "\<lambda>_. 0" "''op''" "PStr ''appeal''" "Some 7" "[]" "[]" "''u''"]
    by (auto simp: demo_ban_def)
qed

end
