(* ===== verification/GameplayPresets.thy ===== *)
theory GameplayPresets
  imports EnvFile RewardsConfig
begin

section \<open>Gameplay presets: planning, applying and rolling back\<close>

text \<open>
  \<^verbatim>\<open>admin/gameplay_presets.py\<close>.  The files the code touches are maps from names to contents: the
  configuration directory by file name, the backup directory of the presets by the path below
  it.  Contents are decoded text; \<^verbatim>\<open>read_text\<close> translates the line ends.  The time stamp of a
  call is an argument; file modes are not modelled.
\<close>

definition SECTIONS :: "(string \<times> string) list" where
  "SECTIONS =
    [(''Sandworm'', ''/Script/DuneSandbox.SandwormSettings''), (''Storm'', ''/Script/DuneSandbox.SandStormConfig''),
     (''Building'', ''/Script/DuneSandbox.BuildingSettings''), (''Harvest'', ''/Script/DuneSandbox.SpiceHarvestingSystem''),
     (''FlourSand'', ''/Script/DuneSandbox.FlourSandSubsystem''), (''TimeOfDay'', ''/Script/DuneSandbox.TimeOfDaySettings''),
     (''GameMode'', ''/Script/DuneSandbox.DuneSandboxGameModeBase''), (''Hydration'', ''/Script/DuneSandbox.HydrationSubsystem'')]"

datatype spec = IntSpec pyval pyval | FloatSpec pyval pyval | BoolSpec

definition SPECS :: "(string \<times> spec) list" where
  "SPECS =
    [(''ThreatScale'', FloatSpec (PInt 0) (PInt 5)), (''DefaultMaxThreatScore'', IntSpec (PInt 100) (PInt 100000)),
     (''ThreatDecreaseCooldownInSeconds'', FloatSpec (PInt 0) (PInt 300)),
     (''WalkingThreatPerSec'', FloatSpec (PInt 0) (PInt 10000)), (''RunningThreatPerSec'', FloatSpec (PInt 0) (PInt 10000)),
     (''CrouchingThreatPerSec'', FloatSpec (PInt 0) (PInt 10000)), (''SprintingThreatPerSec'', FloatSpec (PInt 0) (PInt 10000)),
     (''HyperSprintingThreatPerSec'', FloatSpec (PInt 0) (PInt 10000)), (''DashingThreatPerSec'', FloatSpec (PInt 0) (PInt 10000)),
     (''SuspendingThreatPerSec'', FloatSpec (PInt 0) (PInt 10000)), (''ShieldingThreatPerSec'', FloatSpec (PInt 0) (PInt 10000)),
     (''VehicleShieldingThreatPerSec'', FloatSpec (PInt 0) (PInt 10000)), (''DrumsandThreatPerSec'', FloatSpec (PInt 0) (PInt 10000)),
     (''m_MinDistanceBetweenSandworms'', FloatSpec (PInt 1000) (PInt 1000000)), (''m_bGiantWormSystemEnabled'', BoolSpec),
     (''m_GiantWormMinimumPlayersOnSpiceField'', IntSpec (PInt 1) (PInt 100)),
     (''m_GiantWormMinimumSpiceAmountHarvested'', FloatSpec (PInt 0) (PInt 10000000)),
     (''m_GiantWormSpawningCooldown'', FloatSpec (PInt 0) (PInt 604800)),
     (''m_GiantWormSpawningUpdateFrequency'', FloatSpec (PInt 1) (PInt 3600)),
     (''m_bCoriolisAutoSpawnEnabled'', BoolSpec), (''m_bCoriolisDoesDamage'', BoolSpec),
     (''m_CoriolisHeavyDamage'', FloatSpec (PInt 0) (PInt 1000000)), (''m_CoriolisLightDamage'', FloatSpec (PInt 0) (PInt 1000000)),
     (''m_SandStormDebrisSpeed'', FloatSpec (PInt 0) (PInt 100000)), (''m_bMitigateAllSandstormDamage'', BoolSpec),
     (''m_NodeValueToSpiceResourceRatio'', FloatSpec (PFloat (1 / 100)) (PInt 1000)),
     (''m_FlourSandFieldsActivePercentage'', FloatSpec (PInt 0) (PInt 1)),
     (''m_DefaultRepairCostMultiplier'', FloatSpec (PInt 0) (PInt 100)), (''m_DayLengthMinutes'', FloatSpec (PInt 1) (PInt 1440)),
     (''m_DropAmountOnDefeat'', FloatSpec (PInt 0) (PInt 1)), (''m_bHydrationEnabled'', BoolSpec)]"

definition PRESET_TARGETS :: "string list" where
  "PRESET_TARGETS = [''UserGame.ini'', ''UserGame.deep-desert-coriolis.ini'', ''UserGame.deep-desert-pvp.ini'']"

subsection \<open>The catalog\<close>

text \<open>A bound as the binary64 number or the integer it is compared as.\<close>

definition bound_of :: "pyval \<Rightarrow> rat" where
  "bound_of v = (case v of PInt i \<Rightarrow> of_int i | PFloat x \<Rightarrow> fl x | _ \<Rightarrow> 0)"

definition in_bounds :: "string \<Rightarrow> pyval \<Rightarrow> pyval \<Rightarrow> bool \<Rightarrow> string \<Rightarrow> string res" where
  "in_bounds key lowest highest ok shown =
     require ok (ValueError (key @ '' must be from '' @ py_str lowest @ '' to '' @ py_str highest)) (Inr shown)"

text \<open>
  \<^verbatim>\<open>float(text)\<close> is a NaN, which compares with nothing and so passes the range check; an
  infinity, which does not; or a number, read to the nearest binary64.
\<close>

definition validate_float :: "string \<Rightarrow> pyval \<Rightarrow> pyval \<Rightarrow> string \<Rightarrow> string res" where
  "validate_float key lowest highest t =
     (let body = lower (snd (split_sign t)) in
      if body = ''nan'' then in_bounds key lowest highest True ''nan''
      else if body \<in> {''inf'', ''infinity''} then in_bounds key lowest highest False []
      else (case float_of_str t of
          Inl (ValueError _) \<Rightarrow> Inl (ValueError (key @ '' must be float''))
        | Inl e \<Rightarrow> Inl e
        | Inr exact \<Rightarrow>
            let number = fl exact in
            in_bounds key lowest highest (\<not> (number < bound_of lowest \<or> number > bound_of highest))
              (if number = 0 \<and> fst (split_sign t) < 0 then ''-0.0'' else float_repr number)))"

definition validate_value :: "string \<Rightarrow> pyval \<Rightarrow> string res" where
  "validate_value key v =
     (let t = strip (py_str v) in
      case map_of SPECS key of
        None \<Rightarrow> Inl (ValueError (''preset key is not allowlisted: '' @ key))
      | Some BoolSpec \<Rightarrow>
          require (lower t \<in> {''true'', ''false''}) (ValueError (key @ '' must be true or false''))
            (Inr (if lower t = ''true'' then ''True'' else ''False''))
      | Some (IntSpec lowest highest) \<Rightarrow>
          (case int_of_str t of
             Inl (ValueError _) \<Rightarrow> Inl (ValueError (key @ '' must be int''))
           | Inl e \<Rightarrow> Inl e
           | Inr number \<Rightarrow>
               in_bounds key lowest highest (\<not> (of_int number < bound_of lowest \<or> of_int number > bound_of highest)) (show_int number))
      | Some (FloatSpec lowest highest) \<Rightarrow> validate_float key lowest highest t)"

record preset_setting =
  ps_group :: string
  ps_section :: string
  ps_key :: string
  ps_value :: string

record preset =
  gp_id :: string
  gp_label :: string
  gp_description :: string
  gp_category :: string
  gp_settings :: "preset_setting list"
  gp_source :: pyval

text \<open>\<^verbatim>\<open>[a-z0-9][a-z0-9-]{1,63}\<close>\<close>

definition preset_id_ok :: "string \<Rightarrow> bool" where
  "preset_id_ok i =
     (let plain = (\<lambda>c. is_digit c \<or> (97 \<le> code c \<and> code c \<le> 122)) in
      case i of [] \<Rightarrow> False | c # s \<Rightarrow> plain c \<and> list_all (\<lambda>d. plain d \<or> d = CHR ''-'') s \<and> 1 \<le> length s \<and> length s \<le> 63)"

definition fields_of :: "pyval \<Rightarrow> (string \<times> pyval) list res" where
  "fields_of v = (case v of PDict d \<Rightarrow> Inr d | _ \<Rightarrow> Inl (AttributeError ''get''))"

definition preset_setting_of :: "pyval \<Rightarrow> preset_setting res" where
  "preset_setting_of v =
     bind_res (fields_of v) (\<lambda>item.
     let group = str_or_empty (pget item ''group'') in
     case map_of SECTIONS group of
       None \<Rightarrow> Inl (ValueError (''unknown preset group: '' @ group))
     | Some name \<Rightarrow>
         let key = strip (str_or_empty (pget item ''key'')) in
         bind_res (validate_value key (pget item ''value'')) (\<lambda>value.
         Inr \<lparr>ps_group = group, ps_section = name, ps_key = key, ps_value = value\<rparr>))"

definition preset_of :: "preset list \<Rightarrow> pyval \<Rightarrow> preset list res" where
  "preset_of presets v =
     bind_res (fields_of v) (\<lambda>raw.
     let preset_id = strip (str_or_empty (pget raw ''id'')) in
     require (preset_id_ok preset_id \<and> preset_id \<notin> set (map gp_id presets))
       (ValueError (''invalid or duplicate preset id: '' @ preset_id))
    (bind_res (py_iter (py_or (pget raw ''settings'') (PList []))) (\<lambda>items.
     bind_res (map_res preset_setting_of items) (\<lambda>settings.
     require (settings \<noteq> []) (ValueError (''preset '' @ preset_id @ '' has no settings''))
    (Inr (presets @ [\<lparr>gp_id = preset_id, gp_label = take 200 (py_str (py_or (pget raw ''label'') (PStr preset_id))),
       gp_description = take 1000 (str_or_empty (pget raw ''description'')),
       gp_category = take 80 (py_str (py_or (pget raw ''category'') (PStr ''custom''))), gp_settings = settings,
       gp_source = py_or (pget raw ''source'') (PDict [])\<rparr>]))))))"

record catalog =
  ct_presets :: "preset list"
  ct_source :: pyval

definition load_catalog :: "string \<Rightarrow> catalog res" where
  "load_catalog contents =
     bind_res (json_loads contents) (\<lambda>v.
     case v of
       PDict value \<Rightarrow>
         (case pget value ''presets'' of
            PList rows \<Rightarrow>
              require (pget value ''schemaVersion'' \<in> {PInt 1, PBool True, PFloat 1})
                (ValueError ''gameplay preset catalog must be schemaVersion 1'')
             (bind_res (fold_res preset_of [] rows) (\<lambda>presets.
              Inr \<lparr>ct_presets = presets, ct_source = py_or (pget value ''source'') (PDict [])\<rparr>))
          | _ \<Rightarrow> Inl (ValueError ''gameplay preset catalog must be schemaVersion 1''))
     | _ \<Rightarrow> Inl (ValueError ''gameplay preset catalog must be schemaVersion 1''))"

subsection \<open>The text of a UserGame file\<close>

definition header_name :: "string \<Rightarrow> string option" where
  "header_name line =
     (let stripped = strip line in
      if starts_with stripped ''['' \<and> ends_with stripped '']'' then Some (butlast (tl stripped)) else None)"

text \<open>The key of a line that assigns one: not a comment, not an array line, with an \<^verbatim>\<open>=\<close>.\<close>

definition ini_key :: "string \<Rightarrow> string option" where
  "ini_key line =
     (let stripped = strip line in
      if \<not> list_ex (starts_with stripped) ['';'', ''#'', ''+'', ''-''] \<and> CHR ''='' \<in> set line
      then Some (strip (before (CHR ''='') line)) else None)"

definition ini_value :: "string \<Rightarrow> string" where
  "ini_value line = strip (drop (length (before (CHR ''='') line) + 1) line)"

fun values_from :: "string option \<Rightarrow> (string \<times> string \<rightharpoonup> string) \<Rightarrow> string list \<Rightarrow> (string \<times> string \<rightharpoonup> string)" where
  "values_from current result [] = result"
| "values_from current result (line # rest) =
     (case header_name line of
        Some name \<Rightarrow> values_from (Some name) result rest
      | None \<Rightarrow>
          (case (current, ini_key line) of
             (Some name, Some key) \<Rightarrow>
               values_from current (if name \<noteq> [] then result((name, key) \<mapsto> ini_value line) else result) rest
           | _ \<Rightarrow> values_from current result rest))"

definition section_values :: "string \<Rightarrow> (string \<times> string \<rightharpoonup> string)" where
  "section_values t = values_from None Map.empty (splitlines t)"

type_synonym wanted = "(string \<times> (string \<times> string) list) list"

definition by_section_step :: "wanted \<Rightarrow> preset_setting \<Rightarrow> wanted" where
  "by_section_step w s =
     pset w (ps_section s) (pset (case map_of w (ps_section s) of None \<Rightarrow> [] | Some items \<Rightarrow> items) (ps_key s) (ps_value s))"

definition by_section :: "preset_setting list \<Rightarrow> wanted" where
  "by_section settings = foldl by_section_step [] settings"

definition items_of :: "wanted \<Rightarrow> string option \<Rightarrow> (string \<times> string) list" where
  "items_of w current = (case current of None \<Rightarrow> [] | Some name \<Rightarrow> (case map_of w name of None \<Rightarrow> [] | Some items \<Rightarrow> items))"

text \<open>The keys of the section being left that have not been rendered yet.\<close>

definition missing_keys :: "wanted \<Rightarrow> string option \<Rightarrow> (string option \<times> string) list \<Rightarrow> (string \<times> string) list" where
  "missing_keys w current seen = filter (\<lambda>p. (current, fst p) \<notin> set seen) (items_of w current)"

fun merge_lines ::
  "wanted \<Rightarrow> string option \<Rightarrow> (string option \<times> string) list \<Rightarrow> string list \<Rightarrow> string list \<times> (string option \<times> string) list" where
  "merge_lines w current seen [] =
     (let m = missing_keys w current seen in
      (map (\<lambda>(k, v). assignment k v) m, seen @ map (\<lambda>p. (current, fst p)) m))"
| "merge_lines w current seen (line # rest) =
     (case header_name line of
        Some name \<Rightarrow>
          let m = missing_keys w current seen;
              (out, seen') = merge_lines w (Some name) (seen @ map (\<lambda>p. (current, fst p)) m) rest
          in (map (\<lambda>(k, v). assignment k v) m @ line # out, seen')
      | None \<Rightarrow>
          (case ini_key line of
             None \<Rightarrow> (let (out, seen') = merge_lines w current seen rest in (line # out, seen'))
           | Some key \<Rightarrow>
               (case map_of (items_of w current) key of
                  None \<Rightarrow> (let (out, seen') = merge_lines w current seen rest in (line # out, seen'))
                | Some value \<Rightarrow>
                    if (current, key) \<in> set seen then merge_lines w current seen rest
                    else (let (out, seen') = merge_lines w current (seen @ [(current, key)]) rest
                          in (assignment key value # out, seen')))))"

text \<open>The sections the file does not have, after a blank line.\<close>

definition add_section :: "(string option \<times> string) list \<Rightarrow> string list \<Rightarrow> string \<times> (string \<times> string) list \<Rightarrow> string list" where
  "add_section seen rendered entry =
     (if list_ex (\<lambda>p. fst p = Some (fst entry)) seen then rendered
      else (if rendered \<noteq> [] \<and> last rendered \<noteq> [] then rendered @ [[]] else rendered)
        @ (''['' @ fst entry @ '']'') # map (\<lambda>(k, v). assignment k v) (snd entry))"

definition merged_lines :: "string list \<Rightarrow> preset_setting list \<Rightarrow> string list" where
  "merged_lines ls settings =
     (let w = by_section settings; (rendered, seen) = merge_lines w None [] ls
      in foldl (add_section seen) rendered w)"

definition merge_ini :: "string \<Rightarrow> preset_setting list \<Rightarrow> string" where
  "merge_ini t settings = rstrip (join [chr 10] (merged_lines (splitlines t) settings)) @ [chr 10]"

subsection \<open>Files\<close>

record preset_files =
  pf_config :: "string \<rightharpoonup> string"
  pf_backups :: "string list \<rightharpoonup> string"
  pf_stamps :: "string list"

text \<open>\<^verbatim>\<open>read_text\<close>: carriage returns, alone or before a line feed, become line feeds.\<close>

fun universal_newlines :: "string \<Rightarrow> string" where
  "universal_newlines [] = []"
| "universal_newlines [c] = [if code c = 13 then chr 10 else c]"
| "universal_newlines (c # d # s) =
     (if code c = 13 then chr 10 # universal_newlines (if code d = 10 then s else d # s) else c # universal_newlines (d # s))"

definition read_config :: "(string \<rightharpoonup> string) \<Rightarrow> string \<Rightarrow> string res" where
  "read_config config name =
     (case config name of None \<Rightarrow> Inl (OSError ''No such file or directory'') | Some t \<Rightarrow> Inr (universal_newlines t))"

definition landsraad_check :: "(string \<rightharpoonup> string) \<Rightarrow> string \<Rightarrow> string res" where
  "landsraad_check config name =
     bind_res (read_config config name) (\<lambda>t.
     let duration = section_values t (''/Script/DuneSandbox.CoriolisSubsystem'', ''m_CycleDurationInDays'') in
     require (duration = Some ''7'')
       (ValueError (name @ '' must keep m_CycleDurationInDays=7 for Landsraad; found ''
          @ (case duration of None \<Rightarrow> ''None'' | Some d \<Rightarrow> repr_str d)))
    (Inr name))"

definition validate_landsraad_cycle :: "(string \<rightharpoonup> string) \<Rightarrow> string list res" where
  "validate_landsraad_cycle config = map_res (landsraad_check config) [''UserGame.ini'', ''UserGame.deep-desert-coriolis.ini'']"

record preset_change =
  pc_setting :: preset_setting
  pc_before :: "string option"
  pc_after :: "string option"
  pc_changed :: bool

record preset_plan =
  pp_preset :: preset
  pp_target :: string
  pp_changes :: "preset_change list"
  pp_changed :: bool
  pp_before :: string
  pp_after :: string
  pp_services :: "string list"

definition plan_preset :: "preset_files \<Rightarrow> string \<Rightarrow> string \<Rightarrow> string \<Rightarrow> preset_plan res" where
  "plan_preset st contents preset_id target =
     require (target \<in> set PRESET_TARGETS) (ValueError ''unsupported UserGame target'')
    (bind_res (load_catalog contents) (\<lambda>cat.
     case row_where (\<lambda>p. gp_id p = preset_id) (ct_presets cat) of
       None \<Rightarrow> Inl (ValueError ''gameplay preset not found'')
     | Some p \<Rightarrow>
         bind_res (validate_landsraad_cycle (pf_config st)) (\<lambda>_.
         bind_res (read_config (pf_config st) target) (\<lambda>old_text.
         let new_text = merge_ini old_text (gp_settings p); old = section_values old_text; new = section_values new_text;
           changes = map (\<lambda>s. let k = (ps_section s, ps_key s) in
             \<lparr>pc_setting = s, pc_before = old k, pc_after = new k, pc_changed = (old k \<noteq> new k)\<rparr>) (gp_settings p)
         in Inr \<lparr>pp_preset = p, pp_target = target, pp_changes = changes, pp_changed = (old_text \<noteq> new_text),
              pp_before = old_text, pp_after = new_text,
              pp_services = (if ends_with target ''coriolis.ini'' then [''deep-desert'']
                else if ends_with target ''pvp.ini'' then [''deep-desert-pvp''] else [''all default UserGame maps''])\<rparr>))))"

record applied =
  ap_plan :: preset_plan
  ap_idempotent :: bool
  ap_backup :: "string list option"

text \<open>
  The backup directory of the stamp must be new.  The check of the cycle runs again after the
  file has been replaced: when it fails the call raises and the new file stays.
\<close>

definition apply_preset :: "preset_files \<Rightarrow> string \<Rightarrow> string \<Rightarrow> string \<Rightarrow> string \<Rightarrow> applied res \<times> preset_files" where
  "apply_preset st contents preset_id target stamp =
     (case plan_preset st contents preset_id target of
        Inl e \<Rightarrow> (Inl e, st)
      | Inr p \<Rightarrow>
          if \<not> pp_changed p then (Inr \<lparr>ap_plan = p, ap_idempotent = True, ap_backup = None\<rparr>, st)
          else if stamp \<in> set (pf_stamps st) then (Inl (OSError ''File exists''), st)
          else let st' = st\<lparr>pf_stamps := stamp # pf_stamps st,
                       pf_backups := (pf_backups st)([stamp, target] := pf_config st target),
                       pf_config := (pf_config st)(target \<mapsto> pp_after p)\<rparr>
            in (bind_res (validate_landsraad_cycle (pf_config st')) (\<lambda>_.
                  Inr \<lparr>ap_plan = p, ap_idempotent = False, ap_backup = Some [stamp, target]\<rparr>), st'))"

record rolled_back =
  rb_target :: string
  rb_from :: "string list"
  rb_recovery :: string

text \<open>
  \<open>located\<close> is the resolved backup path below the backup directory, \<open>None\<close> outside it.
\<close>

definition rollback_preset :: "preset_files \<Rightarrow> string list option \<Rightarrow> string \<Rightarrow> rolled_back res \<times> preset_files" where
  "rollback_preset st located stamp =
     (let refused = ValueError ''rollback backup is outside the gameplay preset backup root'' in
      case located of
        None \<Rightarrow> (Inl refused, st)
      | Some parts \<Rightarrow>
          (case (if parts = [] then None else pf_backups st parts) of
             None \<Rightarrow> (Inl refused, st)
           | Some saved \<Rightarrow>
               let target = last parts; recovery = target @ ''.before-rollback-'' @ stamp in
               if target \<notin> set PRESET_TARGETS then (Inl refused, st)
               else (case pf_config st target of
                   None \<Rightarrow> (Inl (OSError ''No such file or directory''), st)
                 | Some live \<Rightarrow>
                     let st' = st\<lparr>pf_config := (pf_config st)(recovery \<mapsto> live, target \<mapsto> saved)\<rparr>
                     in (bind_res (validate_landsraad_cycle (pf_config st')) (\<lambda>_.
                           Inr \<lparr>rb_target = target, rb_from = parts, rb_recovery = recovery\<rparr>), st'))))"

end
