(* ===== verification/GameplayMerge.thy ===== *)
theory GameplayMerge
  imports GameplayPresets EnvFileProps
begin

section \<open>Gameplay presets: what merging a preset does\<close>

text \<open>
  The lines of a UserGame file and the loop that merges a preset into them.  \<open>merged_values\<close>
  says what the code's reader finds in the merged lines; \<open>merge_ini_values\<close> carries it to the
  text, through the trimming of trailing blanks and the splitting back into lines.
\<close>

subsection \<open>Blanks\<close>

lemma strip_no_space:
  assumes "\<forall>c\<in>set s. \<not> is_space c"
  shows "strip s = s"
proof -
  have "dropWhile is_space s = s" "dropWhile is_space (rev s) = rev s"
    using assms by (auto simp: dropWhile_eq_self_iff hd_rev)
  then show ?thesis by (simp add: strip_def lstrip_def rstrip_def)
qed

lemma rstrip_spaces: "\<forall>c\<in>set u. is_space c \<Longrightarrow> rstrip (x @ u) = rstrip x"
  using dropWhile_append2 [of "rev u" is_space "rev x"] by (simp add: rstrip_def)

lemma lstrip_spaces: "\<forall>c\<in>set u. is_space c \<Longrightarrow> lstrip (x @ u) = (if lstrip x = [] then [] else lstrip x @ u)"
  by (auto simp: lstrip_def dropWhile_append)

lemma strip_spaces: "\<forall>c\<in>set u. is_space c \<Longrightarrow> strip (x @ u) = strip x"
  by (simp add: strip_def lstrip_spaces rstrip_spaces)

lemma strip_all_spaces: "\<forall>c\<in>set l. is_space c \<Longrightarrow> strip l = []"
  using strip_spaces [of l "[]"] by (simp add: strip_def)

lemma rstrip_append: "\<exists>c\<in>set l. \<not> is_space c \<Longrightarrow> rstrip (x @ l) = x @ rstrip l"
  by (auto simp: rstrip_def dropWhile_append1)

lemma rstrip_rest: obtains u where "l = rstrip l @ u" "\<forall>c\<in>set u. is_space c"
  using rstrip_prefix by blast

lemma line_break_space: "line_break c \<Longrightarrow> is_space c"
  by (auto simp: line_break_def is_space_def Let_def)

lemma not_space [simp]:
  "\<not> is_space (CHR ''='')" "\<not> is_space (CHR ''['')" "\<not> is_space (CHR '']'')"
  by code_simp+

subsection \<open>Lines that assign a key and lines that open a section\<close>

definition plain_name :: "string \<Rightarrow> bool" where
  "plain_name n = (n \<noteq> [] \<and> list_all (\<lambda>c. \<not> is_space c) n)"

definition plain_key :: "string \<Rightarrow> bool" where
  "plain_key k = (k \<noteq> [] \<and> list_all (\<lambda>c. \<not> is_space c \<and> c \<noteq> CHR ''='') k \<and>
     hd k \<notin> {CHR '';'', CHR ''#'', CHR ''+'', CHR ''-'', CHR ''[''})"

definition plain_value :: "string \<Rightarrow> bool" where
  "plain_value v = list_all (\<lambda>c. \<not> is_space c) v"

lemma assignment_line:
  assumes "plain_key k" and "plain_value v"
  shows "header_name (assignment k v) = None" and "ini_key (assignment k v) = Some k" and "ini_value (assignment k v) = v"
proof -
  obtain c s where k: "k = c # s" using assms(1) by (cases k) (auto simp: plain_key_def)
  have ns: "\<forall>c\<in>set k. \<not> is_space c \<and> c \<noteq> CHR ''=''" "\<forall>c\<in>set v. \<not> is_space c" and
    hd: "c \<notin> {CHR '';'', CHR ''#'', CHR ''+'', CHR ''-'', CHR ''[''}"
    using assms by (simp_all add: plain_key_def plain_value_def list_all_iff k)
  have p: "strip (assignment k v) = assignment k v" "strip k = k" "strip v = v"
    by (rule strip_no_space; use ns in \<open>auto simp: assignment_def\<close>)+
  have b: "before (CHR ''='') (assignment k v) = k"
    using ns(1) by (simp add: before_def assignment_def takeWhile_tail)
  show "header_name (assignment k v) = None" unfolding header_name_def Let_def p
    using hd by (simp add: k assignment_def)
  show "ini_key (assignment k v) = Some k" unfolding ini_key_def Let_def b p
    using hd by (simp add: k assignment_def)
  show "ini_value (assignment k v) = v" unfolding ini_value_def b by (simp add: assignment_def p)
qed

lemma header_line:
  assumes "plain_name n"
  shows "header_name (''['' @ n @ '']'') = Some n"
proof -
  have "strip (''['' @ n @ '']'') = ''['' @ n @ '']''"
    using assms by (intro strip_no_space) (auto simp: plain_name_def list_all_iff)
  then show ?thesis by (simp add: header_name_def ends_with_def)
qed

lemma blank_line:
  assumes "\<forall>c\<in>set l. is_space c"
  shows "header_name l = None" and "ini_key l = None"
proof -
  show "header_name l = None" using strip_all_spaces [OF assms] by (simp add: header_name_def)
  have "CHR ''='' \<notin> set l" using assms by (auto dest: bspec)
  then show "ini_key l = None" by (simp add: ini_key_def)
qed

lemma before_shorter: "c \<in> set s \<Longrightarrow> length (before c s) < length s"
  by (induction s) (auto simp: before_def)

lemma rstrip_line: "header_name (rstrip l) = header_name l" "ini_key (rstrip l) = ini_key l"
  "ini_key l \<noteq> None \<Longrightarrow> ini_value (rstrip l) = ini_value l"
proof -
  obtain u where u: "l = rstrip l @ u" "\<forall>c\<in>set u. is_space c" by (rule rstrip_rest)
  have s: "strip l = strip (rstrip l)" using strip_spaces [OF u(2)] u(1) by metis
  have e: "CHR ''='' \<in> set l \<longleftrightarrow> CHR ''='' \<in> set (rstrip l)" using u by (metis Un_iff set_append not_space(1))
  have b: "before (CHR ''='') (rstrip l) = before (CHR ''='') l" if "CHR ''='' \<in> set l"
  proof -
    have "takeWhile (\<lambda>d. d \<noteq> CHR ''='') (rstrip l @ u) = takeWhile (\<lambda>d. d \<noteq> CHR ''='') (rstrip l)"
      using that e by (intro takeWhile_append1 [of "CHR ''=''"]) auto
    then show ?thesis using u(1) by (simp add: before_def)
  qed
  show "header_name (rstrip l) = header_name l" by (simp add: header_name_def s)
  show "ini_key (rstrip l) = ini_key l" using b by (simp add: ini_key_def s e Let_def)
  assume "ini_key l \<noteq> None"
  then have i: "CHR ''='' \<in> set l" by (simp add: ini_key_def Let_def split: if_splits)
  have "length (before (CHR ''='') (rstrip l)) < length (rstrip l)"
    using i e before_shorter by metis
  then have "drop (length (before (CHR ''='') l) + 1) (rstrip l @ u) = drop (length (before (CHR ''='') l) + 1) (rstrip l) @ u"
    using b [OF i] by simp
  then show "ini_value (rstrip l) = ini_value l"
    unfolding ini_value_def b [OF i] using strip_spaces [OF u(2)] u(1) by metis
qed

subsection \<open>Values of concatenated lines\<close>

definition section_after :: "string option \<Rightarrow> string list \<Rightarrow> string option" where
  "section_after cur ls = foldl (\<lambda>c l. case header_name l of None \<Rightarrow> c | Some n \<Rightarrow> Some n) cur ls"

lemma section_after_simps [simp]:
  "section_after cur [] = cur"
  "section_after cur (l # ls) = section_after (case header_name l of None \<Rightarrow> cur | Some n \<Rightarrow> Some n) ls"
  by (simp_all add: section_after_def)

lemma values_from_append: "values_from cur m (xs @ ys) = values_from (section_after cur xs) (values_from cur m xs) ys"
  by (induction xs arbitrary: cur m) (auto split: option.splits)

lemma values_from_line_cong:
  assumes "header_name l' = header_name l" and "ini_key l' = ini_key l" and "ini_key l \<noteq> None \<Longrightarrow> ini_value l' = ini_value l"
  shows "values_from cur m (l' # ls) = values_from cur m (l # ls)"
  using assms by (auto split: option.splits)

definition plain_items :: "(string \<times> string) list \<Rightarrow> bool" where
  "plain_items items = list_all (\<lambda>p. plain_key (fst p) \<and> plain_value (snd p)) items"

abbreviation assignments :: "(string \<times> string) list \<Rightarrow> string list" where
  "assignments items \<equiv> map (\<lambda>(k, v). assignment k v) items"

lemma values_from_assignments:
  assumes "plain_items items" and "distinct (map fst items)" and "n \<noteq> []"
  shows "values_from (Some n) m (assignments items) (s, k) =
    (if s = n then (case map_of items k of None \<Rightarrow> m (s, k) | Some v \<Rightarrow> Some v) else m (s, k))"
  using assms
proof (induction items arbitrary: m)
  case (Cons p items)
  obtain a b where p: "p = (a, b)" by fastforce
  have a: "header_name (assignment a b) = None" "ini_key (assignment a b) = Some a" "ini_value (assignment a b) = b"
    using Cons.prems(1) p by (auto simp: plain_items_def intro!: assignment_line)
  have "map_of items a = None" using Cons.prems(2) p by (simp add: map_of_eq_None_iff)
  moreover have "plain_items items" "distinct (map fst items)" using Cons.prems by (simp_all add: plain_items_def)
  ultimately show ?case using Cons.prems(3) by (simp add: p a Cons.IH split: option.split)
qed simp

lemma section_after_assignments: "plain_items items \<Longrightarrow> section_after cur (assignments items) = cur"
  by (induction items) (auto simp: plain_items_def assignment_line)

lemma values_from_None_assignments: "plain_items items \<Longrightarrow> values_from None m (assignments items) = m"
  by (induction items) (auto simp: plain_items_def assignment_line)

subsection \<open>The keys a preset asks for\<close>

definition requested :: "preset_setting list \<Rightarrow> string \<times> string \<rightharpoonup> string" where
  "requested settings = map_of (rev (map (\<lambda>x. ((ps_section x, ps_key x), ps_value x)) settings))"

definition wanted_value :: "wanted \<Rightarrow> string option \<Rightarrow> string \<rightharpoonup> string" where
  "wanted_value w cur = map_of (items_of w cur)"

definition wanted_ok :: "wanted \<Rightarrow> bool" where
  "wanted_ok w = (distinct (map fst w) \<and>
     list_all (\<lambda>p. plain_name (fst p) \<and> plain_items (snd p) \<and> distinct (map fst (snd p))) w)"

definition plain_settings :: "preset_setting list \<Rightarrow> bool" where
  "plain_settings settings = list_all (\<lambda>x. plain_name (ps_section x) \<and> plain_key (ps_key x) \<and> plain_value (ps_value x)) settings"

lemma set_pset: "q \<in> set (pset d k v) \<Longrightarrow> q = (k, v) \<or> q \<in> set d"
  by (induction d k v rule: pset.induct) (auto split: if_splits)

lemma items_of_ok:
  assumes "wanted_ok w"
  shows "plain_items (items_of w cur)" and "distinct (map fst (items_of w cur))" and "items_of w cur \<noteq> [] \<Longrightarrow> \<exists>n. cur = Some n \<and> n \<noteq> []"
proof -
  have "plain_name n \<and> plain_items items \<and> distinct (map fst items)" if "map_of w n = Some items" for n items
    using assms map_of_SomeD [OF that] by (auto simp: wanted_ok_def list_all_iff)
  then show "plain_items (items_of w cur)" "distinct (map fst (items_of w cur))"
    "items_of w cur \<noteq> [] \<Longrightarrow> \<exists>n. cur = Some n \<and> n \<noteq> []"
    by (auto simp: items_of_def plain_items_def plain_name_def split: option.splits)
qed

lemma by_section_step_ok:
  assumes "wanted_ok w" and "plain_name (ps_section x) \<and> plain_key (ps_key x) \<and> plain_value (ps_value x)"
  shows "wanted_ok (by_section_step w x)"
    and "wanted_value (by_section_step w x) (Some s) k =
      (if s = ps_section x \<and> k = ps_key x then Some (ps_value x) else wanted_value w (Some s) k)"
proof -
  let ?old = "items_of w (Some (ps_section x))"
  have e: "by_section_step w x = pset w (ps_section x) (pset ?old (ps_key x) (ps_value x))"
    by (simp add: by_section_step_def items_of_def)
  have o: "plain_items (pset ?old (ps_key x) (ps_value x))" "distinct (map fst (pset ?old (ps_key x) (ps_value x)))"
    using items_of_ok [OF assms(1), of "Some (ps_section x)"] assms(2)
    by (auto simp: plain_items_def list_all_iff distinct_pset dest!: set_pset)
  show "wanted_ok (by_section_step w x)"
    using assms o unfolding wanted_ok_def e
    by (auto simp: list_all_iff distinct_pset dest!: set_pset)
  show "wanted_value (by_section_step w x) (Some s) k =
      (if s = ps_section x \<and> k = ps_key x then Some (ps_value x) else wanted_value w (Some s) k)"
    by (auto simp: wanted_value_def e items_of_def map_of_pset split: option.splits)
qed

lemma by_section_ok:
  "plain_settings settings \<Longrightarrow> wanted_ok (by_section settings) \<and>
    (\<forall>s k. wanted_value (by_section settings) (Some s) k = requested settings (s, k))"
proof (induction settings rule: rev_induct)
  case Nil
  then show ?case by (simp add: by_section_def wanted_ok_def wanted_value_def requested_def items_of_def)
next
  case (snoc x settings)
  have p: "plain_name (ps_section x) \<and> plain_key (ps_key x) \<and> plain_value (ps_value x)" and
    s: "plain_settings settings" using snoc.prems by (simp_all add: plain_settings_def)
  have e: "by_section (settings @ [x]) = by_section_step (by_section settings) x" by (simp add: by_section_def)
  show ?case using snoc.IH [OF s] by_section_step_ok [OF _ p, of "by_section settings"]
    by (simp add: e requested_def)
qed

subsection \<open>The loop over the lines\<close>

text \<open>
  \<open>agree\<close>: the values read from the rendered lines so far are the requested ones for the keys
  rendered, and those of the original for the keys that are not requested.
\<close>

definition agree ::
  "wanted \<Rightarrow> (string option \<times> string) list \<Rightarrow> (string \<times> string \<rightharpoonup> string) \<Rightarrow> (string \<times> string \<rightharpoonup> string) \<Rightarrow> bool" where
  "agree w seen mo mi = (\<forall>s k. case wanted_value w (Some s) k of
      None \<Rightarrow> mo (s, k) = mi (s, k)
    | Some v \<Rightarrow> (Some s, k) \<in> set seen \<longrightarrow> mo (s, k) = Some v)"

lemma agreeI:
  assumes "\<And>s k. wanted_value w (Some s) k = None \<Longrightarrow> mo (s, k) = mi (s, k)"
    and "\<And>s k v. wanted_value w (Some s) k = Some v \<Longrightarrow> (Some s, k) \<in> set seen \<Longrightarrow> mo (s, k) = Some v"
  shows "agree w seen mo mi"
  using assms by (simp add: agree_def split: option.split)

lemma agreeD:
  assumes "agree w seen mo mi"
  shows "wanted_value w (Some s) k = None \<Longrightarrow> mo (s, k) = mi (s, k)"
    and "wanted_value w (Some s) k = Some v \<Longrightarrow> (Some s, k) \<in> set seen \<Longrightarrow> mo (s, k) = Some v"
  using assms [unfolded agree_def, THEN spec [of _ s], THEN spec [of _ k]] by simp_all

text \<open>A section other than the current one that has a rendered key has all of them.\<close>

definition filled :: "wanted \<Rightarrow> string option \<Rightarrow> (string option \<times> string) list \<Rightarrow> bool" where
  "filled w cur seen = (\<forall>s k k'. (s, k) \<in> set seen \<longrightarrow> s \<noteq> cur \<longrightarrow> wanted_value w s k' \<noteq> None \<longrightarrow> (s, k') \<in> set seen)"

lemma map_of_filter_key: "map_of (filter (\<lambda>p. P (fst p)) xs) k = (if P k then map_of xs k else None)"
  by (induction xs) auto

lemma close_section:
  assumes "wanted_ok w" and "agree w seen mo mi" and "filled w cur seen"
  defines "m \<equiv> missing_keys w cur seen"
  shows "agree w (seen @ map (\<lambda>p. (cur, fst p)) m) (values_from cur mo (assignments m)) mi"
    and "filled w cur' (seen @ map (\<lambda>p. (cur, fst p)) m)" and "plain_items m"
proof -
  show p: "plain_items m" using items_of_ok(1) [OF assms(1), of cur] by (auto simp: m_def missing_keys_def plain_items_def list_all_iff)
  have d: "distinct (map fst m)"
    using items_of_ok(2) [OF assms(1), of cur] by (simp add: m_def missing_keys_def distinct_map inj_on_def)
  have mo: "map_of m k = (if (cur, k) \<in> set seen then None else wanted_value w cur k)" for k
    unfolding m_def missing_keys_def wanted_value_def using map_of_filter_key [of "\<lambda>k. (cur, k) \<notin> set seen" "items_of w cur" k] by simp
  show "filled w cur' (seen @ map (\<lambda>p. (cur, fst p)) m)"
  proof -
    have "(cur, k') \<in> set seen \<or> k' \<in> fst ` set m" if "wanted_value w cur k' \<noteq> None" for k'
      using that mo [of k'] map_of_eq_None_iff [of m k'] by (auto split: if_splits)
    then show ?thesis using assms(3) unfolding filled_def by (fastforce simp: image_iff)
  qed
  show "agree w (seen @ map (\<lambda>p. (cur, fst p)) m) (values_from cur mo (assignments m)) mi"
  proof (cases "m = []")
    case True
    then show ?thesis using assms(2) by simp
  next
    case False
    then have "items_of w cur \<noteq> []" unfolding m_def missing_keys_def by (metis filter.simps(1))
    then obtain n where n: "cur = Some n" "n \<noteq> []"
      using items_of_ok(3) [OF assms(1), of cur] by blast
    note v = values_from_assignments [OF p d n(2), of mo]
    show ?thesis unfolding n(1)
    proof (rule agreeI)
      fix s k assume "wanted_value w (Some s) k = None"
      then show "values_from (Some n) mo (assignments m) (s, k) = mi (s, k)"
        using agreeD(1) [OF assms(2), of s k] mo [of k] n(1) by (auto simp add: v)
    next
      fix s k x assume x: "wanted_value w (Some s) k = Some x" and m: "(Some s, k) \<in> set (seen @ map (\<lambda>p. (Some n, fst p)) m)"
      show "values_from (Some n) mo (assignments m) (s, k) = Some x"
      proof (cases "(Some s, k) \<in> set seen")
        case True
        then show ?thesis using agreeD(2) [OF assms(2) x True] mo [of k] n(1) by (auto simp add: v)
      next
        case False
        then have "s = n" using m by auto
        then show ?thesis using False x mo [of k] n(1) by (simp add: v)
      qed
    qed
  qed
qed

lemma merge_lines_values:
  assumes "wanted_ok w"
  shows "merge_lines w cur seen ls = (out, seen') \<Longrightarrow> agree w seen mo mi \<Longrightarrow> filled w cur seen \<Longrightarrow>
    agree w seen' (values_from cur mo out) (values_from cur mi ls) \<and> filled w None seen'"
proof (induction ls arbitrary: cur seen out seen' mo mi)
  case Nil
  note c = close_section [OF assms Nil.prems(2,3)]
  show ?case using Nil.prems(1) c(1) c(2) [of None] by (simp add: Let_def)
next
  case (Cons l ls)
  consider (header) n where "header_name l = Some n" | (other) "header_name l = None" "ini_key l = None"
    | (key) k where "header_name l = None" "ini_key l = Some k"
    by (cases "header_name l"; cases "ini_key l") auto
  then show ?case
  proof cases
    case header
    let ?m = "missing_keys w cur seen"
    note c = close_section [OF assms Cons.prems(2,3)]
    obtain o1 where o1: "merge_lines w (Some n) (seen @ map (\<lambda>p. (cur, fst p)) ?m) ls = (o1, seen')"
      and out: "out = assignments ?m @ l # o1"
      using Cons.prems(1) header by (auto simp: Let_def split: prod.splits)
    have "values_from cur mo out = values_from (Some n) (values_from cur mo (assignments ?m)) o1"
      unfolding out values_from_append section_after_assignments [OF c(3)] using header by simp
    then show ?thesis using Cons.IH [OF o1 c(1) c(2) [of "Some n"]] header by simp
  next
    case other
    obtain o1 where o1: "merge_lines w cur seen ls = (o1, seen')" and out: "out = l # o1"
      using Cons.prems(1) other by (auto split: prod.splits)
    show ?thesis using Cons.IH [OF o1 Cons.prems(2,3)] other out by (cases cur) simp_all
  next
    case key
    show ?thesis
    proof (cases "wanted_value w cur k")
      case None
      obtain o1 where o1: "merge_lines w cur seen ls = (o1, seen')" and out: "out = l # o1"
        using Cons.prems(1) key None by (auto simp: wanted_value_def split: prod.splits)
      have a: "agree w seen (mo((n, k) \<mapsto> x)) (mi((n, k) \<mapsto> x))" if "cur = Some n" for n x
        using agreeD [OF Cons.prems(2)] None that by (intro agreeI) auto
      show ?thesis
        using Cons.IH [OF o1 Cons.prems(2,3)] Cons.IH [OF o1 a Cons.prems(3)] key out
        by (cases cur) (auto simp del: fun_upd_apply)
    next
      case (Some v)
      then obtain n where n: "cur = Some n" "n \<noteq> []"
        using items_of_ok(3) [OF assms, of cur] by (force simp: wanted_value_def)
      have pl: "plain_key k" "plain_value v"
        using items_of_ok(1) [OF assms, of cur] Some by (auto simp: wanted_value_def plain_items_def list_all_iff dest!: map_of_SomeD)
      show ?thesis
      proof (cases "(cur, k) \<in> set seen")
        case True
        have o1: "merge_lines w cur seen ls = (out, seen')"
          using Cons.prems(1) key Some True by (simp add: wanted_value_def)
        have "agree w seen mo (mi((n, k) \<mapsto> ini_value l))"
          using agreeD [OF Cons.prems(2)] Some n by (intro agreeI) auto
        from Cons.IH [OF o1 this Cons.prems(3)] show ?thesis using key n by (simp del: fun_upd_apply)
      next
        case False
        obtain o1 where o1: "merge_lines w cur (seen @ [(cur, k)]) ls = (o1, seen')" and out: "out = assignment k v # o1"
          using Cons.prems(1) key Some False by (auto simp: wanted_value_def split: prod.splits)
        have a: "agree w (seen @ [(cur, k)]) (mo((n, k) \<mapsto> v)) (mi((n, k) \<mapsto> ini_value l))"
          using agreeD [OF Cons.prems(2)] Some n by (intro agreeI) auto
        have "filled w cur (seen @ [(cur, k)])" using Cons.prems(3) by (auto simp: filled_def)
        from Cons.IH [OF o1 a this] show ?thesis using key n out assignment_line [OF pl]
          by (simp del: fun_upd_apply)
      qed
    qed
  qed
qed

subsection \<open>The sections that are added\<close>

lemma add_section_values:
  assumes "plain_name (fst p)" and "plain_items (snd p)" and "distinct (map fst (snd p))"
  shows "values_from None m (add_section seen r p) (s, k) =
    (if s = fst p \<and> \<not> list_ex (\<lambda>q. fst q = Some s) seen then
       (case map_of (snd p) k of None \<Rightarrow> values_from None m r (s, k) | Some v \<Rightarrow> Some v)
     else values_from None m r (s, k))"
proof (cases "list_ex (\<lambda>q. fst q = Some (fst p)) seen")
  case True
  then show ?thesis by (auto simp: add_section_def)
next
  case False
  let ?r = "if r \<noteq> [] \<and> last r \<noteq> [] then r @ [[]] else r"
  have b: "header_name [] = None" "ini_key [] = None" using blank_line [of "[]"] by simp_all
  have r: "values_from None m ?r = values_from None m r"
    by (auto simp: values_from_append b split: option.splits)
  have e: "add_section seen r p = ?r @ (''['' @ fst p @ '']'') # assignments (snd p)"
    using False by (simp add: add_section_def)
  have "values_from None m (add_section seen r p) = values_from (Some (fst p)) (values_from None m r) (assignments (snd p))"
    unfolding e values_from_append r using header_line [OF assms(1)] by simp
  then show ?thesis
    using values_from_assignments [OF assms(2,3), of "fst p" "values_from None m r" s k] assms(1) False
    by (auto simp: plain_name_def)
qed

lemma add_sections_values:
  "wanted_ok w \<Longrightarrow> values_from None m (foldl (add_section seen) r w) (s, k) =
    (if list_ex (\<lambda>q. fst q = Some s) seen then values_from None m r (s, k)
     else (case wanted_value w (Some s) k of None \<Rightarrow> values_from None m r (s, k) | Some v \<Rightarrow> Some v))"
proof (induction w arbitrary: r)
  case Nil
  then show ?case by (simp add: wanted_value_def items_of_def)
next
  case (Cons p w)
  have p: "plain_name (fst p)" "plain_items (snd p)" "distinct (map fst (snd p))" and w: "wanted_ok w"
    and n: "fst p \<notin> fst ` set w"
    using Cons.prems by (auto simp: wanted_ok_def)
  have x: "map_of w (fst p) = None" using n by (simp add: map_of_eq_None_iff)
  show ?case
    unfolding foldl_Cons Cons.IH [OF w] add_section_values [OF p]
    using x by (auto simp: wanted_value_def items_of_def split: option.splits)
qed

lemma merged_values:
  assumes "plain_settings settings"
  shows "values_from None Map.empty (merged_lines ls settings) (s, k) =
    (case requested settings (s, k) of None \<Rightarrow> values_from None Map.empty ls (s, k) | Some v \<Rightarrow> Some v)"
proof -
  let ?w = "by_section settings"
  have w: "wanted_ok ?w" and q: "wanted_value ?w (Some s) k = requested settings (s, k)" for s k
    using by_section_ok [OF assms] by simp_all
  obtain out seen where o: "merge_lines ?w None [] ls = (out, seen)" by fastforce
  have "agree ?w [] Map.empty Map.empty" "filled ?w None []" by (auto simp: agree_def filled_def split: option.splits)
  from merge_lines_values [OF w o this]
  have a: "agree ?w seen (values_from None Map.empty out) (values_from None Map.empty ls)" and f: "filled ?w None seen" by simp_all
  have "values_from None Map.empty (merged_lines ls settings) (s, k) =
    values_from None Map.empty (foldl (add_section seen) out ?w) (s, k)"
    by (simp add: merged_lines_def o)
  also have "\<dots> = (case requested settings (s, k) of None \<Rightarrow> values_from None Map.empty ls (s, k) | Some v \<Rightarrow> Some v)"
    unfolding add_sections_values [OF w] using a f unfolding agree_def filled_def
    by (auto simp: q list_ex_iff split: option.splits) (metis option.distinct(1) prod.collapse q)+
  finally show ?thesis .
qed

subsection \<open>The text of the merged lines\<close>

abbreviation unbroken :: "string list \<Rightarrow> bool" where
  "unbroken \<equiv> list_all (list_all (\<lambda>c. \<not> line_break c))"

lemma join_snoc: "xs \<noteq> [] \<Longrightarrow> join sep (xs @ [x]) = join sep xs @ sep @ x"
  by (induction xs rule: induct_list012) auto

lemma rstrip_lines:
  "unbroken ls \<Longrightarrow> \<exists>ls'. ls' \<noteq> [] \<and> rstrip (join [chr 10] ls) = join [chr 10] ls' \<and> unbroken ls' \<and>
    (\<forall>m. values_from None m ls' = values_from None m ls)"
proof (induction ls rule: rev_induct)
  case Nil
  have "header_name [] = None" "ini_key [] = None" using blank_line [of "[]"] by simp_all
  then have "\<forall>m. values_from None m [[]] = values_from None m []" by simp
  then show ?case by (intro exI [of _ "[[]]"]) simp
next
  case (snoc l xs)
  have nl: "is_space (chr 10)" by code_simp
  show ?case
  proof (cases "\<forall>c\<in>set l. is_space c")
    case True
    have v: "values_from None m (xs @ [l]) = values_from None m xs" for m
      using blank_line [OF True] by (simp add: values_from_append split: option.split)
    have "rstrip (join [chr 10] (xs @ [l])) = rstrip (join [chr 10] xs)"
    proof (cases "xs = []")
      case True
      then show ?thesis using rstrip_spaces [OF \<open>\<forall>c\<in>set l. is_space c\<close>, of "[]"] by simp
    next
      case False
      have "\<forall>c\<in>set (chr 10 # l). is_space c" using True nl by simp
      from rstrip_spaces [OF this] show ?thesis using False by (simp add: join_snoc)
    qed
    then show ?thesis using snoc v by simp
  next
    case False
    have r: "rstrip (join [chr 10] (xs @ [l])) = join [chr 10] (xs @ [rstrip l])"
    proof (cases "xs = []")
      case True
      then show ?thesis by simp
    next
      case xs: False
      have "rstrip ((join [chr 10] xs @ [chr 10]) @ l) = (join [chr 10] xs @ [chr 10]) @ rstrip l"
        using False by (intro rstrip_append) blast
      then show ?thesis using xs by (simp add: join_snoc)
    qed
    have v: "values_from None m (xs @ [rstrip l]) = values_from None m (xs @ [l])" for m
      unfolding values_from_append using rstrip_line by (intro values_from_line_cong) auto
    have "set (rstrip l) \<subseteq> set l" by (auto simp: rstrip_def dest: set_dropWhileD)
    then have "list_all (\<lambda>c. \<not> line_break c) (rstrip l)" using snoc.prems by (auto simp: list_all_iff)
    then show ?thesis using r v snoc.prems by (intro exI [of _ "xs @ [rstrip l]"]) simp
  qed
qed

lemma no_space_unbroken: "\<forall>c\<in>set s. \<not> is_space c \<Longrightarrow> list_all (\<lambda>c. \<not> line_break c) s"
  using line_break_space by (auto simp: list_all_iff)

lemma plain_unbroken:
  assumes "plain_key k" and "plain_value v"
  shows "list_all (\<lambda>c. \<not> line_break c) (assignment k v)"
proof (rule no_space_unbroken)
  have "\<forall>c\<in>set k. \<not> is_space c" "\<forall>c\<in>set v. \<not> is_space c"
    using assms by (simp_all add: plain_key_def plain_value_def list_all_iff)
  then show "\<forall>c\<in>set (assignment k v). \<not> is_space c" by (auto simp: assignment_def)
qed

lemma header_unbroken: "plain_name n \<Longrightarrow> list_all (\<lambda>c. \<not> line_break c) (''['' @ n @ '']'')"
  by (rule no_space_unbroken) (auto simp: plain_name_def list_all_iff)

lemma items_unbroken: "plain_items items \<Longrightarrow> unbroken (assignments items)"
  by (induction items) (auto simp: plain_items_def plain_unbroken)

lemma missing_plain: "wanted_ok w \<Longrightarrow> plain_items (missing_keys w cur seen)"
  using items_of_ok(1) [of w cur] by (auto simp: missing_keys_def plain_items_def list_all_iff)

lemma wanted_line:
  assumes "wanted_ok w" and "map_of (items_of w cur) k = Some v"
  shows "list_all (\<lambda>c. \<not> line_break c) (assignment k v)"
  using items_of_ok(1) [OF assms(1), of cur] map_of_SomeD [OF assms(2)]
  by (intro plain_unbroken) (auto simp: plain_items_def list_all_iff)

lemma merge_lines_unbroken:
  "wanted_ok w \<Longrightarrow> merge_lines w cur seen ls = (out, seen') \<Longrightarrow> unbroken ls \<Longrightarrow> unbroken out"
proof (induction w cur seen ls arbitrary: out seen' rule: merge_lines.induct)
  case (1 w cur seen)
  then show ?case using items_unbroken [OF missing_plain [OF 1(1)]] by (auto simp: Let_def)
next
  case (2 w cur seen l ls)
  note m = items_unbroken [OF missing_plain [OF "2.prems"(1)], of cur seen]
  show ?case
  proof (cases "header_name l")
    case (Some n)
    then show ?thesis using 2 m by (auto simp: Let_def split: prod.splits)
  next
    case None
    show ?thesis
    proof (cases "ini_key l")
      case None
      then show ?thesis using 2 \<open>header_name l = None\<close> by (auto split: prod.splits)
    next
      case (Some k)
      then show ?thesis using 2 \<open>header_name l = None\<close> wanted_line [OF "2.prems"(1), of cur k]
        by (auto split: prod.splits option.splits if_splits)
    qed
  qed
qed

lemma add_sections_unbroken: "wanted_ok w \<Longrightarrow> unbroken r \<Longrightarrow> unbroken (foldl (add_section seen) r w)"
proof (induction w arbitrary: r)
  case (Cons p w)
  then have "unbroken (add_section seen r p)" "wanted_ok w"
    using header_unbroken [of "fst p"] items_unbroken [of "snd p"] by (auto simp: wanted_ok_def add_section_def)
  then show ?case using Cons.IH by simp
qed simp

lemma merged_unbroken: "plain_settings settings \<Longrightarrow> unbroken ls \<Longrightarrow> unbroken (merged_lines ls settings)"
  using by_section_ok [of settings] add_sections_unbroken merge_lines_unbroken
  by (auto simp: merged_lines_def Let_def split: prod.splits)

lemma universal_newlines_id: "chr 13 \<notin> set t \<Longrightarrow> universal_newlines t = t"
proof (induction t rule: universal_newlines.induct)
  case (2 c)
  then have "code c \<noteq> 13" by (metis chr_code list.set_intros(1))
  then show ?case by simp
next
  case (3 c d s)
  then have "code c \<noteq> 13" by (metis chr_code list.set_intros(1))
  then show ?case using 3 by auto
qed simp

lemma set_join: "c \<in> set (join sep ls) \<Longrightarrow> c \<in> set sep \<or> (\<exists>l\<in>set ls. c \<in> set l)"
  by (induction sep ls rule: join.induct) auto

lemma merge_ini_values:
  assumes "plain_settings settings"
  shows "section_values (merge_ini t settings) (s, k) =
      (case requested settings (s, k) of None \<Rightarrow> section_values t (s, k) | Some v \<Rightarrow> Some v)"
    and "universal_newlines (merge_ini t settings) = merge_ini t settings"
proof -
  have "unbroken (splitlines t)" using splitlines_no_line_break by (simp add: list_all_iff)
  from rstrip_lines [OF merged_unbroken [OF assms this]] obtain ls where ls: "ls \<noteq> []" "unbroken ls"
    "merge_ini t settings = join [chr 10] ls @ [chr 10]"
    "values_from None Map.empty ls = values_from None Map.empty (merged_lines (splitlines t) settings)"
    unfolding merge_ini_def by auto
  show "section_values (merge_ini t settings) (s, k) =
      (case requested settings (s, k) of None \<Rightarrow> section_values t (s, k) | Some v \<Rightarrow> Some v)"
    by (simp add: section_values_def ls(3) splitlines_join [OF ls(1,2)] ls(4) merged_values [OF assms] split: option.split)
  have "line_break (chr 13)" "chr 13 \<noteq> chr 10" by code_simp+
  then have "chr 13 \<notin> set (merge_ini t settings)"
    using ls(2) set_join [of "chr 13" "[chr 10]" ls] by (auto simp: ls(3) list_all_iff)
  then show "universal_newlines (merge_ini t settings) = merge_ini t settings" by (rule universal_newlines_id)
qed

end
