(* ===== verification/GameplayPresetsProps.thy ===== *)
theory GameplayPresetsProps
  imports GameplayMerge JsonText
begin

section \<open>Gameplay presets: applying and rolling back\<close>

text \<open>
  What a catalog that loads can ask for, why a planned change always passes the check of the
  cycle after it is written, and the effects of applying and rolling back.
\<close>

subsection \<open>The settings of a catalog\<close>

lemma specs_plain: "list_all (\<lambda>p. plain_key (fst p)) SPECS"
  by (simp add: SPECS_def plain_key_def is_space_def)

lemma sections_plain: "list_all (\<lambda>p. plain_name (snd p)) SECTIONS"
  by (simp add: SECTIONS_def plain_name_def is_space_def)

lemma num_char_plain:
  assumes "num_char c"
  shows "\<not> is_space c"
proof (cases "is_digit c")
  case True
  then show ?thesis by (simp add: is_digit_def is_space_def Let_def)
next
  case False
  have "\<not> is_space (CHR ''-'')" "\<not> is_space (CHR ''+'')" "\<not> is_space (CHR ''.'')" "\<not> is_space (CHR ''e'')"
    by code_simp+
  then show ?thesis using assms False by (auto simp: num_char_def)
qed

lemma num_plain: "num_text t \<Longrightarrow> plain_value t"
  using num_char_plain by (auto simp: num_text_def plain_value_def list_all_iff)

lemma validate_float_plain:
  assumes "validate_float k lo hi t = Inr v"
  shows "plain_value v"
proof -
  have "plain_value ''nan''" "plain_value ''-0.0''" by code_simp+
  then show ?thesis using assms num_plain [OF num_text_float]
    by (auto simp: validate_float_def in_bounds_def Let_def split: if_splits sum.splits pyerr.splits)
qed

lemma validate_value_plain:
  assumes "validate_value k v = Inr t"
  shows "plain_key k \<and> plain_value t"
proof -
  have b: "plain_value ''True''" "plain_value ''False''" by code_simp+
  obtain x where x: "map_of SPECS k = Some x" using assms by (cases "map_of SPECS k") (auto simp: validate_value_def Let_def)
  have "plain_key k" using specs_plain map_of_SomeD [OF x] by (auto simp: list_all_iff)
  moreover have "plain_value t"
  proof (cases x)
    case (IntSpec lo hi)
    then show ?thesis using assms x num_plain [OF num_text_int]
      by (auto simp: validate_value_def in_bounds_def Let_def split: sum.splits pyerr.splits)
  next
    case (FloatSpec lo hi)
    then show ?thesis using assms x validate_float_plain by (simp add: validate_value_def Let_def)
  next
    case BoolSpec
    then show ?thesis using assms x b by (simp add: validate_value_def Let_def split: if_splits)
  qed
  ultimately show ?thesis ..
qed

lemma preset_setting_plain:
  assumes "preset_setting_of v = Inr x"
  shows "ps_section x \<in> snd ` set SECTIONS \<and> plain_name (ps_section x) \<and> plain_key (ps_key x) \<and> plain_value (ps_value x)"
proof -
  obtain item n where n: "map_of SECTIONS (str_or_empty (pget item ''group'')) = Some n" and s: "ps_section x = n"
    and v: "validate_value (ps_key x) (pget item ''value'') = Inr (ps_value x)"
    using assms by (auto simp: preset_setting_of_def Let_def split: option.splits)
  show ?thesis using sections_plain map_of_SomeD [OF n] validate_value_plain [OF v] s by (force simp: list_all_iff)
qed

definition good_settings :: "preset_setting list \<Rightarrow> bool" where
  "good_settings settings = (plain_settings settings \<and> list_all (\<lambda>x. ps_section x \<in> snd ` set SECTIONS) settings)"

lemma map_res_settings: "map_res preset_setting_of items = Inr settings \<Longrightarrow> good_settings settings"
  by (induction items arbitrary: settings) (auto simp: good_settings_def plain_settings_def preset_setting_plain)

lemma preset_of_plain:
  assumes "preset_of ps v = Inr ps'" and "\<forall>p\<in>set ps. good_settings (gp_settings p)"
  shows "\<forall>p\<in>set ps'. good_settings (gp_settings p)"
  using assms by (auto simp: preset_of_def Let_def map_res_settings)

lemma load_catalog_plain:
  assumes "load_catalog t = Inr c" and "p \<in> set (ct_presets c)"
  shows "good_settings (gp_settings p)"
proof -
  obtain v where v: "json_loads t = Inr v" using assms(1) by (auto simp: load_catalog_def)
  obtain d where d: "v = PDict d" using assms(1) v by (cases v) (simp_all add: load_catalog_def)
  obtain rows where "pget d ''presets'' = PList rows"
    using assms(1) v d by (cases "pget d ''presets''") (simp_all add: load_catalog_def)
  then have r: "fold_res preset_of [] rows = Inr (ct_presets c)"
    using assms(1) v d by (auto simp: load_catalog_def)
  have "\<forall>p\<in>set (ct_presets c). good_settings (gp_settings p)"
    by (rule fold_res_invariant [where P = "\<lambda>ps. \<forall>p\<in>set ps. good_settings (gp_settings p)", OF r]) (auto dest: preset_of_plain)
  then show ?thesis using assms(2) by blast
qed

subsection \<open>Plans\<close>

lemma plan_preset_cases:
  assumes "plan_preset st contents preset_id target = Inr p"
  shows "\<exists>old. target \<in> set PRESET_TARGETS \<and> pp_target p = target \<and> good_settings (gp_settings (pp_preset p)) \<and>
    validate_landsraad_cycle (pf_config st) = Inr [''UserGame.ini'', ''UserGame.deep-desert-coriolis.ini''] \<and>
    pf_config st target = Some old \<and> pp_before p = universal_newlines old \<and>
    pp_after p = merge_ini (pp_before p) (gp_settings (pp_preset p)) \<and> pp_changed p = (pp_before p \<noteq> pp_after p)"
proof -
  obtain c q names old_text where t: "target \<in> set PRESET_TARGETS" and c: "load_catalog contents = Inr c"
    and q: "row_where (\<lambda>p. gp_id p = preset_id) (ct_presets c) = Some q"
    and n: "validate_landsraad_cycle (pf_config st) = Inr names" and o: "read_config (pf_config st) target = Inr old_text"
    and p: "pp_target p = target" "pp_preset p = q" "pp_before p = old_text" "pp_after p = merge_ini old_text (gp_settings q)"
      "pp_changed p = (old_text \<noteq> merge_ini old_text (gp_settings q))"
    using assms by (auto simp: plan_preset_def Let_def split: option.splits)
  have "q \<in> set (ct_presets c)" using q row_where_Some by metis
  then have "good_settings (gp_settings q)" by (rule load_catalog_plain [OF c])
  moreover have "names = [''UserGame.ini'', ''UserGame.deep-desert-coriolis.ini'']"
    using n by (auto simp: validate_landsraad_cycle_def landsraad_check_def Let_def)
  ultimately show ?thesis using t n o p by (auto simp: read_config_def split: option.splits)
qed

lemma coriolis_not_requested:
  assumes "good_settings settings"
  shows "requested settings (''/Script/DuneSandbox.CoriolisSubsystem'', k) = None"
proof -
  have "''/Script/DuneSandbox.CoriolisSubsystem'' \<notin> snd ` set SECTIONS" by (simp add: SECTIONS_def)
  then have "(''/Script/DuneSandbox.CoriolisSubsystem'', k) \<notin> (\<lambda>x. (ps_section x, ps_key x)) ` set settings"
    using assms by (auto simp: good_settings_def list_all_iff)
  then show ?thesis by (auto simp: requested_def map_of_eq_None_iff image_image)
qed

lemma landsraad_check_Inr:
  "landsraad_check config name = Inr x \<longleftrightarrow> x = name \<and> (\<exists>t. config name = Some t \<and>
    section_values (universal_newlines t) (''/Script/DuneSandbox.CoriolisSubsystem'', ''m_CycleDurationInDays'') = Some ''7'')"
  by (auto simp: landsraad_check_def read_config_def Let_def split: option.splits)

lemma landsraad_cycle_Inr:
  "validate_landsraad_cycle config = Inr xs \<longleftrightarrow> xs = [''UserGame.ini'', ''UserGame.deep-desert-coriolis.ini''] \<and>
    (\<forall>name\<in>set xs. \<exists>t. config name = Some t \<and>
    section_values (universal_newlines t) (''/Script/DuneSandbox.CoriolisSubsystem'', ''m_CycleDurationInDays'') = Some ''7'')"
  by (auto simp: validate_landsraad_cycle_def landsraad_check_Inr)

text \<open>A planned change that reaches the disk passes the second check of the cycle.\<close>

lemma planned_cycle:
  assumes "plan_preset st contents preset_id target = Inr p"
  shows "validate_landsraad_cycle ((pf_config st)(target \<mapsto> pp_after p)) = Inr [''UserGame.ini'', ''UserGame.deep-desert-coriolis.ini'']"
proof -
  let ?cycle = "(''/Script/DuneSandbox.CoriolisSubsystem'', ''m_CycleDurationInDays'')"
  obtain old where g: "good_settings (gp_settings (pp_preset p))"
    and v: "validate_landsraad_cycle (pf_config st) = Inr [''UserGame.ini'', ''UserGame.deep-desert-coriolis.ini'']"
    and o: "pf_config st target = Some old" "pp_before p = universal_newlines old"
      "pp_after p = merge_ini (universal_newlines old) (gp_settings (pp_preset p))"
    using plan_preset_cases [OF assms] by metis
  have pl: "plain_settings (gp_settings (pp_preset p))" using g by (simp add: good_settings_def)
  have same: "section_values (universal_newlines (pp_after p)) ?cycle = section_values (universal_newlines old) ?cycle"
    by (simp add: o(3) merge_ini_values [OF pl] coriolis_not_requested [OF g])
  show ?thesis unfolding landsraad_cycle_Inr
  proof (intro conjI refl ballI)
    fix name assume "name \<in> set [''UserGame.ini'', ''UserGame.deep-desert-coriolis.ini'']"
    then obtain t where "pf_config st name = Some t" "section_values (universal_newlines t) ?cycle = Some ''7''"
      using v unfolding landsraad_cycle_Inr by blast
    then show "\<exists>t. ((pf_config st)(target \<mapsto> pp_after p)) name = Some t \<and> section_values (universal_newlines t) ?cycle = Some ''7''"
      using same o(1) by (cases "name = target") simp_all
  qed
qed

lemma apply_preset_effect:
  assumes "plan_preset st contents preset_id target = Inr p" and "stamp \<notin> set (pf_stamps st)"
  shows "apply_preset st contents preset_id target stamp =
    (if pp_changed p
     then (Inr \<lparr>ap_plan = p, ap_idempotent = False, ap_backup = Some [stamp, target]\<rparr>,
        st\<lparr>pf_stamps := stamp # pf_stamps st, pf_backups := (pf_backups st)([stamp, target] := pf_config st target),
           pf_config := (pf_config st)(target \<mapsto> pp_after p)\<rparr>)
     else (Inr \<lparr>ap_plan = p, ap_idempotent = True, ap_backup = None\<rparr>, st))"
  using assms planned_cycle [OF assms(1)] by (simp add: apply_preset_def Let_def)

lemma apply_preset_plan:
  assumes "apply_preset st contents preset_id target stamp = (Inr r, st')"
  shows "plan_preset st contents preset_id target = Inr (ap_plan r) \<and> (pp_changed (ap_plan r) \<longrightarrow> stamp \<notin> set (pf_stamps st))"
  using assms by (auto simp: apply_preset_def Let_def split: sum.splits if_splits)

subsection \<open>A small configuration\<close>

definition demo_ini :: string where
  "demo_ini = ''[/Script/DuneSandbox.CoriolisSubsystem]'' @ [chr 10] @ ''m_CycleDurationInDays=7''"

definition demo_preset_files :: preset_files where
  "demo_preset_files = \<lparr>pf_config = [''UserGame.ini'' \<mapsto> demo_ini, ''UserGame.deep-desert-coriolis.ini'' \<mapsto> demo_ini],
     pf_backups = Map.empty, pf_stamps = []\<rparr>"

definition demo_setting :: preset_setting where
  "demo_setting = \<lparr>ps_group = ''Hydration'', ps_section = ''/Script/DuneSandbox.HydrationSubsystem'', ps_key = ''m_bHydrationEnabled'',
     ps_value = ''False''\<rparr>"

definition demo_catalog :: pyval where
  "demo_catalog = PDict
    [(''presets'', PList [PDict [(''id'', PStr ''dry''), (''settings'', PList [PDict
       [(''group'', PStr ''Hydration''), (''key'', PStr ''m_bHydrationEnabled''), (''value'', PStr ''false'')]])]]),
     (''schemaVersion'', PInt 1)]"

definition demo_loaded :: preset where
  "demo_loaded = \<lparr>gp_id = ''dry'', gp_label = ''dry'', gp_description = [], gp_category = ''custom'', gp_settings = [demo_setting],
     gp_source = PDict []\<rparr>"

lemma demo_catalog_loads: "load_catalog (canonical demo_catalog) = Inr \<lparr>ct_presets = [demo_loaded], ct_source = PDict []\<rparr>"
proof -
  have "json_plain demo_catalog" "json_norm demo_catalog = demo_catalog" by code_simp+
  then have j: "json_loads (canonical demo_catalog) = Inr demo_catalog" using json_loads_canonical by metis
  have "fold_res preset_of [] [PDict [(''id'', PStr ''dry''), (''settings'', PList [PDict
       [(''group'', PStr ''Hydration''), (''key'', PStr ''m_bHydrationEnabled''), (''value'', PStr ''false'')]])]] = Inr [demo_loaded]"
    by code_simp
  then show ?thesis unfolding load_catalog_def j bind_res_simps by (simp add: demo_catalog_def pget_def py_or_def)
qed

lemma demo_ini_values:
  "section_values (universal_newlines demo_ini) =
     [(''/Script/DuneSandbox.CoriolisSubsystem'', ''m_CycleDurationInDays'') \<mapsto> ''7'']"
proof -
  have "splitlines (universal_newlines demo_ini) = [''[/Script/DuneSandbox.CoriolisSubsystem]'', ''m_CycleDurationInDays=7'']"
    "header_name ''[/Script/DuneSandbox.CoriolisSubsystem]'' = Some ''/Script/DuneSandbox.CoriolisSubsystem''"
    "header_name ''m_CycleDurationInDays=7'' = None" "ini_key ''m_CycleDurationInDays=7'' = Some ''m_CycleDurationInDays''"
    "ini_value ''m_CycleDurationInDays=7'' = ''7''"
    by code_simp+
  then show ?thesis by (simp add: section_values_def)
qed

lemma demo_plan:
  "\<exists>p. plan_preset demo_preset_files (canonical demo_catalog) ''dry'' ''UserGame.ini'' = Inr p \<and> pp_changed p \<and>
     gp_settings (pp_preset p) = [demo_setting]"
proof -
  let ?t = "universal_newlines demo_ini"
  have v: "validate_landsraad_cycle (pf_config demo_preset_files) = Inr [''UserGame.ini'', ''UserGame.deep-desert-coriolis.ini'']"
    unfolding landsraad_cycle_Inr by (simp add: demo_preset_files_def demo_ini_values)
  have r: "read_config (pf_config demo_preset_files) ''UserGame.ini'' = Inr ?t"
    by (simp add: read_config_def demo_preset_files_def)
  have "plain_settings [demo_setting]" by code_simp
  from merge_ini_values(1) [OF this, of ?t "''/Script/DuneSandbox.HydrationSubsystem''" "''m_bHydrationEnabled''"]
  have "section_values (merge_ini ?t [demo_setting]) \<noteq> section_values ?t"
    by (auto simp: demo_ini_values requested_def demo_setting_def)
  then have "?t \<noteq> merge_ini ?t [demo_setting]" by metis
  moreover have "''UserGame.ini'' \<in> set PRESET_TARGETS" by (simp add: PRESET_TARGETS_def)
  ultimately show ?thesis
    by (simp add: plan_preset_def demo_catalog_loads v r demo_loaded_def table_simps Let_def)
qed

subsection \<open>Properties\<close>

text \<open>
  C16. Applying a planned preset under a fresh time stamp always succeeds. In the file it
  writes, read back by the code's own reader, every key the preset sets has the preset's value
  (the last one, where a preset sets a key twice) and every other key of every section has the
  value it had; no other file changes, the Landsraad cycle is still valid, and when something
  changed the old file is in the backup.
\<close>

theorem preset_apply_sets_keys:
  assumes "plan_preset st contents preset_id target = Inr p" and "stamp \<notin> set (pf_stamps st)"
  shows "\<exists>r (st'::preset_files) old new. apply_preset st contents preset_id target stamp = (Inr r, st') \<and>
    pf_config st target = Some old \<and> pf_config st' target = Some new \<and>
    (\<forall>s k. section_values (universal_newlines new) (s, k) =
      (case requested (gp_settings (pp_preset p)) (s, k) of
         None \<Rightarrow> section_values (universal_newlines old) (s, k) | Some v \<Rightarrow> Some v)) \<and>
    (\<forall>name. name \<noteq> target \<longrightarrow> pf_config st' name = pf_config st name) \<and>
    (\<exists>names. validate_landsraad_cycle (pf_config st') = Inr names) \<and>
    (case ap_backup r of None \<Rightarrow> st' = st | Some path \<Rightarrow> pf_backups st' path = Some old)"
proof -
  obtain old where g: "good_settings (gp_settings (pp_preset p))"
    and v: "validate_landsraad_cycle (pf_config st) = Inr [''UserGame.ini'', ''UserGame.deep-desert-coriolis.ini'']"
    and o: "pf_config st target = Some old"
    and b: "pp_before p = universal_newlines old" and a: "pp_after p = merge_ini (universal_newlines old) (gp_settings (pp_preset p))"
    and c: "pp_changed p = (pp_before p \<noteq> pp_after p)"
    using plan_preset_cases [OF assms(1)] by metis
  have pl: "plain_settings (gp_settings (pp_preset p))" using g by (simp add: good_settings_def)
  note m = merge_ini_values [OF pl, of "universal_newlines old"]
  show ?thesis
  proof (cases "pp_changed p")
    case True
    then show ?thesis unfolding apply_preset_effect [OF assms] using o m planned_cycle [OF assms(1)]
      by (auto simp: a)
  next
    case False
    then have "merge_ini (universal_newlines old) (gp_settings (pp_preset p)) = universal_newlines old" using a b c by simp
    then show ?thesis unfolding apply_preset_effect [OF assms] using False o v m by auto
  qed
qed

lemma preset_apply_sets_keys_witness:
  "\<exists>r (st'::preset_files) new. apply_preset demo_preset_files (canonical demo_catalog) ''dry'' ''UserGame.ini'' ''s1'' = (Inr r, st') \<and>
     pf_config st' ''UserGame.ini'' = Some new \<and>
     section_values (universal_newlines new) (''/Script/DuneSandbox.HydrationSubsystem'', ''m_bHydrationEnabled'') = Some ''False'' \<and>
     section_values (universal_newlines new) (''/Script/DuneSandbox.CoriolisSubsystem'', ''m_CycleDurationInDays'') = Some ''7''"
proof -
  obtain p where p: "plan_preset demo_preset_files (canonical demo_catalog) ''dry'' ''UserGame.ini'' = Inr p"
    and q: "gp_settings (pp_preset p) = [demo_setting]" using demo_plan by blast
  have f: "''s1'' \<notin> set (pf_stamps demo_preset_files)" by (simp add: demo_preset_files_def)
  have i: "pf_config demo_preset_files ''UserGame.ini'' = Some demo_ini" by (simp add: demo_preset_files_def)
  from preset_apply_sets_keys [OF p f] obtain r st' new where
    a: "apply_preset demo_preset_files (canonical demo_catalog) ''dry'' ''UserGame.ini'' ''s1'' = (Inr r, st')"
      "pf_config st' ''UserGame.ini'' = Some new"
    and s: "\<And>s k. section_values (universal_newlines new) (s, k) = (case requested [demo_setting] (s, k) of
       None \<Rightarrow> section_values (universal_newlines demo_ini) (s, k) | Some v \<Rightarrow> Some v)"
    using q i by auto
  show ?thesis using a s by (intro exI [of _ r] exI [of _ st'] exI [of _ new]) (simp add: requested_def demo_setting_def demo_ini_values)
qed

text \<open>
  C32. A backup taken by an apply can always be rolled back: the target file gets its old bytes
  again, the replaced file is kept under the recovery name, and no other file changes.
\<close>

theorem preset_rollback_restores:
  assumes "apply_preset st contents preset_id target stamp = (Inr r, st1)" and "ap_backup r = Some path"
  shows "\<exists>r' (st2::preset_files). rollback_preset st1 (Some path) stamp' = (Inr r', st2) \<and>
    pf_config st2 target = pf_config st target \<and> pf_config st2 (rb_recovery r') = pf_config st1 target \<and>
    (\<forall>name. name \<noteq> rb_recovery r' \<longrightarrow> pf_config st2 name = pf_config st name)"
proof -
  let ?p = "ap_plan r" and ?rec = "target @ ''.before-rollback-'' @ stamp'"
  have p: "plan_preset st contents preset_id target = Inr ?p" and new: "pp_changed ?p \<longrightarrow> stamp \<notin> set (pf_stamps st)"
    using apply_preset_plan [OF assms(1)] by simp_all
  have ch: "pp_changed ?p"
  proof (rule ccontr)
    assume "\<not> pp_changed ?p"
    then have "r = \<lparr>ap_plan = ?p, ap_idempotent = True, ap_backup = None\<rparr>" using assms(1) p by (simp add: apply_preset_def)
    then have "ap_backup r = None" by (metis applied.select_convs(3))
    then show False using assms(2) by simp
  qed
  have r: "r = \<lparr>ap_plan = ?p, ap_idempotent = False, ap_backup = Some [stamp, target]\<rparr>"
    and st1: "st1 = st\<lparr>pf_stamps := stamp # pf_stamps st,
      pf_backups := (pf_backups st)([stamp, target] := pf_config st target), pf_config := (pf_config st)(target \<mapsto> pp_after ?p)\<rparr>"
    using assms(1) apply_preset_effect [OF p] new ch by simp_all
  have "ap_backup r = Some [stamp, target]" by (subst r) simp
  then have e: "path = [stamp, target]" using assms(2) by simp
  obtain old where t: "target \<in> set PRESET_TARGETS" and o: "pf_config st target = Some old"
    and v: "validate_landsraad_cycle (pf_config st) = Inr [''UserGame.ini'', ''UserGame.deep-desert-coriolis.ini'']"
    using plan_preset_cases [OF p] by metis
  have rec: "?rec \<notin> set [''UserGame.ini'', ''UserGame.deep-desert-coriolis.ini'']" "?rec \<noteq> target"
    using t by (auto simp: PRESET_TARGETS_def)
  let ?c = "(pf_config st1)(?rec \<mapsto> pp_after ?p, target \<mapsto> old)"
  have same: "?c name = pf_config st name" if "name \<noteq> ?rec" for name using that o by (simp add: st1)
  then have "validate_landsraad_cycle ?c = Inr [''UserGame.ini'', ''UserGame.deep-desert-coriolis.ini'']"
    using v rec(1) unfolding landsraad_cycle_Inr by (metis list.set_intros)
  then have "rollback_preset st1 (Some path) stamp' =
      (Inr \<lparr>rb_target = target, rb_from = path, rb_recovery = ?rec\<rparr>, st1\<lparr>pf_config := ?c\<rparr>)"
    using t o by (simp add: rollback_preset_def e st1 Let_def)
  then show ?thesis using same rec o by (auto simp: st1)
qed

lemma preset_rollback_restores_witness:
  "\<exists>r (st1::preset_files) path r' st2. apply_preset demo_preset_files (canonical demo_catalog) ''dry'' ''UserGame.ini'' ''s1'' = (Inr r, st1) \<and>
     rollback_preset st1 (Some path) ''s2'' = (Inr r', st2) \<and> pf_config st2 ''UserGame.ini'' = Some demo_ini"
proof -
  obtain p where p: "plan_preset demo_preset_files (canonical demo_catalog) ''dry'' ''UserGame.ini'' = Inr p" "pp_changed p"
    using demo_plan by blast
  obtain r st1 where a: "apply_preset demo_preset_files (canonical demo_catalog) ''dry'' ''UserGame.ini'' ''s1'' = (Inr r, st1)"
    "ap_backup r = Some [''s1'', ''UserGame.ini'']"
    using apply_preset_effect [OF p(1), of "''s1''"] p(2) by (auto simp: demo_preset_files_def)
  from preset_rollback_restores [OF a, of "''s2''"] show ?thesis using a(1) by (auto simp: demo_preset_files_def)
qed

end
