(* ===== verification/Spec2Isabelle.thy ===== *)
theory Spec2Isabelle
  imports RewardsContracts RewardsStatus ApprovalsProps ApprovalsGate AccessControl OperationsCalendar EnvFileProps AlertInboxProps
    AuditProps CanaryProps ModerationProps GameplayPresetsProps
begin

text \<open>
  \<^bold>\<open>Verification of the control plane of DASH (Dune Awakening Self Host)\<close>

  DASH runs a private game server.  Its control plane is a set of Python modules under
  \<^verbatim>\<open>src/admin\<close>: each keeps its state in a database or a file of its own and offers operations
  that the admin panel (\<^verbatim>\<open>admin_panel.py\<close>, HTTP) and a few daemons call.  A request is
  authenticated and authorised (\<^verbatim>\<open>access_control.py\<close>); a high-impact one needs the approval of
  a second person (\<^verbatim>\<open>change_approvals.py\<close>); what happened is written to an append-only ledger
  (\<^verbatim>\<open>audit_ledger.py\<close>).  Around that core are the community shop and its currency
  (\<^verbatim>\<open>community_rewards.py\<close>), moderation (\<^verbatim>\<open>moderation.py\<close>), the alert inbox (\<^verbatim>\<open>alert_inbox.py\<close>),
  the operations calendar (\<^verbatim>\<open>operations_calendar.py\<close>), the scheduler of the canaries
  (\<^verbatim>\<open>canary_autopilot.py\<close>), and the two writers of configuration files (\<^verbatim>\<open>env_file_store.py\<close>,
  \<^verbatim>\<open>gameplay_presets.py\<close>).  These ten modules are modelled,
  and the parts of the panel that decide who may use the approvals.

  \<^bold>\<open>How the code is modelled\<close>

  A Python value that came out of JSON is a \<open>pyval\<close>; a string is a \<open>string\<close> with one \<open>char\<close>
  per code point; a float is the rational number it denotes; a dict is the list of its items
  in insertion order.  A function that may raise returns \<open>'a res\<close>, the exception or the value,
  and is written with \<open>bind_res\<close> (run, hand on) and \<open>require\<close> (guard), so that every
  \<^verbatim>\<open>raise\<close>, early return and failing conversion of the source is a branch of the model.  A
  database is a record of its tables, a table the list of its rows in insertion order, and an
  operation maps a store to a result and a store; a transaction that fails leaves the store as
  it was.  Operations that commit and read afterwards return the new store with a result that
  may still be an error.  Readings of clocks, random identifiers and observations of the file
  system are arguments, so a statement holds for every value they may take.

  \<^bold>\<open>The theories\<close>

  Shared:
  \<^item> \<open>Prelude\<close>: results, guards, folds that may fail, tables of rows and their rules.
  \<^item> \<open>PyData\<close>, \<open>PyTime\<close>, \<open>PyIso\<close>, \<open>Utf8\<close>, \<open>Json\<close>, \<open>JsonText\<close>: the parts of Python the code uses:
    \<^verbatim>\<open>str\<close>, \<^verbatim>\<open>int\<close>, \<^verbatim>\<open>float\<close> and \<^verbatim>\<open>repr\<close>, the civil calendar, \<^verbatim>\<open>fromisoformat\<close>, UTF-8,
    \<^verbatim>\<open>json.dumps\<close> and \<^verbatim>\<open>json.loads\<close>.  The canonical text of a value reads back as the value,
    and determines its fields even when it holds floats.
  \<^item> \<open>Sha256\<close>: SHA-256 and HMAC on 32-bit words; opaque in the proofs but for the shape of the
    result.
  \<^item> \<open>HashChain\<close>: the contracts that several components share, as locales: \<open>hash_chain\<close> (an
    append-only log whose rows name their predecessor's hash), \<open>invariant_system\<close> (an invariant
    of the states a step relation reaches), and \<open>simulation\<close>, which extends it by a refinement
    of an abstract system.  Each is interpreted on the models below.

  Community rewards (\<^verbatim>\<open>community_rewards.py\<close>):
  \<^item> \<open>RewardsConfig\<close> (configuration, engagement policy, webhook signature), \<open>RewardsTables\<close> (the
    sixteen tables and account creation), \<open>RewardsLedger\<close> (entries, credits, link codes, audit),
    \<open>RewardsShop\<close> (purchases, deliveries, refunds, webhooks, playtime), \<open>RewardsEngagement\<close>
    (configuration sync, reward tracks, engagement), \<open>RewardsStatus\<close> (the report).
  \<^item> \<open>RewardsBank\<close> shows that every operation changes money only by opening accounts and posting
    entries; \<open>RewardsInvariants\<close> that posting keeps wallets equal to the ledger and the chain
    intact; \<open>RewardsOrders\<close> and \<open>RewardsRuns\<close> that every operation keeps purchases, deliveries and
    stock consistent.  \<open>RewardsDemo\<close> is a concrete run; \<open>RewardsProps\<close> and \<open>RewardsContracts\<close> hold
    the properties.

  Two-person approvals (\<^verbatim>\<open>change_approvals.py\<close>):
  \<^item> \<open>ChangePolicy\<close> (what is governed, redaction of bodies, identities) and \<open>ChangeApprovals\<close> (the
    store and all its operations).
  \<^item> \<open>ApprovalsRuns\<close> and \<open>ApprovalsInvariant\<close> reduce every operation to legal moves of single
    requests; \<open>ApprovalsLog\<close> states the invariant and the abstract protocol; \<open>ApprovalsDemo\<close> is a
    concrete run; \<open>ApprovalsProps\<close> holds the safety properties; \<open>ApprovalsProgress\<close> shows that
    no request can block another; \<open>ApprovalsGate\<close> models the two places of \<^verbatim>\<open>admin_panel.py\<close>
    that use the store, the approvals route with its capability checks and the gate of governed
    mutations, and proves progress through them.

  The other components, each with its model and, where they are apart, its properties:
  \<^item> \<open>AccessControl\<close>: the access file, token authentication, capabilities and the governed paths.
  \<^item> \<open>AuditLedger\<close>, \<open>AuditProps\<close>: events, anchor, verification, request tracking; appending
    keeps the ledger verifiable, and two ledgers that verify under one anchor hold the same
    events or show a collision.
  \<^item> \<open>AlertInbox\<close>, \<open>AlertInboxProps\<close>: polls, acknowledgement, retention, metrics; a poll is
    compared with a reference that says field by field what becomes of each alert.
  \<^item> \<open>CanaryAutopilot\<close>, \<open>CanaryProps\<close>: the state file, attempts and backoff, what is due.
  \<^item> \<open>OperationsCalendar\<close>: normal windows, conflicts, coverage, metrics; the sweep equals a
    comparison of all pairs.
  \<^item> \<open>Moderation\<close>, \<open>ModerationProps\<close>: cases, bans, the allowlist, presence.
  \<^item> \<open>EnvFile\<close>, \<open>EnvFileProps\<close>: the locked read and write loops, the rendering of keys, and
    the panel's reader of the file, through which the effect of an update is stated.
  \<^item> \<open>GameplayPresets\<close>, \<open>GameplayMerge\<close>, \<open>GameplayPresetsProps\<close>: the catalog, the merge of a
    preset into an INI file, applying and rolling back.

  \<^bold>\<open>What is assumed, bounded or left out\<close>

  \<^item> The capability, the identity and the time of a request are what its caller passes: how the
    panel authenticates a request and logs it is outside.
  \<^item> Code points above 255, infinities and NaNs as values: reading them yields the error
    \<open>Unmodelled\<close>, which no statement treats as success.  \<^verbatim>\<open>lower\<close> and \<^verbatim>\<open>upper\<close> leave the three
    characters alone whose other case lies above 255.
  \<^item> Floats are exact: literals and texts are the rationals they denote, and sums are not
    rounded.  \<^verbatim>\<open>repr\<close> and the presets round to binary64, where the text depends on it.
  \<^item> The texts of exceptions raised by the library itself are the library's first words only.
  \<^item> Times without an offset are read as UTC; ISO week dates are rejected.
  \<^item> The reader of JSON takes the length of its text as fuel.  That it is enough for every text
    \<open>canonical\<close> writes is part of \<open>json_loads_canonical\<close>.  All other loops of the models are
    total functions with a measure.
  \<^item> Digests: no statement assumes that SHA-256 or HMAC is injective; tamper evidence is stated
    as equality or an explicit collision.
  \<^item> SQLite: rows keep their insertion order, sorting is stable, integers beyond 64 bits raise,
    and the constraints the operations can violate raise \<open>IntegrityError\<close>.  Processes are
    serialised by the transactions, as the code does by \<^verbatim>\<open>begin immediate\<close>.

  \<^bold>\<open>Not modelled\<close>

  \<^item> Opening files and databases, permissions, ownership and directories.
  \<^item> In \<^verbatim>\<open>moderation.py\<close>: the redaction and classification of security lines, which are regular
    expressions and address parsing throughout, what stores their results, pruning and the
    report.  In \<^verbatim>\<open>audit_ledger.py\<close>: the copy of the files to a backup.
  \<^item> The rest of \<^verbatim>\<open>admin_panel.py\<close> and the scripts: HTTP, subprocesses and SQL against the game's own
    database, whose schema is not in the repository.
  \<^item> The signed receipts and readiness histories (\<^verbatim>\<open>change_contracts.py\<close>, \<^verbatim>\<open>desired_state.py\<close>
    and their kin) have the shape of the audit ledger around collectors that read docker, git
    and the file system; the statistics of \<^verbatim>\<open>operational_slo.py\<close>, \<^verbatim>\<open>capacity_intelligence.py\<close>
    and \<^verbatim>\<open>maintenance_planner.py\<close> are over rounded floats.
  \<^item> The vendored AMQP client, the native loaders under \<^verbatim>\<open>tools\<close>, the public site and the tests.
\<close>

end
